(* ===== verification/Prelude.thy ===== *)
theory Prelude
  imports
    Main
    "HOL-Library.Signed_Division"
    "HOL-Library.Char_ord"
    "HOL-Library.List_Lexorder"
begin

text \<open>
  What every component shares: Go's 64-bit \<^theory_text>\<open>int\<close> as \<^typ>\<open>int\<close> with
  the wrap-around written out, Go strings as byte strings (\<^typ>\<open>string\<close> is a list of
  bytes) with the functions of the packages \<^verbatim>\<open>strings\<close>, \<^verbatim>\<open>strconv\<close>,
  \<^verbatim>\<open>unicode\<close> and \<^verbatim>\<open>unicode/utf8\<close> that the source calls, and lists of
  rows addressed by a key (the tables of the database).

  Collections: \<open>go_int\<close> unfolds the machine arithmetic, \<open>in_range\<close> moves from
  machine arithmetic to mathematical arithmetic where no overflow happens, and
  \<open>table\<close> holds the laws of keyed lists.
\<close>

named_theorems go_int "definitions of the machine-integer operations"
named_theorems table "laws of keyed row lists"

section \<open>64-bit integers\<close>

definition in_i64 :: "int \<Rightarrow> bool" where
  "in_i64 x \<longleftrightarrow> - 9223372036854775808 \<le> x \<and> x \<le> 9223372036854775807"

definition wrap64 :: "int \<Rightarrow> int" where
  "wrap64 x = (x + 9223372036854775808) mod 18446744073709551616 - 9223372036854775808"

definition add64 :: "int \<Rightarrow> int \<Rightarrow> int" where
  [go_int]: "add64 a b = wrap64 (a + b)"

definition sub64 :: "int \<Rightarrow> int \<Rightarrow> int" where
  [go_int]: "sub64 a b = wrap64 (a - b)"

definition mul64 :: "int \<Rightarrow> int \<Rightarrow> int" where
  [go_int]: "mul64 a b = wrap64 (a * b)"

definition neg64 :: "int \<Rightarrow> int" where
  [go_int]: "neg64 a = wrap64 (- a)"

text \<open>Go's \<open>/\<close> and \<open>%\<close> truncate towards zero; a zero divisor panics, and the
  source divides by constants and by a rate that is proved positive only.\<close>

definition quo64 :: "int \<Rightarrow> int \<Rightarrow> int" where
  [go_int]: "quo64 a b = wrap64 (a sdiv b)"

definition rem64 :: "int \<Rightarrow> int \<Rightarrow> int" where
  [go_int]: "rem64 a b = a smod b"

lemma in_i64_wrap64 [simp]: "in_i64 (wrap64 x)"
  unfolding in_i64_def wrap64_def
  using pos_mod_bound [of 18446744073709551616 "x + 9223372036854775808"]
    pos_mod_sign [of 18446744073709551616 "x + 9223372036854775808"]
  by linarith

lemma wrap64_id: "in_i64 x \<Longrightarrow> wrap64 x = x"
  unfolding in_i64_def wrap64_def by (simp add: mod_pos_pos_trivial)

lemma wrap64_idem [simp]: "wrap64 (wrap64 x) = wrap64 x"
  by (simp add: wrap64_id)

lemma wrap64_0 [simp]: "wrap64 0 = 0"
  by (simp add: wrap64_def)

lemma wrap64_small: "\<lbrakk>- 9223372036854775808 \<le> x; x \<le> 9223372036854775807\<rbrakk> \<Longrightarrow> wrap64 x = x"
  by (simp add: wrap64_id in_i64_def)

lemma wrap64_add_left [simp]: "wrap64 (wrap64 a + b) = wrap64 (a + b)"
proof -
  have "wrap64 a + b + 9223372036854775808
      = (a + 9223372036854775808) mod 18446744073709551616 + b"
    by (simp add: wrap64_def)
  then have "(wrap64 a + b + 9223372036854775808) mod 18446744073709551616
      = (a + 9223372036854775808 + b) mod 18446744073709551616"
    by (simp only: mod_add_left_eq)
  then show ?thesis
    unfolding wrap64_def [of "wrap64 a + b"] wrap64_def [of "a + b"]
    by (simp add: algebra_simps)
qed

lemma wrap64_add_right [simp]: "wrap64 (a + wrap64 b) = wrap64 (a + b)"
  using wrap64_add_left [of b a] by (simp add: add.commute)

lemma wrap64_diff_left [simp]: "wrap64 (wrap64 a - b) = wrap64 (a - b)"
  using wrap64_add_left [of a "- b"] by simp

lemma wrap64_diff_right [simp]: "wrap64 (a - wrap64 b) = wrap64 (a - b)"
proof -
  have "a - wrap64 b + 9223372036854775808
      = a + 9223372036854775808 + 9223372036854775808
        - (b + 9223372036854775808) mod 18446744073709551616"
    by (simp add: wrap64_def)
  then have "(a - wrap64 b + 9223372036854775808) mod 18446744073709551616
      = (a + 9223372036854775808 + 9223372036854775808 - (b + 9223372036854775808))
        mod 18446744073709551616"
    by (simp only: mod_diff_right_eq)
  then show ?thesis
    unfolding wrap64_def [of "a - wrap64 b"] wrap64_def [of "a - b"]
    by (simp add: algebra_simps)
qed

text \<open>Truncation agrees with \<open>div\<close> on non-negative operands.\<close>

lemma sdiv_nonneg: "\<lbrakk>0 \<le> a; 0 < b\<rbrakk> \<Longrightarrow> a sdiv b = a div (b::int)"
  by (cases "a = 0") (simp_all add: signed_divide_int_def)

lemma sdiv_nonpos: "\<lbrakk>a \<le> 0; 0 < b\<rbrakk> \<Longrightarrow> a sdiv b = - ((- a) div (b::int))"
  by (cases "a = 0") (simp_all add: signed_divide_int_def)

lemma div_le_self: "\<lbrakk>0 \<le> a; 0 < b\<rbrakk> \<Longrightarrow> a div b \<le> (a::int)"
  using zdiv_mono2 [of a 1 b] by simp

lemma quo64_nonneg: "\<lbrakk>0 \<le> a; 0 < b; in_i64 a\<rbrakk> \<Longrightarrow> quo64 a b = a div b"
  using div_le_self [of a b] pos_imp_zdiv_nonneg_iff [of b a]
  by (simp add: quo64_def sdiv_nonneg in_i64_def wrap64_small)

lemma quo64_nonpos: "\<lbrakk>a \<le> 0; 0 < b; in_i64 a\<rbrakk> \<Longrightarrow> quo64 a b \<le> 0"
  using div_le_self [of "- a" b] pos_imp_zdiv_nonneg_iff [of b "- a"]
  by (simp add: quo64_def sdiv_nonpos in_i64_def wrap64_small)

section \<open>Tables: lists of rows with a key\<close>

text \<open>A table is the list of its rows in insertion order.  \<open>row_by key k\<close> is the row a
  \<^verbatim>\<open>SELECT ... WHERE key = k\<close> on a unique column returns; \<open>update_by key k f\<close> is
  \<^verbatim>\<open>UPDATE ... WHERE key = k\<close>.\<close>

definition row_by :: "('r \<Rightarrow> 'k) \<Rightarrow> 'k \<Rightarrow> 'r list \<Rightarrow> 'r option" where
  "row_by key k rs = find (\<lambda>r. key r = k) rs"

definition has_row :: "('r \<Rightarrow> 'k) \<Rightarrow> 'k \<Rightarrow> 'r list \<Rightarrow> bool" where
  "has_row key k rs \<longleftrightarrow> list_ex (\<lambda>r. key r = k) rs"

definition update_by :: "('r \<Rightarrow> 'k) \<Rightarrow> 'k \<Rightarrow> ('r \<Rightarrow> 'r) \<Rightarrow> 'r list \<Rightarrow> 'r list" where
  "update_by key k f rs = map (\<lambda>r. if key r = k then f r else r) rs"

lemma row_by_Nil [simp]: "row_by key k [] = None"
  by (simp add: row_by_def)

lemma row_by_Cons [simp]: "row_by key k (r # rs) = (if key r = k then Some r else row_by key k rs)"
  by (simp add: row_by_def)

lemma has_row_Nil [simp]: "\<not> has_row key k []"
  by (simp add: has_row_def)

lemma has_row_Cons [simp]: "has_row key k (r # rs) \<longleftrightarrow> key r = k \<or> has_row key k rs"
  by (simp add: has_row_def)

lemma has_row_append [simp]: "has_row key k (rs @ ts) \<longleftrightarrow> has_row key k rs \<or> has_row key k ts"
  by (simp add: has_row_def)

lemma has_row_iff [table]: "has_row key k rs \<longleftrightarrow> k \<in> key ` set rs"
  by (auto simp: has_row_def list_ex_iff)

lemma row_by_None [table]: "row_by key k rs = None \<longleftrightarrow> \<not> has_row key k rs"
  by (induction rs) auto

lemma row_by_Some_key: "row_by key k rs = Some r \<Longrightarrow> key r = k"
  by (induction rs) (auto split: if_splits)

lemma row_by_Some_in: "row_by key k rs = Some r \<Longrightarrow> r \<in> set rs"
  by (induction rs) (auto split: if_splits)

lemma row_by_Some_has: "row_by key k rs = Some r \<Longrightarrow> has_row key k rs"
  by (metis option.simps(3) row_by_None)

lemma row_by_append [simp]:
  "row_by key k (rs @ ts) = (case row_by key k rs of None \<Rightarrow> row_by key k ts | Some r \<Rightarrow> Some r)"
  by (induction rs) auto

lemma row_by_distinct:
  "\<lbrakk>distinct (map key rs); r \<in> set rs\<rbrakk> \<Longrightarrow> row_by key (key r) rs = Some r"
  by (induction rs) auto

lemma one_row:
  "\<lbrakk>distinct (map key rs); has_row key k rs\<rbrakk> \<Longrightarrow> length (filter (\<lambda>r. key r = k) rs) = 1"
proof (induction rs)
  case (Cons r rs)
  then show ?case by (cases "key r = k") (auto simp: has_row_iff filter_empty_conv, metis image_eqI)
qed simp

lemma update_by_Nil [simp]: "update_by key k f [] = []"
  by (simp add: update_by_def)

lemma update_by_Cons [simp]:
  "update_by key k f (r # rs) = (if key r = k then f r else r) # update_by key k f rs"
  by (simp add: update_by_def)

lemma update_by_append [simp]:
  "update_by key k f (rs @ ts) = update_by key k f rs @ update_by key k f ts"
  by (simp add: update_by_def)

lemma length_update_by [simp]: "length (update_by key k f rs) = length rs"
  by (simp add: update_by_def)

lemma update_by_no_row: "\<not> has_row key k rs \<Longrightarrow> update_by key k f rs = rs"
  by (induction rs) auto

text \<open>The contract of an UPDATE statement: it leaves the key column alone.  Each such
  statement of the store interprets this locale.\<close>

locale row_update =
  fixes key :: "'r \<Rightarrow> 'k" and f :: "'r \<Rightarrow> 'r"
  assumes key_kept: "key (f r) = key r"
begin

lemma keys_kept: "map key (update_by key k f rs) = map key rs"
  by (induction rs) (auto simp: key_kept)

lemma has_row_kept: "has_row key j (update_by key k f rs) = has_row key j rs"
  by (induction rs) (auto simp: key_kept)

lemma row_after: "row_by key j (update_by key k f rs)
    = (if j = k then map_option f (row_by key k rs) else row_by key j rs)"
  by (induction rs) (auto simp: key_kept)

lemma other_column_kept:
  "(\<And>r. g (f r) = g r) \<Longrightarrow> map g (update_by key k f rs) = map g rs"
  by (induction rs) auto

end

lemma map_update_by [simp]:
  "(\<And>r. key r = k \<Longrightarrow> g (f r) = g r) \<Longrightarrow> map g (update_by key k f rs) = map g rs"
  by (induction rs) auto

lemma image_update_by [simp]:
  "(\<And>r. key r = k \<Longrightarrow> g (f r) = g r) \<Longrightarrow> g ` set (update_by key k f rs) = g ` set rs"
  using map_update_by [of key k g f rs] by (metis list.set_map)

lemma list_all_update_by:
  "(\<And>r. key r = k \<Longrightarrow> P r \<Longrightarrow> P (f r)) \<Longrightarrow> list_all P rs \<Longrightarrow> list_all P (update_by key k f rs)"
  by (induction rs) auto

text \<open>An update that keeps another column does not move the rows found by it.\<close>

lemma row_by_update_by:
  "(\<And>r. g (f r) = g r) \<Longrightarrow> row_by g x (update_by key k f rs)
     = map_option (\<lambda>r. if key r = k then f r else r) (row_by g x rs)"
  by (induction rs) auto

end
