(* ===== verification/GoStrings.thy ===== *)
theory GoStrings
  imports Prelude
begin

text \<open>
  The functions of Go's packages \<^verbatim>\<open>strings\<close>, \<^verbatim>\<open>strconv\<close>, \<^verbatim>\<open>unicode\<close> and
  \<^verbatim>\<open>unicode/utf8\<close> that the source calls, on byte strings.  A \<^verbatim>\<open>for range\<close> loop over
  a string reads runes: \<open>runes\<close> decodes them as the language defines it, an
  invalid byte giving U+FFFD with width 1.  The Unicode case tables above ASCII
  are data of the standard library and stay an argument (\<open>tab\<close>).
\<close>

named_theorems go_str "definitions of the string functions"

type_synonym rune = nat

definition rune_error :: rune where
  "rune_error = 65533"

definition byte :: "char \<Rightarrow> nat" where
  [go_str]: "byte c = of_char c"

definition is_ascii :: "string \<Rightarrow> bool" where
  "is_ascii s \<longleftrightarrow> list_all (\<lambda>c. byte c < 128) s"

section \<open>Prefixes and suffixes\<close>

definition has_prefix :: "string \<Rightarrow> string \<Rightarrow> bool" where
  [go_str]: "has_prefix s p \<longleftrightarrow> take (length p) s = p"

definition has_suffix :: "string \<Rightarrow> string \<Rightarrow> bool" where
  [go_str]: "has_suffix s p \<longleftrightarrow> has_prefix (rev s) (rev p)"

definition trim_prefix :: "string \<Rightarrow> string \<Rightarrow> string" where
  [go_str]: "trim_prefix s p = (if has_prefix s p then drop (length p) s else s)"

definition trim_suffix :: "string \<Rightarrow> string \<Rightarrow> string" where
  [go_str]: "trim_suffix s p = (if has_suffix s p then take (length s - length p) s else s)"

fun contains_str :: "string \<Rightarrow> string \<Rightarrow> bool" where
  "contains_str [] p \<longleftrightarrow> p = []"
| "contains_str (c # cs) p \<longleftrightarrow> has_prefix (c # cs) p \<or> contains_str cs p"

lemma has_prefix_append [simp]: "has_prefix (p @ s) p"
  by (simp add: has_prefix_def)

lemma has_prefixE: "has_prefix s p \<Longrightarrow> \<exists>t. s = p @ t"
  by (metis append_take_drop_id has_prefix_def)

lemma trim_prefix_append [simp]: "trim_prefix (p @ s) p = s"
  by (simp add: trim_prefix_def)

lemma trim_suffix_append [simp]: "trim_suffix (s @ p) p = s"
  by (simp add: trim_suffix_def has_suffix_def)

text \<open>\<^verbatim>\<open>strings.TrimRight\<close> with a one-byte cutset, \<^verbatim>\<open>strings.Split\<close> on one byte,
  \<^verbatim>\<open>strings.Join\<close>.\<close>

definition trim_right_byte :: "char \<Rightarrow> string \<Rightarrow> string" where
  [go_str]: "trim_right_byte c s = rev (dropWhile (\<lambda>x. x = c) (rev s))"

fun split_on :: "char \<Rightarrow> string \<Rightarrow> string list" where
  "split_on d [] = [[]]"
| "split_on d (c # cs) =
     (if c = d then [] # split_on d cs
      else (case split_on d cs of [] \<Rightarrow> [[c]] | p # ps \<Rightarrow> (c # p) # ps))"

fun join :: "string \<Rightarrow> string list \<Rightarrow> string" where
  "join sep [] = []"
| "join sep [x] = x"
| "join sep (x # y # xs) = x @ sep @ join sep (y # xs)"

lemma trim_right_byte_last:
  "trim_right_byte c s \<noteq> [] \<Longrightarrow> last (trim_right_byte c s) \<noteq> c"
  using hd_dropWhile [of "\<lambda>x. x = c" "rev s"]
  by (auto simp: trim_right_byte_def last_rev)

lemma trim_right_byte_idem [simp]:
  "trim_right_byte c (trim_right_byte c s) = trim_right_byte c s"
  by (simp add: trim_right_byte_def)

section \<open>UTF-8\<close>

definition cont_byte :: "nat \<Rightarrow> bool" where
  "cont_byte b \<longleftrightarrow> 128 \<le> b \<and> b \<le> 191"

text \<open>\<^verbatim>\<open>utf8.DecodeRune\<close>: the rune and its width; overlong forms, surrogates and
  values above U+10FFFF are invalid.\<close>

definition decode_rune :: "string \<Rightarrow> rune \<times> nat" where
  "decode_rune s =
     (case map byte (take 4 s) of
        [] \<Rightarrow> (rune_error, 0)
      | b0 # bs \<Rightarrow>
          if b0 < 128 then (b0, 1)
          else if 194 \<le> b0 \<and> b0 \<le> 223 then
            (case bs of
               b1 # _ \<Rightarrow> if cont_byte b1 then ((b0 - 192) * 64 + (b1 - 128), 2) else (rune_error, 1)
             | [] \<Rightarrow> (rune_error, 1))
          else if 224 \<le> b0 \<and> b0 \<le> 239 then
            (case bs of
               b1 # b2 # _ \<Rightarrow>
                 if (if b0 = 224 then 160 \<le> b1 else 128 \<le> b1)
                    \<and> (if b0 = 237 then b1 \<le> 159 else b1 \<le> 191) \<and> cont_byte b2
                 then ((b0 - 224) * 4096 + (b1 - 128) * 64 + (b2 - 128), 3)
                 else (rune_error, 1)
             | _ \<Rightarrow> (rune_error, 1))
          else if 240 \<le> b0 \<and> b0 \<le> 244 then
            (case bs of
               b1 # b2 # b3 # _ \<Rightarrow>
                 if (if b0 = 240 then 144 \<le> b1 else 128 \<le> b1)
                    \<and> (if b0 = 244 then b1 \<le> 143 else b1 \<le> 191) \<and> cont_byte b2 \<and> cont_byte b3
                 then ((b0 - 240) * 262144 + (b1 - 128) * 4096 + (b2 - 128) * 64 + (b3 - 128), 4)
                 else (rune_error, 1)
             | _ \<Rightarrow> (rune_error, 1))
          else (rune_error, 1))"

text \<open>\<^verbatim>\<open>utf8.AppendRune\<close>, with surrogates and values out of range written as U+FFFD.\<close>

definition encode_rune :: "rune \<Rightarrow> string" where
  "encode_rune r =
     (let v = (if r > 1114111 \<or> (55296 \<le> r \<and> r \<le> 57343) then rune_error else r)
      in map char_of
        (if v < 128 then [v]
         else if v < 2048 then [192 + v div 64, 128 + v mod 64]
         else if v < 65536 then [224 + v div 4096, 128 + (v div 64) mod 64, 128 + v mod 64]
         else [240 + v div 262144, 128 + (v div 4096) mod 64, 128 + (v div 64) mod 64,
               128 + v mod 64]))"

definition utf8 :: "rune list \<Rightarrow> string" where
  "utf8 rs = concat (map encode_rune rs)"

text \<open>The runes a \<^verbatim>\<open>for range\<close> loop reads.\<close>

fun runes :: "string \<Rightarrow> rune list" where
  "runes [] = []"
| "runes (c # cs) =
     fst (decode_rune (c # cs)) # runes (drop (snd (decode_rune (c # cs)) - 1) cs)"

lemma byte_less [simp]: "byte c < 256"
  by (simp add: byte_def)

lemma decode_rune_ascii: "byte c < 128 \<Longrightarrow> decode_rune (c # cs) = (byte c, 1)"
  by (simp add: decode_rune_def take_Cons')

lemma runes_Cons_ascii [simp]: "byte c < 128 \<Longrightarrow> runes (c # cs) = byte c # runes cs"
  by (simp add: decode_rune_ascii)

lemma runes_ascii: "is_ascii s \<Longrightarrow> runes s = map byte s"
  by (induction s) (simp_all add: is_ascii_def del: runes.simps(2))

lemma encode_rune_ascii: "r < 128 \<Longrightarrow> encode_rune r = [char_of r]"
  by (simp add: encode_rune_def rune_error_def)

lemma encode_rune_byte: "byte c < 128 \<Longrightarrow> encode_rune (byte c) = [c]"
  by (simp add: encode_rune_ascii byte_def)

lemma is_ascii_Nil [simp]: "is_ascii []"
  by (simp add: is_ascii_def)

lemma is_ascii_Cons [simp]: "is_ascii (c # s) \<longleftrightarrow> byte c < 128 \<and> is_ascii s"
  by (simp add: is_ascii_def)

lemma is_ascii_append [simp]: "is_ascii (s @ t) \<longleftrightarrow> is_ascii s \<and> is_ascii t"
  by (simp add: is_ascii_def)

section \<open>White space and case\<close>

text \<open>\<^verbatim>\<open>unicode.IsSpace\<close>.\<close>

definition is_space :: "rune \<Rightarrow> bool" where
  "is_space r \<longleftrightarrow> (9 \<le> r \<and> r \<le> 13) \<or> r = 32 \<or> r = 133 \<or> r = 160 \<or> r = 5760
     \<or> (8192 \<le> r \<and> r \<le> 8202) \<or> r = 8232 \<or> r = 8233 \<or> r = 8239 \<or> r = 8287 \<or> r = 12288"

fun trim_left :: "string \<Rightarrow> string" where
  "trim_left [] = []"
| "trim_left (c # cs) =
     (if is_space (fst (decode_rune (c # cs)))
      then trim_left (drop (snd (decode_rune (c # cs)) - 1) cs)
      else c # cs)"

text \<open>The width of the white-space rune that ends a string, 0 if there is none: what
  \<^verbatim>\<open>utf8.DecodeLastRune\<close> finds, since a white-space rune takes one to three bytes.\<close>

definition last_space_width :: "string \<Rightarrow> nat" where
  "last_space_width s =
     (case filter (\<lambda>n. n \<le> length s \<and> snd (decode_rune (drop (length s - n) s)) = n
                       \<and> is_space (fst (decode_rune (drop (length s - n) s)))) [1, 2, 3] of
        [] \<Rightarrow> 0 | n # _ \<Rightarrow> n)"

lemma last_space_width_le: "last_space_width s \<le> length s"
  by (auto simp: last_space_width_def split: list.splits
      dest!: arg_cong [where f = set] dest: equalityD2 [THEN subsetD, OF _ list.set_intros(1)])

function trim_right :: "string \<Rightarrow> string" where
  "trim_right s =
     (if last_space_width s = 0 then s
      else trim_right (take (length s - last_space_width s) s))"
  by pat_completeness auto
termination
proof (relation "measure length")
  fix s :: string
  assume "last_space_width s \<noteq> 0"
  with last_space_width_le [of s]
  show "(take (length s - last_space_width s) s, s) \<in> measure length" by simp
qed simp

declare trim_right.simps [simp del]

definition trim_space :: "string \<Rightarrow> string" where
  "trim_space s = trim_right (trim_left s)"

lemma last_space_width_Nil [simp]: "last_space_width [] = 0"
  by (simp add: last_space_width_def decode_rune_def)

lemma trim_right_Nil [simp]: "trim_right [] = []"
  by (subst trim_right.simps) simp

lemma trim_space_Nil [simp]: "trim_space [] = []"
  by (simp add: trim_space_def)

lemma trim_left_ascii: "is_ascii s \<Longrightarrow> trim_left s = dropWhile (\<lambda>c. is_space (byte c)) s"
  by (induction s) (simp_all add: decode_rune_ascii)

lemma last_space_width_ascii:
  "is_ascii (s @ [c]) \<Longrightarrow> last_space_width (s @ [c]) = (if is_space (byte c) then 1 else 0)"
proof -
  assume a: "is_ascii (s @ [c])"
  have "n \<le> length (s @ [c]) \<Longrightarrow> 0 < n \<Longrightarrow>
      snd (decode_rune (drop (length (s @ [c]) - n) (s @ [c]))) = 1" for n
  proof -
    assume n: "n \<le> length (s @ [c])" "0 < n"
    then obtain d ds where d: "drop (length (s @ [c]) - n) (s @ [c]) = d # ds"
      by (cases "drop (length (s @ [c]) - n) (s @ [c])") auto
    then have "d \<in> set (s @ [c])"
      by (metis in_set_dropD list.set_intros(1))
    with a have "byte d < 128" by (auto simp: is_ascii_def list_all_iff)
    then show ?thesis unfolding d by (simp add: decode_rune_ascii)
  qed
  from this [of 2] this [of 3] a show ?thesis
    by (auto simp: last_space_width_def decode_rune_ascii)
qed

lemma trim_right_ascii:
  "is_ascii s \<Longrightarrow> trim_right s = rev (dropWhile (\<lambda>c. is_space (byte c)) (rev s))"
proof (induction s rule: rev_induct)
  case Nil
  show ?case by simp
next
  case (snoc c s)
  then show ?case
    by (subst trim_right.simps) (simp add: last_space_width_ascii)
qed

lemma trim_space_ascii:
  "is_ascii s \<Longrightarrow> trim_space s = rev (dropWhile (\<lambda>c. is_space (byte c))
      (rev (dropWhile (\<lambda>c. is_space (byte c)) s)))"
proof -
  assume a: "is_ascii s"
  then have "is_ascii (dropWhile (\<lambda>c. is_space (byte c)) s)"
    by (auto simp: is_ascii_def list_all_iff dest: set_dropWhileD)
  with a show ?thesis by (simp add: trim_space_def trim_left_ascii trim_right_ascii)
qed

lemma is_ascii_trim_space: "is_ascii s \<Longrightarrow> is_ascii (trim_space s)"
  unfolding trim_space_ascii
  by (auto simp: is_ascii_def list_all_iff dest!: set_dropWhileD)

lemma trim_space_idem_ascii:
  "is_ascii s \<Longrightarrow> trim_space (trim_space s) = trim_space s"
proof -
  assume a: "is_ascii s"
  let ?P = "\<lambda>c. is_space (byte c)"
  have gen: "dropWhile ?P (rev (dropWhile ?P (rev t))) = rev (dropWhile ?P (rev t))"
    if "t = dropWhile ?P s" for t
  proof (cases "rev (dropWhile ?P (rev t))")
    case (Cons x xs)
    then have "hd t = x"
      by (metis append_self_conv2 hd_append2 list.discI list.sel(1) rev_append rev_rev_ident
          takeWhile_dropWhile_id)
    moreover from Cons have "t \<noteq> []" by auto
    ultimately show ?thesis using Cons that hd_dropWhile [of ?P s] by auto
  next
    case Nil
    show ?thesis by (simp only: Nil dropWhile.simps)
  qed
  from gen [OF refl] is_ascii_trim_space [OF a] a show ?thesis
    by (simp add: trim_space_ascii)
qed

text \<open>The case tables of \<^verbatim>\<open>unicode\<close> are arguments above U+007F.\<close>

definition rune_upper :: "(rune \<Rightarrow> rune) \<Rightarrow> rune \<Rightarrow> rune" where
  "rune_upper tab r = (if r < 128 then (if 97 \<le> r \<and> r \<le> 122 then r - 32 else r) else tab r)"

definition rune_lower :: "(rune \<Rightarrow> rune) \<Rightarrow> rune \<Rightarrow> rune" where
  "rune_lower tab r = (if r < 128 then (if 65 \<le> r \<and> r \<le> 90 then r + 32 else r) else tab r)"

definition to_upper :: "(rune \<Rightarrow> rune) \<Rightarrow> string \<Rightarrow> string" where
  "to_upper tab s =
     (if is_ascii s then map (\<lambda>c. char_of (rune_upper tab (byte c))) s
      else utf8 (map (rune_upper tab) (runes s)))"

definition to_lower :: "(rune \<Rightarrow> rune) \<Rightarrow> string \<Rightarrow> string" where
  "to_lower tab s =
     (if is_ascii s then map (\<lambda>c. char_of (rune_lower tab (byte c))) s
      else utf8 (map (rune_lower tab) (runes s)))"

section \<open>Decimal numbers\<close>

text \<open>\<^verbatim>\<open>unicode.IsDigit\<close>: category Nd, ten runes from each of these zeros.\<close>

definition digit_zeros :: "rune list" where
  "digit_zeros = [
    1632, 1776, 1984, 2406, 2534, 2662, 2790, 2918, 3046, 3174, 3302, 3430, 3558, 3664,
    3792, 3872, 4160, 4240, 6112, 6160, 6470, 6608, 6784, 6800, 6992, 7088, 7232, 7248,
    42528, 43216, 43264, 43472, 43504, 43600, 44016, 65296, 66720, 68912, 69734, 69872,
    69942, 70096, 70384, 70736, 70864, 71248, 71360, 71472, 71904, 72016, 72784, 73040,
    73120, 73552, 92768, 92864, 93008, 120782, 120792, 120802, 120812, 120822, 123200,
    123632, 124144, 125264, 130032]"

definition is_digit :: "rune \<Rightarrow> bool" where
  "is_digit r \<longleftrightarrow>
     (if r < 256 then 48 \<le> r \<and> r \<le> 57 else list_ex (\<lambda>z. z \<le> r \<and> r \<le> z + 9) digit_zeros)"

fun dec_digits :: "nat \<Rightarrow> string" where
  "dec_digits n =
     (if n < 10 then [char_of (48 + n)] else dec_digits (n div 10) @ [char_of (48 + n mod 10)])"

declare dec_digits.simps [simp del]

definition itoa :: "int \<Rightarrow> string" where
  "itoa n = (if n < 0 then CHR ''-'' # dec_digits (nat (- n)) else dec_digits (nat n))"

definition dec_byte :: "char \<Rightarrow> bool" where
  "dec_byte c \<longleftrightarrow> 48 \<le> byte c \<and> byte c \<le> 57"

definition dec_val :: "string \<Rightarrow> nat" where
  "dec_val s = foldl (\<lambda>a c. a * 10 + (byte c - 48)) 0 s"

text \<open>\<^verbatim>\<open>strconv.Atoi\<close>; \<^const>\<open>None\<close> is its error.\<close>

definition atoi_go :: "string \<Rightarrow> int option" where
  "atoi_go s =
     (let neg = (case s of c # _ \<Rightarrow> c = CHR ''-'' | [] \<Rightarrow> False);
          ds = (case s of c # cs \<Rightarrow> if c = CHR ''-'' \<or> c = CHR ''+'' then cs else s | [] \<Rightarrow> []);
          v = (if neg then - int (dec_val ds) else int (dec_val ds))
      in if ds = [] \<or> \<not> list_all dec_byte ds \<or> \<not> in_i64 v then None else Some v)"

lemma dec_byte_digit: "(n::nat) < 10 \<Longrightarrow> dec_byte (char_of (48 + n))"
  by (simp add: dec_byte_def byte_def)

lemma dec_digits_dec: "list_all dec_byte (dec_digits n)"
  by (induction n rule: dec_digits.induct)
    (subst dec_digits.simps, simp add: dec_byte_digit)

lemma dec_digits_nonempty [simp]: "dec_digits n \<noteq> []"
  by (subst dec_digits.simps) simp

lemma dec_val_snoc: "dec_val (s @ [c]) = dec_val s * 10 + (byte c - 48)"
  by (simp add: dec_val_def)

lemma dec_val_dec_digits [simp]: "dec_val (dec_digits n) = n"
proof (induction n rule: dec_digits.induct)
  case (1 n)
  show ?case
  proof (cases "n < 10")
    case True
    then show ?thesis by (subst dec_digits.simps) (simp add: dec_val_def byte_def)
  next
    case False
    with 1 have "dec_val (dec_digits (n div 10)) = n div 10" by simp
    moreover have "byte (char_of (48 + n mod 10)) - 48 = n mod 10"
      by (simp add: byte_def)
    ultimately show ?thesis
      using False by (subst dec_digits.simps) (simp add: dec_val_snoc)
  qed
qed

lemma dec_digits_hd: "dec_digits n = c # cs \<Longrightarrow> c \<noteq> CHR ''-'' \<and> c \<noteq> CHR ''+''"
  using dec_digits_dec [of n] by (auto simp: dec_byte_def byte_def)

lemma atoi_itoa: "in_i64 n \<Longrightarrow> atoi_go (itoa n) = Some n"
proof (cases "n < 0")
  case True
  assume "in_i64 n"
  with True show ?thesis
    by (simp add: itoa_def atoi_go_def dec_digits_dec)
next
  case False
  assume "in_i64 n"
  obtain c cs where "dec_digits (nat n) = c # cs"
    by (cases "dec_digits (nat n)") auto
  with False \<open>in_i64 n\<close> dec_digits_hd [OF this] dec_digits_dec [of "nat n"]
    dec_val_dec_digits [of "nat n"]
  show ?thesis
    by (simp add: itoa_def atoi_go_def)
qed

lemma atoi_go_range: "atoi_go s = Some n \<Longrightarrow> in_i64 n"
  by (auto simp: atoi_go_def Let_def split: if_splits)

end
