(* ===== verification/Messages.thy ===== *)
theory Messages
  imports GoStrings
begin

text \<open>
  The literals of the source that are not ASCII, as the UTF-8 bytes of their code
  points, each with an English gloss.  Nothing but their text depends on them.
\<close>

definition msg_card_deleted :: string where
  \<comment> \<open>card deleted\<close>
  "msg_card_deleted = utf8 [
    1050, 1072, 1088, 1090, 1072, 32, 1091, 1076, 1072, 1083, 1077, 1085, 1072]"

definition msg_phone_card_deleted :: string where
  \<comment> \<open>the card with this phone is deleted\<close>
  "msg_phone_card_deleted = utf8 [
    1050, 1072, 1088, 1090, 1072, 32, 1089, 32, 1101, 1090, 1080, 1084, 32, 1090, 1077,
    1083, 1077, 1092, 1086, 1085, 1086, 1084, 32, 1091, 1076, 1072, 1083, 1077, 1085,
    1072]"

definition msg_need_name_phone :: string where
  \<comment> \<open>give a name and a phone\<close>
  "msg_need_name_phone = utf8 [
    1059, 1082, 1072, 1078, 1080, 1090, 1077, 32, 1080, 1084, 1103, 32, 1080, 32, 1090,
    1077, 1083, 1077, 1092, 1086, 1085]"

definition msg_need_barcode :: string where
  \<comment> \<open>give a barcode\<close>
  "msg_need_barcode = utf8 [
    1059, 1082, 1072, 1078, 1080, 1090, 1077, 32, 98, 97, 114, 99, 111, 100, 101]"

definition msg_customer_not_found :: string where
  \<comment> \<open>customer not found\<close>
  "msg_customer_not_found = utf8 [
    1050, 1083, 1080, 1077, 1085, 1090, 32, 1085, 1077, 32, 1085, 1072, 1081, 1076,
    1077, 1085]"

definition msg_negative_input :: string where
  \<comment> \<open>amount and points must not be negative\<close>
  "msg_negative_input = utf8 [
    1057, 1091, 1084, 1084, 1072, 32, 1080, 32, 1073, 1072, 1083, 1083, 1099, 32, 1085,
    1077, 32, 1084, 1086, 1075, 1091, 1090, 32, 1073, 1099, 1090, 1100, 32, 1086, 1090,
    1088, 1080, 1094, 1072, 1090, 1077, 1083, 1100, 1085, 1099, 1084, 1080]"

definition msg_receipt_uuid :: string where
  \<comment> \<open>receipt_id must be a UUID\<close>
  "msg_receipt_uuid = utf8 [
    114, 101, 99, 101, 105, 112, 116, 95, 105, 100, 32, 1076, 1086, 1083, 1078, 1077,
    1085, 32, 1073, 1099, 1090, 1100, 32, 85, 85, 73, 68]"

definition msg_duplicate_receipt :: string where
  \<comment> \<open>receipt already committed with other data\<close>
  "msg_duplicate_receipt = utf8 [
    1063, 1077, 1082, 32, 1091, 1078, 1077, 32, 1087, 1088, 1086, 1074, 1077, 1076,
    1105, 1085, 32, 1089, 32, 1076, 1088, 1091, 1075, 1080, 1084, 1080, 32, 1076, 1072,
    1085, 1085, 1099, 1084, 1080]"

definition msg_receipt_not_found :: string where
  \<comment> \<open>receipt not found\<close>
  "msg_receipt_not_found = utf8 [
    1063, 1077, 1082, 32, 1085, 1077, 32, 1085, 1072, 1081, 1076, 1077, 1085]"

definition msg_reason_required :: string where
  \<comment> \<open>a reason is required\<close>
  "msg_reason_required = utf8 [
    1050, 1086, 1084, 1084, 1077, 1085, 1090, 1072, 1088, 1080, 1081, 32, 40, 114, 101,
    97, 115, 111, 110, 41, 32, 1086, 1073, 1103, 1079, 1072, 1090, 1077, 1083, 1077,
    1085]"

definition msg_insufficient :: string where
  \<comment> \<open>not enough points\<close>
  "msg_insufficient = utf8 [
    1053, 1077, 1076, 1086, 1089, 1090, 1072, 1090, 1086, 1095, 1085, 1086, 32, 1073,
    1072, 1083, 1083, 1086, 1074]"

definition msg_card_blocked :: string where
  \<comment> \<open>card blocked\<close>
  "msg_card_blocked = utf8 [
    1050, 1072, 1088, 1090, 1072, 32, 1079, 1072, 1073, 1083, 1086, 1082, 1080, 1088,
    1086, 1074, 1072, 1085, 1072]"

definition msg_negative_points :: string where
  \<comment> \<open>the number of points must not be negative\<close>
  "msg_negative_points = utf8 [
    1050, 1086, 1083, 1080, 1095, 1077, 1089, 1090, 1074, 1086, 32, 1073, 1072, 1083,
    1083, 1086, 1074, 32, 1085, 1077, 32, 1084, 1086, 1078, 1077, 1090, 32, 1073, 1099,
    1090, 1100, 32, 1086, 1090, 1088, 1080, 1094, 1072, 1090, 1077, 1083, 1100, 1085,
    1099, 1084]"

definition msg_min_redeem_1 :: string where
  \<comment> \<open>minimum to redeem, before the number\<close>
  "msg_min_redeem_1 = utf8 [
    1052, 1080, 1085, 1080, 1084, 1091, 1084, 32, 1076, 1083, 1103, 32, 1089, 1087,
    1080, 1089, 1072, 1085, 1080, 1103, 32, 8212, 32]"

definition msg_min_redeem_2 :: string where
  \<comment> \<open>points, after the number\<close>
  "msg_min_redeem_2 = utf8 [
    32, 1073, 1072, 1083, 1083, 1086, 1074]"

definition msg_share_1 :: string where
  \<comment> \<open>cannot redeem more than, before the number\<close>
  "msg_share_1 = utf8 [
    1053, 1077, 1083, 1100, 1079, 1103, 32, 1089, 1087, 1080, 1089, 1072, 1090, 1100,
    32, 1073, 1086, 1083, 1100, 1096, 1077, 32]"

definition msg_share_2 :: string where
  \<comment> \<open>percent of the receipt, after the number\<close>
  "msg_share_2 = utf8 [
    37, 32, 1089, 1091, 1084, 1084, 1099, 32, 1095, 1077, 1082, 1072]"

definition cp_rate_1 :: string where
  \<comment> \<open>1 point =, before the rate\<close>
  "cp_rate_1 = utf8 [
    49, 32, 1073, 1072, 1083, 1083, 32, 61, 32]"

definition cp_rate_2 :: string where
  \<comment> \<open>roubles of discount\<close>
  "cp_rate_2 = utf8 [
    32, 8381, 32, 1089, 1082, 1080, 1076, 1082, 1080, 46, 10]"

definition cp_earn_1 :: string where
  \<comment> \<open>of a purchase is credited, before the percentage\<close>
  "cp_earn_1 = utf8 [
    1057, 32, 1087, 1086, 1082, 1091, 1087, 1082, 1080, 32, 1085, 1072, 1095, 1080,
    1089, 1083, 1103, 1077, 1090, 1089, 1103, 32]"

definition cp_earn_2 :: string where
  \<comment> \<open>percent: every 100 roubles give, before the number\<close>
  "cp_earn_2 = utf8 [
    37, 58, 32, 1082, 1072, 1078, 1076, 1099, 1077, 32, 49, 48, 48, 32, 8381, 32, 1076,
    1072, 1102, 1090, 32]"

definition cp_earn_3 :: string where
  \<comment> \<open>fractions are dropped, points paid with do not count\<close>
  "cp_earn_3 = utf8 [
    46, 32, 1044, 1088, 1086, 1073, 1085, 1072, 1103, 32, 1095, 1072, 1089, 1090, 1100,
    32, 1086, 1090, 1073, 1088, 1072, 1089, 1099, 1074, 1072, 1077, 1090, 1089, 1103,
    46, 32, 1041, 1072, 1083, 1083, 1099, 44, 32, 1082, 1086, 1090, 1086, 1088, 1099,
    1084, 1080, 32, 1086, 1087, 1083, 1072, 1090, 1080, 1083, 1080, 32, 1095, 1072,
    1089, 1090, 1100, 32, 1095, 1077, 1082, 1072, 44, 32, 1074, 32, 1085, 1072, 1095,
    1080, 1089, 1083, 1077, 1085, 1080, 1077, 32, 1085, 1077, 32, 1074, 1093, 1086,
    1076, 1103, 1090, 46, 10]"

definition cp_min_1 :: string where
  \<comment> \<open>credit starts at a receipt of, before the amount\<close>
  "cp_min_1 = utf8 [
    1053, 1072, 1095, 1080, 1089, 1083, 1077, 1085, 1080, 1077, 32, 1085, 1072, 1095,
    1080, 1085, 1072, 1077, 1090, 1089, 1103, 32, 1089, 32, 1095, 1077, 1082, 1072, 32]"

definition cp_rub :: string where
  \<comment> \<open>roubles, end of line\<close>
  "cp_rub = utf8 [
    32, 8381, 46, 10]"

definition cp_red_1 :: string where
  \<comment> \<open>redeem from, before the minimum\<close>
  "cp_red_1 = utf8 [
    1057, 1087, 1080, 1089, 1072, 1090, 1100, 32, 1084, 1086, 1078, 1085, 1086, 32,
    1086, 1090, 32]"

definition cp_red_2 :: string where
  \<comment> \<open>and at most, before the share\<close>
  "cp_red_2 = utf8 [
    32, 1080, 32, 1085, 1077, 32, 1073, 1086, 1083, 1100, 1096, 1077, 32]"

definition cp_red_3 :: string where
  \<comment> \<open>percent of the receipt, end of line\<close>
  "cp_red_3 = utf8 [
    37, 32, 1089, 1091, 1084, 1084, 1099, 32, 1095, 1077, 1082, 1072, 46, 10]"

definition cp_exp_1 :: string where
  \<comment> \<open>points expire in, before the days\<close>
  "cp_exp_1 = utf8 [
    1041, 1072, 1083, 1083, 1099, 32, 1089, 1075, 1086, 1088, 1072, 1102, 1090, 32,
    1095, 1077, 1088, 1077, 1079, 32]"

definition cp_exp_none :: string where
  \<comment> \<open>points do not expire\<close>
  "cp_exp_none = utf8 [
    1041, 1072, 1083, 1083, 1099, 32, 1085, 1077, 32, 1089, 1075, 1086, 1088, 1072,
    1102, 1090, 46, 10]"

definition cp_card :: string where
  \<comment> \<open>the card is no means of payment; on a refund earned points are taken back, redeemed ones returned\<close>
  "cp_card = utf8 [
    1050, 1072, 1088, 1090, 1072, 32, 1085, 1077, 32, 1087, 1083, 1072, 1090, 1105,
    1078, 1085, 1086, 1077, 32, 1089, 1088, 1077, 1076, 1089, 1090, 1074, 1086, 58, 32,
    1085, 1072, 32, 1082, 1072, 1089, 1089, 1077, 32, 1087, 1086, 1082, 1072, 1078,
    1080, 1090, 1077, 32, 81, 82, 46, 32, 1055, 1088, 1080, 32, 1074, 1086, 1079, 1074,
    1088, 1072, 1090, 1077, 32, 1095, 1077, 1082, 1072, 32, 1085, 1072, 1095, 1080,
    1089, 1083, 1077, 1085, 1085, 1099, 1077, 32, 1073, 1072, 1083, 1083, 1099, 32,
    1089, 1085, 1080, 1084, 1072, 1102, 1090, 1089, 1103, 44, 32, 1089, 1087, 1080,
    1089, 1072, 1085, 1085, 1099, 1077, 32, 1074, 1086, 1079, 1074, 1088, 1072, 1097,
    1072, 1102, 1090, 1089, 1103, 46, 10]"

definition cp_ask :: string where
  \<comment> \<open>questions, before the contact\<close>
  "cp_ask = utf8 [
    10, 1042, 1086, 1087, 1088, 1086, 1089, 1099, 58, 32]"

definition cp_dash :: string where
  \<comment> \<open>dash between name and address\<close>
  "cp_dash = utf8 [
    32, 8212, 32]"

definition cp_no_stores :: string where
  \<comment> \<open>stores: the list will appear\<close>
  "cp_no_stores = utf8 [
    1058, 1086, 1095, 1082, 1080, 58, 32, 1089, 1087, 1080, 1089, 1086, 1082, 32, 1087,
    1086, 1103, 1074, 1080, 1090, 1089, 1103, 44, 32, 1082, 1086, 1075, 1076, 1072, 32,
    1084, 1072, 1075, 1072, 1079, 1080, 1085, 32, 1076, 1086, 1073, 1072, 1074, 1080,
    1090, 32, 1072, 1076, 1088, 1077, 1089, 1072, 46]"

definition cp_stores :: string where
  \<comment> \<open>stores, before the list\<close>
  "cp_stores = utf8 [
    1058, 1086, 1095, 1082, 1080, 58, 10]"

definition w_point_one :: string where
  \<comment> \<open>point\<close>
  "w_point_one = utf8 [
    1073, 1072, 1083, 1083]"

definition w_point_few :: string where
  \<comment> \<open>points, few\<close>
  "w_point_few = utf8 [
    1073, 1072, 1083, 1083, 1072]"

definition w_point_many :: string where
  \<comment> \<open>points, many\<close>
  "w_point_many = utf8 [
    1073, 1072, 1083, 1083, 1086, 1074]"

definition w_day_one :: string where
  \<comment> \<open>day\<close>
  "w_day_one = utf8 [
    1076, 1077, 1085, 1100]"

definition w_day_few :: string where
  \<comment> \<open>days, few\<close>
  "w_day_few = utf8 [
    1076, 1085, 1103]"

definition w_day_many :: string where
  \<comment> \<open>days, many\<close>
  "w_day_many = utf8 [
    1076, 1085, 1077, 1081]"

definition w_balance_label :: string where
  \<comment> \<open>balance\<close>
  "w_balance_label = utf8 [
    1041, 1072, 1083, 1072, 1085, 1089]"

definition w_balance_change :: string where
  \<comment> \<open>balance, with the placeholder of PassKit\<close>
  "w_balance_change = utf8 [
    1041, 1072, 1083, 1072, 1085, 1089, 58, 32, 37, 64]"

definition w_points_label :: string where
  \<comment> \<open>points\<close>
  "w_points_label = utf8 [
    1041, 1072, 1083, 1083, 1099]"

definition w_terms_label :: string where
  \<comment> \<open>terms of the loyalty programme\<close>
  "w_terms_label = utf8 [
    1059, 1089, 1083, 1086, 1074, 1080, 1103, 32, 1087, 1088, 1086, 1075, 1088, 1072,
    1084, 1084, 1099, 32, 1083, 1086, 1103, 1083, 1100, 1085, 1086, 1089, 1090, 1080]"

definition w_rules_label :: string where
  \<comment> \<open>full rules\<close>
  "w_rules_label = utf8 [
    1055, 1086, 1083, 1085, 1099, 1077, 32, 1087, 1088, 1072, 1074, 1080, 1083, 1072]"

definition w_contacts_label :: string where
  \<comment> \<open>contacts\<close>
  "w_contacts_label = utf8 [
    1050, 1086, 1085, 1090, 1072, 1082, 1090, 1099]"

definition w_pass_descr :: string where
  \<comment> \<open>MERCH loyalty card\<close>
  "w_pass_descr = utf8 [
    1050, 1072, 1088, 1090, 1072, 32, 1083, 1086, 1103, 1083, 1100, 1085, 1086, 1089,
    1090, 1080, 32, 77, 69, 82, 67, 72]"

definition w_owner_label :: string where
  \<comment> \<open>owner\<close>
  "w_owner_label = utf8 [
    1042, 1083, 1072, 1076, 1077, 1083, 1077, 1094, 32, 1089, 1074, 1072, 1075, 1080]"

definition w_bonus_label :: string where
  \<comment> \<open>bonus\<close>
  "w_bonus_label = utf8 [
    1041, 1086, 1085, 1091, 1089]"

definition cfg_admin_name :: string where
  \<comment> \<open>admin\<close>
  "cfg_admin_name = utf8 [
    1040, 1076, 1084, 1080, 1085]"

definition cfg_cashier_name :: string where
  \<comment> \<open>cashier\<close>
  "cfg_cashier_name = utf8 [
    1050, 1072, 1089, 1089, 1080, 1088]"

definition h_need_auth :: string where
  \<comment> \<open>authorisation needed\<close>
  "h_need_auth = utf8 [
    1053, 1091, 1078, 1085, 1072, 32, 1072, 1074, 1090, 1086, 1088, 1080, 1079, 1072,
    1094, 1080, 1103]"

definition h_bad_token :: string where
  \<comment> \<open>invalid token\<close>
  "h_bad_token = utf8 [
    1053, 1077, 1076, 1077, 1081, 1089, 1090, 1074, 1080, 1090, 1077, 1083, 1100, 1085,
    1099, 1081, 32, 1090, 1086, 1082, 1077, 1085]"

definition h_revoked :: string where
  \<comment> \<open>session revoked\<close>
  "h_revoked = utf8 [
    1057, 1077, 1089, 1089, 1080, 1103, 32, 1086, 1090, 1086, 1079, 1074, 1072, 1085,
    1072]"

definition h_inactive :: string where
  \<comment> \<open>the staff member is not active\<close>
  "h_inactive = utf8 [
    1057, 1086, 1090, 1088, 1091, 1076, 1085, 1080, 1082, 32, 1085, 1077, 1072, 1082,
    1090, 1080, 1074, 1077, 1085]"

definition h_too_many :: string where
  \<comment> \<open>too many requests\<close>
  "h_too_many = utf8 [
    1057, 1083, 1080, 1096, 1082, 1086, 1084, 32, 1084, 1085, 1086, 1075, 1086, 32,
    1079, 1072, 1087, 1088, 1086, 1089, 1086, 1074, 44, 32, 1087, 1086, 1087, 1088,
    1086, 1073, 1091, 1081, 1090, 1077, 32, 1087, 1086, 1079, 1078, 1077]"

definition h_internal :: string where
  \<comment> \<open>internal error\<close>
  "h_internal = utf8 [
    1042, 1085, 1091, 1090, 1088, 1077, 1085, 1085, 1103, 1103, 32, 1086, 1096, 1080,
    1073, 1082, 1072]"

definition h_bad_json :: string where
  \<comment> \<open>malformed JSON\<close>
  "h_bad_json = utf8 [
    1053, 1077, 1082, 1086, 1088, 1088, 1077, 1082, 1090, 1085, 1099, 1081, 32, 74, 83,
    79, 78]"

definition h_bad_login :: string where
  \<comment> \<open>wrong login or password\<close>
  "h_bad_login = utf8 [
    1053, 1077, 1074, 1077, 1088, 1085, 1099, 1081, 32, 1083, 1086, 1075, 1080, 1085,
    32, 1080, 1083, 1080, 32, 1087, 1072, 1088, 1086, 1083, 1100]"

definition h_staff_deleted :: string where
  \<comment> \<open>the staff member is deleted\<close>
  "h_staff_deleted = utf8 [
    1057, 1086, 1090, 1088, 1091, 1076, 1085, 1080, 1082, 32, 1091, 1076, 1072, 1083,
    1105, 1085]"

definition h_forbidden :: string where
  \<comment> \<open>not enough rights\<close>
  "h_forbidden = utf8 [
    1053, 1077, 1076, 1086, 1089, 1090, 1072, 1090, 1086, 1095, 1085, 1086, 32, 1087,
    1088, 1072, 1074]"

definition h_other_store :: string where
  \<comment> \<open>cannot commit in another store\<close>
  "h_other_store = utf8 [
    1053, 1077, 1083, 1100, 1079, 1103, 32, 1087, 1088, 1086, 1074, 1077, 1089, 1090,
    1080, 32, 1095, 1077, 1082, 32, 1074, 32, 1095, 1091, 1078, 1086, 1081, 32, 1090,
    1086, 1095, 1082, 1077]"

definition h_no_store :: string where
  \<comment> \<open>store not found\<close>
  "h_no_store = utf8 [
    1058, 1086, 1095, 1082, 1072, 32, 1085, 1077, 32, 1085, 1072, 1081, 1076, 1077,
    1085, 1072]"

definition h_staff_fields :: string where
  \<comment> \<open>login, name, password and role are required\<close>
  "h_staff_fields = utf8 [
    108, 111, 103, 105, 110, 44, 32, 110, 97, 109, 101, 44, 32, 112, 97, 115, 115, 119,
    111, 114, 100, 32, 1080, 32, 114, 111, 108, 101, 32, 1086, 1073, 1103, 1079, 1072,
    1090, 1077, 1083, 1100, 1085, 1099]"

definition h_no_staff :: string where
  \<comment> \<open>staff member not found\<close>
  "h_no_staff = utf8 [
    1057, 1086, 1090, 1088, 1091, 1076, 1085, 1080, 1082, 32, 1085, 1077, 32, 1085,
    1072, 1081, 1076, 1077, 1085]"

definition h_bad_role :: string where
  \<comment> \<open>unknown role\<close>
  "h_bad_role = utf8 [
    1053, 1077, 1080, 1079, 1074, 1077, 1089, 1090, 1085, 1072, 1103, 32, 1088, 1086,
    1083, 1100]"

definition h_self_delete :: string where
  \<comment> \<open>cannot delete your own account\<close>
  "h_self_delete = utf8 [
    1053, 1077, 1083, 1100, 1079, 1103, 32, 1091, 1076, 1072, 1083, 1080, 1090, 1100,
    32, 1089, 1074, 1086, 1102, 32, 1091, 1095, 1105, 1090, 1085, 1091, 1102, 32, 1079,
    1072, 1087, 1080, 1089, 1100]"

definition h_name_required :: string where
  \<comment> \<open>name is required\<close>
  "h_name_required = utf8 [
    110, 97, 109, 101, 32, 1086, 1073, 1103, 1079, 1072, 1090, 1077, 1083, 1077, 1085]"

definition h_no_apple :: string where
  \<comment> \<open>Apple Wallet is not set up\<close>
  "h_no_apple = utf8 [
    65, 112, 112, 108, 101, 32, 87, 97, 108, 108, 101, 116, 32, 1085, 1077, 32, 1085,
    1072, 1089, 1090, 1088, 1086, 1077, 1085]"

definition h_need_pass_token :: string where
  \<comment> \<open>an ApplePass token is needed\<close>
  "h_need_pass_token = utf8 [
    1053, 1091, 1078, 1077, 1085, 32, 65, 112, 112, 108, 101, 80, 97, 115, 115, 32,
    1090, 1086, 1082, 1077, 1085]"

definition h_bad_pass_token :: string where
  \<comment> \<open>invalid ApplePass token\<close>
  "h_bad_pass_token = utf8 [
    1053, 1077, 1076, 1077, 1081, 1089, 1090, 1074, 1080, 1090, 1077, 1083, 1100, 1085,
    1099, 1081, 32, 65, 112, 112, 108, 101, 80, 97, 115, 115, 32, 1090, 1086, 1082,
    1077, 1085]"

definition h_pass_type :: string where
  \<comment> \<open>unknown pass type\<close>
  "h_pass_type = utf8 [
    1053, 1077, 1080, 1079, 1074, 1077, 1089, 1090, 1085, 1099, 1081, 32, 112, 97, 115,
    115, 32, 116, 121, 112, 101]"

definition h_push_token :: string where
  \<comment> \<open>pushToken is required\<close>
  "h_push_token = utf8 [
    112, 117, 115, 104, 84, 111, 107, 101, 110, 32, 1086, 1073, 1103, 1079, 1072, 1090,
    1077, 1083, 1077, 1085]"

definition a_customer :: string where
  \<comment> \<open>customer\<close>
  "a_customer = utf8 [
    1050, 1083, 1080, 1077, 1085, 1090]"

definition a_admin :: string where
  \<comment> \<open>admin\<close>
  "a_admin = utf8 [
    1040, 1076, 1084, 1080, 1085]"

definition a_cashier :: string where
  \<comment> \<open>cashier\<close>
  "a_cashier = utf8 [
    1050, 1072, 1089, 1089, 1080, 1088]"

definition a_dot :: string where
  \<comment> \<open>separator\<close>
  "a_dot = utf8 [
    32, 183, 32]"

definition a_rec_both :: string where
  \<comment> \<open>receipt: redeemed and earned\<close>
  "a_rec_both = utf8 [
    1063, 1077, 1082, 58, 32, 1089, 1087, 1080, 1089, 1072, 1085, 1080, 1077, 32, 1080,
    32, 1085, 1072, 1095, 1080, 1089, 1083, 1077, 1085, 1080, 1077]"

definition a_redeem :: string where
  \<comment> \<open>points redeemed\<close>
  "a_redeem = utf8 [
    1057, 1087, 1080, 1089, 1072, 1085, 1080, 1077, 32, 1073, 1072, 1083, 1083, 1086,
    1074]"

definition a_earn :: string where
  \<comment> \<open>points credited\<close>
  "a_earn = utf8 [
    1053, 1072, 1095, 1080, 1089, 1083, 1077, 1085, 1080, 1077, 32, 1073, 1072, 1083,
    1083, 1086, 1074]"

definition a_rec :: string where
  \<comment> \<open>receipt\<close>
  "a_rec = utf8 [
    1063, 1077, 1082]"

definition a_rec_1 :: string where
  \<comment> \<open>roubles, redeemed\<close>
  "a_rec_1 = utf8 [
    32, 8381, 32, 183, 32, 1089, 1087, 1080, 1089, 1072, 1085, 1086, 32]"

definition a_rec_2 :: string where
  \<comment> \<open>credited\<close>
  "a_rec_2 = utf8 [
    32, 183, 32, 1085, 1072, 1095, 1080, 1089, 1083, 1077, 1085, 1086, 32]"

definition a_refund :: string where
  \<comment> \<open>receipt refunded\<close>
  "a_refund = utf8 [
    1042, 1086, 1079, 1074, 1088, 1072, 1090, 32, 1095, 1077, 1082, 1072]"

definition a_staff_new :: string where
  \<comment> \<open>staff member added\<close>
  "a_staff_new = utf8 [
    1044, 1086, 1073, 1072, 1074, 1083, 1077, 1085, 32, 1089, 1086, 1090, 1088, 1091,
    1076, 1085, 1080, 1082]"

definition a_staff_upd :: string where
  \<comment> \<open>staff member changed\<close>
  "a_staff_upd = utf8 [
    1048, 1079, 1084, 1077, 1085, 1105, 1085, 32, 1089, 1086, 1090, 1088, 1091, 1076,
    1085, 1080, 1082]"

definition a_staff_del :: string where
  \<comment> \<open>staff member deleted\<close>
  "a_staff_del = utf8 [
    1059, 1076, 1072, 1083, 1105, 1085, 32, 1089, 1086, 1090, 1088, 1091, 1076, 1085,
    1080, 1082]"

definition a_store_new :: string where
  \<comment> \<open>store added\<close>
  "a_store_new = utf8 [
    1044, 1086, 1073, 1072, 1074, 1083, 1077, 1085, 1072, 32, 1090, 1086, 1095, 1082,
    1072]"

definition a_store_upd :: string where
  \<comment> \<open>store changed\<close>
  "a_store_upd = utf8 [
    1048, 1079, 1084, 1077, 1085, 1077, 1085, 1072, 32, 1090, 1086, 1095, 1082, 1072]"

definition a_store_del :: string where
  \<comment> \<open>store deleted\<close>
  "a_store_del = utf8 [
    1059, 1076, 1072, 1083, 1077, 1085, 1072, 32, 1090, 1086, 1095, 1082, 1072]"

definition a_settings :: string where
  \<comment> \<open>loyalty rules changed\<close>
  "a_settings = utf8 [
    1048, 1079, 1084, 1077, 1085, 1077, 1085, 1099, 32, 1087, 1088, 1072, 1074, 1080,
    1083, 1072, 32, 1083, 1086, 1103, 1083, 1100, 1085, 1086, 1089, 1090, 1080]"

definition a_restored :: string where
  \<comment> \<open>card restored\<close>
  "a_restored = utf8 [
    1050, 1072, 1088, 1090, 1072, 32, 1074, 1086, 1089, 1089, 1090, 1072, 1085, 1086,
    1074, 1083, 1077, 1085, 1072]"

definition a_unblocked :: string where
  \<comment> \<open>card unblocked\<close>
  "a_unblocked = utf8 [
    1050, 1072, 1088, 1090, 1072, 32, 1088, 1072, 1079, 1073, 1083, 1086, 1082, 1080,
    1088, 1086, 1074, 1072, 1085, 1072]"

definition a_issued :: string where
  \<comment> \<open>card issued\<close>
  "a_issued = utf8 [
    1042, 1099, 1076, 1072, 1085, 1072, 32, 1082, 1072, 1088, 1090, 1072]"

definition a_self_issued :: string where
  \<comment> \<open>the customer took a card\<close>
  "a_self_issued = utf8 [
    1050, 1083, 1080, 1077, 1085, 1090, 32, 1087, 1086, 1083, 1091, 1095, 1080, 1083,
    32, 1082, 1072, 1088, 1090, 1091]"

end
