(* ===== verification/Rules.thy ===== *)
theory Rules
  imports Messages
begin

text \<open>
  \<^verbatim>\<open>internal/loyalty/rules.go\<close>: the error codes, the loyalty settings and the
  arithmetic of earning and redeeming points.  Go's \<^verbatim>\<open>int\<close> is 64 bits wide and every
  operation wraps; the lemmas with a bound on the inputs show where it does not.
\<close>

section \<open>Errors\<close>

datatype code =
    CodeInsufficientPoints
  | CodeBelowMinRedeem
  | CodeExceedsShare
  | CodeCustomerNotFound
  | CodeCustomerBlocked
  | CodeCustomerDeleted
  | CodeDuplicateReceipt
  | CodeStaffForbidden
  | CodeInvalidRequest
  | CodeUnauthorized
  | CodeInternal

fun code_text :: "code \<Rightarrow> string" where
  "code_text CodeInsufficientPoints = ''INSUFFICIENT_POINTS''"
| "code_text CodeBelowMinRedeem = ''BELOW_MIN_REDEEM''"
| "code_text CodeExceedsShare = ''EXCEEDS_RECEIPT_SHARE''"
| "code_text CodeCustomerNotFound = ''CUSTOMER_NOT_FOUND''"
| "code_text CodeCustomerBlocked = ''CUSTOMER_BLOCKED''"
| "code_text CodeCustomerDeleted = ''CUSTOMER_DELETED''"
| "code_text CodeDuplicateReceipt = ''DUPLICATE_RECEIPT''"
| "code_text CodeStaffForbidden = ''STAFF_FORBIDDEN''"
| "code_text CodeInvalidRequest = ''INVALID_REQUEST''"
| "code_text CodeUnauthorized = ''UNAUTHORIZED''"
| "code_text CodeInternal = ''INTERNAL''"

datatype lerror = Error (Code: code) (Message: string)

definition Err :: "code \<Rightarrow> string \<Rightarrow> lerror" where
  [simp]: "Err c msg = Error c msg"

text \<open>What a Go \<^verbatim>\<open>error\<close> value can be: the package's own error, the driver's
  \<^verbatim>\<open>sql.ErrNoRows\<close>, or any other error with its text.\<close>

datatype go_error = Loyalty lerror | ErrNoRows | Opaque string

definition ErrorText :: "go_error \<Rightarrow> string" where
  "ErrorText e = (case e of Loyalty le \<Rightarrow> Message le
     | ErrNoRows \<Rightarrow> ''sql: no rows in result set'' | Opaque t \<Rightarrow> t)"

definition Is :: "go_error \<Rightarrow> code \<Rightarrow> bool" where
  "Is e c = (case e of Loyalty le \<Rightarrow> Code le = c | _ \<Rightarrow> False)"

section \<open>Settings\<close>

record Settings =
  EarnPercent :: int
  EarnRound :: string
  EarnBase :: string
  EarnMinReceipt :: int
  RedeemRate :: int
  RedeemMin :: int
  RedeemMaxShare :: int
  ExpireDays :: "int option"

definition DefaultSettings :: Settings where
  "DefaultSettings = \<lparr>
     EarnPercent = 5,
     EarnRound = ''down'',
     EarnBase = ''after_store_discount_before_points'',
     EarnMinReceipt = 0,
     RedeemRate = 1,
     RedeemMin = 100,
     RedeemMaxShare = 50,
     ExpireDays = None\<rparr>"

definition atoi :: "string \<Rightarrow> int \<Rightarrow> int" where
  "atoi s dflt = (case atoi_go (trim_space s) of None \<Rightarrow> dflt | Some v \<Rightarrow> v)"

definition ParseSettings :: "(string \<rightharpoonup> string) \<Rightarrow> Settings" where
  "ParseSettings m =
    (let st = DefaultSettings;
         st = (case m ''earn_percent'' of Some v \<Rightarrow> st\<lparr>EarnPercent := atoi v (EarnPercent st)\<rparr>
               | None \<Rightarrow> st);
         st = (case m ''earn_round'' of Some v \<Rightarrow> if v \<noteq> '''' then st\<lparr>EarnRound := v\<rparr> else st
               | None \<Rightarrow> st);
         st = (case m ''earn_base'' of Some v \<Rightarrow> if v \<noteq> '''' then st\<lparr>EarnBase := v\<rparr> else st
               | None \<Rightarrow> st);
         st = (case m ''earn_min_receipt'' of
                 Some v \<Rightarrow> st\<lparr>EarnMinReceipt := atoi v (EarnMinReceipt st)\<rparr> | None \<Rightarrow> st);
         st = (case m ''redeem_rate'' of Some v \<Rightarrow> st\<lparr>RedeemRate := atoi v (RedeemRate st)\<rparr>
               | None \<Rightarrow> st);
         st = (case m ''redeem_min'' of Some v \<Rightarrow> st\<lparr>RedeemMin := atoi v (RedeemMin st)\<rparr>
               | None \<Rightarrow> st);
         st = (case m ''redeem_max_share'' of
                 Some v \<Rightarrow> st\<lparr>RedeemMaxShare := atoi v (RedeemMaxShare st)\<rparr> | None \<Rightarrow> st);
         st = (case m ''expire_days'' of
                 Some v0 \<Rightarrow>
                   (let v = trim_space v0 in
                    if v = '''' \<or> v = ''null'' then st\<lparr>ExpireDays := None\<rparr>
                    else st\<lparr>ExpireDays := Some (atoi v 0)\<rparr>)
               | None \<Rightarrow> st)
     in st)"

definition withDefaults :: "Settings \<Rightarrow> Settings" where
  "withDefaults s =
    (let s = (if RedeemRate s \<le> 0 then s\<lparr>RedeemRate := 1\<rparr> else s);
         s = (if EarnPercent s < 0 then s\<lparr>EarnPercent := 0\<rparr> else s);
         s = (if RedeemMaxShare s < 0 then s\<lparr>RedeemMaxShare := 0\<rparr> else s);
         s = (if RedeemMaxShare s > 100 then s\<lparr>RedeemMaxShare := 100\<rparr> else s);
         s = (if EarnRound s = '''' then s\<lparr>EarnRound := ''down''\<rparr> else s)
     in s)"

section \<open>Earning and redeeming\<close>

definition ComputeEarn :: "int \<Rightarrow> int \<Rightarrow> Settings \<Rightarrow> int" where
  "ComputeEarn amountRub redeemPoints s0 =
    (let s = withDefaults s0 in
     if amountRub < EarnMinReceipt s then 0
     else
       (let redeemRub = mul64 redeemPoints (RedeemRate s);
            base = sub64 amountRub redeemRub;
            base = (if base < 0 then 0 else base)
        in quo64 (mul64 base (EarnPercent s)) 100))"

definition MaxRedeemable :: "int \<Rightarrow> int \<Rightarrow> Settings \<Rightarrow> int" where
  "MaxRedeemable points amountRub s0 =
    (let s = withDefaults s0 in
     if points \<le> 0 \<or> amountRub \<le> 0 then 0
     else
       (let maxByShare = quo64 (quo64 (mul64 amountRub (RedeemMaxShare s)) 100) (RedeemRate s);
            m = points;
            m = (if maxByShare < m then maxByShare else m)
        in if m < RedeemMin s then 0 else m))"

definition CheckRedeem :: "int \<Rightarrow> int \<Rightarrow> int \<Rightarrow> Settings \<Rightarrow> lerror option" where
  "CheckRedeem points amountRub requested s0 =
    (let s = withDefaults s0 in
     if requested = 0 then None
     else if requested < 0 then Some (Err CodeInvalidRequest msg_negative_points)
     else if requested < RedeemMin s then
       Some (Err CodeBelowMinRedeem (msg_min_redeem_1 @ itoa (RedeemMin s) @ msg_min_redeem_2))
     else if requested > points then Some (Err CodeInsufficientPoints msg_insufficient)
     else
       (let maxRub = quo64 (mul64 amountRub (RedeemMaxShare s)) 100;
            requestedRub = mul64 requested (RedeemRate s)
        in if requestedRub > maxRub
           then Some (Err CodeExceedsShare (msg_share_1 @ itoa (RedeemMaxShare s) @ msg_share_2))
           else None))"

record Quote =
  Allowed :: bool
  QCode :: "code option"
  Reason :: string
  RequestedPoints :: int
  MaxPoints :: int
  RedeemPoints :: int
  RedeemRub :: int
  EarnPoints :: int
  PayableRub :: int
  CurrentPoints :: int

definition QuoteRedeem :: "int \<Rightarrow> int \<Rightarrow> int \<Rightarrow> Settings \<Rightarrow> Quote" where
  "QuoteRedeem points amountRub requested s0 =
    (let s = withDefaults s0;
         q = \<lparr>Allowed = False, QCode = None, Reason = '''', RequestedPoints = requested,
               MaxPoints = MaxRedeemable points amountRub s, RedeemPoints = 0, RedeemRub = 0,
               EarnPoints = 0, PayableRub = 0, CurrentPoints = points\<rparr>
     in case CheckRedeem points amountRub requested s of
          Some err \<Rightarrow> q\<lparr>Allowed := False, QCode := Some (Code err), Reason := Message err\<rparr>
        | None \<Rightarrow>
           (let q = q\<lparr>Allowed := True, RedeemPoints := requested,
                      RedeemRub := mul64 requested (RedeemRate s),
                      EarnPoints := ComputeEarn amountRub requested s\<rparr>;
                q = q\<lparr>PayableRub := sub64 amountRub (RedeemRub q)\<rparr>
            in if PayableRub q < 0 then q\<lparr>PayableRub := 0\<rparr> else q))"

section \<open>Settings: lemmas\<close>

lemma withDefaults_sel [simp]:
  "RedeemRate (withDefaults s) = (if RedeemRate s \<le> 0 then 1 else RedeemRate s)"
  "EarnPercent (withDefaults s) = max 0 (EarnPercent s)"
  "RedeemMaxShare (withDefaults s) = min 100 (max 0 (RedeemMaxShare s))"
  "EarnMinReceipt (withDefaults s) = EarnMinReceipt s"
  "RedeemMin (withDefaults s) = RedeemMin s"
  "ExpireDays (withDefaults s) = ExpireDays s"
  by (simp_all add: withDefaults_def Let_def)

lemma withDefaults_idem [simp]: "withDefaults (withDefaults s) = withDefaults s"
  by (rule Settings.equality) (simp_all add: withDefaults_def Let_def)

lemma ComputeEarn_withDefaults [simp]: "ComputeEarn a r (withDefaults s) = ComputeEarn a r s"
  by (simp only: ComputeEarn_def withDefaults_idem)

lemma CheckRedeem_withDefaults [simp]: "CheckRedeem p a r (withDefaults s) = CheckRedeem p a r s"
  by (simp only: CheckRedeem_def withDefaults_idem)

lemma MaxRedeemable_withDefaults [simp]: "MaxRedeemable p a (withDefaults s) = MaxRedeemable p a s"
  by (simp only: MaxRedeemable_def withDefaults_idem)

abbreviation rate_of :: "Settings \<Rightarrow> int" where
  "rate_of s \<equiv> RedeemRate (withDefaults s)"

abbreviation share_of :: "Settings \<Rightarrow> int" where
  "share_of s \<equiv> RedeemMaxShare (withDefaults s)"

abbreviation percent_of :: "Settings \<Rightarrow> int" where
  "percent_of s \<equiv> EarnPercent (withDefaults s)"

text \<open>The admin form: the settings written back as strings.  Only the parser's round
  trip uses it.\<close>

definition render_settings :: "Settings \<Rightarrow> string \<rightharpoonup> string" where
  "render_settings s =
    [''earn_percent'' \<mapsto> itoa (EarnPercent s),
     ''earn_round'' \<mapsto> EarnRound s,
     ''earn_base'' \<mapsto> EarnBase s,
     ''earn_min_receipt'' \<mapsto> itoa (EarnMinReceipt s),
     ''redeem_rate'' \<mapsto> itoa (RedeemRate s),
     ''redeem_min'' \<mapsto> itoa (RedeemMin s),
     ''redeem_max_share'' \<mapsto> itoa (RedeemMaxShare s),
     ''expire_days'' \<mapsto> (case ExpireDays s of None \<Rightarrow> '''' | Some d \<Rightarrow> itoa d)]"

definition settings_storable :: "Settings \<Rightarrow> bool" where
  "settings_storable s \<longleftrightarrow>
     in_i64 (EarnPercent s) \<and> EarnRound s \<noteq> '''' \<and> EarnBase s \<noteq> ''''
     \<and> in_i64 (EarnMinReceipt s) \<and> in_i64 (RedeemRate s) \<and> in_i64 (RedeemMin s)
     \<and> in_i64 (RedeemMaxShare s) \<and> (case ExpireDays s of None \<Rightarrow> True | Some d \<Rightarrow> in_i64 d)"

lemma dec_byte_props: "dec_byte c \<Longrightarrow> byte c < 128 \<and> \<not> is_space (byte c)"
  by (auto simp: dec_byte_def is_space_def)

lemma trim_space_no_space:
  assumes "list_all (\<lambda>c. byte c < 128 \<and> \<not> is_space (byte c)) s"
  shows "trim_space s = s"
proof -
  have a: "is_ascii s" using assms by (auto simp: is_ascii_def list_all_iff)
  have d: "dropWhile (\<lambda>c. is_space (byte c)) t = t" if "set t \<subseteq> set s" for t
    using assms that by (cases t) (auto simp: list_all_iff)
  show ?thesis using a by (simp add: trim_space_ascii d)
qed

lemma itoa_plain: "list_all (\<lambda>c. byte c < 128 \<and> \<not> is_space (byte c)) (itoa n)"
proof -
  have "list_all (\<lambda>c. byte c < 128 \<and> \<not> is_space (byte c)) (dec_digits k)" for k
    using dec_digits_dec [of k] by (auto simp: list_all_iff dec_byte_props)
  then show ?thesis by (simp add: itoa_def byte_def is_space_def)
qed

lemma trim_space_itoa [simp]: "trim_space (itoa n) = itoa n"
  by (rule trim_space_no_space) (rule itoa_plain)

lemma atoi_itoa_dflt [simp]: "in_i64 n \<Longrightarrow> atoi (itoa n) d = n"
  by (simp add: atoi_def atoi_itoa)

lemma itoa_not_blank [simp]: "itoa n \<noteq> ''''" "itoa n \<noteq> ''null''"
proof -
  show "itoa n \<noteq> ''''" by (simp add: itoa_def)
  have "list_all dec_byte (tl (itoa n))"
    using dec_digits_dec [of "nat n"] dec_digits_dec [of "nat (- n)"]
    by (cases "dec_digits (nat n)") (auto simp: itoa_def)
  then show "itoa n \<noteq> ''null''" by (auto simp: dec_byte_def byte_def)
qed

lemma ParseSettings_render_aux:
  "settings_storable s \<Longrightarrow> ParseSettings (render_settings s) = s"
  by (rule Settings.equality)
    (auto simp: ParseSettings_def render_settings_def settings_storable_def Let_def
        split: option.splits)

section \<open>Arithmetic: lemmas\<close>

text \<open>Bounds under which no product below overflows: a receipt of up to \<open>10^12\<close>
  roubles, a balance of up to \<open>10^12\<close> points, a rate and a percentage of up to a
  million.\<close>

definition amount_ok :: "int \<Rightarrow> bool" where
  "amount_ok a \<longleftrightarrow> 0 \<le> a \<and> a \<le> 1000000000000"

definition settings_ok :: "Settings \<Rightarrow> bool" where
  "settings_ok s \<longleftrightarrow> EarnPercent s \<le> 1000000 \<and> RedeemRate s \<le> 1000000"

lemma settings_ok_default [simp]: "settings_ok DefaultSettings"
  by (simp add: settings_ok_def DefaultSettings_def)

lemma rate_pos: "0 < rate_of s"
  by simp

lemma percent_nonneg: "0 \<le> percent_of s"
  by simp

lemma share_bounds: "0 \<le> share_of s" "share_of s \<le> 100"
  by simp_all

lemma rate_bound: "settings_ok s \<Longrightarrow> rate_of s \<le> 1000000"
  by (simp add: settings_ok_def)

lemma percent_bound: "settings_ok s \<Longrightarrow> percent_of s \<le> 1000000"
  by (simp add: settings_ok_def)

lemma prod_bound:
  assumes "0 \<le> (a::int)" "a \<le> 1000000000000" "0 \<le> b" "b \<le> 1000000"
  shows "0 \<le> a * b \<and> a * b \<le> 1000000000000000000"
proof -
  have "a * b \<le> 1000000000000 * 1000000" using assms by (intro mult_mono) auto
  with assms show ?thesis by simp
qed

lemma mul64_id:
  assumes "0 \<le> a" "a \<le> 1000000000000" "0 \<le> b" "b \<le> 1000000"
  shows "mul64 a b = a * b"
  using prod_bound [OF assms] by (simp add: mul64_def wrap64_small)

lemma mul_div_bound:
  assumes "0 \<le> a" "a \<le> 1000000000000" "0 \<le> b" "b \<le> 1000000"
  shows "quo64 (mul64 a b) 100 = a * b div 100"
  using prod_bound [OF assms] by (simp add: mul64_id [OF assms] quo64_nonneg in_i64_def)

text \<open>The promise of the documentation, over the integers.\<close>

definition earn_spec :: "int \<Rightarrow> int \<Rightarrow> Settings \<Rightarrow> int" where
  "earn_spec a r s =
     (if a < EarnMinReceipt s then 0
      else max 0 (a - r * rate_of s) * percent_of s div 100)"

lemma ComputeEarn_spec_aux:
  assumes a: "amount_ok a" and r: "amount_ok r" and s: "settings_ok s"
  shows "ComputeEarn a r s = earn_spec a r s"
proof -
  note [simp del] = withDefaults_sel(1-3)
  have rr: "mul64 r (rate_of s) = r * rate_of s"
    using r rate_pos [of s] rate_bound [OF s] by (intro mul64_id) (auto simp: amount_ok_def)
  have nn: "0 \<le> r * rate_of s" and ub: "r * rate_of s \<le> 1000000000000000000"
    using prod_bound [of r "rate_of s"] r rate_pos [of s] rate_bound [OF s]
    by (auto simp: amount_ok_def)
  have base: "sub64 a (r * rate_of s) = a - r * rate_of s"
    using a nn ub by (simp add: sub64_def amount_ok_def wrap64_small)
  define b where "b = max 0 (a - r * rate_of s)"
  have b: "0 \<le> b" "b \<le> 1000000000000"
    using a nn by (auto simp: b_def amount_ok_def)
  have "quo64 (mul64 b (percent_of s)) 100 = b * percent_of s div 100"
    using b percent_nonneg percent_bound [OF s] by (intro mul_div_bound)
  moreover have "(if a - r * rate_of s < 0 then 0 else a - r * rate_of s) = b"
    by (simp add: b_def)
  ultimately show ?thesis
    by (auto simp: ComputeEarn_def earn_spec_def Let_def rr base simp flip: b_def split: if_splits)
qed

lemma earn_spec_nonneg: "0 \<le> earn_spec a r s"
  by (simp add: earn_spec_def pos_imp_zdiv_nonneg_iff)

lemma earn_spec_bound:
  assumes "amount_ok a" "amount_ok r" "settings_ok s"
  shows "earn_spec a r s \<le> 1000000000000000000"
proof -
  note [simp del] = withDefaults_sel(1-3)
  have r: "0 \<le> r * rate_of s" using assms(2) rate_pos [of s] by (simp add: amount_ok_def)
  define b where "b = max 0 (a - r * rate_of s)"
  have "0 \<le> b" "b \<le> 1000000000000" using assms(1) r by (auto simp: b_def amount_ok_def)
  then have "0 \<le> b * percent_of s \<and> b * percent_of s \<le> 1000000000000000000"
    using percent_nonneg percent_bound [OF assms(3)] by (intro prod_bound)
  then have "b * percent_of s div 100 \<le> 1000000000000000000"
    using div_le_self [of "b * percent_of s" 100] by linarith
  then show ?thesis unfolding earn_spec_def b_def by simp
qed

lemma le_div_iff_mult: "0 < c \<Longrightarrow> r \<le> x div c \<longleftrightarrow> r * c \<le> (x::int)"
proof
  assume c: "0 < c" and "r \<le> x div c"
  then have "r * c \<le> (x div c) * c" by simp
  also have "\<dots> \<le> x" using c by (simp add: minus_mod_eq_div_mult [symmetric])
  finally show "r * c \<le> x" .
next
  assume c: "0 < c" and "r * c \<le> x"
  then have "(r * c) div c \<le> x div c" by (intro zdiv_mono1)
  with c show "r \<le> x div c" by simp
qed

text \<open>When the documentation allows a redemption.\<close>

definition redeem_spec :: "int \<Rightarrow> int \<Rightarrow> int \<Rightarrow> Settings \<Rightarrow> bool" where
  "redeem_spec p a r s \<longleftrightarrow>
     r = 0 \<or> (0 < r \<and> RedeemMin s \<le> r \<and> r \<le> p \<and> r * rate_of s \<le> a * share_of s div 100)"

lemma share_of_amount:
  assumes "amount_ok a"
  shows "quo64 (mul64 a (share_of s)) 100 = a * share_of s div 100"
    "0 \<le> a * share_of s div 100" "a * share_of s div 100 \<le> a"
proof -
  note [simp del] = withDefaults_sel(3)
  show "quo64 (mul64 a (share_of s)) 100 = a * share_of s div 100"
    using assms share_bounds [of s] by (intro mul_div_bound) (auto simp: amount_ok_def)
  show "0 \<le> a * share_of s div 100"
    using assms share_bounds [of s] by (simp add: amount_ok_def pos_imp_zdiv_nonneg_iff)
  have "a * share_of s \<le> a * 100"
    using assms share_bounds [of s] by (intro mult_left_mono) (auto simp: amount_ok_def)
  then have "a * share_of s div 100 \<le> a * 100 div 100" by (intro zdiv_mono1) auto
  then show "a * share_of s div 100 \<le> a" by simp
qed

lemma CheckRedeem_spec_aux:
  assumes a: "amount_ok a" and p: "p \<le> 1000000000000" and s: "settings_ok s"
  shows "CheckRedeem p a r s = None \<longleftrightarrow> redeem_spec p a r s"
proof -
  note [simp del] = withDefaults_sel(1-3)
  have "mul64 r (rate_of s) = r * rate_of s" if "0 < r" "r \<le> p"
    using that p rate_pos [of s] rate_bound [OF s] by (intro mul64_id) auto
  then show ?thesis
    by (auto simp: CheckRedeem_def redeem_spec_def Let_def share_of_amount [OF a])
qed

lemma MaxRedeemable_pos:
  assumes a: "amount_ok a" "0 < a" and p: "0 < p"
  shows "MaxRedeemable p a s =
     (let m = min p (a * share_of s div 100 div rate_of s) in if m < RedeemMin s then 0 else m)"
proof -
  note [simp del] = withDefaults_sel(1-3)
  have "in_i64 (a * share_of s div 100)"
    using share_of_amount [OF a(1), of s] a by (simp add: in_i64_def amount_ok_def)
  then have "quo64 (a * share_of s div 100) (rate_of s) = a * share_of s div 100 div rate_of s"
    using share_of_amount(2) [OF a(1), of s] rate_pos by (intro quo64_nonneg)
  then show ?thesis
    using a p
    by (auto simp: MaxRedeemable_def Let_def share_of_amount(1) [OF a(1)] min_def)
qed

lemma redeem_spec_nonpos: "\<lbrakk>amount_ok a; a \<le> 0 \<or> p \<le> 0; redeem_spec p a r s\<rbrakk> \<Longrightarrow> r = 0"
proof -
  note [simp del] = withDefaults_sel(1-3)
  assume a: "amount_ok a" "a \<le> 0 \<or> p \<le> 0" and r: "redeem_spec p a r s"
  show "r = 0"
  proof (rule ccontr)
    assume "r \<noteq> 0"
    with r have *: "0 < r" "r \<le> p" "r * rate_of s \<le> a * share_of s div 100"
      by (auto simp: redeem_spec_def)
    with a have "a = 0" by (auto simp: amount_ok_def)
    with * have "r * rate_of s \<le> 0" by simp
    with \<open>0 < r\<close> rate_pos [of s] show False by (simp add: mult_le_0_iff)
  qed
qed

lemma MaxRedeemable_greatest_aux:
  assumes a: "amount_ok a" and r: "0 < r"
  shows "redeem_spec p a r s \<longleftrightarrow> RedeemMin s \<le> r \<and> r \<le> MaxRedeemable p a s"
proof (cases "0 < a \<and> 0 < p")
  case True
  note [simp del] = withDefaults_sel(1-3)
  let ?m = "min p (a * share_of s div 100 div rate_of s)"
  have "redeem_spec p a r s \<longleftrightarrow> RedeemMin s \<le> r \<and> r \<le> ?m"
    using r rate_pos [of s] by (auto simp: redeem_spec_def le_div_iff_mult)
  then show ?thesis
    using True r a by (auto simp: MaxRedeemable_pos Let_def)
next
  case False
  with r redeem_spec_nonpos [OF a, of p r s] show ?thesis
    by (auto simp: MaxRedeemable_def Let_def)
qed

lemma redeem_spec_bounds:
  assumes "amount_ok a" and "0 < r" and "redeem_spec p a r s"
  shows "0 < r * rate_of s" "r * rate_of s \<le> a" "r \<le> a" "r \<le> p"
proof -
  note [simp del] = withDefaults_sel(1-3)
  from assms show "0 < r * rate_of s" using rate_pos by simp
  from assms have "r * rate_of s \<le> a * share_of s div 100" and "r \<le> p"
    by (auto simp: redeem_spec_def)
  with share_of_amount(3) [OF assms(1), of s] show *: "r * rate_of s \<le> a" "r \<le> p"
    by linarith+
  have "r * 1 \<le> r * rate_of s"
    using assms(2) rate_pos [of s] by (intro mult_left_mono) auto
  with * show "r \<le> a" by simp
qed

section \<open>Properties\<close>

text \<open>C24: Inside the bounds, earning is the documented floor of
  \<open>(amount - redeemed roubles) * percent / 100\<close>, nothing below the minimal receipt, and
  never negative.\<close>

theorem ComputeEarn_floor:
  assumes "amount_ok a" "amount_ok r" "settings_ok s"
  shows "ComputeEarn a r s = earn_spec a r s \<and> 0 \<le> ComputeEarn a r s"
  using ComputeEarn_spec_aux [OF assms] earn_spec_nonneg by simp

theorem ComputeEarn_floor_witness:
  "ComputeEarn 1999 100 DefaultSettings = earn_spec 1999 100 DefaultSettings
   \<and> 0 \<le> ComputeEarn 1999 100 DefaultSettings"
  by (rule ComputeEarn_floor) (simp_all add: amount_ok_def)

text \<open>C21: \<^verbatim>\<open>CheckRedeem\<close> accepts a redemption exactly when the documentation allows it:
  none at all, or at least the minimum, at most the balance and at most the receipt's share.\<close>

theorem CheckRedeem_iff_allowed:
  assumes "amount_ok a" "p \<le> 1000000000000" "settings_ok s"
  shows "CheckRedeem p a r s = None \<longleftrightarrow>
    r = 0 \<or> (0 < r \<and> RedeemMin s \<le> r \<and> r \<le> p
             \<and> r * RedeemRate (withDefaults s) \<le> a * RedeemMaxShare (withDefaults s) div 100)"
  using CheckRedeem_spec_aux [OF assms] unfolding redeem_spec_def by (rule subst) simp

theorem CheckRedeem_iff_allowed_witness:
  "CheckRedeem 500 999 499 DefaultSettings = None \<longleftrightarrow>
    499 = (0::int) \<or> (0 < (499::int) \<and> RedeemMin DefaultSettings \<le> 499 \<and> (499::int) \<le> 500
             \<and> 499 * RedeemRate (withDefaults DefaultSettings)
                 \<le> 999 * RedeemMaxShare (withDefaults DefaultSettings) div 100)"
  by (rule CheckRedeem_iff_allowed) (simp_all add: amount_ok_def)

text \<open>C22: \<^verbatim>\<open>MaxRedeemable\<close> is the greatest redemption that \<^verbatim>\<open>CheckRedeem\<close>
  accepts: a positive number of points is accepted exactly from the minimum up to it.\<close>

theorem MaxRedeemable_greatest:
  assumes "amount_ok a" "p \<le> 1000000000000" "settings_ok s" "0 < r"
  shows "CheckRedeem p a r s = None \<longleftrightarrow> RedeemMin s \<le> r \<and> r \<le> MaxRedeemable p a s"
  using CheckRedeem_spec_aux [OF assms(1-3)] MaxRedeemable_greatest_aux [OF assms(1,4)] by simp

theorem MaxRedeemable_greatest_witness:
  "CheckRedeem 700 1000 500 DefaultSettings = None \<longleftrightarrow>
     RedeemMin DefaultSettings \<le> 500 \<and> 500 \<le> MaxRedeemable 700 1000 DefaultSettings"
  by (rule MaxRedeemable_greatest) (simp_all add: amount_ok_def)

lemma QuoteRedeem_sel:
  "CurrentPoints (QuoteRedeem p a r s) = p" "RequestedPoints (QuoteRedeem p a r s) = r"
  "MaxPoints (QuoteRedeem p a r s) = MaxRedeemable p a s"
  "Allowed (QuoteRedeem p a r s) \<longleftrightarrow> CheckRedeem p a r s = None"
  "RedeemPoints (QuoteRedeem p a r s) = (if CheckRedeem p a r s = None then r else 0)"
  "EarnPoints (QuoteRedeem p a r s) = (if CheckRedeem p a r s = None then ComputeEarn a r s else 0)"
  "RedeemRub (QuoteRedeem p a r s) = (if CheckRedeem p a r s = None then mul64 r (rate_of s) else 0)"
  "PayableRub (QuoteRedeem p a r s) =
     (if CheckRedeem p a r s = None then max 0 (sub64 a (mul64 r (rate_of s))) else 0)"
  "QCode (QuoteRedeem p a r s) = map_option Code (CheckRedeem p a r s)"
  by (auto simp: QuoteRedeem_def Let_def split: option.splits)

lemma QuoteRedeem_money_aux:
  assumes "amount_ok a" "p \<le> 1000000000000" "settings_ok s" "Allowed (QuoteRedeem p a r s)"
  shows "PayableRub (QuoteRedeem p a r s) + RedeemRub (QuoteRedeem p a r s) = a"
    "0 \<le> RedeemRub (QuoteRedeem p a r s)"
    "100 * RedeemRub (QuoteRedeem p a r s) \<le> a * share_of s"
    "r \<le> max 0 p"
proof -
  note [simp del] = withDefaults_sel(1-3)
  have c: "CheckRedeem p a r s = None" using assms(4) by (simp add: QuoteRedeem_sel)
  then have rs: "redeem_spec p a r s" using assms by (simp add: CheckRedeem_spec_aux)
  have a: "0 \<le> a" "a \<le> 1000000000000" using assms(1) by (simp_all add: amount_ok_def)
  have sh: "0 \<le> a * share_of s" using a(1) share_bounds(1) by simp
  show "r \<le> max 0 p" using rs by (auto simp: redeem_spec_def)
  show "PayableRub (QuoteRedeem p a r s) + RedeemRub (QuoteRedeem p a r s) = a"
    "0 \<le> RedeemRub (QuoteRedeem p a r s)"
    "100 * RedeemRub (QuoteRedeem p a r s) \<le> a * share_of s"
  proof (atomize (full), cases "r = 0")
    case True
    then show "PayableRub (QuoteRedeem p a r s) + RedeemRub (QuoteRedeem p a r s) = a
      \<and> 0 \<le> RedeemRub (QuoteRedeem p a r s)
      \<and> 100 * RedeemRub (QuoteRedeem p a r s) \<le> a * share_of s"
      using a sh c by (simp add: QuoteRedeem_sel mul64_def sub64_def wrap64_small)
  next
    case False
    with rs have r: "0 < r" by (auto simp: redeem_spec_def)
    note b = redeem_spec_bounds [OF assms(1) r rs]
    have m: "mul64 r (rate_of s) = r * rate_of s"
      using b a r rate_pos [of s] rate_bound [OF assms(3)] by (intro mul64_id) auto
    have "r * rate_of s \<le> a * share_of s div 100"
      using r rs by (auto simp: redeem_spec_def)
    then have "100 * (r * rate_of s) \<le> a * share_of s" by linarith
    then show "PayableRub (QuoteRedeem p a r s) + RedeemRub (QuoteRedeem p a r s) = a
      \<and> 0 \<le> RedeemRub (QuoteRedeem p a r s)
      \<and> 100 * RedeemRub (QuoteRedeem p a r s) \<le> a * share_of s"
      using b a c by (simp add: QuoteRedeem_sel m sub64_def wrap64_small)
  qed
qed

text \<open>C23: A quote that is allowed splits the receipt exactly into what is redeemed and what is
  to be paid, the redeemed part within the share, the points within the balance; one that is not
  allowed proposes nothing and carries the code of the refusal.\<close>

theorem QuoteRedeem_money:
  assumes "amount_ok a" "p \<le> 1000000000000" "settings_ok s" and q: "q = QuoteRedeem p a r s"
  shows "if Allowed q
    then PayableRub q + RedeemRub q = a \<and> RedeemPoints q = r \<and> RedeemPoints q \<le> max 0 p
      \<and> 100 * RedeemRub q \<le> a * RedeemMaxShare (withDefaults s)
      \<and> EarnPoints q = ComputeEarn a r s \<and> QCode q = None
    else RedeemPoints q = 0 \<and> RedeemRub q = 0 \<and> EarnPoints q = 0 \<and> PayableRub q = 0
      \<and> QCode q \<noteq> None"
proof (cases "Allowed q")
  case True
  note m = QuoteRedeem_money_aux [OF assms(1-3) True [unfolded q]]
  from True show ?thesis
    unfolding q by (simp add: QuoteRedeem_sel(4-6,9)) (use m in \<open>simp add: QuoteRedeem_sel(5)\<close>)
next
  case False
  then show ?thesis unfolding q by (auto simp: QuoteRedeem_sel)
qed

theorem QuoteRedeem_money_witness:
  "\<exists>q. q = QuoteRedeem 300 1000 200 DefaultSettings \<and> Allowed q \<and> PayableRub q + RedeemRub q = 1000"
proof -
  have "Allowed (QuoteRedeem 300 1000 200 DefaultSettings)" by code_simp
  with QuoteRedeem_money [of 1000 300 DefaultSettings "QuoteRedeem 300 1000 200 DefaultSettings" 200]
  show ?thesis by (auto simp: amount_ok_def)
qed

text \<open>C40: Settings written as the admin form writes them are read back unchanged.\<close>

theorem ParseSettings_round_trip:
  "settings_storable s \<Longrightarrow> ParseSettings (render_settings s) = s"
  by (rule ParseSettings_render_aux)

theorem ParseSettings_round_trip_witness:
  "ParseSettings (render_settings (DefaultSettings\<lparr>RedeemMin := -7, ExpireDays := Some 365\<rparr>))
     = DefaultSettings\<lparr>RedeemMin := -7, ExpireDays := Some 365\<rparr>"
  by (rule ParseSettings_round_trip)
    (simp add: settings_storable_def DefaultSettings_def in_i64_def)


text \<open>The settings \<open>earn_round\<close> and \<open>earn_base\<close> change no quote: whatever they
  say, the base is the receipt after points and the rounding is down.\<close>

lemma earn_round_and_base_unused:
  "QuoteRedeem p a r (s\<lparr>EarnRound := x, EarnBase := y\<rparr>) = QuoteRedeem p a r s"
proof -
  have w: "withDefaults (s\<lparr>EarnRound := x, EarnBase := y\<rparr>)
      = (withDefaults s)\<lparr>EarnRound := (if x = '''' then ''down'' else x), EarnBase := y\<rparr>"
    by (rule Settings.equality) (simp_all add: withDefaults_def Let_def)
  have "CheckRedeem p a r (s\<lparr>EarnRound := x, EarnBase := y\<rparr>) = CheckRedeem p a r s"
    "ComputeEarn a r (s\<lparr>EarnRound := x, EarnBase := y\<rparr>) = ComputeEarn a r s"
    "MaxRedeemable p a (s\<lparr>EarnRound := x, EarnBase := y\<rparr>) = MaxRedeemable p a s"
    by (simp_all add: CheckRedeem_def ComputeEarn_def MaxRedeemable_def w Let_def
        del: withDefaults_sel)
  moreover have "QuoteRedeem p a r t = QuoteRedeem p a r u"
    if "CheckRedeem p a r t = CheckRedeem p a r u" "ComputeEarn a r t = ComputeEarn a r u"
      "MaxRedeemable p a t = MaxRedeemable p a u" "rate_of t = rate_of u" for t u
    unfolding QuoteRedeem_def Let_def CheckRedeem_withDefaults MaxRedeemable_withDefaults
      ComputeEarn_withDefaults that ..
  moreover have "rate_of (s\<lparr>EarnRound := x, EarnBase := y\<rparr>) = rate_of s" by simp
  ultimately show ?thesis by blast
qed

end
