(* ===== verification/Models.thy ===== *)
theory Models
  imports Rules
begin

text \<open>
  \<^verbatim>\<open>internal/store/models.go\<close> and the tables of \<^verbatim>\<open>migrations/\<close>: one record per row
  type, and the database as the lists of its rows.  A nullable column is an option; the
  0/1 columns \<open>blocked\<close>, \<open>active\<close> and \<open>revoked\<close> are booleans, since the source writes
  nothing else into them.  An instant is a number of nanoseconds since the Unix epoch.
\<close>

section \<open>Time\<close>

datatype gtime = Ns (ns: int)

instantiation gtime :: linorder
begin

definition less_eq_gtime :: "gtime \<Rightarrow> gtime \<Rightarrow> bool" where
  "less_eq_gtime a b \<longleftrightarrow> ns a \<le> ns b"

definition less_gtime :: "gtime \<Rightarrow> gtime \<Rightarrow> bool" where
  "less_gtime a b \<longleftrightarrow> ns a < ns b"

instance
  by standard (auto simp: less_eq_gtime_def less_gtime_def gtime.expand)

end

definition second :: int where
  "second = 1000000000"

definition add_time :: "gtime \<Rightarrow> int \<Rightarrow> gtime" where
  "add_time t d = Ns (ns t + d)"

definition zero_time :: gtime where
  "zero_time = Ns (- 62135596800 * second)"

definition unix :: "gtime \<Rightarrow> int" where
  "unix t = ns t div second"

definition from_unix :: "int \<Rightarrow> gtime" where
  "from_unix s = Ns (s * second)"

lemma less_gtime_Ns [simp]: "Ns a < Ns b \<longleftrightarrow> a < b"
  by (simp add: less_gtime_def)

lemma less_eq_gtime_Ns [simp]: "Ns a \<le> Ns b \<longleftrightarrow> a \<le> b"
  by (simp add: less_eq_gtime_def)

lemma from_unix_le: "from_unix (unix t) \<le> t"
  by (cases t) (simp add: from_unix_def unix_def second_def)

section \<open>Rows\<close>

record StoreRow =
  shop_id :: string
  shop_name :: string
  shop_address :: string
  shop_created :: gtime

record Staff =
  staff_id :: string
  staff_store :: string
  staff_login :: string
  staff_name :: string
  staff_password_hash :: string
  staff_pin_hash :: string
  staff_role :: string
  staff_active :: bool
  staff_created :: gtime
  staff_deleted :: "gtime option"
  staff_store_name :: string

record Customer =
  cust_id :: string
  cust_barcode :: string
  cust_name :: string
  cust_phone :: string
  cust_apple_token :: string
  cust_google_oid :: string
  cust_points :: int
  cust_blocked :: bool
  cust_created :: gtime
  cust_updated :: gtime
  cust_deleted :: "gtime option"

record Receipt =
  rec_id :: string
  rec_store :: string
  rec_staff :: string
  rec_customer :: string
  rec_amount :: int
  rec_redeem :: int
  rec_earn :: int
  rec_status :: string
  rec_points_after :: int
  rec_points_after_refund :: "int option"
  rec_created :: gtime
  rec_refunded :: "gtime option"

record LedgerEntry =
  led_id :: string
  led_customer :: string
  led_receipt :: "string option"
  led_delta :: int
  led_reason :: string
  led_actor :: "string option"
  led_created :: gtime

record AppleDevice =
  dev_id :: string
  dev_customer :: string
  dev_library :: string
  dev_token :: string
  dev_created :: gtime

record WalletJob =
  job_id :: string
  job_customer :: string
  job_kind :: string
  job_attempts :: int
  job_error :: "string option"
  job_created :: gtime
  job_processed :: "gtime option"

record Session =
  ses_jti :: string
  ses_staff :: string
  ses_kind :: string
  ses_expires :: gtime
  ses_revoked :: bool

record Activity =
  act_id :: string
  act_created :: gtime
  act_staff :: string
  act_actor :: string
  act_store :: string
  act_kind :: string
  act_title :: string
  act_detail :: string

abbreviation ReceiptCommitted :: string where
  "ReceiptCommitted \<equiv> ''committed''"

abbreviation ReceiptRefunded :: string where
  "ReceiptRefunded \<equiv> ''refunded''"

abbreviation ReasonEarn :: string where
  "ReasonEarn \<equiv> ''earn''"

abbreviation ReasonRedeem :: string where
  "ReasonRedeem \<equiv> ''redeem''"

abbreviation ReasonRefundEarn :: string where
  "ReasonRefundEarn \<equiv> ''refund_earn''"

abbreviation ReasonRefundRedeem :: string where
  "ReasonRefundRedeem \<equiv> ''refund_redeem''"

abbreviation ReasonAdjust :: string where
  "ReasonAdjust \<equiv> ''adjust''"

section \<open>The database\<close>

record database =
  stores :: "StoreRow list"
  staff :: "Staff list"
  customers :: "Customer list"
  apple_devices :: "AppleDevice list"
  receipts :: "Receipt list"
  ledger :: "LedgerEntry list"
  dedupe :: "string list"
  wallet_jobs :: "WalletJob list"
  settings :: "string \<rightharpoonup> string"
  sessions :: "Session list"
  activity :: "Activity list"

text \<open>The rows the migrations insert.\<close>

definition DefaultStoreID :: string where
  "DefaultStoreID = ''00000000-0000-4000-8000-000000000001''"

definition default_settings_rows :: "string \<rightharpoonup> string" where
  "default_settings_rows =
    [''earn_percent'' \<mapsto> ''5'',
     ''earn_round'' \<mapsto> ''down'',
     ''earn_base'' \<mapsto> ''after_store_discount_before_points'',
     ''earn_min_receipt'' \<mapsto> ''0'',
     ''redeem_rate'' \<mapsto> ''1'',
     ''redeem_min'' \<mapsto> ''100'',
     ''redeem_max_share'' \<mapsto> ''50'',
     ''expire_days'' \<mapsto> '''']"

definition initial_db :: "gtime \<Rightarrow> database" where
  "initial_db t = \<lparr>
     stores = [\<lparr>shop_id = DefaultStoreID, shop_name = ''MERCH'', shop_address = '''',
                shop_created = t\<rparr>],
     staff = [], customers = [], apple_devices = [], receipts = [], ledger = [], dedupe = [],
     wallet_jobs = [], settings = default_settings_rows, sessions = [], activity = []\<rparr>"

lemma default_settings_rows_parse: "ParseSettings default_settings_rows = DefaultSettings"
  by (rule Settings.equality)
    (simp_all add: ParseSettings_def default_settings_rows_def DefaultSettings_def atoi_def
      atoi_go_def trim_space_ascii byte_def is_space_def dec_byte_def dec_val_def in_i64_def)

end
