(* ===== verification/Json.thy ===== *)
theory Json
  imports GoStrings
begin

text \<open>
  JSON documents as values.  Bodies of requests and responses are values of this type; their
  text (\<^verbatim>\<open>encoding/json\<close>) is not modelled.  An object keeps the order of its fields in the
  source.  \<open>JInt\<close> is a number literal without fraction and exponent, \<open>JDec\<close> any other.
\<close>

datatype json =
    JNull
  | JBool bool
  | JInt int
  | JDec string
  | JStr string
  | JArr "json list"
  | JObj "(string \<times> json) list"

definition JOpt :: "('a \<Rightarrow> json) \<Rightarrow> 'a option \<Rightarrow> json" where
  "JOpt f x = (case x of None \<Rightarrow> JNull | Some y \<Rightarrow> f y)"

text \<open>The \<^verbatim>\<open>omitempty\<close> of a string field.\<close>

definition omit_empty :: "string \<Rightarrow> string \<Rightarrow> (string \<times> json) list" where
  "omit_empty k v = (if v = '''' then [] else [(k, JStr v)])"

fun field :: "string \<Rightarrow> json \<Rightarrow> json option" where
  "field k (JObj kvs) = map_of kvs k"
| "field k _ = None"

lemma field_Cons [simp]:
  "field k (JObj ((k', v) # kvs)) = (if k = k' then Some v else field k (JObj kvs))"
  by simp

lemma field_omit_empty:
  "map_of (omit_empty k v @ kvs) k' = (if k' = k \<and> v \<noteq> '''' then Some (JStr v) else map_of kvs k')"
  by (simp add: omit_empty_def)

end
