(* ===== verification/World.thy ===== *)
theory World
  imports Models Json "HOL-Library.State_Monad"
begin

text \<open>
  The process and its surroundings.  \<open>env\<close> is what the program does not control: the
  clock, the random sources, the fate of every SQL statement, the answers of remote
  servers, and the third-party functions (UUID parsing, bcrypt, JWT).  \<open>world\<close> is the
  state a request works on; \<open>tick\<close> counts the questions asked to \<open>env\<close>, so each has its
  own answer; \<open>rate_allows\<close> is the token bucket of \<^verbatim>\<open>x/time/rate\<close> (events a minute, burst, the
  earlier times it was asked, now), and \<open>limits\<close> keeps those times for each limiter and
  address.  A Go function that returns \<^verbatim>\<open>(T, error)\<close> is an action of type \<open>'a go\<close>:
  \<open>Inl\<close> is the error.  Effects made before an error stay, as in Go; only \<open>in_tx\<close> takes
  database writes back.

  A statement's fate is \<open>Okay\<close>, \<open>Fails\<close> (an error, nothing done) or \<open>Lost\<close> (an error is
  reported although a write, or a COMMIT, took effect: the connection broke after it).
\<close>

named_theorems run "what an action does to a world"

section \<open>Surroundings and state\<close>

datatype driver = DriverSQLite | DriverPostgres

datatype fate = Okay | Fails | Lost

record Claims =
  clm_subject :: string
  clm_id :: string
  clm_issued :: gtime
  clm_expires :: gtime
  clm_role :: string
  clm_store :: string
  clm_kind :: string
  clm_login :: string

record HttpCall =
  call_method :: string
  call_url :: string
  call_headers :: "(string \<times> string) list"
  call_body :: json

record env =
  driver_of :: driver
  fate_at :: "nat \<Rightarrow> fate"
  err_text_at :: "nat \<Rightarrow> string"
  now_at :: "nat \<Rightarrow> gtime"
  uuid_at :: "nat \<Rightarrow> string"
  rand_ok_at :: "nat \<Rightarrow> bool"
  rand_at :: "nat \<Rightarrow> nat \<Rightarrow> nat"
  http_at :: "nat \<Rightarrow> HttpCall \<Rightarrow> (nat \<times> string) option"
  uuid_ok :: "string \<Rightarrow> bool"
  upper_tab :: "rune \<Rightarrow> rune"
  lower_tab :: "rune \<Rightarrow> rune"
  bcrypt_hash_at :: "nat \<Rightarrow> string \<Rightarrow> string option"
  bcrypt_match :: "string \<Rightarrow> string \<Rightarrow> bool"
  jwt_sign :: "string \<Rightarrow> Claims \<Rightarrow> string option"
  jwt_parse :: "gtime \<Rightarrow> (string \<Rightarrow> string option) \<Rightarrow> string \<Rightarrow> Claims option"
  rate_allows :: "int \<Rightarrow> nat \<Rightarrow> gtime list \<Rightarrow> gtime \<Rightarrow> bool"

record world =
  env :: env
  tick :: nat
  db :: database
  wake :: bool
  calls :: "HttpCall list"
  limits :: "string \<Rightarrow> string \<Rightarrow> gtime list option"

type_synonym 'a act = "(world, 'a) state"
type_synonym 'a go = "(world, go_error + 'a) state"

section \<open>Control\<close>

abbreviation ret :: "'a \<Rightarrow> 'a act" where
  "ret \<equiv> State_Monad.return"

definition ok :: "'a \<Rightarrow> 'a go" where
  "ok x = ret (Inr x)"

definition fail :: "go_error \<Rightarrow> 'a go" where
  "fail e = ret (Inl e)"

text \<open>\<^verbatim>\<open>x, err := m; if err != nil { return err }; k(x)\<close>.\<close>

definition or_return :: "'a go \<Rightarrow> ('a \<Rightarrow> 'b go) \<Rightarrow> 'b go" where
  "or_return m k = do { r \<leftarrow> m; (case r of Inl e \<Rightarrow> ret (Inl e) | Inr x \<Rightarrow> k x) }"

text \<open>A check that returns an error or nil.\<close>

definition check :: "lerror option \<Rightarrow> 'a go \<Rightarrow> 'a go" where
  "check e k = (case e of Some le \<Rightarrow> fail (Loyalty le) | None \<Rightarrow> k)"

definition the_env :: "env act" where
  "the_env = State (\<lambda>w. (env w, w))"

definition next_tick :: "world \<Rightarrow> world" where
  "next_tick w = w\<lparr>tick := Suc (tick w)\<rparr>"

lemma run_ret [run]: "run_state (ret x) w = (x, w)"
  by simp

lemma run_ok [run]: "run_state (ok x) w = (Inr x, w)"
  by (simp add: ok_def)

lemma run_fail [run]: "run_state (fail e) w = (Inl e, w)"
  by (simp add: fail_def)

lemma run_or_return [run]:
  "run_state (or_return m k) w =
     (case run_state m w of (Inl e, w') \<Rightarrow> (Inl e, w') | (Inr x, w') \<Rightarrow> run_state (k x) w')"
  by (simp add: or_return_def split: prod.splits sum.splits)

lemma run_check [run]:
  "run_state (check e k) w =
     (case e of Some le \<Rightarrow> (Inl (Loyalty le), w) | None \<Rightarrow> run_state k w)"
  by (simp add: check_def fail_def split: option.splits)

lemma run_the_env [run]: "run_state the_env w = (env w, w)"
  by (simp add: the_env_def)

lemma next_tick_sel [simp]:
  "env (next_tick w) = env w" "tick (next_tick w) = Suc (tick w)" "db (next_tick w) = db w"
  "wake (next_tick w) = wake w" "calls (next_tick w) = calls w" "limits (next_tick w) = limits w"
  by (simp_all add: next_tick_def)

section \<open>Clock and random sources\<close>

definition now :: "gtime act" where
  "now = State (\<lambda>w. (now_at (env w) (tick w), next_tick w))"

definition NewID :: "string act" where
  "NewID = State (\<lambda>w. (uuid_at (env w) (tick w), next_tick w))"

text \<open>\<^verbatim>\<open>crypto/rand.Int(rand.Reader, max)\<close>: a number below \<open>max\<close>, or an error.\<close>

definition rand_int :: "nat \<Rightarrow> nat go" where
  "rand_int mx = State (\<lambda>w. ((if rand_ok_at (env w) (tick w)
      then Inr (rand_at (env w) (tick w) 0 mod mx) else Inl (Opaque ''crypto/rand'')), next_tick w))"

text \<open>\<^verbatim>\<open>crypto/rand.Read\<close> into a slice of \<open>n\<close> bytes.\<close>

definition rand_read :: "nat \<Rightarrow> nat list go" where
  "rand_read n = State (\<lambda>w. ((if rand_ok_at (env w) (tick w)
      then Inr (map (\<lambda>i. rand_at (env w) (tick w) i mod 256) [0..<n])
      else Inl (Opaque ''crypto/rand'')), next_tick w))"

definition hex_digit :: "nat \<Rightarrow> char" where
  "hex_digit n = char_of (if n < 10 then 48 + n else 87 + n)"

definition hex_encode :: "nat list \<Rightarrow> string" where
  "hex_encode bs = concat (map (\<lambda>b. [hex_digit (b div 16), hex_digit (b mod 16)]) bs)"

lemma run_now [run]: "run_state now w = (now_at (env w) (tick w), next_tick w)"
  by (simp add: now_def)

lemma run_NewID [run]: "run_state NewID w = (uuid_at (env w) (tick w), next_tick w)"
  by (simp add: NewID_def)

lemma run_rand_read [run]: "run_state (rand_read n) w = ((if rand_ok_at (env w) (tick w)
      then Inr (map (\<lambda>i. rand_at (env w) (tick w) i mod 256) [0..<n])
      else Inl (Opaque ''crypto/rand'')), next_tick w)"
  by (simp add: rand_read_def)

lemma run_rand_int [run]: "run_state (rand_int mx) w = ((if rand_ok_at (env w) (tick w)
      then Inr (rand_at (env w) (tick w) 0 mod mx) else Inl (Opaque ''crypto/rand'')), next_tick w)"
  by (simp add: rand_int_def)

lemma length_hex_encode [simp]: "length (hex_encode bs) = 2 * length bs"
  by (induction bs) (simp_all add: hex_encode_def)

text \<open>A request to another server: it is recorded in \<open>calls\<close>; the answer is a status and the
  bytes of the body, or an error of the transport.\<close>

definition http_do :: "HttpCall \<Rightarrow> (nat \<times> string) go" where
  "http_do c = State (\<lambda>w. ((case http_at (env w) (tick w) c of
       None \<Rightarrow> Inl (Opaque ''http'') | Some r \<Rightarrow> Inr r), (next_tick w)\<lparr>calls := calls w @ [c]\<rparr>))"

lemma run_http_do [run]: "run_state (http_do c) w = ((case http_at (env w) (tick w) c of
       None \<Rightarrow> Inl (Opaque ''http'') | Some r \<Rightarrow> Inr r), (next_tick w)\<lparr>calls := calls w @ [c]\<rparr>)"
  by (simp add: http_do_def)

section \<open>SQL statements\<close>

text \<open>The \<^verbatim>\<open>INTEGER\<close> columns: 32 bits in PostgreSQL, 64 bits in SQLite.  A value out of
  range makes the statement fail.\<close>

definition int_fits :: "driver \<Rightarrow> int \<Rightarrow> bool" where
  "int_fits d x = (case d of DriverSQLite \<Rightarrow> in_i64 x
     | DriverPostgres \<Rightarrow> - 2147483648 \<le> x \<and> x \<le> 2147483647)"

definition db_error :: "env \<Rightarrow> nat \<Rightarrow> go_error" where
  "db_error e t = Opaque (err_text_at e t)"

text \<open>A statement that reads: a list of rows, or one row (\<^verbatim>\<open>QueryRow ... Scan\<close>), where
  no row is \<^verbatim>\<open>sql.ErrNoRows\<close>.\<close>

definition query :: "(database \<Rightarrow> 'a) \<Rightarrow> 'a go" where
  "query f = State (\<lambda>w. (case fate_at (env w) (tick w) of
       Okay \<Rightarrow> (Inr (f (db w)), next_tick w)
     | _ \<Rightarrow> (Inl (db_error (env w) (tick w)), next_tick w)))"

definition query_row :: "(database \<Rightarrow> 'a option) \<Rightarrow> 'a go" where
  "query_row f = or_return (query f) (\<lambda>r. case r of None \<Rightarrow> fail ErrNoRows | Some x \<Rightarrow> ok x)"

text \<open>A statement that writes: \<^const>\<open>None\<close> when a constraint refuses it, else the number
  of rows affected and the new database.\<close>

definition exec :: "(driver \<Rightarrow> database \<Rightarrow> (nat \<times> database) option) \<Rightarrow> nat go" where
  "exec f = State (\<lambda>w.
     let e = Inl (db_error (env w) (tick w)); w1 = next_tick w in
     (case f (driver_of (env w)) (db w) of
        None \<Rightarrow> (e, w1)
      | Some (n, d) \<Rightarrow>
          (case fate_at (env w) (tick w) of
             Okay \<Rightarrow> (Inr n, w1\<lparr>db := d\<rparr>)
           | Fails \<Rightarrow> (e, w1)
           | Lost \<Rightarrow> (e, w1\<lparr>db := d\<rparr>))))"

lemma run_query [run]:
  "run_state (query f) w =
     ((case fate_at (env w) (tick w) of Okay \<Rightarrow> Inr (f (db w))
       | _ \<Rightarrow> Inl (db_error (env w) (tick w))), next_tick w)"
  by (simp add: query_def split: fate.splits)

lemma run_query_row [run]:
  "run_state (query_row f) w =
     ((case fate_at (env w) (tick w) of
         Okay \<Rightarrow> (case f (db w) of None \<Rightarrow> Inl ErrNoRows | Some x \<Rightarrow> Inr x)
       | _ \<Rightarrow> Inl (db_error (env w) (tick w))), next_tick w)"
  by (simp add: query_row_def run split: fate.splits option.splits)

lemma run_exec [run]:
  "run_state (exec f) w =
     (case f (driver_of (env w)) (db w) of
        None \<Rightarrow> (Inl (db_error (env w) (tick w)), next_tick w)
      | Some (n, d) \<Rightarrow>
          (case fate_at (env w) (tick w) of
             Okay \<Rightarrow> (Inr n, (next_tick w)\<lparr>db := d\<rparr>)
           | Fails \<Rightarrow> (Inl (db_error (env w) (tick w)), next_tick w)
           | Lost \<Rightarrow> (Inl (db_error (env w) (tick w)), (next_tick w)\<lparr>db := d\<rparr>)))"
  by (simp add: exec_def Let_def split: option.splits fate.splits)

section \<open>Transactions\<close>

text \<open>\<^verbatim>\<open>Store.InTx\<close>: begin, run the body, roll back on its error, else commit.  A COMMIT
  that fails leaves the database as it was; one that is lost has taken effect.\<close>

definition BeginTx :: "unit go" where
  "BeginTx = query (\<lambda>_. ())"

definition CommitTx :: "database \<Rightarrow> unit go" where
  "CommitTx before = State (\<lambda>w. (case fate_at (env w) (tick w) of
       Okay \<Rightarrow> (Inr (), next_tick w)
     | Fails \<Rightarrow> (Inl (db_error (env w) (tick w)), (next_tick w)\<lparr>db := before\<rparr>)
     | Lost \<Rightarrow> (Inl (db_error (env w) (tick w)), next_tick w)))"

definition Rollback :: "database \<Rightarrow> unit act" where
  "Rollback before = State (\<lambda>w. ((), w\<lparr>db := before\<rparr>))"

definition the_db :: "database act" where
  "the_db = State (\<lambda>w. (db w, w))"

definition InTx :: "'a go \<Rightarrow> 'a go" where
  "InTx fn = or_return BeginTx (\<lambda>_. do {
     before \<leftarrow> the_db;
     r \<leftarrow> fn;
     (case r of
        Inl e \<Rightarrow> do { _ \<leftarrow> Rollback before; ret (Inl e) }
      | Inr x \<Rightarrow> or_return (CommitTx before) (\<lambda>_. ok x)) })"

lemma run_InTx:
  "run_state (InTx fn) w =
     (case fate_at (env w) (tick w) of
        Okay \<Rightarrow>
          (case run_state fn (next_tick w) of
             (Inl e, w') \<Rightarrow> (Inl e, w'\<lparr>db := db w\<rparr>)
           | (Inr x, w') \<Rightarrow>
               (case fate_at (env w') (tick w') of
                  Okay \<Rightarrow> (Inr x, next_tick w')
                | Fails \<Rightarrow> (Inl (db_error (env w') (tick w')), (next_tick w')\<lparr>db := db w\<rparr>)
                | Lost \<Rightarrow> (Inl (db_error (env w') (tick w')), next_tick w')))
      | _ \<Rightarrow> (Inl (db_error (env w) (tick w)), next_tick w))"
  by (simp add: InTx_def BeginTx_def CommitTx_def the_db_def Rollback_def run
      split: prod.splits sum.splits fate.splits)

section \<open>A calm environment\<close>

text \<open>An environment to evaluate the model in: SQLite, every statement succeeds, the clock
  ticks a second at each reading, ids are numbered, every non-empty string passes as a UUID.\<close>

definition calm_env :: env where
  "calm_env = \<lparr>driver_of = DriverSQLite, fate_at = (\<lambda>_. Okay), err_text_at = (\<lambda>_. ''broken''),
     now_at = (\<lambda>n. from_unix (1700000000 + int n)), uuid_at = (\<lambda>n. ''id'' @ itoa (int n)),
     rand_ok_at = (\<lambda>_. True), rand_at = (\<lambda>n i. n + i), http_at = (\<lambda>_ _. None),
     uuid_ok = (\<lambda>s. s \<noteq> ''''), upper_tab = id, lower_tab = id,
     bcrypt_hash_at = (\<lambda>_ s. Some (CHR ''$'' # s)), bcrypt_match = (\<lambda>h s. h = CHR ''$'' # s),
     jwt_sign = (\<lambda>_ _. None), jwt_parse = (\<lambda>_ _ _. None), rate_allows = (\<lambda>_ _ _ _. True)\<rparr>"

definition world_of :: "database \<Rightarrow> world" where
  "world_of d = \<lparr>env = calm_env, tick = 0, db = d, wake = False, calls = [],
     limits = (\<lambda>_ _. None)\<rparr>"

lemma calm_env_sel [simp]:
  "driver_of calm_env = DriverSQLite" "fate_at calm_env n = Okay"
  "now_at calm_env n = from_unix (1700000000 + int n)" "uuid_at calm_env n = ''id'' @ itoa (int n)"
  "rand_ok_at calm_env n" "rand_at calm_env n i = n + i" "uuid_ok calm_env s \<longleftrightarrow> s \<noteq> ''''"
  "upper_tab calm_env = id" "lower_tab calm_env = id" "http_at calm_env n c = None"
  by (simp_all add: calm_env_def)

lemma world_of_sel [simp]:
  "env (world_of d) = calm_env" "tick (world_of d) = 0" "db (world_of d) = d"
  "wake (world_of d) = False" "calls (world_of d) = []"
  by (simp_all add: world_of_def)

lemma run_pair: "fst (run_state m w) = x \<Longrightarrow> run_state m w = (x, snd (run_state m w))"
  by (simp add: prod_eq_iff)

end
