(* ===== verification/StoreCustomers.thy ===== *)
theory StoreCustomers
  imports World
begin

text \<open>
  \<^verbatim>\<open>internal/store/customers.go\<close>: the statements on the tables \<open>customers\<close> and
  \<open>loyalty_settings\<close>, with the constraints of the migrations (primary key, unique
  barcode, unique non-empty phone).  Where the SQL leaves the order of ties open, rows
  keep their insertion order.
\<close>

section \<open>Ordering, LIMIT and LIKE\<close>

definition order_desc :: "('r \<Rightarrow> gtime) \<Rightarrow> 'r list \<Rightarrow> 'r list" where
  "order_desc key rs = sort_key (\<lambda>r. - ns (key r)) rs"

definition order_asc :: "('r \<Rightarrow> gtime) \<Rightarrow> 'r list \<Rightarrow> 'r list" where
  "order_asc key rs = sort_key (\<lambda>r. ns (key r)) rs"

definition limit_rows :: "int \<Rightarrow> 'r list \<Rightarrow> 'r list" where
  "limit_rows n rs = take (nat n) rs"

text \<open>\<^verbatim>\<open>LIKE\<close>: \<open>%\<close> and \<open>_\<close> are wildcards; SQLite folds ASCII case, PostgreSQL compares
  exactly and reads a backslash as an escape.\<close>

definition same_rune :: "driver \<Rightarrow> rune \<Rightarrow> rune \<Rightarrow> bool" where
  "same_rune d a b = (case d of
     DriverSQLite \<Rightarrow> (if a < 128 then rune_lower id a else a) = (if b < 128 then rune_lower id b else b)
   | DriverPostgres \<Rightarrow> a = b)"

fun sql_like :: "driver \<Rightarrow> rune list \<Rightarrow> rune list \<Rightarrow> bool" where
  "sql_like d [] s = (s = [])"
| "sql_like d (p # ps) s =
     (if p = 37 then
        sql_like d ps s \<or> (case s of [] \<Rightarrow> False | x # xs \<Rightarrow> sql_like d (p # ps) xs)
      else if p = 95 then (case s of [] \<Rightarrow> False | x # xs \<Rightarrow> sql_like d ps xs)
      else if p = 92 \<and> d = DriverPostgres then
        (case ps of [] \<Rightarrow> False
         | q # qs \<Rightarrow> (case s of [] \<Rightarrow> False | x # xs \<Rightarrow> q = x \<and> sql_like d qs xs))
      else (case s of [] \<Rightarrow> False | x # xs \<Rightarrow> same_rune d p x \<and> sql_like d ps xs))"

section \<open>customers\<close>

definition queryCustomer :: "(Customer \<Rightarrow> bool) \<Rightarrow> Customer go" where
  "queryCustomer p = query_row (\<lambda>d. find p (customers d))"

definition GetCustomerByID :: "string \<Rightarrow> Customer go" where
  "GetCustomerByID cid = query_row (\<lambda>d. row_by cust_id cid (customers d))"

definition GetCustomerByBarcode :: "string \<Rightarrow> Customer go" where
  "GetCustomerByBarcode code = query_row (\<lambda>d. row_by cust_barcode code (customers d))"

definition GetCustomerByPhone :: "string \<Rightarrow> Customer go" where
  "GetCustomerByPhone phone =
     (if phone = '''' then fail ErrNoRows
      else query_row (\<lambda>d. row_by cust_phone phone (customers d)))"

definition GetCustomerByAppleToken :: "string \<Rightarrow> string \<Rightarrow> Customer go" where
  "GetCustomerByAppleToken token serial =
     queryCustomer (\<lambda>c. cust_apple_token c = token \<and> cust_id c = serial)"

definition insert_customer :: "Customer \<Rightarrow> driver \<Rightarrow> database \<Rightarrow> (nat \<times> database) option" where
  "insert_customer c drv d =
     (if has_row cust_id (cust_id c) (customers d) \<or> has_row cust_barcode (cust_barcode c) (customers d)
         \<or> (cust_phone c \<noteq> '''' \<and> has_row cust_phone (cust_phone c) (customers d))
      then None
      else Some (1, d\<lparr>customers := customers d
             @ [c\<lparr>cust_points := 0, cust_blocked := False, cust_deleted := None\<rparr>]\<rparr>))"

definition CreateCustomer :: "Customer \<Rightarrow> unit go" where
  "CreateCustomer c = or_return (exec (insert_customer c)) (\<lambda>_. ok ())"

definition update_customer ::
  "string \<Rightarrow> (Customer \<Rightarrow> Customer) \<Rightarrow> driver \<Rightarrow> database \<Rightarrow> (nat \<times> database) option" where
  "update_customer cid f drv d =
     Some (length (filter (\<lambda>c. cust_id c = cid) (customers d)),
           d\<lparr>customers := update_by cust_id cid f (customers d)\<rparr>)"

definition SetCustomerBlocked :: "string \<Rightarrow> bool \<Rightarrow> unit go" where
  "SetCustomerBlocked cid blocked = do {
     t \<leftarrow> now;
     or_return (exec (update_customer cid (\<lambda>c. c\<lparr>cust_blocked := blocked, cust_updated := t\<rparr>)))
       (\<lambda>n. if n = 0 then fail ErrNoRows else ok ()) }"

definition SetCustomerDeleted :: "string \<Rightarrow> bool \<Rightarrow> unit go" where
  "SetCustomerDeleted cid deleted = do {
     deletedAt \<leftarrow> (if deleted then do { t \<leftarrow> now; ret (Some t) } else ret None);
     t \<leftarrow> now;
     or_return (exec (update_customer cid (\<lambda>c. c\<lparr>cust_deleted := deletedAt, cust_updated := t\<rparr>)))
       (\<lambda>n. if n = 0 then fail ErrNoRows else ok ()) }"

definition search_where :: "driver \<Rightarrow> string \<Rightarrow> string \<Rightarrow> Customer \<Rightarrow> bool" where
  "search_where drv qstr status c =
     ((if status = ''active'' then cust_deleted c = None \<and> \<not> cust_blocked c
       else if status = ''blocked'' then cust_deleted c = None \<and> cust_blocked c
       else if status = ''deleted'' then cust_deleted c \<noteq> None
       else cust_deleted c = None)
      \<and> (qstr \<noteq> '''' \<longrightarrow>
          (let like = runes (''%'' @ qstr @ ''%'') in
           cust_barcode c = qstr \<or> cust_phone c = qstr \<or> cust_id c = qstr
           \<or> sql_like drv like (runes (cust_name c)) \<or> sql_like drv like (runes (cust_barcode c))
           \<or> sql_like drv like (runes (cust_phone c)))))"

definition SearchCustomers :: "string \<Rightarrow> string \<Rightarrow> int \<Rightarrow> Customer list go" where
  "SearchCustomers qstr0 status limit0 = do {
     let limit = (if limit0 \<le> 0 \<or> limit0 > 200 then 50 else limit0);
     let qstr = trim_space qstr0;
     e \<leftarrow> the_env;
     query (\<lambda>d. limit_rows limit
       (order_desc cust_created (filter (search_where (driver_of e) qstr status) (customers d)))) }"

section \<open>loyalty_settings\<close>

definition upsert_setting :: "string \<Rightarrow> string \<Rightarrow> driver \<Rightarrow> database \<Rightarrow> (nat \<times> database) option" where
  "upsert_setting k v drv d = Some (1, d\<lparr>settings := (settings d)(k \<mapsto> v)\<rparr>)"

text \<open>The map argument of \<^verbatim>\<open>PutSettings\<close> comes as the list of its entries in the order
  the range loop visits them, which Go leaves open.\<close>

fun put_settings_loop :: "(string \<times> string) list \<Rightarrow> unit go" where
  "put_settings_loop [] = ok ()"
| "put_settings_loop ((k, v) # kv) =
     or_return (exec (upsert_setting k v)) (\<lambda>_. put_settings_loop kv)"

definition PutSettings :: "(string \<times> string) list \<Rightarrow> unit go" where
  "PutSettings kv = InTx (put_settings_loop kv)"

definition SettingsMap :: "(string \<rightharpoonup> string) go" where
  "SettingsMap = query settings"

section \<open>Lemmas\<close>

text \<open>Every UPDATE of \<open>customers\<close> keeps the key.\<close>

interpretation blocked_update:
  row_update cust_id "\<lambda>c. c\<lparr>cust_blocked := b, cust_updated := t\<rparr>" for b t
  by unfold_locales simp

interpretation deleted_update:
  row_update cust_id "\<lambda>c. c\<lparr>cust_deleted := x, cust_updated := t\<rparr>" for x t
  by unfold_locales simp

interpretation points_update:
  row_update cust_id "\<lambda>c. c\<lparr>cust_points := p, cust_updated := t\<rparr>" for p t
  by unfold_locales simp

lemma length_limit_rows: "length (limit_rows n rs) \<le> nat n"
  by (simp add: limit_rows_def)

lemma set_limit_order:
  "x \<in> set (limit_rows n (order_desc key rs)) \<Longrightarrow> x \<in> set rs"
  by (auto simp: limit_rows_def order_desc_def dest: in_set_takeD)

lemma sorted_order_desc: "sorted (map (\<lambda>r. - ns (key r)) (limit_rows n (order_desc key rs)))"
  by (simp add: limit_rows_def order_desc_def flip: take_map)

lemma run_GetCustomerByID [run]:
  "run_state (GetCustomerByID cid) w =
     ((case fate_at (env w) (tick w) of
         Okay \<Rightarrow> (case row_by cust_id cid (customers (db w)) of None \<Rightarrow> Inl ErrNoRows | Some x \<Rightarrow> Inr x)
       | _ \<Rightarrow> Inl (db_error (env w) (tick w))), next_tick w)"
  by (simp add: GetCustomerByID_def run)

lemma run_GetCustomerByBarcode [run]:
  "run_state (GetCustomerByBarcode b) w =
     ((case fate_at (env w) (tick w) of
         Okay \<Rightarrow> (case row_by cust_barcode b (customers (db w)) of None \<Rightarrow> Inl ErrNoRows
                   | Some x \<Rightarrow> Inr x)
       | _ \<Rightarrow> Inl (db_error (env w) (tick w))), next_tick w)"
  by (simp add: GetCustomerByBarcode_def run)

lemma run_SettingsMap [run]:
  "run_state SettingsMap w =
     ((case fate_at (env w) (tick w) of Okay \<Rightarrow> Inr (settings (db w))
       | _ \<Rightarrow> Inl (db_error (env w) (tick w))), next_tick w)"
  by (simp add: SettingsMap_def run)

end
