(* ===== verification/StoreStaff.thy ===== *)
theory StoreStaff
  imports StoreCustomers
begin

text \<open>
  \<^verbatim>\<open>internal/store/staff.go\<close>: the statements on \<open>staff\<close>, \<open>stores\<close> and
  \<open>staff_sessions\<close>, with the unique login and the foreign keys of the migrations
  (\<open>staff.store_id\<close> and \<open>receipts.store_id\<close> reference \<open>stores\<close>, \<open>staff_sessions.staff_id\<close>
  references \<open>staff\<close>).
\<close>

definition normalize_login :: "(rune \<Rightarrow> rune) \<Rightarrow> string \<Rightarrow> string" where
  "normalize_login tab login = to_lower tab (trim_space login)"

section \<open>staff\<close>

definition GetStaffByLogin :: "string \<Rightarrow> Staff go" where
  "GetStaffByLogin login = do {
     e \<leftarrow> the_env;
     query_row (\<lambda>d. row_by staff_login (normalize_login (lower_tab e) login) (staff d)) }"

definition GetStaffByID :: "string \<Rightarrow> Staff go" where
  "GetStaffByID sid = query_row (\<lambda>d. row_by staff_id sid (staff d))"

definition with_store_name :: "database \<Rightarrow> Staff \<Rightarrow> Staff" where
  "with_store_name d st = st\<lparr>staff_store_name :=
     (case row_by shop_id (staff_store st) (stores d) of None \<Rightarrow> '''' | Some s \<Rightarrow> shop_name s)\<rparr>"

definition ListStaff :: "Staff list go" where
  "ListStaff = query (\<lambda>d. map (with_store_name d)
     (order_asc staff_created (filter (\<lambda>s. staff_deleted s = None) (staff d))))"

definition soft_delete_staff ::
  "string \<Rightarrow> gtime \<Rightarrow> driver \<Rightarrow> database \<Rightarrow> (nat \<times> database) option" where
  "soft_delete_staff sid t drv d =
     Some (length (filter (\<lambda>s. staff_id s = sid \<and> staff_deleted s = None) (staff d)),
           d\<lparr>staff := update_by staff_id sid
                (\<lambda>s. if staff_deleted s = None then s\<lparr>staff_deleted := Some t\<rparr> else s) (staff d)\<rparr>)"

definition SoftDeleteStaff :: "string \<Rightarrow> gtime \<Rightarrow> unit go" where
  "SoftDeleteStaff sid t =
     or_return (exec (soft_delete_staff sid t)) (\<lambda>n. if n = 0 then fail ErrNoRows else ok ())"

definition insert_staff :: "Staff \<Rightarrow> driver \<Rightarrow> database \<Rightarrow> (nat \<times> database) option" where
  "insert_staff st drv d =
     (if has_row staff_id (staff_id st) (staff d) \<or> has_row staff_login (staff_login st) (staff d)
         \<or> \<not> has_row shop_id (staff_store st) (stores d)
      then None
      else Some (1, d\<lparr>staff := staff d @ [st\<lparr>staff_deleted := None, staff_store_name := ''''\<rparr>]\<rparr>))"

definition CreateStaff :: "Staff \<Rightarrow> unit go" where
  "CreateStaff st0 = do {
     e \<leftarrow> the_env;
     let st = st0\<lparr>staff_login := normalize_login (lower_tab e) (staff_login st0)\<rparr>;
     or_return (exec (insert_staff st)) (\<lambda>_. ok ()) }"

definition set_staff_row :: "Staff \<Rightarrow> Staff \<Rightarrow> Staff" where
  "set_staff_row st s = s\<lparr>staff_store := staff_store st, staff_login := staff_login st,
     staff_name := staff_name st, staff_password_hash := staff_password_hash st,
     staff_pin_hash := staff_pin_hash st, staff_role := staff_role st,
     staff_active := staff_active st\<rparr>"

definition update_staff :: "Staff \<Rightarrow> driver \<Rightarrow> database \<Rightarrow> (nat \<times> database) option" where
  "update_staff st drv d =
     (if \<not> has_row staff_id (staff_id st) (staff d) then Some (0, d)
      else if list_ex (\<lambda>s. staff_id s \<noteq> staff_id st \<and> staff_login s = staff_login st) (staff d)
         \<or> \<not> has_row shop_id (staff_store st) (stores d)
      then None
      else Some (1, d\<lparr>staff := update_by staff_id (staff_id st) (set_staff_row st) (staff d)\<rparr>))"

definition UpdateStaff :: "Staff \<Rightarrow> unit go" where
  "UpdateStaff st0 = do {
     e \<leftarrow> the_env;
     let st = st0\<lparr>staff_login := normalize_login (lower_tab e) (staff_login st0)\<rparr>;
     or_return (exec (update_staff st)) (\<lambda>n. if n = 0 then fail ErrNoRows else ok ()) }"

section \<open>stores\<close>

definition ListStores :: "StoreRow list go" where
  "ListStores = query (\<lambda>d. sort_key shop_name (stores d))"

definition GetStore :: "string \<Rightarrow> StoreRow go" where
  "GetStore sid = query_row (\<lambda>d. row_by shop_id sid (stores d))"

definition insert_store :: "StoreRow \<Rightarrow> driver \<Rightarrow> database \<Rightarrow> (nat \<times> database) option" where
  "insert_store r drv d =
     (if has_row shop_id (shop_id r) (stores d) then None
      else Some (1, d\<lparr>stores := stores d @ [r]\<rparr>))"

definition CreateStore :: "StoreRow \<Rightarrow> unit go" where
  "CreateStore r = or_return (exec (insert_store r)) (\<lambda>_. ok ())"

definition update_store :: "StoreRow \<Rightarrow> driver \<Rightarrow> database \<Rightarrow> (nat \<times> database) option" where
  "update_store r drv d =
     Some (length (filter (\<lambda>s. shop_id s = shop_id r) (stores d)),
           d\<lparr>stores := update_by shop_id (shop_id r)
                (\<lambda>s. s\<lparr>shop_name := shop_name r, shop_address := shop_address r\<rparr>) (stores d)\<rparr>)"

definition UpdateStore :: "StoreRow \<Rightarrow> unit go" where
  "UpdateStore r =
     or_return (exec (update_store r)) (\<lambda>n. if n = 0 then fail ErrNoRows else ok ())"

text \<open>A store that staff or receipts reference cannot be deleted: the foreign keys
  have no \<^verbatim>\<open>ON DELETE\<close> action.\<close>

definition delete_store :: "string \<Rightarrow> driver \<Rightarrow> database \<Rightarrow> (nat \<times> database) option" where
  "delete_store sid drv d =
     (if has_row shop_id sid (stores d)
         \<and> (has_row staff_store sid (staff d) \<or> has_row rec_store sid (receipts d))
      then None
      else Some (length (filter (\<lambda>s. shop_id s = sid) (stores d)),
                 d\<lparr>stores := filter (\<lambda>s. shop_id s \<noteq> sid) (stores d)\<rparr>))"

definition DeleteStore :: "string \<Rightarrow> unit go" where
  "DeleteStore sid =
     or_return (exec (delete_store sid)) (\<lambda>n. if n = 0 then fail ErrNoRows else ok ())"

section \<open>staff_sessions\<close>

definition insert_session :: "Session \<Rightarrow> driver \<Rightarrow> database \<Rightarrow> (nat \<times> database) option" where
  "insert_session s drv d =
     (if has_row ses_jti (ses_jti s) (sessions d) \<or> \<not> has_row staff_id (ses_staff s) (staff d)
      then None
      else Some (1, d\<lparr>sessions := sessions d @ [s]\<rparr>))"

definition CreateSession :: "string \<Rightarrow> string \<Rightarrow> string \<Rightarrow> gtime \<Rightarrow> unit go" where
  "CreateSession jti staffID kind expiry =
     or_return (exec (insert_session \<lparr>ses_jti = jti, ses_staff = staffID, ses_kind = kind,
       ses_expires = expiry, ses_revoked = False\<rparr>)) (\<lambda>_. ok ())"

definition revoke_where ::
  "(Session \<Rightarrow> bool) \<Rightarrow> driver \<Rightarrow> database \<Rightarrow> (nat \<times> database) option" where
  "revoke_where p drv d =
     Some (length (filter p (sessions d)),
           d\<lparr>sessions := map (\<lambda>s. if p s then s\<lparr>ses_revoked := True\<rparr> else s) (sessions d)\<rparr>)"

definition RevokeSession :: "string \<Rightarrow> unit go" where
  "RevokeSession jti = or_return (exec (revoke_where (\<lambda>s. ses_jti s = jti))) (\<lambda>_. ok ())"

definition RevokeStaffSessions :: "string \<Rightarrow> unit go" where
  "RevokeStaffSessions staffID =
     or_return (exec (revoke_where (\<lambda>s. ses_staff s = staffID))) (\<lambda>_. ok ())"

definition SessionValid :: "string \<Rightarrow> bool go" where
  "SessionValid jti = do {
     r \<leftarrow> query_row (\<lambda>d. row_by ses_jti jti (sessions d));
     (case r of
        Inl e \<Rightarrow> if e = ErrNoRows then ok False else fail e
      | Inr s \<Rightarrow> if ses_revoked s then ok False
                else do { t \<leftarrow> now; ok (t < ses_expires s) }) }"

section \<open>Lemmas\<close>

interpretation staff_update: row_update staff_id "set_staff_row st" for st
  by unfold_locales (simp add: set_staff_row_def)

interpretation staff_soft_delete:
  row_update staff_id "\<lambda>s. if staff_deleted s = None then s\<lparr>staff_deleted := Some t\<rparr> else s" for t
  by unfold_locales simp

interpretation store_update:
  row_update shop_id "\<lambda>s. s\<lparr>shop_name := n, shop_address := a\<rparr>" for n a
  by unfold_locales simp

interpretation revoke_update: row_update ses_jti "\<lambda>s. s\<lparr>ses_revoked := True\<rparr>"
  by unfold_locales simp

lemma run_GetStore [run]:
  "run_state (GetStore sid) w =
     ((case fate_at (env w) (tick w) of
         Okay \<Rightarrow> (case row_by shop_id sid (stores (db w)) of None \<Rightarrow> Inl ErrNoRows | Some x \<Rightarrow> Inr x)
       | _ \<Rightarrow> Inl (db_error (env w) (tick w))), next_tick w)"
  by (simp add: GetStore_def run)

lemma run_GetStaffByID [run]:
  "run_state (GetStaffByID sid) w =
     ((case fate_at (env w) (tick w) of
         Okay \<Rightarrow> (case row_by staff_id sid (staff (db w)) of None \<Rightarrow> Inl ErrNoRows | Some x \<Rightarrow> Inr x)
       | _ \<Rightarrow> Inl (db_error (env w) (tick w))), next_tick w)"
  by (simp add: GetStaffByID_def run)

lemma db_error_not_NoRows [simp]: "db_error e t \<noteq> ErrNoRows" "ErrNoRows \<noteq> db_error e t"
  by (simp_all add: db_error_def)

lemma run_SessionValid [run]:
  "run_state (SessionValid jti) w =
     (case fate_at (env w) (tick w) of
        Okay \<Rightarrow>
          (case row_by ses_jti jti (sessions (db w)) of
             None \<Rightarrow> (Inr False, next_tick w)
           | Some s \<Rightarrow> if ses_revoked s then (Inr False, next_tick w)
               else (Inr (now_at (env w) (Suc (tick w)) < ses_expires s), next_tick (next_tick w)))
      | _ \<Rightarrow> (Inl (db_error (env w) (tick w)), next_tick w))"
  by (simp add: SessionValid_def run split: fate.splits option.splits)

end
