(* ===== verification/StoreReceipts.thy ===== *)
theory StoreReceipts
  imports StoreStaff
begin

text \<open>
  \<^verbatim>\<open>internal/store/tx.go\<close> and \<^verbatim>\<open>receipts.go\<close>: the statements of the money
  transactions on \<open>customers\<close>, \<open>receipts\<close> and \<open>ledger\<close>, the Moscow calendar day and the
  cashier's shift list.
\<close>

section \<open>Statements of a transaction\<close>

definition lockCustomer :: "string \<Rightarrow> string go" where
  "lockCustomer cid = query_row (\<lambda>d. map_option cust_id (row_by cust_id cid (customers d)))"

definition LockCustomer :: "string \<Rightarrow> Customer go" where
  "LockCustomer cid = or_return (lockCustomer cid)
     (\<lambda>_. query_row (\<lambda>d. row_by cust_id cid (customers d)))"

definition GetReceipt :: "string \<Rightarrow> Receipt go" where
  "GetReceipt rid = query_row (\<lambda>d. row_by rec_id rid (receipts d))"

definition insert_receipt :: "Receipt \<Rightarrow> driver \<Rightarrow> database \<Rightarrow> (nat \<times> database) option" where
  "insert_receipt r drv d =
     (if has_row rec_id (rec_id r) (receipts d)
         \<or> \<not> has_row shop_id (rec_store r) (stores d)
         \<or> \<not> has_row staff_id (rec_staff r) (staff d)
         \<or> \<not> has_row cust_id (rec_customer r) (customers d)
         \<or> \<not> int_fits drv (rec_amount r) \<or> \<not> int_fits drv (rec_redeem r)
         \<or> \<not> int_fits drv (rec_earn r) \<or> \<not> int_fits drv (rec_points_after r)
      then None
      else Some (1, d\<lparr>receipts := receipts d
             @ [r\<lparr>rec_points_after_refund := None, rec_refunded := None\<rparr>]\<rparr>))"

definition InsertReceipt :: "Receipt \<Rightarrow> unit go" where
  "InsertReceipt r = or_return (exec (insert_receipt r)) (\<lambda>_. ok ())"

definition mark_refunded ::
  "string \<Rightarrow> int \<Rightarrow> gtime \<Rightarrow> driver \<Rightarrow> database \<Rightarrow> (nat \<times> database) option" where
  "mark_refunded rid p t drv d =
     (if has_row rec_id rid (receipts d) \<and> \<not> int_fits drv p then None
      else Some (length (filter (\<lambda>r. rec_id r = rid) (receipts d)),
        d\<lparr>receipts := update_by rec_id rid
             (\<lambda>r. r\<lparr>rec_status := ReceiptRefunded, rec_points_after_refund := Some p,
                    rec_refunded := Some t\<rparr>) (receipts d)\<rparr>))"

definition MarkRefunded :: "string \<Rightarrow> int \<Rightarrow> gtime \<Rightarrow> unit go" where
  "MarkRefunded rid pointsAfter t = or_return (exec (mark_refunded rid pointsAfter t)) (\<lambda>_. ok ())"

definition set_points ::
  "string \<Rightarrow> int \<Rightarrow> gtime \<Rightarrow> driver \<Rightarrow> database \<Rightarrow> (nat \<times> database) option" where
  "set_points cid p t drv d =
     (if has_row cust_id cid (customers d) \<and> \<not> int_fits drv p then None
      else update_customer cid (\<lambda>c. c\<lparr>cust_points := p, cust_updated := t\<rparr>) drv d)"

definition SetPoints :: "string \<Rightarrow> int \<Rightarrow> gtime \<Rightarrow> unit go" where
  "SetPoints cid points t = or_return (exec (set_points cid points t)) (\<lambda>_. ok ())"

definition insert_ledger :: "LedgerEntry \<Rightarrow> driver \<Rightarrow> database \<Rightarrow> (nat \<times> database) option" where
  "insert_ledger l drv d =
     (if has_row led_id (led_id l) (ledger d)
         \<or> \<not> has_row cust_id (led_customer l) (customers d)
         \<or> (case led_receipt l of None \<Rightarrow> False | Some rid \<Rightarrow> \<not> has_row rec_id rid (receipts d))
         \<or> \<not> int_fits drv (led_delta l)
      then None
      else Some (1, d\<lparr>ledger := ledger d @ [l]\<rparr>))"

definition InsertLedger ::
  "string \<Rightarrow> string \<Rightarrow> int \<Rightarrow> string \<Rightarrow> string \<Rightarrow> gtime \<Rightarrow> unit go" where
  "InsertLedger customerID receiptID delta reason actorID t = do {
     let rc = (if receiptID = '''' then None else Some receiptID);
     let actor = (if actorID = '''' then None else Some actorID);
     lid \<leftarrow> NewID;
     or_return (exec (insert_ledger \<lparr>led_id = lid, led_customer = customerID, led_receipt = rc,
       led_delta = delta, led_reason = reason, led_actor = actor, led_created = t\<rparr>)) (\<lambda>_. ok ()) }"

section \<open>The store's calendar day and the shift list\<close>

definition moscow_offset :: int where
  "moscow_offset = 3 * 60 * 60 * second"

definition day :: int where
  "day = 24 * 60 * 60 * second"

text \<open>\<^verbatim>\<open>time.Date(y, m, d, 0, 0, 0, 0, moscow)\<close> of the calendar date of \<open>now\<close> at a
  fixed offset: the local time of day is cut off.\<close>

definition DayBounds :: "gtime \<Rightarrow> gtime \<times> gtime" where
  "DayBounds t =
     (let local = ns t + moscow_offset;
          start = Ns (local - local mod day - moscow_offset)
      in (start, add_time start day))"

record ShiftReceipt =
  shr_id :: string
  shr_created :: gtime
  shr_barcode :: string
  shr_name :: string
  shr_amount :: int
  shr_redeem :: int
  shr_earn :: int
  shr_status :: string
  shr_points_after :: int

definition shift_row :: "Receipt \<Rightarrow> Customer \<Rightarrow> ShiftReceipt" where
  "shift_row r c = \<lparr>shr_id = rec_id r, shr_created = rec_created r, shr_barcode = cust_barcode c,
     shr_name = cust_name c, shr_amount = rec_amount r, shr_redeem = rec_redeem r,
     shr_earn = rec_earn r, shr_status = rec_status r,
     shr_points_after =
       (if rec_status r = ReceiptRefunded
        then (case rec_points_after_refund r of Some p \<Rightarrow> p | None \<Rightarrow> rec_points_after r)
        else rec_points_after r)\<rparr>"

definition shift_where :: "string \<Rightarrow> gtime \<Rightarrow> gtime \<Rightarrow> Receipt \<Rightarrow> bool" where
  "shift_where storeID t0 t1 r \<longleftrightarrow>
     rec_store r = storeID \<and> t0 \<le> rec_created r \<and> rec_created r < t1
     \<and> (rec_status r = ReceiptCommitted \<or> rec_status r = ReceiptRefunded)"

text \<open>\<^verbatim>\<open>ORDER BY created_at DESC, id DESC\<close>: sort by id descending, then stably by time
  descending.\<close>

definition order_shift :: "Receipt list \<Rightarrow> Receipt list" where
  "order_shift rs = order_desc rec_created (rev (sort_key rec_id rs))"

definition ListStoreReceipts :: "string \<Rightarrow> gtime \<Rightarrow> gtime \<Rightarrow> ShiftReceipt list go" where
  "ListStoreReceipts storeID t0 t1 = query (\<lambda>d.
     List.map_filter (\<lambda>r. map_option (shift_row r) (row_by cust_id (rec_customer r) (customers d)))
       (order_shift (filter (shift_where storeID t0 t1) (receipts d))))"

section \<open>Lemmas\<close>

interpretation refund_update:
  row_update rec_id "\<lambda>r. r\<lparr>rec_status := ReceiptRefunded, rec_points_after_refund := Some p,
                    rec_refunded := Some t\<rparr>" for p t
  by unfold_locales simp

lemma run_LockCustomer [run]:
  "run_state (LockCustomer cid) w =
     (case fate_at (env w) (tick w) of
        Okay \<Rightarrow>
          (case row_by cust_id cid (customers (db w)) of
             None \<Rightarrow> (Inl ErrNoRows, next_tick w)
           | Some c \<Rightarrow>
               ((case fate_at (env w) (Suc (tick w)) of Okay \<Rightarrow> Inr c
                 | _ \<Rightarrow> Inl (db_error (env w) (Suc (tick w)))), next_tick (next_tick w)))
      | _ \<Rightarrow> (Inl (db_error (env w) (tick w)), next_tick w))"
  by (simp add: LockCustomer_def lockCustomer_def run split: fate.splits option.splits)

lemma run_GetReceipt [run]:
  "run_state (GetReceipt rid) w =
     ((case fate_at (env w) (tick w) of
         Okay \<Rightarrow> (case row_by rec_id rid (receipts (db w)) of None \<Rightarrow> Inl ErrNoRows | Some x \<Rightarrow> Inr x)
       | _ \<Rightarrow> Inl (db_error (env w) (tick w))), next_tick w)"
  by (simp add: GetReceipt_def run)

text \<open>A successful write, seen from its result.\<close>

lemma run_exec_Inr:
  "run_state (exec f) w = (Inr n, w') \<longleftrightarrow>
     (\<exists>d. f (driver_of (env w)) (db w) = Some (n, d) \<and> fate_at (env w) (tick w) = Okay
        \<and> w' = (next_tick w)\<lparr>db := d\<rparr>)"
  by (auto simp: run split: option.splits fate.splits)

lemma or_return_Inr:
  "run_state (or_return m k) w = (Inr y, w') \<longleftrightarrow>
     (\<exists>x w1. run_state m w = (Inr x, w1) \<and> run_state (k x) w1 = (Inr y, w'))"
  by (auto simp: run_or_return split: prod.splits sum.splits)

lemma InsertReceipt_Inr:
  "run_state (InsertReceipt r) w = (Inr u, w') \<longleftrightarrow>
     (\<exists>n d. insert_receipt r (driver_of (env w)) (db w) = Some (n, d)
        \<and> fate_at (env w) (tick w) = Okay \<and> w' = (next_tick w)\<lparr>db := d\<rparr>)"
  by (auto simp: InsertReceipt_def or_return_Inr run_exec_Inr run_ok)

lemma InsertLedger_Inr:
  "run_state (InsertLedger c r dl rs a t) w = (Inr u, w') \<longleftrightarrow>
     (\<exists>n d. insert_ledger \<lparr>led_id = uuid_at (env w) (tick w), led_customer = c,
          led_receipt = (if r = '''' then None else Some r), led_delta = dl, led_reason = rs,
          led_actor = (if a = '''' then None else Some a), led_created = t\<rparr>
          (driver_of (env w)) (db w) = Some (n, d)
        \<and> fate_at (env w) (Suc (tick w)) = Okay \<and> w' = (next_tick (next_tick w))\<lparr>db := d\<rparr>)"
  by (auto simp: InsertLedger_def or_return_Inr run_exec_Inr run_ok run_NewID)

lemma SetPoints_Inr:
  "run_state (SetPoints c p t) w = (Inr u, w') \<longleftrightarrow>
     (\<exists>n d. set_points c p t (driver_of (env w)) (db w) = Some (n, d)
        \<and> fate_at (env w) (tick w) = Okay \<and> w' = (next_tick w)\<lparr>db := d\<rparr>)"
  by (auto simp: SetPoints_def or_return_Inr run_exec_Inr run_ok)

lemma MarkRefunded_Inr:
  "run_state (MarkRefunded r p t) w = (Inr u, w') \<longleftrightarrow>
     (\<exists>n d. mark_refunded r p t (driver_of (env w)) (db w) = Some (n, d)
        \<and> fate_at (env w) (tick w) = Okay \<and> w' = (next_tick w)\<lparr>db := d\<rparr>)"
  by (auto simp: MarkRefunded_def or_return_Inr run_exec_Inr run_ok)

lemmas tx_success = InsertReceipt_Inr InsertLedger_Inr SetPoints_Inr MarkRefunded_Inr

lemma DayBounds_aux:
  "fst (DayBounds t) \<le> t" "t < snd (DayBounds t)"
  "ns (snd (DayBounds t)) = ns (fst (DayBounds t)) + day"
  "(ns (fst (DayBounds t)) + moscow_offset) mod day = 0"
proof -
  let ?l = "ns t + moscow_offset"
  have d: "0 < day" by (simp add: day_def second_def)
  have m: "0 \<le> ?l mod day" "?l mod day < day" using d by simp_all
  then show "fst (DayBounds t) \<le> t" "t < snd (DayBounds t)"
    by (simp_all add: DayBounds_def Let_def add_time_def less_eq_gtime_def less_gtime_def)
  show "ns (snd (DayBounds t)) = ns (fst (DayBounds t)) + day"
    by (simp add: DayBounds_def Let_def add_time_def)
  have "(?l - ?l mod day) mod day = 0" by (simp add: mod_diff_right_eq)
  moreover have "ns (fst (DayBounds t)) + moscow_offset = ?l - ?l mod day"
    by (simp add: DayBounds_def Let_def)
  ultimately show "(ns (fst (DayBounds t)) + moscow_offset) mod day = 0"
    by (simp only:)
qed

end
