(* ===== verification/StoreJobs.thy ===== *)
theory StoreJobs
  imports StoreReceipts
begin

text \<open>
  \<^verbatim>\<open>internal/store/apple_jobs.go\<close> and \<^verbatim>\<open>activity.go\<close>: the device registrations of
  PassKit, the outbox of wallet jobs and the activity log.
\<close>

section \<open>apple_devices\<close>

definition upsert_device :: "AppleDevice \<Rightarrow> driver \<Rightarrow> database \<Rightarrow> (nat \<times> database) option" where
  "upsert_device dv drv d =
     (if has_row (\<lambda>x. (dev_library x, dev_customer x)) (dev_library dv, dev_customer dv) (apple_devices d)
      then Some (1, d\<lparr>apple_devices :=
             update_by (\<lambda>x. (dev_library x, dev_customer x)) (dev_library dv, dev_customer dv)
               (\<lambda>x. x\<lparr>dev_token := dev_token dv\<rparr>) (apple_devices d)\<rparr>)
      else if has_row dev_id (dev_id dv) (apple_devices d)
         \<or> \<not> has_row cust_id (dev_customer dv) (customers d)
      then None
      else Some (1, d\<lparr>apple_devices := apple_devices d @ [dv]\<rparr>))"

definition RegisterAppleDevice :: "string \<Rightarrow> string \<Rightarrow> string \<Rightarrow> unit go" where
  "RegisterAppleDevice customerID deviceLibraryID pushToken = do {
     did \<leftarrow> NewID;
     t \<leftarrow> now;
     or_return (exec (upsert_device \<lparr>dev_id = did, dev_customer = customerID,
       dev_library = deviceLibraryID, dev_token = pushToken, dev_created = t\<rparr>)) (\<lambda>_. ok ()) }"

definition delete_device ::
  "string \<Rightarrow> string \<Rightarrow> driver \<Rightarrow> database \<Rightarrow> (nat \<times> database) option" where
  "delete_device customerID deviceLibraryID drv d =
     Some (length (filter (\<lambda>x. dev_customer x = customerID \<and> dev_library x = deviceLibraryID)
             (apple_devices d)),
           d\<lparr>apple_devices := filter
              (\<lambda>x. \<not> (dev_customer x = customerID \<and> dev_library x = deviceLibraryID))
              (apple_devices d)\<rparr>)"

definition UnregisterAppleDevice :: "string \<Rightarrow> string \<Rightarrow> unit go" where
  "UnregisterAppleDevice customerID deviceLibraryID =
     or_return (exec (delete_device customerID deviceLibraryID)) (\<lambda>_. ok ())"

definition ListAppleDevices :: "string \<Rightarrow> AppleDevice list go" where
  "ListAppleDevices customerID =
     query (\<lambda>d. filter (\<lambda>x. dev_customer x = customerID) (apple_devices d))"

text \<open>The rows of \<^verbatim>\<open>ListUpdatedSerials\<close> and its fold: the serials in the order of their
  update, and the latest update (the zero time for no row).\<close>

definition updated_rows :: "string \<Rightarrow> gtime \<Rightarrow> database \<Rightarrow> Customer list" where
  "updated_rows lib since d =
     order_asc cust_updated
       (List.map_filter
          (\<lambda>x. case row_by cust_id (dev_customer x) (customers d) of
                 None \<Rightarrow> None
               | Some c \<Rightarrow> if since \<noteq> zero_time \<and> \<not> since < cust_updated c then None else Some c)
          (filter (\<lambda>x. dev_library x = lib) (apple_devices d)))"

definition ListUpdatedSerials :: "string \<Rightarrow> gtime \<Rightarrow> (string list \<times> gtime) go" where
  "ListUpdatedSerials deviceLibraryID since = query (\<lambda>d.
     let rows = updated_rows deviceLibraryID since d
     in (map cust_id rows, fold (\<lambda>c last. if last < cust_updated c then cust_updated c else last)
           rows zero_time))"

section \<open>wallet_jobs\<close>

definition pending :: "WalletJob \<Rightarrow> bool" where
  "pending j \<longleftrightarrow> job_processed j = None"

definition pending_for :: "string \<Rightarrow> WalletJob list \<Rightarrow> WalletJob list" where
  "pending_for cid js = filter (\<lambda>j. job_customer j = cid \<and> pending j) js"

definition insert_job :: "WalletJob \<Rightarrow> driver \<Rightarrow> database \<Rightarrow> (nat \<times> database) option" where
  "insert_job j drv d =
     (if has_row job_id (job_id j) (wallet_jobs d) then None
      else Some (1, d\<lparr>wallet_jobs := wallet_jobs d @ [j]\<rparr>))"

definition EnqueueWalletJob :: "string \<Rightarrow> unit go" where
  "EnqueueWalletJob customerID =
     or_return (query (\<lambda>d. length (pending_for customerID (wallet_jobs d))))
       (\<lambda>n. if n > 0 then ok ()
            else do {
              jid \<leftarrow> NewID;
              t \<leftarrow> now;
              or_return (exec (insert_job \<lparr>job_id = jid, job_customer = customerID,
                job_kind = ''wallet_update'', job_attempts = 0, job_error = None,
                job_created = t, job_processed = None\<rparr>)) (\<lambda>_. ok ()) })"

definition ClaimWalletJobs :: "int \<Rightarrow> WalletJob list go" where
  "ClaimWalletJobs limit0 =
     (let limit = (if limit0 \<le> 0 then 20 else limit0) in
      query (\<lambda>d. limit_rows limit (order_asc job_created (filter pending (wallet_jobs d)))))"

definition complete_jobs :: "string \<Rightarrow> gtime \<Rightarrow> driver \<Rightarrow> database \<Rightarrow> (nat \<times> database) option" where
  "complete_jobs customerID t drv d =
     Some (length (pending_for customerID (wallet_jobs d)),
           d\<lparr>wallet_jobs := map (\<lambda>j. if job_customer j = customerID \<and> pending j
                then j\<lparr>job_processed := Some t\<rparr> else j) (wallet_jobs d)\<rparr>)"

definition CompleteWalletJobsForCustomer :: "string \<Rightarrow> unit go" where
  "CompleteWalletJobsForCustomer customerID = do {
     t \<leftarrow> now;
     or_return (exec (complete_jobs customerID t)) (\<lambda>_. ok ()) }"

definition fail_job :: "string \<Rightarrow> string \<Rightarrow> driver \<Rightarrow> database \<Rightarrow> (nat \<times> database) option" where
  "fail_job jid lastErr drv d =
     (if list_ex (\<lambda>j. job_id j = jid \<and> \<not> int_fits drv (job_attempts j + 1)) (wallet_jobs d)
      then None
      else Some (length (filter (\<lambda>j. job_id j = jid) (wallet_jobs d)),
        d\<lparr>wallet_jobs := update_by job_id jid
             (\<lambda>j. j\<lparr>job_attempts := job_attempts j + 1, job_error := Some lastErr\<rparr>)
             (wallet_jobs d)\<rparr>))"

definition FailWalletJob :: "string \<Rightarrow> string \<Rightarrow> unit go" where
  "FailWalletJob jid lastErr = or_return (exec (fail_job jid lastErr)) (\<lambda>_. ok ())"

definition touch_dedupe :: "string \<Rightarrow> driver \<Rightarrow> database \<Rightarrow> (nat \<times> database) option" where
  "touch_dedupe key drv d =
     (if key \<in> set (dedupe d) then Some (0, d) else Some (1, d\<lparr>dedupe := dedupe d @ [key]\<rparr>))"

definition TouchDedupe :: "string \<Rightarrow> unit go" where
  "TouchDedupe key = do { _ \<leftarrow> now; or_return (exec (touch_dedupe key)) (\<lambda>_. ok ()) }"

definition IsNoRows :: "go_error \<Rightarrow> bool" where
  "IsNoRows e \<longleftrightarrow> e = ErrNoRows"

section \<open>activity\<close>

definition insert_activity :: "Activity \<Rightarrow> driver \<Rightarrow> database \<Rightarrow> (nat \<times> database) option" where
  "insert_activity a drv d =
     (if has_row act_id (act_id a) (activity d) then None
      else Some (1, d\<lparr>activity := activity d @ [a]\<rparr>))"

definition InsertActivity :: "Activity \<Rightarrow> unit go" where
  "InsertActivity a = or_return (exec (insert_activity a)) (\<lambda>_. ok ())"

definition activity_visible :: "bool \<Rightarrow> string \<Rightarrow> string \<Rightarrow> Activity \<Rightarrow> bool" where
  "activity_visible all staffID storeID a \<longleftrightarrow>
     all \<or> act_staff a = staffID \<or> act_store a = storeID \<or> act_store a = ''''"

definition ListActivity :: "bool \<Rightarrow> string \<Rightarrow> string \<Rightarrow> int \<Rightarrow> Activity list go" where
  "ListActivity all staffID storeID limit0 =
     (let limit = (if limit0 \<le> 0 \<or> limit0 > 100 then 80 else limit0) in
      query (\<lambda>d. limit_rows limit
        (order_desc act_created (filter (activity_visible all staffID storeID) (activity d)))))"

section \<open>Lemmas\<close>

interpretation device_update:
  row_update "\<lambda>x. (dev_library x, dev_customer x)" "\<lambda>x. x\<lparr>dev_token := tok\<rparr>" for tok
  by unfold_locales simp

interpretation job_fail_update:
  row_update job_id "\<lambda>j. j\<lparr>job_attempts := job_attempts j + 1, job_error := Some t\<rparr>" for t
  by unfold_locales simp

lemma pending_for_after_complete:
  "pending_for c (map (\<lambda>j. if job_customer j = c \<and> pending j then j\<lparr>job_processed := Some t\<rparr> else j) js)
     = []"
  by (induction js) (auto simp: pending_for_def pending_def)

lemma pending_for_complete_other:
  "c' \<noteq> c \<Longrightarrow>
   pending_for c' (map (\<lambda>j. if job_customer j = c \<and> pending j then j\<lparr>job_processed := Some t\<rparr> else j) js)
     = pending_for c' js"
  by (induction js) (auto simp: pending_for_def pending_def)

end
