(* ===== verification/Invariants.thy ===== *)
theory Invariants
  imports StoreJobs
begin

text \<open>
  What holds of the database between any two requests.  \<open>wf_db\<close> has three parts: the
  unique keys, the foreign keys, and the balances (a customer's points are the sum of the
  ledger, modulo the width of Go's \<^verbatim>\<open>int\<close>).  \<open>keeps I m\<close> says that the action \<open>m\<close> leads
  from any database with \<open>I\<close> to one with \<open>I\<close>, whatever the environment answers and
  whether or not \<open>m\<close> returns an error.  The rules in \<open>keep\<close> compose it.
\<close>

named_theorems keep "rules that compose invariant preservation"
named_theorems stmt "statements that preserve well-formedness"

section \<open>Preservation\<close>

definition keeps :: "(database \<Rightarrow> bool) \<Rightarrow> 'a act \<Rightarrow> bool" where
  "keeps I m \<longleftrightarrow> (\<forall>w. I (db w) \<longrightarrow> I (db (snd (run_state m w))))"

definition stmt_keeps ::
  "(database \<Rightarrow> bool) \<Rightarrow> (driver \<Rightarrow> database \<Rightarrow> (nat \<times> database) option) \<Rightarrow> bool" where
  "stmt_keeps I f \<longleftrightarrow> (\<forall>drv d n d'. f drv d = Some (n, d') \<longrightarrow> I d \<longrightarrow> I d')"

lemma stmt_keepsI: "(\<And>drv d n d'. f drv d = Some (n, d') \<Longrightarrow> I d \<Longrightarrow> I d') \<Longrightarrow> stmt_keeps I f"
  by (auto simp: stmt_keeps_def)

lemma keepsD: "keeps I m \<Longrightarrow> I (db w) \<Longrightarrow> I (db (snd (run_state m w)))"
  by (simp add: keeps_def)

lemma keeps_ret [keep]: "keeps I (ret x)"
  by (simp add: keeps_def)

lemma keeps_ok [keep]: "keeps I (ok x)"
  by (simp add: ok_def keeps_ret)

lemma keeps_fail [keep]: "keeps I (fail x)"
  by (simp add: fail_def keeps_ret)

lemma keeps_bind [keep]:
  "\<lbrakk>keeps I m; \<And>x. keeps I (k x)\<rbrakk> \<Longrightarrow> keeps I (State_Monad.bind m k)"
  by (simp add: keeps_def split: prod.splits) (metis snd_conv)

lemma keeps_or_return [keep]:
  "\<lbrakk>keeps I m; \<And>x. keeps I (k x)\<rbrakk> \<Longrightarrow> keeps I (or_return m k)"
  unfolding or_return_def by (intro keep) (auto split: sum.splits intro: keep)

lemma keeps_check [keep]: "keeps I k \<Longrightarrow> keeps I (check e k)"
  by (simp add: check_def keeps_fail split: option.splits)

lemma keeps_if [keep]: "\<lbrakk>b \<Longrightarrow> keeps I m; \<not> b \<Longrightarrow> keeps I n\<rbrakk> \<Longrightarrow> keeps I (if b then m else n)"
  by simp

lemma keeps_let [keep]: "(\<And>x. keeps I (k x)) \<Longrightarrow> keeps I (let x = e in k x)"
  by simp

lemma keeps_case_sum [keep]:
  "\<lbrakk>\<And>e. keeps I (f e); \<And>x. keeps I (g x)\<rbrakk> \<Longrightarrow> keeps I (case r of Inl e \<Rightarrow> f e | Inr x \<Rightarrow> g x)"
  by (simp split: sum.splits)

lemma keeps_case_option [keep]:
  "\<lbrakk>keeps I f; \<And>x. keeps I (g x)\<rbrakk> \<Longrightarrow> keeps I (case r of None \<Rightarrow> f | Some x \<Rightarrow> g x)"
  by (simp split: option.splits)

lemma keeps_case_prod [keep]:
  "(\<And>x y. keeps I (f x y)) \<Longrightarrow> keeps I (case p of (x, y) \<Rightarrow> f x y)"
  by (simp split: prod.splits)

lemma keeps_the_env [keep]: "keeps I the_env"
  by (simp add: keeps_def run)

lemma keeps_now [keep]: "keeps I now"
  by (simp add: keeps_def run)

lemma keeps_NewID [keep]: "keeps I NewID"
  by (simp add: keeps_def run)

lemma keeps_rand_int [keep]: "keeps I (rand_int n)"
  by (simp add: keeps_def run)

lemma keeps_rand_read [keep]: "keeps I (rand_read n)"
  by (simp add: keeps_def run)

lemma keeps_query [keep]: "keeps I (query f)"
  by (simp add: keeps_def run)

lemma keeps_query_row [keep]: "keeps I (query_row f)"
  by (simp add: keeps_def run)

lemma keeps_exec [keep]: "stmt_keeps I f \<Longrightarrow> keeps I (exec f)"
  by (auto simp: keeps_def stmt_keeps_def run split: option.splits fate.splits)

text \<open>A transaction preserves what its successful body preserves: an error rolls back.\<close>

lemma keeps_InTx:
  assumes "\<And>w x w'. I (db w) \<Longrightarrow> run_state fn w = (Inr x, w') \<Longrightarrow> I (db w')"
  shows "keeps I (InTx fn)"
proof -
  have "I (db w')" if "I (db w)" "run_state fn (next_tick w) = (Inr x, w')" for w x w'
    using assms [of "next_tick w" x w'] that by simp
  then show ?thesis
    by (auto simp: keeps_def run_InTx split: fate.splits prod.splits sum.splits)
qed

lemma keeps_InTx_body [keep]: "keeps I fn \<Longrightarrow> keeps I (InTx fn)"
  by (rule keeps_InTx) (metis keepsD snd_conv)

section \<open>Well-formed databases\<close>

definition ledger_sum :: "string \<Rightarrow> LedgerEntry list \<Rightarrow> int" where
  "ledger_sum cid ls = sum_list (map led_delta (filter (\<lambda>l. led_customer l = cid) ls))"

definition keys_ok :: "database \<Rightarrow> bool" where
  "keys_ok d \<longleftrightarrow>
     distinct (map cust_id (customers d)) \<and> distinct (map cust_barcode (customers d))
     \<and> distinct (filter (\<lambda>p. p \<noteq> '''') (map cust_phone (customers d)))
     \<and> distinct (map rec_id (receipts d)) \<and> distinct (map led_id (ledger d))
     \<and> distinct (map shop_id (stores d)) \<and> distinct (map staff_id (staff d))
     \<and> distinct (map staff_login (staff d)) \<and> distinct (map ses_jti (sessions d))
     \<and> distinct (map (\<lambda>x. (dev_library x, dev_customer x)) (apple_devices d))"

definition refs_ok :: "database \<Rightarrow> bool" where
  "refs_ok d \<longleftrightarrow>
     staff_store ` set (staff d) \<subseteq> shop_id ` set (stores d)
     \<and> rec_store ` set (receipts d) \<subseteq> shop_id ` set (stores d)
     \<and> rec_staff ` set (receipts d) \<subseteq> staff_id ` set (staff d)
     \<and> rec_customer ` set (receipts d) \<subseteq> cust_id ` set (customers d)
     \<and> led_customer ` set (ledger d) \<subseteq> cust_id ` set (customers d)
     \<and> ses_staff ` set (sessions d) \<subseteq> staff_id ` set (staff d)
     \<and> dev_customer ` set (apple_devices d) \<subseteq> cust_id ` set (customers d)"

definition balances_ok :: "database \<Rightarrow> bool" where
  "balances_ok d \<longleftrightarrow>
     list_all (\<lambda>c. cust_points c = wrap64 (ledger_sum (cust_id c) (ledger d))) (customers d)"

definition receipts_ok :: "database \<Rightarrow> bool" where
  "receipts_ok d \<longleftrightarrow>
     list_all (\<lambda>r. (rec_status r = ReceiptCommitted \<and> rec_points_after_refund r = None)
       \<or> (rec_status r = ReceiptRefunded \<and> rec_points_after_refund r \<noteq> None)) (receipts d)"

definition wf_db :: "database \<Rightarrow> bool" where
  "wf_db d \<longleftrightarrow> keys_ok d \<and> refs_ok d \<and> balances_ok d \<and> receipts_ok d"

lemma ledger_sum_Nil [simp]: "ledger_sum c [] = 0"
  by (simp add: ledger_sum_def)

lemma ledger_sum_append [simp]: "ledger_sum c (xs @ ys) = ledger_sum c xs + ledger_sum c ys"
  by (simp add: ledger_sum_def)

lemma ledger_sum_Cons [simp]:
  "ledger_sum c (x # xs) = (if led_customer x = c then led_delta x else 0) + ledger_sum c xs"
  by (simp add: ledger_sum_def)

lemma ledger_sum_absent: "c \<notin> led_customer ` set ls \<Longrightarrow> ledger_sum c ls = 0"
  by (induction ls) auto

lemma wf_initial: "wf_db (initial_db t)"
  by (simp add: wf_db_def initial_db_def keys_ok_def refs_ok_def balances_ok_def receipts_ok_def)

section \<open>Statements that preserve well-formedness\<close>

lemmas wf_defs = wf_db_def keys_ok_def refs_ok_def balances_ok_def receipts_ok_def

lemma stmt_insert_customer [stmt]: "stmt_keeps wf_db (insert_customer c)"
proof (rule stmt_keepsI)
  fix drv d n d'
  assume i: "insert_customer c drv d = Some (n, d')" and w: "wf_db d"
  then have "cust_id c \<notin> led_customer ` set (ledger d)"
    by (auto simp: insert_customer_def wf_defs has_row_iff split: if_splits)
  then have "ledger_sum (cust_id c) (ledger d) = 0" by (rule ledger_sum_absent)
  with i w have "balances_ok d'"
    by (simp add: insert_customer_def wf_db_def balances_ok_def wrap64_small split: if_splits)
      (auto simp: list_all_iff)
  moreover from i w have "keys_ok d'"
    by (simp add: insert_customer_def wf_db_def keys_ok_def has_row_iff split: if_splits) auto
  moreover from i obtain c' where c': "d' = d\<lparr>customers := customers d @ [c']\<rparr>"
    by (auto simp: insert_customer_def split: if_splits)
  with w have "refs_ok d'" "receipts_ok d'"
    by (simp_all add: wf_db_def refs_ok_def receipts_ok_def subset_insertI2)
  ultimately show "wf_db d'" by (simp add: wf_db_def)
qed

lemma stmt_update_customer [stmt]:
  assumes "\<And>c. cust_id (f c) = cust_id c" "\<And>c. cust_barcode (f c) = cust_barcode c"
    "\<And>c. cust_phone (f c) = cust_phone c" "\<And>c. cust_points (f c) = cust_points c"
  shows "stmt_keeps wf_db (update_customer i f)"
  by (rule stmt_keepsI)
    (auto simp: update_customer_def wf_defs assms intro!: list_all_update_by)

lemma stmt_upsert_setting [stmt]: "stmt_keeps wf_db (upsert_setting k v)"
  by (rule stmt_keepsI) (auto simp: upsert_setting_def wf_defs)

lemma stmt_soft_delete_staff [stmt]: "stmt_keeps wf_db (soft_delete_staff i t)"
  by (rule stmt_keepsI) (auto simp: soft_delete_staff_def wf_defs)

lemma stmt_insert_staff [stmt]: "stmt_keeps wf_db (insert_staff st)"
  by (rule stmt_keepsI) (auto simp: insert_staff_def wf_defs has_row_iff split: if_splits)

lemma distinct_update_column:
  assumes "distinct (map g rs)" "\<forall>r \<in> set rs. key r \<noteq> k \<longrightarrow> g r \<noteq> v"
    "distinct (map key rs)" "\<And>r. key r = k \<Longrightarrow> g (f r) = v"
  shows "distinct (map g (update_by key k f rs))"
proof -
  have *: "set (map g (update_by key k f ts)) \<subseteq> insert v (set (map g ts))" for ts
    using assms(4) by (induction ts) auto
  show ?thesis
    using assms(1-3)
  proof (induction rs)
    case (Cons r rs)
    show ?case
    proof (cases "key r = k")
      case True
      with Cons.prems have "\<not> has_row key k rs" by (auto simp: has_row_iff)
      then have "update_by key k f rs = rs" by (rule update_by_no_row)
      moreover have "\<forall>x \<in> set rs. key x \<noteq> k"
        using True Cons.prems(3) by (metis distinct.simps(2) image_eqI list.set_map list.simps(9))
      with Cons.prems(2) have "v \<notin> g ` set rs" by auto
      ultimately show ?thesis using True Cons.prems assms(4) by auto
    next
      case False
      then show ?thesis using Cons * [of rs] by auto
    qed
  qed simp
qed

lemma stmt_update_staff [stmt]: "stmt_keeps wf_db (update_staff st)"
proof (rule stmt_keepsI)
  fix drv d n d'
  assume u: "update_staff st drv d = Some (n, d')" and w: "wf_db d"
  show "wf_db d'"
  proof (cases "has_row staff_id (staff_id st) (staff d)")
    case False
    with u w show ?thesis by (simp add: update_staff_def)
  next
    case True
    with u have d': "d' = d\<lparr>staff := update_by staff_id (staff_id st) (set_staff_row st) (staff d)\<rparr>"
      and l: "\<forall>s \<in> set (staff d). staff_id s \<noteq> staff_id st \<longrightarrow> staff_login s \<noteq> staff_login st"
      and s: "staff_store st \<in> shop_id ` set (stores d)"
      by (auto simp: update_staff_def list_ex_iff has_row_iff split: if_splits)
    have "distinct (map staff_login (update_by staff_id (staff_id st) (set_staff_row st) (staff d)))"
      using w l by (intro distinct_update_column [where v = "staff_login st"])
        (auto simp: wf_defs set_staff_row_def)
    moreover have "staff_store ` set (update_by staff_id (staff_id st) (set_staff_row st) (staff d))
        \<subseteq> shop_id ` set (stores d)"
      using w s by (auto simp: wf_defs update_by_def set_staff_row_def)
    ultimately show ?thesis
      using w by (simp add: d' wf_defs) (simp add: set_staff_row_def)
  qed
qed

lemma stmt_insert_store [stmt]: "stmt_keeps wf_db (insert_store r)"
  by (rule stmt_keepsI) (auto simp: insert_store_def wf_defs has_row_iff split: if_splits)

lemma stmt_update_store [stmt]: "stmt_keeps wf_db (update_store r)"
  by (rule stmt_keepsI) (auto simp: update_store_def wf_defs)

lemma stmt_delete_store [stmt]: "stmt_keeps wf_db (delete_store i)"
proof (rule stmt_keepsI)
  fix drv d n d'
  assume u: "delete_store i drv d = Some (n, d')" and w: "wf_db d"
  then have d': "d' = d\<lparr>stores := filter (\<lambda>s. shop_id s \<noteq> i) (stores d)\<rparr>"
    and f: "i \<in> shop_id ` set (stores d) \<longrightarrow>
      i \<notin> staff_store ` set (staff d) \<and> i \<notin> rec_store ` set (receipts d)"
    by (auto simp: delete_store_def has_row_iff split: if_splits)
  have "shop_id ` set (filter (\<lambda>s. shop_id s \<noteq> i) (stores d)) = shop_id ` set (stores d) - {i}"
    by auto
  moreover have "i \<notin> staff_store ` set (staff d) \<and> i \<notin> rec_store ` set (receipts d)"
    using f w by (auto simp: wf_db_def refs_ok_def)
  ultimately have "refs_ok d'"
    using w by (simp add: d' wf_db_def refs_ok_def subset_Diff_insert)
  with w show "wf_db d'"
    by (simp add: d' wf_db_def keys_ok_def balances_ok_def receipts_ok_def distinct_map_filter)
qed

lemma stmt_insert_session [stmt]: "stmt_keeps wf_db (insert_session s)"
  by (rule stmt_keepsI) (auto simp: insert_session_def wf_defs has_row_iff split: if_splits)

lemma stmt_revoke_where [stmt]: "stmt_keeps wf_db (revoke_where p)"
proof (rule stmt_keepsI)
  fix drv n and d d' :: database
  define ss where "ss = map (\<lambda>s. if p s then s\<lparr>ses_revoked := True\<rparr> else s) (sessions d)"
  have j: "map ses_jti ss = map ses_jti (sessions d)"
    and "map ses_staff ss = map ses_staff (sessions d)"
    by (auto simp: ss_def)
  then have s: "ses_staff ` set ss = ses_staff ` set (sessions d)" by (metis list.set_map)
  assume "revoke_where p drv d = Some (n, d')" and w: "wf_db d"
  then have "d' = d\<lparr>sessions := ss\<rparr>" by (simp add: revoke_where_def ss_def)
  with w j s show "wf_db d'" by (simp add: wf_defs)
qed

lemma stmt_upsert_device [stmt]: "stmt_keeps wf_db (upsert_device dv)"
  by (rule stmt_keepsI) (auto simp: upsert_device_def wf_defs has_row_iff split: if_splits)

lemma stmt_delete_device [stmt]: "stmt_keeps wf_db (delete_device c l)"
  by (rule stmt_keepsI) (auto simp: delete_device_def wf_defs distinct_map_filter)

lemma stmt_insert_job [stmt]: "stmt_keeps wf_db (insert_job j)"
  by (rule stmt_keepsI) (auto simp: insert_job_def wf_defs split: if_splits)

lemma stmt_complete_jobs [stmt]: "stmt_keeps wf_db (complete_jobs c t)"
  by (rule stmt_keepsI) (auto simp: complete_jobs_def wf_defs)

lemma stmt_fail_job [stmt]: "stmt_keeps wf_db (fail_job j t)"
  by (rule stmt_keepsI) (auto simp: fail_job_def wf_defs split: if_splits)

lemma stmt_touch_dedupe [stmt]: "stmt_keeps wf_db (touch_dedupe k)"
  by (rule stmt_keepsI) (auto simp: touch_dedupe_def wf_defs split: if_splits)

lemma stmt_insert_activity [stmt]: "stmt_keeps wf_db (insert_activity a)"
  by (rule stmt_keepsI) (auto simp: insert_activity_def wf_defs split: if_splits)

section \<open>Inside a money transaction\<close>

text \<open>Between the ledger entries and the new balance the database has a gap: the ledger of
  customer \<open>c\<close> is ahead of the points by \<open>g\<close>.  \<open>set_points\<close> closes it.\<close>

definition wf_gap :: "string \<Rightarrow> int \<Rightarrow> database \<Rightarrow> bool" where
  "wf_gap c g d \<longleftrightarrow> keys_ok d \<and> refs_ok d \<and> receipts_ok d
     \<and> list_all (\<lambda>cu. cust_points cu
          = wrap64 (ledger_sum (cust_id cu) (ledger d) - (if cust_id cu = c then g else 0)))
        (customers d)"

lemma wf_gap_0 [simp]: "wf_gap c 0 d \<longleftrightarrow> wf_db d"
  by (auto simp: wf_gap_def wf_db_def balances_ok_def list_all_iff)

lemma gap_insert_receipt:
  assumes "insert_receipt r drv d = Some (n, d')" "wf_gap c g d" "rec_status r = ReceiptCommitted"
  shows "wf_gap c g d'" "customers d' = customers d" "ledger d' = ledger d"
proof -
  obtain r' where d': "d' = d\<lparr>receipts := receipts d @ [r']\<rparr>"
    and r': "r' = r\<lparr>rec_points_after_refund := None, rec_refunded := None\<rparr>"
    and c: "\<not> has_row rec_id (rec_id r) (receipts d)" "has_row shop_id (rec_store r) (stores d)"
      "has_row staff_id (rec_staff r) (staff d)" "has_row cust_id (rec_customer r) (customers d)"
    using assms(1) by (auto simp: insert_receipt_def split: if_splits)
  from d' show "customers d' = customers d" "ledger d' = ledger d" by simp_all
  have "keys_ok d'"
    using assms(2) c by (simp add: d' r' wf_gap_def keys_ok_def has_row_iff)
  moreover have "refs_ok d'"
    using assms(2) c by (simp add: d' r' wf_gap_def refs_ok_def has_row_iff del: image_iff)
  moreover have "receipts_ok d'"
    using assms(2,3) by (simp add: d' r' wf_gap_def receipts_ok_def)
  ultimately show "wf_gap c g d'" using assms(2) by (simp add: d' wf_gap_def)
qed

lemma gap_insert_ledger:
  assumes "insert_ledger l drv d = Some (n, d')" "wf_gap (led_customer l) g d"
  shows "wf_gap (led_customer l) (g + led_delta l) d'" "customers d' = customers d"
    "ledger d' = ledger d @ [l]" "receipts d' = receipts d"
proof -
  have d': "d' = d\<lparr>ledger := ledger d @ [l]\<rparr>" and
    c: "\<not> has_row led_id (led_id l) (ledger d)" "has_row cust_id (led_customer l) (customers d)"
    using assms(1) by (auto simp: insert_ledger_def split: if_splits)
  from d' show "customers d' = customers d" "ledger d' = ledger d @ [l]" "receipts d' = receipts d"
    by simp_all
  show "wf_gap (led_customer l) (g + led_delta l) d'"
    using assms(2) c
    by (auto simp: d' wf_gap_def keys_ok_def refs_ok_def receipts_ok_def has_row_iff list_all_iff)
qed

lemma gap_mark_refunded:
  assumes "mark_refunded r p t drv d = Some (n, d')" "wf_gap c g d"
  shows "wf_gap c g d'" "customers d' = customers d" "ledger d' = ledger d"
proof -
  let ?f = "\<lambda>r. r\<lparr>rec_status := ReceiptRefunded, rec_points_after_refund := Some p, rec_refunded := Some t\<rparr>"
  have d': "d' = d\<lparr>receipts := update_by rec_id r ?f (receipts d)\<rparr>"
    using assms(1) by (auto simp: mark_refunded_def split: if_splits)
  then show "customers d' = customers d" "ledger d' = ledger d" by simp_all
  have "receipts_ok d'"
    using assms(2) by (auto simp: d' wf_gap_def receipts_ok_def intro!: list_all_update_by)
  with assms(2) show "wf_gap c g d'"
    by (simp add: d' wf_gap_def keys_ok_def refs_ok_def)
qed

lemma gap_set_points:
  assumes s: "set_points c p t drv d = Some (n, d')" and w: "wf_gap c g d"
    and r: "row_by cust_id c (customers d) = Some cu" and p: "p = wrap64 (cust_points cu + g)"
  shows "wf_db d'"
    "row_by cust_id c (customers d') = Some (cu\<lparr>cust_points := p, cust_updated := t\<rparr>)"
    "ledger d' = ledger d" "receipts d' = receipts d"
proof -
  let ?f = "\<lambda>c. c\<lparr>cust_points := p, cust_updated := t\<rparr>"
  have d': "d' = d\<lparr>customers := update_by cust_id c ?f (customers d)\<rparr>"
    using s by (auto simp: set_points_def update_customer_def split: if_splits)
  from r show "row_by cust_id c (customers d') = Some (?f cu)"
    by (simp add: d' points_update.row_after)
  from d' show "ledger d' = ledger d" "receipts d' = receipts d" by simp_all
  have "cu \<in> set (customers d)" "cust_id cu = c"
    by (rule row_by_Some_in [OF r], rule row_by_Some_key [OF r])
  with w have "cust_points cu = wrap64 (ledger_sum c (ledger d) - g)"
    by (auto simp: wf_gap_def list_all_iff)
  then have pw: "p = wrap64 (ledger_sum c (ledger d))" by (simp add: p)
  have "balances_ok d'"
    using w pw by (auto simp: d' wf_gap_def balances_ok_def list_all_iff update_by_def)
  with w show "wf_db d'"
    by (simp add: d' wf_gap_def wf_db_def keys_ok_def refs_ok_def receipts_ok_def)
qed

end
