(* ===== verification/Barcode.thy ===== *)
theory Barcode
  imports World
begin

text \<open>
  \<^verbatim>\<open>internal/barcode/barcode.go\<close>: card numbers.  A number is \<open>MCH-\<close> and eight symbols
  of Crockford's base 32.  What counts as a customer id is up to \<^verbatim>\<open>uuid.Parse\<close>, a
  parameter (\<open>uuid_ok\<close>); the case table above ASCII is a parameter as well.
\<close>

definition Prefix :: string where
  "Prefix = ''MCH-''"

definition crockford :: string where
  "crockford = ''0123456789ABCDEFGHJKMNPQRSTVWXYZ''"

text \<open>The loop of \<open>New\<close>: \<open>n\<close> random symbols, or the first error of the random source.\<close>

fun new_symbols :: "nat \<Rightarrow> string go" where
  "new_symbols 0 = ok ''''"
| "new_symbols (Suc n) =
     or_return (rand_int (length crockford))
       (\<lambda>i. or_return (new_symbols n) (\<lambda>cs. ok (crockford ! i # cs)))"

definition New :: "string go" where
  "New = or_return (new_symbols 8) (\<lambda>b. ok (Prefix @ b))"

text \<open>The character class \<open>[0-9A-HJKMNP-TV-Z]\<close> of the regular expression, and the whole
  expression: anchored at both ends.\<close>

definition re_class :: "char \<Rightarrow> bool" where
  "re_class c \<longleftrightarrow> (let b = byte c in
     (48 \<le> b \<and> b \<le> 57) \<or> (65 \<le> b \<and> b \<le> 72) \<or> b = 74 \<or> b = 75 \<or> b = 77 \<or> b = 78
     \<or> (80 \<le> b \<and> b \<le> 84) \<or> (86 \<le> b \<and> b \<le> 90))"

definition re_match :: "string \<Rightarrow> bool" where
  "re_match s \<longleftrightarrow> has_prefix s ''MCH-'' \<and> length s = 12 \<and> list_all re_class (drop 4 s)"

definition Normalize :: "(rune \<Rightarrow> rune) \<Rightarrow> string \<Rightarrow> string" where
  "Normalize tab s = trim_space (to_upper tab s)"

definition Valid :: "(rune \<Rightarrow> rune) \<Rightarrow> string \<Rightarrow> bool" where
  "Valid tab s = re_match (trim_space (to_upper tab s))"

definition LooksLikeCustomerID :: "env \<Rightarrow> string \<Rightarrow> bool" where
  "LooksLikeCustomerID e s = uuid_ok e (trim_space s)"

section \<open>Lemmas\<close>

lemma crockford_class: "list_all re_class crockford"
  by code_simp

lemma length_crockford [simp]: "length crockford = 32"
  by code_simp

lemma new_symbols_ok:
  "run_state (new_symbols n) w = (Inr s, w') \<Longrightarrow> length s = n \<and> list_all re_class s"
proof (induction n arbitrary: w s w')
  case (Suc n)
  let ?i = "rand_at (env w) (tick w) 0 mod 32"
  obtain cs where "run_state (new_symbols n) (next_tick w) = (Inr cs, w')" "s = crockford ! ?i # cs"
    using Suc.prems by (auto simp: run split: prod.splits sum.splits if_splits)
  moreover have "?i < length crockford" by simp
  then have "re_class (crockford ! ?i)" using crockford_class by (simp only: list_all_length)
  ultimately show ?case using Suc.IH [of "next_tick w" cs w'] by simp
qed (simp add: run)

text \<open>A string of plain upper-case symbols is its own normal form.\<close>

lemma re_match_plain:
  assumes "re_match s"
  shows "list_all (\<lambda>c. 33 \<le> byte c \<and> byte c < 97) s"
proof -
  obtain t where s: "s = ''MCH-'' @ t"
    using assms has_prefixE [of s "''MCH-''"] by (auto simp: re_match_def)
  with assms show ?thesis
    by (auto simp: re_match_def re_class_def list_all_iff byte_def Let_def)
qed

lemma plain_normal:
  assumes "list_all (\<lambda>c. 33 \<le> byte c \<and> byte c < 97) s"
  shows "Normalize tab s = s"
proof -
  have a: "is_ascii s" using assms by (auto simp: is_ascii_def list_all_iff)
  have "map (\<lambda>c. char_of (rune_upper tab (byte c))) s = s"
    by (rule map_idI) (use assms in \<open>auto simp: list_all_iff rune_upper_def byte_def\<close>)
  moreover have d: "dropWhile (\<lambda>c. is_space (byte c)) t = t" if "set t \<subseteq> set s" for t
    using assms that by (cases t) (auto simp: list_all_iff is_space_def)
  ultimately show ?thesis
    using a by (simp add: Normalize_def to_upper_def trim_space_ascii d)
qed

lemma re_match_normal: "re_match s \<Longrightarrow> Normalize tab s = s"
  by (rule plain_normal) (rule re_match_plain)

lemma New_ok_aux:
  assumes "run_state New w = (Inr s, w')"
  shows "re_match s" "db w' = db w" "env w' = env w"
proof -
  obtain b w1 where b: "run_state (new_symbols 8) w = (Inr b, w1)" "s = Prefix @ b" "w' = w1"
    using assms by (auto simp: New_def run split: prod.splits sum.splits)
  then show "re_match s"
    using new_symbols_ok [OF b(1)] by (simp add: re_match_def Prefix_def has_prefix_def)
  have *: "db (snd (run_state (new_symbols n) v)) = db v
      \<and> env (snd (run_state (new_symbols n) v)) = env v" for n v
    by (induction n arbitrary: v) (simp_all add: run split: prod.splits sum.splits, metis next_tick_sel(1,3) snd_conv)
  from * [of 8 w] b show "db w' = db w" "env w' = env w" by simp_all
qed

section \<open>Properties\<close>

text \<open>C39: Every card number that \<^verbatim>\<open>New\<close> draws is valid, is its own normal form (so a scan
  in any case, with blanks around it, finds it again) and has twelve bytes.\<close>

theorem New_valid:
  assumes "run_state New w = (Inr s, w')"
  shows "Valid tab s \<and> Normalize tab s = s \<and> length s = 12"
  using New_ok_aux(1) [OF assms] re_match_normal [of s tab]
  by (simp add: Valid_def Normalize_def re_match_def)

theorem New_valid_witness:
  "Valid id ''MCH-01234567'' \<and> Normalize id ''MCH-01234567'' = ''MCH-01234567''
   \<and> length ''MCH-01234567'' = 12"
proof -
  have "run_state New (world_of (initial_db zero_time))
      = (Inr ''MCH-01234567'', snd (run_state New (world_of (initial_db zero_time))))"
    by (rule run_pair) code_simp
  from New_valid [OF this] show ?thesis .
qed

end
