(* ===== verification/Auth.thy ===== *)
theory Auth
  imports World
begin

text \<open>
  \<^verbatim>\<open>internal/auth/auth.go\<close>: roles, secrets and tokens.  bcrypt and the JWT library are
  parameters; the source's choice of signing method is the key function handed to the
  parser.
\<close>

abbreviation RoleCashier :: string where
  "RoleCashier \<equiv> ''cashier''"

abbreviation RoleAdmin :: string where
  "RoleAdmin \<equiv> ''admin''"

abbreviation KindCashier :: string where
  "KindCashier \<equiv> ''cashier''"

abbreviation KindAdmin :: string where
  "KindAdmin \<equiv> ''admin''"

definition HashSecret :: "string \<Rightarrow> string go" where
  "HashSecret plain =
     (if plain = '''' then ok ''''
      else State (\<lambda>w. ((case bcrypt_hash_at (env w) (tick w) plain of
               None \<Rightarrow> Inl (Opaque ''bcrypt'') | Some h \<Rightarrow> Inr h), next_tick w)))"

definition CheckSecret :: "env \<Rightarrow> string \<Rightarrow> string \<Rightarrow> bool" where
  "CheckSecret e hash plain \<longleftrightarrow> hash \<noteq> '''' \<and> plain \<noteq> '''' \<and> bcrypt_match e hash plain"

definition NewJTI :: "string go" where
  "NewJTI = or_return (rand_read 16) (\<lambda>b. ok (hex_encode b))"

text \<open>\<^verbatim>\<open>jwt.NewNumericDate\<close> cuts a time to whole seconds.\<close>

definition NumericDate :: "gtime \<Rightarrow> gtime" where
  "NumericDate t = from_unix (unix t)"

definition Sign ::
  "string \<Rightarrow> string \<Rightarrow> string \<Rightarrow> string \<Rightarrow> string \<Rightarrow> string \<Rightarrow> string \<Rightarrow> int \<Rightarrow> (string \<times> gtime) go" where
  "Sign secret kind staffID login role storeID jti ttl =
     (if secret = '''' then fail (Opaque ''jwt secret is empty'')
      else do {
        t \<leftarrow> now;
        let expiry = add_time t ttl;
        issued \<leftarrow> now;
        e \<leftarrow> the_env;
        let claims = \<lparr>clm_subject = staffID, clm_id = jti, clm_issued = NumericDate issued,
          clm_expires = NumericDate expiry, clm_role = role, clm_store = storeID,
          clm_kind = kind, clm_login = login\<rparr>;
        (case jwt_sign e secret claims of
           None \<Rightarrow> fail (Opaque ''jwt'') | Some s \<Rightarrow> ok (s, expiry)) })"

definition key_func :: "string \<Rightarrow> string \<Rightarrow> string option" where
  "key_func secret alg = (if alg \<noteq> ''HS256'' then None else Some secret)"

definition Parse :: "string \<Rightarrow> string \<Rightarrow> Claims go" where
  "Parse secret token = do {
     t \<leftarrow> now;
     e \<leftarrow> the_env;
     (case jwt_parse e t (key_func secret) token of
        None \<Rightarrow> fail (Opaque ''jwt'') | Some c \<Rightarrow> ok c) }"

definition CanRefund :: "string \<Rightarrow> bool" where
  "CanRefund role \<longleftrightarrow> role = RoleCashier \<or> role = RoleAdmin \<or> role = ''shift_lead''"

definition IsAdmin :: "string \<Rightarrow> bool" where
  "IsAdmin role \<longleftrightarrow> role = RoleAdmin"

definition ValidRole :: "string \<Rightarrow> bool" where
  "ValidRole role \<longleftrightarrow> role = RoleCashier \<or> role = RoleAdmin"

definition NormalizeLogin :: "(rune \<Rightarrow> rune) \<Rightarrow> string \<Rightarrow> string" where
  "NormalizeLogin tab login = to_lower tab (trim_space login)"

definition RandomToken :: "nat \<Rightarrow> string go" where
  "RandomToken nBytes =
     (let n = (if nBytes < 16 then 16 else nBytes) in
      or_return (rand_read n) (\<lambda>b. ok (hex_encode b)))"

section \<open>Lemmas\<close>

lemma run_HashSecret [run]:
  "run_state (HashSecret plain) w =
     (if plain = '''' then (Inr '''', w)
      else ((case bcrypt_hash_at (env w) (tick w) plain of
               None \<Rightarrow> Inl (Opaque ''bcrypt'') | Some h \<Rightarrow> Inr h), next_tick w))"
  by (simp add: HashSecret_def run)

lemma run_NewJTI [run]:
  "run_state NewJTI w =
     ((if rand_ok_at (env w) (tick w)
       then Inr (hex_encode (map (\<lambda>i. rand_at (env w) (tick w) i mod 256) [0..<16]))
       else Inl (Opaque ''crypto/rand'')), next_tick w)"
  by (simp add: NewJTI_def run)

lemma run_RandomToken [run]:
  "run_state (RandomToken n) w =
     ((if rand_ok_at (env w) (tick w)
       then Inr (hex_encode (map (\<lambda>i. rand_at (env w) (tick w) i mod 256) [0..<max 16 n]))
       else Inl (Opaque ''crypto/rand'')), next_tick w)"
  by (simp add: RandomToken_def run Let_def max_def)

lemma run_Parse [run]:
  "run_state (Parse secret token) w =
     ((case jwt_parse (env w) (now_at (env w) (tick w)) (key_func secret) token of
         None \<Rightarrow> Inl (Opaque ''jwt'') | Some c \<Rightarrow> Inr c), next_tick w)"
  by (simp add: Parse_def run split: option.splits)

lemma run_Sign [run]:
  "run_state (Sign secret kind staffID login role storeID jti ttl) w =
     (if secret = '''' then (Inl (Opaque ''jwt secret is empty''), w)
      else
       (let expiry = add_time (now_at (env w) (tick w)) ttl in
        ((case jwt_sign (env w) secret \<lparr>clm_subject = staffID, clm_id = jti,
            clm_issued = NumericDate (now_at (env w) (Suc (tick w))),
            clm_expires = NumericDate expiry, clm_role = role, clm_store = storeID,
            clm_kind = kind, clm_login = login\<rparr> of
            None \<Rightarrow> Inl (Opaque ''jwt'') | Some s \<Rightarrow> Inr (s, expiry)),
         next_tick (next_tick w))))"
  by (simp add: Sign_def run Let_def split: option.splits)

text \<open>What the documentation of the JWT library promises: a token signed with a secret is
  read back with that secret and the method HS256 until it expires.\<close>

definition jwt_reads_back :: "env \<Rightarrow> bool" where
  "jwt_reads_back e \<longleftrightarrow>
     (\<forall>t kf secret c tok. jwt_sign e secret c = Some tok \<longrightarrow> kf ''HS256'' = Some secret
        \<longrightarrow> t < clm_expires c \<longrightarrow> jwt_parse e t kf tok = Some c)"

section \<open>Properties\<close>

text \<open>C38: A token issued by \<^verbatim>\<open>Sign\<close> is accepted by \<^verbatim>\<open>Parse\<close> with the same secret as
  long as its (whole-second) expiry lies ahead, and carries the staff member, role, store, kind,
  login and session id it was issued for.\<close>

theorem Sign_then_Parse:
  assumes "jwt_reads_back (env w)"
    and "run_state (Sign secret kind sid login role store jti ttl) w = (Inr (tok, expiry), w1)"
    and "env w2 = env w" and "now_at (env w) (tick w2) < NumericDate expiry"
  shows "\<exists>c. run_state (Parse secret tok) w2 = (Inr c, next_tick w2)
    \<and> clm_subject c = sid \<and> clm_id c = jti \<and> clm_role c = role \<and> clm_store c = store
    \<and> clm_kind c = kind \<and> clm_login c = login \<and> clm_expires c = NumericDate expiry"
proof -
  obtain c where s: "jwt_sign (env w) secret c = Some tok" and
    c: "clm_subject c = sid" "clm_id c = jti" "clm_role c = role" "clm_store c = store"
      "clm_kind c = kind" "clm_login c = login" "clm_expires c = NumericDate expiry"
    using assms(2) by (auto simp: run Let_def split: if_splits option.splits)
  have "jwt_parse (env w) (now_at (env w) (tick w2)) (key_func secret) tok = Some c"
    using assms(1,4) s c(7) by (simp add: jwt_reads_back_def key_func_def)
  with c assms(3) show ?thesis by (simp add: run)
qed

definition sample_claims :: Claims where
  "sample_claims = \<lparr>clm_subject = ''s1'', clm_id = ''j1'', clm_issued = from_unix 1700000001,
     clm_expires = from_unix 1700003600, clm_role = ''admin'', clm_store = ''m1'',
     clm_kind = ''admin'', clm_login = ''boss''\<rparr>"

definition sample_jwt_world :: world where
  "sample_jwt_world = (world_of (initial_db zero_time))\<lparr>env := calm_env\<lparr>
     jwt_sign := (\<lambda>s c. if s = ''key'' \<and> c = sample_claims then Some ''tok'' else None),
     jwt_parse := (\<lambda>t kf tok. if tok = ''tok'' \<and> kf ''HS256'' = Some ''key''
        \<and> t < clm_expires sample_claims then Some sample_claims else None)\<rparr>\<rparr>"

theorem Sign_then_Parse_witness:
  "\<exists>c. run_state (Parse ''key'' ''tok'') (sample_jwt_world\<lparr>tick := 2\<rparr>)
       = (Inr c, next_tick (sample_jwt_world\<lparr>tick := 2\<rparr>))
    \<and> clm_subject c = ''s1'' \<and> clm_id c = ''j1'' \<and> clm_role c = ''admin'' \<and> clm_store c = ''m1''
    \<and> clm_kind c = ''admin'' \<and> clm_login c = ''boss''
    \<and> clm_expires c = NumericDate (from_unix 1700003600)"
proof -
  let ?w = "sample_jwt_world"
  have r: "jwt_reads_back (env ?w)"
    by (auto simp: jwt_reads_back_def sample_jwt_world_def split: if_splits)
  have s: "run_state (Sign ''key'' ''admin'' ''s1'' ''boss'' ''admin'' ''m1'' ''j1'' (3600 * second)) ?w
      = (Inr (''tok'', from_unix 1700003600),
         snd (run_state (Sign ''key'' ''admin'' ''s1'' ''boss'' ''admin'' ''m1'' ''j1''
                (3600 * second)) ?w))"
    by (simp add: run sample_jwt_world_def sample_claims_def NumericDate_def Let_def
        from_unix_def unix_def add_time_def second_def)
  have t: "now_at (env ?w) (tick (?w\<lparr>tick := 2\<rparr>)) < NumericDate (from_unix 1700003600)"
    by (simp add: sample_jwt_world_def NumericDate_def from_unix_def unix_def second_def
        less_gtime_def)
  show ?thesis
    by (rule Sign_then_Parse [OF r s _ t]) simp
qed

end
