(* ===== verification/Service.thy ===== *)
theory Service
  imports Invariants Barcode Auth
begin

text \<open>
  \<^verbatim>\<open>internal/loyalty/service.go\<close>: the operations of the loyalty programme.  The store is the
  world's database; the queue of wallet updates is the interface \<^verbatim>\<open>Enqueuer\<close>, a field of
  the service as in the source (\<^const>\<open>None\<close> is nil).  The body of each transaction is a
  definition of its own, run by \<^const>\<open>InTx\<close>.
\<close>

section \<open>Phones\<close>

definition IsValidPhone :: "string \<Rightarrow> bool" where
  "IsValidPhone phone \<longleftrightarrow>
     \<not> (length phone \<noteq> 12 \<or> \<not> has_prefix phone ''+7'')
     \<and> list_all (\<lambda>r. \<not> (r < 48 \<or> r > 57)) (runes (drop 2 phone))"

definition NormalizePhone :: "string \<Rightarrow> string" where
  "NormalizePhone raw =
    (let d = utf8 (filter is_digit (runes raw)) in
     if d = '''' then ''''
     else
       (let d = (if length d = 11 \<and> hd d = CHR ''8'' then CHR ''7'' # drop 1 d else d);
            d = (if length d = 10 then CHR ''7'' # d else d)
        in CHR ''+'' # d))"

section \<open>Types\<close>

record service =
  Jobs :: "(string \<Rightarrow> unit act) option"
  IssuerID :: string

record EnrollInput =
  enr_name :: string
  enr_phone :: string
  enr_cookie :: string
  enr_google :: string

record EnrollResult =
  enr_customer :: Customer
  enr_created :: bool

record LookupResult =
  lk_customer :: Customer
  lk_settings :: Settings
  lk_can_redeem :: bool

record CommitInput =
  ci_receipt :: string
  ci_barcode :: string
  ci_amount :: int
  ci_redeem :: int
  ci_store :: string
  ci_staff :: string

record CommitResult =
  cr_receipt :: string
  cr_customer :: string
  cr_barcode :: string
  cr_points :: int
  cr_earn :: int
  cr_redeem :: int
  cr_replay :: bool

record RefundResult =
  rr_receipt :: string
  rr_customer :: string
  rr_points :: int
  rr_replay :: bool

section \<open>Shared steps\<close>

definition customerUsable :: "Customer \<Rightarrow> lerror option" where
  "customerUsable c =
     (if cust_deleted c \<noteq> None then Some (Err CodeCustomerDeleted msg_card_deleted)
      else if cust_blocked c then Some (Err CodeCustomerBlocked msg_card_blocked)
      else None)"

definition enqueue :: "service \<Rightarrow> string \<Rightarrow> unit act" where
  "enqueue s customerID = (case Jobs s of None \<Rightarrow> ret () | Some enq \<Rightarrow> enq customerID)"

definition get_settings :: "Settings go" where
  "get_settings = or_return SettingsMap (\<lambda>m. ok (ParseSettings m))"

definition resolveCustomer :: "string \<Rightarrow> Customer go" where
  "resolveCustomer barcodeOrID = do {
     e \<leftarrow> the_env;
     let raw = trim_space barcodeOrID;
     if raw = '''' then fail (Loyalty (Err CodeInvalidRequest msg_need_barcode))
     else do {
       let norm = Normalize (upper_tab e) raw;
       r \<leftarrow> GetCustomerByBarcode norm;
       (case r of
          Inr c \<Rightarrow> ok c
        | Inl err \<Rightarrow>
            if \<not> IsNoRows err then fail err
            else if LooksLikeCustomerID e raw then do {
              r2 \<leftarrow> GetCustomerByID raw;
              (case r2 of
                 Inr c \<Rightarrow> ok c
               | Inl err2 \<Rightarrow>
                   if \<not> IsNoRows err2 then fail err2
                   else fail (Loyalty (Err CodeCustomerNotFound msg_customer_not_found))) }
            else fail (Loyalty (Err CodeCustomerNotFound msg_customer_not_found))) } }"

section \<open>Enroll\<close>

definition enroll_create :: "service \<Rightarrow> string \<Rightarrow> string \<Rightarrow> string \<Rightarrow> EnrollResult go" where
  "enroll_create s name phone googleOID = do {
     cid \<leftarrow> NewID;
     or_return New (\<lambda>code.
     or_return (RandomToken 24) (\<lambda>token. do {
       t \<leftarrow> now;
       let oid = (if googleOID = ''''
                  then (if IssuerID s = '''' then ''merch'' else IssuerID s) @ ''.'' @ cid
                  else googleOID);
       let c = \<lparr>cust_id = cid, cust_barcode = code, cust_name = name, cust_phone = phone,
                cust_apple_token = token, cust_google_oid = oid, cust_points = 0,
                cust_blocked = False, cust_created = t, cust_updated = t, cust_deleted = None\<rparr>;
       or_return (CreateCustomer c) (\<lambda>_. ok \<lparr>enr_customer = c, enr_created = True\<rparr>) })) }"

definition enroll_found :: "string \<Rightarrow> Customer \<Rightarrow> EnrollResult go" where
  "enroll_found msg c =
     (if cust_deleted c \<noteq> None then fail (Loyalty (Err CodeCustomerDeleted msg))
      else ok \<lparr>enr_customer = c, enr_created = False\<rparr>)"

definition enroll_new :: "service \<Rightarrow> EnrollInput \<Rightarrow> EnrollResult go" where
  "enroll_new s inp =
    (let name = trim_space (enr_name inp);
         phone = NormalizePhone (enr_phone inp)
     in if name = '''' \<or> \<not> IsValidPhone phone
        then fail (Loyalty (Err CodeInvalidRequest msg_need_name_phone))
        else if phone \<noteq> '''' then do {
          r \<leftarrow> GetCustomerByPhone phone;
          (case r of
             Inr c \<Rightarrow> enroll_found msg_phone_card_deleted c
           | Inl err \<Rightarrow> if \<not> IsNoRows err then fail err
                      else enroll_create s name phone (enr_google inp)) }
        else enroll_create s name phone (enr_google inp))"

definition Enroll :: "service \<Rightarrow> EnrollInput \<Rightarrow> EnrollResult go" where
  "Enroll s inp =
     (if enr_cookie inp \<noteq> '''' then do {
        r \<leftarrow> GetCustomerByID (enr_cookie inp);
        (case r of
           Inr c \<Rightarrow> enroll_found msg_card_deleted c
         | Inl err \<Rightarrow> if \<not> IsNoRows err then fail err else enroll_new s inp) }
      else enroll_new s inp)"

section \<open>Lookup and Quote\<close>

definition Lookup :: "string \<Rightarrow> LookupResult go" where
  "Lookup code = or_return (resolveCustomer code) (\<lambda>c.
     check (customerUsable c) (or_return get_settings (\<lambda>st.
       ok \<lparr>lk_customer = c, lk_settings = st, lk_can_redeem = (cust_points c \<ge> RedeemMin st)\<rparr>)))"

definition Quote_op :: "string \<Rightarrow> int \<Rightarrow> int \<Rightarrow> Quote go" where
  "Quote_op code amountRub requested = or_return (resolveCustomer code) (\<lambda>c.
     check (customerUsable c)
       (if amountRub < 0 \<or> requested < 0
        then fail (Loyalty (Err CodeInvalidRequest msg_negative_input))
        else or_return get_settings (\<lambda>st.
          ok (QuoteRedeem (cust_points c) amountRub requested st))))"

section \<open>Commit\<close>

definition commit_replay :: "CommitInput \<Rightarrow> Customer \<Rightarrow> Receipt \<Rightarrow> CommitResult go" where
  "commit_replay inp c existing =
     (if rec_customer existing \<noteq> cust_id c \<or> rec_amount existing \<noteq> ci_amount inp
         \<or> rec_redeem existing \<noteq> ci_redeem inp
      then fail (Loyalty (Err CodeDuplicateReceipt msg_duplicate_receipt))
      else ok \<lparr>cr_receipt = rec_id existing, cr_customer = rec_customer existing,
               cr_barcode = cust_barcode c, cr_points = rec_points_after existing,
               cr_earn = rec_earn existing, cr_redeem = rec_redeem existing, cr_replay = True\<rparr>)"

definition commit_new :: "CommitInput \<Rightarrow> Settings \<Rightarrow> Customer \<Rightarrow> CommitResult go" where
  "commit_new inp st locked =
    (let earn = ComputeEarn (ci_amount inp) (ci_redeem inp) st;
         points = add64 (sub64 (cust_points locked) (ci_redeem inp)) earn
     in do {
       t \<leftarrow> now;
       let r = \<lparr>rec_id = ci_receipt inp, rec_store = ci_store inp, rec_staff = ci_staff inp,
                rec_customer = cust_id locked, rec_amount = ci_amount inp,
                rec_redeem = ci_redeem inp, rec_earn = earn, rec_status = ReceiptCommitted,
                rec_points_after = points, rec_points_after_refund = None,
                rec_created = t, rec_refunded = None\<rparr>;
       or_return (InsertReceipt r) (\<lambda>_.
       or_return (if ci_redeem inp \<noteq> 0
                  then InsertLedger (cust_id locked) (rec_id r) (neg64 (ci_redeem inp)) ReasonRedeem
                         (ci_staff inp) t
                  else ok ()) (\<lambda>_.
       or_return (if earn \<noteq> 0
                  then InsertLedger (cust_id locked) (rec_id r) earn ReasonEarn (ci_staff inp) t
                  else ok ()) (\<lambda>_.
       or_return (SetPoints (cust_id locked) points t) (\<lambda>_.
       ok \<lparr>cr_receipt = rec_id r, cr_customer = cust_id locked, cr_barcode = cust_barcode locked,
           cr_points = points, cr_earn = earn, cr_redeem = ci_redeem inp, cr_replay = False\<rparr>)))) })"

definition commit_tx :: "CommitInput \<Rightarrow> Customer \<Rightarrow> Settings \<Rightarrow> CommitResult go" where
  "commit_tx inp c st = do {
     r \<leftarrow> GetReceipt (ci_receipt inp);
     (case r of
        Inr existing \<Rightarrow> commit_replay inp c existing
      | Inl e \<Rightarrow>
          if e \<noteq> ErrNoRows then fail e
          else or_return (LockCustomer (cust_id c)) (\<lambda>locked.
            check (customerUsable locked)
              (check (CheckRedeem (cust_points locked) (ci_amount inp) (ci_redeem inp) st)
                (commit_new inp st locked)))) }"

definition Commit :: "service \<Rightarrow> CommitInput \<Rightarrow> CommitResult go" where
  "Commit s inp = do {
     e \<leftarrow> the_env;
     if \<not> uuid_ok e (ci_receipt inp)
     then fail (Loyalty (Err CodeInvalidRequest msg_receipt_uuid))
     else if ci_amount inp < 0 \<or> ci_redeem inp < 0
     then fail (Loyalty (Err CodeInvalidRequest msg_negative_input))
     else or_return (resolveCustomer (ci_barcode inp)) (\<lambda>c.
       check (customerUsable c)
         (or_return get_settings (\<lambda>st.
           or_return (InTx (commit_tx inp c st)) (\<lambda>result.
             if \<not> cr_replay result
             then do { _ \<leftarrow> enqueue s (cr_customer result); ok result }
             else ok result)))) }"

section \<open>Refund\<close>

definition refund_earned :: "Receipt \<Rightarrow> string \<Rightarrow> string \<Rightarrow> gtime \<Rightarrow> int \<Rightarrow> int go" where
  "refund_earned r cid actorID t points =
     (if rec_earn r > 0
      then (let rev = (if rec_earn r > points then points else rec_earn r) in
            if rev > 0
            then or_return (InsertLedger cid (rec_id r) (neg64 rev) ReasonRefundEarn actorID t)
                   (\<lambda>_. ok (sub64 points rev))
            else ok points)
      else ok points)"

definition refund_redeemed :: "Receipt \<Rightarrow> string \<Rightarrow> string \<Rightarrow> gtime \<Rightarrow> int \<Rightarrow> int go" where
  "refund_redeemed r cid actorID t points =
     (if rec_redeem r > 0
      then or_return (InsertLedger cid (rec_id r) (rec_redeem r) ReasonRefundRedeem actorID t)
             (\<lambda>_. ok (add64 points (rec_redeem r)))
      else ok points)"

definition refund_receipt :: "Receipt \<Rightarrow> string \<Rightarrow> RefundResult go" where
  "refund_receipt r actorID = or_return (LockCustomer (rec_customer r)) (\<lambda>locked. do {
     t \<leftarrow> now;
     or_return (refund_earned r (cust_id locked) actorID t (cust_points locked)) (\<lambda>p1.
     or_return (refund_redeemed r (cust_id locked) actorID t p1) (\<lambda>points.
     or_return (SetPoints (cust_id locked) points t) (\<lambda>_.
     or_return (MarkRefunded (rec_id r) points t) (\<lambda>_.
     ok \<lparr>rr_receipt = rec_id r, rr_customer = rec_customer r, rr_points = points,
         rr_replay = False\<rparr>)))) })"

definition refund_tx :: "string \<Rightarrow> string \<Rightarrow> RefundResult go" where
  "refund_tx receiptID actorID = do {
     x \<leftarrow> GetReceipt receiptID;
     (case x of
        Inl e \<Rightarrow> if e = ErrNoRows then fail (Loyalty (Err CodeInvalidRequest msg_receipt_not_found))
                else fail e
      | Inr r \<Rightarrow>
          if rec_status r = ReceiptRefunded then
            (let pts = (case rec_points_after_refund r of Some p \<Rightarrow> p | None \<Rightarrow> rec_points_after r)
             in ok \<lparr>rr_receipt = rec_id r, rr_customer = rec_customer r, rr_points = pts,
                    rr_replay = True\<rparr>)
          else refund_receipt r actorID) }"

definition Refund :: "service \<Rightarrow> string \<Rightarrow> string \<Rightarrow> RefundResult go" where
  "Refund s receiptID actorID = do {
     e \<leftarrow> the_env;
     if \<not> uuid_ok e receiptID then fail (Loyalty (Err CodeInvalidRequest msg_receipt_uuid))
     else or_return (InTx (refund_tx receiptID actorID)) (\<lambda>out.
       if \<not> rr_replay out
       then do { _ \<leftarrow> enqueue s (rr_customer out); ok out }
       else ok out) }"

section \<open>Adjust\<close>

definition adjust_tx :: "string \<Rightarrow> int \<Rightarrow> string \<Rightarrow> string \<Rightarrow> (int \<times> gtime) go" where
  "adjust_tx cid delta reason actorID = or_return (LockCustomer cid) (\<lambda>locked.
     (let next = add64 (cust_points locked) delta in
      if next < 0 then fail (Loyalty (Err CodeInsufficientPoints msg_insufficient))
      else do {
        t \<leftarrow> now;
        or_return (InsertLedger (cust_id locked) '''' delta (ReasonAdjust @ '': '' @ reason) actorID t)
          (\<lambda>_. or_return (SetPoints (cust_id locked) next t) (\<lambda>_. ok (next, t))) }))"

definition Adjust :: "service \<Rightarrow> string \<Rightarrow> int \<Rightarrow> string \<Rightarrow> string \<Rightarrow> Customer go" where
  "Adjust s customerRef delta reason actorID =
     (if trim_space reason = '''' then fail (Loyalty (Err CodeInvalidRequest msg_reason_required))
      else or_return (resolveCustomer customerRef) (\<lambda>c.
        if cust_deleted c \<noteq> None then fail (Loyalty (Err CodeCustomerDeleted msg_card_deleted))
        else or_return (InTx (adjust_tx (cust_id c) delta reason actorID)) (\<lambda>(next, t). do {
          _ \<leftarrow> enqueue s (cust_id c);
          ok (c\<lparr>cust_points := next, cust_updated := t\<rparr>) })))"

end
