(* ===== verification/ServiceLaws.thy ===== *)
theory ServiceLaws
  imports Service
begin

text \<open>
  What the operations of \<^verbatim>\<open>service.go\<close> do to the database, under any environment.  The
  interface of the queue is the locale \<open>enqueuer\<close>: an implementation may touch the outbox
  only.  Each money operation is described by the database it leaves when its transaction takes
  effect (\<open>commit_db\<close>, \<open>refund_db\<close>, \<open>adjust_db\<close>).
\<close>

section \<open>Everything but the outbox\<close>

definition sans_jobs :: "database \<Rightarrow> database" where
  "sans_jobs d = d\<lparr>wallet_jobs := []\<rparr>"

lemma sans_jobs_eqD:
  assumes "sans_jobs d = sans_jobs d'"
  shows "customers d = customers d'" "receipts d = receipts d'" "ledger d = ledger d'"
    "stores d = stores d'" "staff d = staff d'" "sessions d = sessions d'"
    "settings d = settings d'" "apple_devices d = apple_devices d'" "dedupe d = dedupe d'"
    "activity d = activity d'"
  using arg_cong [OF assms, of customers] arg_cong [OF assms, of receipts]
    arg_cong [OF assms, of ledger] arg_cong [OF assms, of stores] arg_cong [OF assms, of staff]
    arg_cong [OF assms, of sessions] arg_cong [OF assms, of settings]
    arg_cong [OF assms, of apple_devices] arg_cong [OF assms, of dedupe]
    arg_cong [OF assms, of activity]
  by (simp_all add: sans_jobs_def)

lemma wf_sans_jobs: "wf_db (sans_jobs d) = wf_db d"
  by (simp add: sans_jobs_def wf_defs)

lemma wf_cong_sans_jobs: "sans_jobs d = sans_jobs d' \<Longrightarrow> wf_db d = wf_db d'"
  by (metis wf_sans_jobs)

locale enqueuer =
  fixes enq :: "string \<Rightarrow> unit act"
  assumes only_outbox: "sans_jobs (db (snd (run_state (enq c) w))) = sans_jobs (db w)"
    and env_kept: "env (snd (run_state (enq c) w)) = env w"
begin

lemma keeps_enq: "keeps wf_db (enq c)"
  by (simp add: keeps_def wf_cong_sans_jobs [OF only_outbox])

end

section \<open>Transactions under any fate\<close>

text \<open>Whatever the environment does, a transaction leaves the database as it found it or as
  its body left it, and it reports success only in the second case.\<close>

lemma InTx_cases:
  assumes "run_state (InTx fn) w = (r, w')"
  obtains (unchanged) e where "r = Inl e" "db w' = db w"
  | (taken) x w1 where "run_state fn (next_tick w) = (Inr x, w1)" "db w' = db w1"
      "r = Inr x \<or> (\<exists>e. r = Inl e)" "env w' = env w1"
  using assms
  by (auto simp: run_InTx split: fate.splits prod.splits sum.splits)

lemma InTx_Inr:
  assumes "run_state (InTx fn) w = (Inr x, w')"
  obtains w1 where "run_state fn (next_tick w) = (Inr x, w1)" "db w' = db w1" "env w' = env w1"
  using assms
  by (auto simp: run_InTx split: fate.splits prod.splits sum.splits)

section \<open>Reading operations change nothing\<close>

definition reads :: "'a act \<Rightarrow> bool" where
  "reads m \<longleftrightarrow> (\<forall>w. db (snd (run_state m w)) = db w \<and> env (snd (run_state m w)) = env w)"

lemma readsD: "reads m \<Longrightarrow> run_state m w = (x, w') \<Longrightarrow> db w' = db w \<and> env w' = env w"
  by (metis reads_def snd_conv)

lemma reads_ret: "reads (ret x)" and reads_ok: "reads (ok x)" and reads_fail: "reads (fail e)"
  and reads_the_env: "reads the_env" and reads_now: "reads now" and reads_NewID: "reads NewID"
  and reads_rand_int: "reads (rand_int n)" and reads_rand_read: "reads (rand_read n)"
  and reads_query: "reads (query g)" and reads_query_row: "reads (query_row f)"
  by (simp_all add: reads_def run ok_def fail_def)

lemma reads_bind:
  assumes "reads m" "\<And>x. reads (k x)"
  shows "reads (State_Monad.bind m k)"
  unfolding reads_def
proof
  fix w
  obtain x w1 where m: "run_state m w = (x, w1)" by fastforce
  with readsD [OF assms(1) m] assms(2) [of x]
  show "db (snd (run_state (State_Monad.bind m k) w)) = db w
    \<and> env (snd (run_state (State_Monad.bind m k) w)) = env w"
    by (simp add: reads_def)
qed

lemma reads_or_return: "reads m \<Longrightarrow> (\<And>x. reads (k x)) \<Longrightarrow> reads (or_return m k)"
  unfolding or_return_def by (intro reads_bind) (auto simp: reads_ret split: sum.splits)

lemma reads_if: "\<lbrakk>b \<Longrightarrow> reads m; \<not> b \<Longrightarrow> reads n\<rbrakk> \<Longrightarrow> reads (if b then m else n)"
  by simp

lemma reads_case_sum:
  "\<lbrakk>\<And>e. reads (f e); \<And>x. reads (g x)\<rbrakk> \<Longrightarrow> reads (case r of Inl e \<Rightarrow> f e | Inr x \<Rightarrow> g x)"
  by (simp split: sum.splits)

lemma reads_case_option:
  "\<lbrakk>reads f; \<And>x. reads (g x)\<rbrakk> \<Longrightarrow> reads (case r of None \<Rightarrow> f | Some x \<Rightarrow> g x)"
  by (simp split: option.splits)

lemma reads_check: "reads k \<Longrightarrow> reads (check e k)"
  by (simp add: check_def reads_fail split: option.splits)

lemmas reads_intros = reads_ret reads_ok reads_fail reads_the_env reads_now reads_NewID
  reads_rand_int reads_rand_read reads_query reads_query_row reads_bind reads_or_return
  reads_if reads_case_sum reads_case_option reads_check

lemma keeps_reads: "reads m \<Longrightarrow> keeps I m"
  by (simp add: reads_def keeps_def)

lemma reads_resolveCustomer: "reads (resolveCustomer s)"
  unfolding resolveCustomer_def GetCustomerByBarcode_def GetCustomerByID_def Let_def
  by (intro reads_intros)

lemma reads_get_settings: "reads get_settings"
  unfolding get_settings_def SettingsMap_def by (intro reads_intros)

lemma reads_Lookup: "reads (Lookup s)"
  unfolding Lookup_def by (intro reads_intros reads_resolveCustomer reads_get_settings)

lemma reads_Quote_op: "reads (Quote_op s a r)"
  unfolding Quote_op_def by (intro reads_intros reads_resolveCustomer reads_get_settings)

lemma get_settings_Inr:
  "run_state get_settings w = (Inr st, w') \<longleftrightarrow>
     fate_at (env w) (tick w) = Okay \<and> st = ParseSettings (settings (db w)) \<and> w' = next_tick w"
  by (auto simp: get_settings_def run split: fate.splits)

text \<open>The customer found: the row with the normalised barcode, else the row with the id.\<close>

definition resolved :: "env \<Rightarrow> string \<Rightarrow> Customer list \<Rightarrow> Customer option" where
  "resolved e s cs =
     (let raw = trim_space s in
      if raw = '''' then None
      else (case row_by cust_barcode (Normalize (upper_tab e) raw) cs of
              Some c \<Rightarrow> Some c
            | None \<Rightarrow> if LooksLikeCustomerID e raw then row_by cust_id raw cs else None))"

lemma resolveCustomer_resolved:
  "run_state (resolveCustomer s) w = (Inr c, w') \<Longrightarrow> resolved (env w) s (customers (db w)) = Some c"
  by (auto simp: resolved_def resolveCustomer_def run Let_def IsNoRows_def
      split: if_splits prod.splits sum.splits fate.splits option.splits)

lemma resolveCustomer_calm:
  assumes "fate_at (env w) = (\<lambda>_. Okay)" "resolved (env w) s (customers (db w)) = Some c"
  shows "\<exists>w'. run_state (resolveCustomer s) w = (Inr c, w') \<and> db w' = db w \<and> env w' = env w"
  using assms
  by (auto simp: resolved_def resolveCustomer_def run Let_def IsNoRows_def
      split: if_splits prod.splits sum.splits option.splits)

lemma resolved_points_update:
  "resolved e s (update_by cust_id k (\<lambda>c. c\<lparr>cust_points := p, cust_updated := t\<rparr>) cs)
     = map_option (\<lambda>c. if cust_id c = k then c\<lparr>cust_points := p, cust_updated := t\<rparr> else c)
         (resolved e s cs)"
  by (simp add: resolved_def Let_def row_by_update_by split: option.splits)

lemma resolved_in: "resolved e s cs = Some c \<Longrightarrow> c \<in> set cs"
  by (auto simp: resolved_def Let_def dest: row_by_Some_in split: if_splits option.splits)

lemma resolveCustomer_Inr:
  assumes "run_state (resolveCustomer s) w = (Inr c, w')"
  shows "c \<in> set (customers (db w))" "resolved (env w) s (customers (db w)) = Some c"
    "db w' = db w" "env w' = env w"
  using resolveCustomer_resolved [OF assms] resolved_in readsD [OF reads_resolveCustomer assms]
  by auto

lemma row_of_member:
  "\<lbrakk>wf_db d; c \<in> set (customers d)\<rbrakk> \<Longrightarrow> row_by cust_id (cust_id c) (customers d) = Some c"
  by (simp add: wf_db_def keys_ok_def row_by_distinct)

lemma run_check_Inr:
  "run_state (check e k) w = (Inr x, w') \<longleftrightarrow> e = None \<and> run_state k w = (Inr x, w')"
  by (auto simp: run_check split: option.splits)

lemma customerUsable_None:
  "customerUsable c = None \<longleftrightarrow> cust_deleted c = None \<and> \<not> cust_blocked c"
  by (simp add: customerUsable_def)

lemma LockCustomer_Inr:
  "run_state (LockCustomer cid) w = (Inr c, w') \<longleftrightarrow>
     row_by cust_id cid (customers (db w)) = Some c \<and> fate_at (env w) (tick w) = Okay
     \<and> fate_at (env w) (Suc (tick w)) = Okay \<and> w' = next_tick (next_tick w)"
  by (auto simp: run split: fate.splits option.splits)

end
