(* ===== verification/Money.thy ===== *)
theory Money
  imports ServiceLaws
begin

text \<open>
  The three transactions that move points.  For each: the database it leaves when it takes
  effect (\<open>commit_db\<close>, \<open>refund_db\<close>, \<open>adjust_db\<close>), the lemma that its body does
  just that, and the lemma that the result is well formed.
\<close>

section \<open>Ledger entries\<close>

definition entry :: "string \<Rightarrow> string \<Rightarrow> string \<Rightarrow> int \<Rightarrow> string \<Rightarrow> string \<Rightarrow> gtime \<Rightarrow> LedgerEntry" where
  "entry i c r x reason actor t = \<lparr>led_id = i, led_customer = c,
     led_receipt = (if r = '''' then None else Some r), led_delta = x, led_reason = reason,
     led_actor = (if actor = '''' then None else Some actor), led_created = t\<rparr>"

definition entry_unless ::
  "bool \<Rightarrow> string \<Rightarrow> string \<Rightarrow> string \<Rightarrow> int \<Rightarrow> string \<Rightarrow> string \<Rightarrow> gtime \<Rightarrow> LedgerEntry list" where
  "entry_unless skip i c r x reason actor t = (if skip then [] else [entry i c r x reason actor t])"

lemma ledger_sum_entry_unless [simp]:
  "ledger_sum c' (entry_unless skip i c r x reason actor t)
     = (if c' = c \<and> \<not> skip then x else 0)"
  by (simp add: entry_unless_def entry_def)

lemma InsertLedger_step:
  assumes "run_state (InsertLedger c r x rs a t) w = (Inr u, w')" "wf_gap c g (db w)"
  obtains i where "db w' = (db w)\<lparr>ledger := ledger (db w) @ [entry i c r x rs a t]\<rparr>"
    "wf_gap c (g + x) (db w')" "env w' = env w"
proof -
  let ?i = "uuid_at (env w) (tick w)"
  obtain n d where i: "insert_ledger (entry ?i c r x rs a t) (driver_of (env w)) (db w) = Some (n, d)"
    and w': "w' = (next_tick (next_tick w))\<lparr>db := d\<rparr>"
    using assms(1) by (auto simp: InsertLedger_Inr entry_def)
  have "wf_gap c (g + x) d"
    using gap_insert_ledger(1) [OF i] assms(2) by (simp add: entry_def)
  moreover have "d = (db w)\<lparr>ledger := ledger (db w) @ [entry ?i c r x rs a t]\<rparr>"
    using i by (simp add: insert_ledger_def split: if_splits)
  ultimately show thesis using that w' by simp
qed

lemma ledger_unless_step:
  assumes "run_state (if b then InsertLedger c r x rs a t else ok ()) w = (Inr u, w')"
    "wf_gap c g (db w)"
  obtains i where
    "db w' = (db w)\<lparr>ledger := ledger (db w) @ entry_unless (\<not> b) i c r x rs a t\<rparr>"
    "wf_gap c (g + (if b then x else 0)) (db w')" "env w' = env w"
proof (cases b)
  case True
  with assms InsertLedger_step [of c r x rs a t w u w' g] that show ?thesis
    by (auto simp: entry_unless_def)
next
  case False
  with assms that [of "''''"] show ?thesis by (simp add: entry_unless_def run)
qed

lemma ledger_pair_step:
  assumes "run_state (if b1 then InsertLedger c r x1 rsa a t else ok ()) w = (Inr u, w1)"
    and "run_state (if b2 then InsertLedger c r x2 rsb a t else ok ()) w1 = (Inr v, w')"
    and "wf_gap c 0 (db w)"
  obtains i j where "db w' = (db w)\<lparr>ledger := ledger (db w) @ entry_unless (\<not> b1) i c r x1 rsa a t
      @ entry_unless (\<not> b2) j c r x2 rsb a t\<rparr>"
    "wf_gap c ((if b1 then x1 else 0) + (if b2 then x2 else 0)) (db w')" "env w' = env w"
proof (rule ledger_unless_step [OF assms(1,3)])
  fix i
  assume d: "db w1 = (db w)\<lparr>ledger := ledger (db w) @ entry_unless (\<not> b1) i c r x1 rsa a t\<rparr>"
    and g: "wf_gap c (0 + (if b1 then x1 else 0)) (db w1)" and e: "env w1 = env w"
  show thesis
    by (rule ledger_unless_step [OF assms(2) g], rule that) (simp_all add: d e)
qed

section \<open>Commit\<close>

definition commit_points :: "CommitInput \<Rightarrow> Settings \<Rightarrow> Customer \<Rightarrow> int" where
  "commit_points inp st cu =
     add64 (sub64 (cust_points cu) (ci_redeem inp)) (ComputeEarn (ci_amount inp) (ci_redeem inp) st)"

definition commit_receipt :: "CommitInput \<Rightarrow> Settings \<Rightarrow> Customer \<Rightarrow> gtime \<Rightarrow> Receipt" where
  "commit_receipt inp st cu t = \<lparr>rec_id = ci_receipt inp, rec_store = ci_store inp,
     rec_staff = ci_staff inp, rec_customer = cust_id cu, rec_amount = ci_amount inp,
     rec_redeem = ci_redeem inp, rec_earn = ComputeEarn (ci_amount inp) (ci_redeem inp) st,
     rec_status = ReceiptCommitted, rec_points_after = commit_points inp st cu,
     rec_points_after_refund = None, rec_created = t, rec_refunded = None\<rparr>"

definition commit_result :: "CommitInput \<Rightarrow> Settings \<Rightarrow> Customer \<Rightarrow> CommitResult" where
  "commit_result inp st cu = \<lparr>cr_receipt = ci_receipt inp, cr_customer = cust_id cu,
     cr_barcode = cust_barcode cu, cr_points = commit_points inp st cu,
     cr_earn = ComputeEarn (ci_amount inp) (ci_redeem inp) st, cr_redeem = ci_redeem inp,
     cr_replay = False\<rparr>"

definition commit_db ::
  "CommitInput \<Rightarrow> Settings \<Rightarrow> Customer \<Rightarrow> gtime \<Rightarrow> string \<Rightarrow> string \<Rightarrow> database \<Rightarrow> database" where
  "commit_db inp st cu t i j d = d\<lparr>
     receipts := receipts d @ [commit_receipt inp st cu t],
     ledger := ledger d
       @ entry_unless (ci_redeem inp = 0) i (cust_id cu) (ci_receipt inp) (neg64 (ci_redeem inp))
           ReasonRedeem (ci_staff inp) t
       @ entry_unless (ComputeEarn (ci_amount inp) (ci_redeem inp) st = 0) j (cust_id cu)
           (ci_receipt inp) (ComputeEarn (ci_amount inp) (ci_redeem inp) st) ReasonEarn
           (ci_staff inp) t,
     customers := update_by cust_id (cust_id cu)
       (\<lambda>c. c\<lparr>cust_points := commit_points inp st cu, cust_updated := t\<rparr>) (customers d)\<rparr>"

lemma set_points_db:
  "set_points c p t drv d = Some (n, d') \<Longrightarrow>
     d' = d\<lparr>customers := update_by cust_id c (\<lambda>c. c\<lparr>cust_points := p, cust_updated := t\<rparr>)
              (customers d)\<rparr>
     \<and> (has_row cust_id c (customers d) \<longrightarrow> int_fits drv p)"
  by (auto simp: set_points_def update_customer_def split: if_splits)

lemma SetPoints_step:
  assumes "run_state (SetPoints c q t) w = (Inr (), w')" "wf_gap c g (db w)"
    and row: "row_by cust_id c (customers (db w)) = Some cu" and "q = wrap64 (cust_points cu + g)"
  shows "wf_db (db w')"
    and "db w' = (db w)\<lparr>customers := update_by cust_id c (\<lambda>c. c\<lparr>cust_points := q, cust_updated := t\<rparr>)
              (customers (db w))\<rparr>"
    and "env w' = env w" and "int_fits (driver_of (env w)) q"
proof -
  obtain n d where s: "set_points c q t (driver_of (env w)) (db w) = Some (n, d)"
    and w': "w' = (next_tick w)\<lparr>db := d\<rparr>"
    using assms(1) by (auto simp: SetPoints_Inr)
  show "wf_db (db w')" using gap_set_points(1) [OF s assms(2-4)] w' by simp
  show "db w' = (db w)\<lparr>customers := update_by cust_id c (\<lambda>c. c\<lparr>cust_points := q, cust_updated := t\<rparr>)
              (customers (db w))\<rparr>" "env w' = env w" "int_fits (driver_of (env w)) q"
    using set_points_db [OF s] row_by_Some_has [OF row] w' by simp_all
qed

lemma points_gap:
  "add64 (sub64 p r) e
     = wrap64 (p + ((if r \<noteq> 0 then neg64 r else 0) + (if e \<noteq> 0 then e else 0)))"
proof -
  have "wrap64 (p + (neg64 r + e)) = wrap64 (p + e + wrap64 (- r))"
    by (simp only: neg64_def add.commute [of "wrap64 (- r)"] add.assoc)
  also have "\<dots> = wrap64 (p + e - r)" by (simp only: wrap64_add_right add_uminus_conv_diff)
  also have "\<dots> = add64 (sub64 p r) e"
    by (simp add: add64_def sub64_def algebra_simps)
  finally have "wrap64 (p + (neg64 r + e)) = add64 (sub64 p r) e" .
  moreover have "(if r \<noteq> 0 then neg64 r else 0) = neg64 r" "(if e \<noteq> 0 then e else 0) = e"
    by (simp_all add: neg64_def)
  ultimately show ?thesis by (simp only:)
qed

lemma commit_new_eq:
  "commit_new inp st cu = State_Monad.bind now (\<lambda>t.
     or_return (InsertReceipt (commit_receipt inp st cu t)) (\<lambda>_.
     or_return (if ci_redeem inp \<noteq> 0
                then InsertLedger (cust_id cu) (ci_receipt inp) (neg64 (ci_redeem inp)) ReasonRedeem
                       (ci_staff inp) t
                else ok ()) (\<lambda>_.
     or_return (if ComputeEarn (ci_amount inp) (ci_redeem inp) st \<noteq> 0
                then InsertLedger (cust_id cu) (ci_receipt inp)
                       (ComputeEarn (ci_amount inp) (ci_redeem inp) st) ReasonEarn (ci_staff inp) t
                else ok ()) (\<lambda>_.
     or_return (SetPoints (cust_id cu) (commit_points inp st cu) t) (\<lambda>_.
     ok (commit_result inp st cu))))))"
  by (simp add: commit_new_def Let_def commit_receipt_def commit_points_def commit_result_def
      cong: if_cong)

lemma InsertReceipt_step:
  assumes "run_state (InsertReceipt (commit_receipt inp st cu t)) w = (Inr (), w')" "wf_db (db w)"
  shows "wf_gap c 0 (db w')"
    and "db w' = (db w)\<lparr>receipts := receipts (db w) @ [commit_receipt inp st cu t]\<rparr>"
    and "env w' = env w" and "\<not> has_row rec_id (ci_receipt inp) (receipts (db w))"
    and "int_fits (driver_of (env w)) (ci_amount inp)" and "int_fits (driver_of (env w)) (ci_redeem inp)"
proof -
  obtain n d where s: "insert_receipt (commit_receipt inp st cu t) (driver_of (env w)) (db w) = Some (n, d)"
    and w': "w' = (next_tick w)\<lparr>db := d\<rparr>"
    using assms(1) by (auto simp: InsertReceipt_Inr)
  show "wf_gap c 0 (db w')"
    using gap_insert_receipt(1) [OF s, of c 0] assms(2) w' by (simp add: commit_receipt_def)
  show "db w' = (db w)\<lparr>receipts := receipts (db w) @ [commit_receipt inp st cu t]\<rparr>"
    "env w' = env w" "\<not> has_row rec_id (ci_receipt inp) (receipts (db w))"
    "int_fits (driver_of (env w)) (ci_amount inp)" "int_fits (driver_of (env w)) (ci_redeem inp)"
    using s w' by (auto simp: insert_receipt_def commit_receipt_def split: if_splits)
qed

lemma commit_new_Inr:
  assumes go: "run_state (commit_new inp st cu) w = (Inr res, w')"
    and wf: "wf_db (db w)" and row: "row_by cust_id (cust_id cu) (customers (db w)) = Some cu"
  obtains t i j where "db w' = commit_db inp st cu t i j (db w)" "res = commit_result inp st cu"
    "wf_db (db w')" "env w' = env w" "\<not> has_row rec_id (ci_receipt inp) (receipts (db w))"
    "int_fits (driver_of (env w)) (ci_amount inp)" "int_fits (driver_of (env w)) (ci_redeem inp)"
    "int_fits (driver_of (env w)) (commit_points inp st cu)"
proof -
  let ?earn = "ComputeEarn (ci_amount inp) (ci_redeem inp) st"
  let ?p = "commit_points inp st cu" and ?c = "cust_id cu"
  let ?t = "now_at (env w) (tick w)"
  let ?r = "commit_receipt inp st cu ?t"
  obtain w1 w2 w3 where
    1: "run_state (InsertReceipt ?r) (next_tick w) = (Inr (), w1)" and
    2: "run_state (if ci_redeem inp \<noteq> 0
          then InsertLedger ?c (ci_receipt inp) (neg64 (ci_redeem inp)) ReasonRedeem (ci_staff inp) ?t
          else ok ()) w1 = (Inr (), w2)" and
    3: "run_state (if ?earn \<noteq> 0
          then InsertLedger ?c (ci_receipt inp) ?earn ReasonEarn (ci_staff inp) ?t
          else ok ()) w2 = (Inr (), w3)" and
    4: "run_state (SetPoints ?c ?p ?t) w3 = (Inr (), w')" and res: "res = commit_result inp st cu"
    using go
    unfolding commit_new_eq by (auto simp: or_return_Inr run_now run_ok simp del: if_split)
  have "wf_db (db (next_tick w))" using wf by simp
  note r1 = InsertReceipt_step [OF 1 this]
  obtain i j where d3: "db w3 = (db w1)\<lparr>ledger := ledger (db w1)
      @ entry_unless (\<not> ci_redeem inp \<noteq> 0) i ?c (ci_receipt inp) (neg64 (ci_redeem inp))
          ReasonRedeem (ci_staff inp) ?t
      @ entry_unless (\<not> ?earn \<noteq> 0) j ?c (ci_receipt inp) ?earn ReasonEarn (ci_staff inp) ?t\<rparr>"
    and g3: "wf_gap ?c ((if ci_redeem inp \<noteq> 0 then neg64 (ci_redeem inp) else 0)
                + (if ?earn \<noteq> 0 then ?earn else 0)) (db w3)"
    and e3: "env w3 = env w1"
    by (rule ledger_pair_step [OF 2 3 r1(1)])
  have row3: "row_by cust_id ?c (customers (db w3)) = Some cu" using r1(2) d3 row by simp
  have "?p = wrap64 (cust_points cu + ((if ci_redeem inp \<noteq> 0 then neg64 (ci_redeem inp) else 0)
                + (if ?earn \<noteq> 0 then ?earn else 0)))"
    unfolding commit_points_def by (rule points_gap)
  note sp = SetPoints_step [OF 4 g3 row3 this]
  have "db w' = commit_db inp st cu ?t i j (db w)"
    using sp(2) r1(2) d3 by (simp add: commit_db_def)
  then show thesis
    using that [OF _ res] sp r1(3-) e3 by simp
qed

text \<open>The two ways the body of a commit succeeds: the receipt exists with the same data, or
  the new receipt is written.\<close>

definition replay_result :: "Customer \<Rightarrow> Receipt \<Rightarrow> CommitResult" where
  "replay_result c r = \<lparr>cr_receipt = rec_id r, cr_customer = rec_customer r,
     cr_barcode = cust_barcode c, cr_points = rec_points_after r, cr_earn = rec_earn r,
     cr_redeem = rec_redeem r, cr_replay = True\<rparr>"

definition same_data :: "CommitInput \<Rightarrow> Customer \<Rightarrow> Receipt \<Rightarrow> bool" where
  "same_data inp c r \<longleftrightarrow> rec_customer r = cust_id c \<and> rec_amount r = ci_amount inp
     \<and> rec_redeem r = ci_redeem inp"

definition commit_allowed :: "CommitInput \<Rightarrow> Settings \<Rightarrow> Customer \<Rightarrow> bool" where
  "commit_allowed inp st cu \<longleftrightarrow> cust_deleted cu = None \<and> \<not> cust_blocked cu
     \<and> CheckRedeem (cust_points cu) (ci_amount inp) (ci_redeem inp) st = None"

lemma commit_tx_Inr:
  assumes go: "run_state (commit_tx inp c st) w = (Inr res, w')"
    and wf: "wf_db (db w)" and c: "c \<in> set (customers (db w))"
  obtains
    (replay) r where "row_by rec_id (ci_receipt inp) (receipts (db w)) = Some r"
      "same_data inp c r" "res = replay_result c r" "db w' = db w" "env w' = env w"
  | (written) t i j where "db w' = commit_db inp st c t i j (db w)" "res = commit_result inp st c"
      "wf_db (db w')" "env w' = env w" "commit_allowed inp st c"
      "\<not> has_row rec_id (ci_receipt inp) (receipts (db w))"
      "int_fits (driver_of (env w)) (ci_amount inp)" "int_fits (driver_of (env w)) (ci_redeem inp)"
      "int_fits (driver_of (env w)) (commit_points inp st c)"
proof (cases "row_by rec_id (ci_receipt inp) (receipts (db w))")
  case (Some r)
  with go show ?thesis
    by (intro replay [of r])
      (auto simp: commit_tx_def run commit_replay_def same_data_def replay_result_def
          split: fate.splits if_splits)
next
  case None
  note row = row_of_member [OF wf c]
  have l: "run_state (or_return (LockCustomer (cust_id c)) (\<lambda>locked.
            check (customerUsable locked)
              (check (CheckRedeem (cust_points locked) (ci_amount inp) (ci_redeem inp) st)
                (commit_new inp st locked)))) (next_tick w) = (Inr res, w')"
    using go None by (auto simp: commit_tx_def run_GetReceipt run_fail split: fate.splits)
  then have a: "commit_allowed inp st c"
    and n: "run_state (commit_new inp st c) (next_tick (next_tick (next_tick w))) = (Inr res, w')"
    using row
    by (auto simp: or_return_Inr LockCustomer_Inr run_check_Inr customerUsable_None
        commit_allowed_def)
  show ?thesis
  proof (rule commit_new_Inr [OF n])
    show "wf_db (db (next_tick (next_tick (next_tick w))))" using wf by simp
    show "row_by cust_id (cust_id c) (customers (db (next_tick (next_tick (next_tick w))))) = Some c"
      using row by simp
  qed (rule written, use a in simp_all)
qed

text \<open>What any call of \<open>Commit\<close> leaves behind, success or error: nothing, or the whole
  new receipt.\<close>

definition commit_writes ::
  "CommitInput \<Rightarrow> world \<Rightarrow> Customer \<Rightarrow> gtime \<Rightarrow> string \<Rightarrow> string \<Rightarrow> database" where
  "commit_writes inp w c t i j = commit_db inp (ParseSettings (settings (db w))) c t i j (db w)"

definition commit_ready :: "CommitInput \<Rightarrow> world \<Rightarrow> Customer \<Rightarrow> bool" where
  "commit_ready inp w c \<longleftrightarrow> 0 \<le> ci_amount inp \<and> 0 \<le> ci_redeem inp
     \<and> c \<in> set (customers (db w)) \<and> resolved (env w) (ci_barcode inp) (customers (db w)) = Some c
     \<and> commit_allowed inp (ParseSettings (settings (db w))) c
     \<and> \<not> has_row rec_id (ci_receipt inp) (receipts (db w))
     \<and> int_fits (driver_of (env w)) (ci_amount inp)
     \<and> int_fits (driver_of (env w)) (ci_redeem inp)
     \<and> int_fits (driver_of (env w)) (commit_points inp (ParseSettings (settings (db w))) c)"

text \<open>The body of the transaction of \<open>Commit\<close>, seen from the world \<open>w\<close> the call started in.\<close>

lemma commit_tx_from:
  assumes b: "run_state (commit_tx inp c (ParseSettings (settings (db w)))) (next_tick w1) = (Inr res, w3)"
    and wf: "wf_db (db w)" and w1: "db w1 = db w" "env w1 = env w"
    and c: "c \<in> set (customers (db w))" "resolved (env w) (ci_barcode inp) (customers (db w)) = Some c"
    and nn: "0 \<le> ci_amount inp" "0 \<le> ci_redeem inp"
  obtains
    (replay) r where "row_by rec_id (ci_receipt inp) (receipts (db w)) = Some r" "same_data inp c r"
      "res = replay_result c r" "db w3 = db w" "env w3 = env w"
  | (written) t i j where "commit_ready inp w c" "db w3 = commit_writes inp w c t i j"
      "res = commit_result inp (ParseSettings (settings (db w))) c" "wf_db (db w3)" "env w3 = env w"
proof -
  have wf1: "wf_db (db (next_tick w1))" and c1: "c \<in> set (customers (db (next_tick w1)))"
    using wf c w1 by simp_all
  show thesis
    by (rule commit_tx_Inr [OF b wf1 c1])
      (use w1 c nn in \<open>auto simp: commit_ready_def commit_writes_def intro: replay written\<close>)
qed

context enqueuer
begin

lemma enqueue_sans_jobs:
  assumes "Jobs s = Some enq" "run_state (enqueue s c) w = (u, w')"
  shows "sans_jobs (db w') = sans_jobs (db w)" "env w' = env w"
  using only_outbox [of c w] env_kept [of c w] assms by (simp_all add: enqueue_def)

text \<open>The run of \<open>Commit\<close> up to its transaction.\<close>

lemma Commit_reaches:
  assumes "run_state (Commit s inp) w = (r, w')"
  obtains (refused) e where "r = Inl e" "db w' = db w" "env w' = env w"
  | (tx) c w1 rt w2 where "c \<in> set (customers (db w))" "resolved (env w) (ci_barcode inp) (customers (db w)) = Some c"
      "customerUsable c = None" "0 \<le> ci_amount inp" "0 \<le> ci_redeem inp"
      "uuid_ok (env w) (ci_receipt inp)" "db w1 = db w" "env w1 = env w"
      "run_state (InTx (commit_tx inp c (ParseSettings (settings (db w))))) w1 = (rt, w2)"
      "case rt of Inl e \<Rightarrow> r = Inl e \<and> w' = w2
         | Inr res \<Rightarrow> r = Inr res \<and> (if cr_replay res then w' = w2
             else w' = snd (run_state (enqueue s (cr_customer res)) w2))"
proof -
  obtain rc w0 where rc: "run_state (resolveCustomer (ci_barcode inp)) w = (rc, w0)" by fastforce
  obtain rs w1 where rs: "run_state get_settings w0 = (rs, w1)" by fastforce
  have e0: "db w0 = db w" "env w0 = env w" using readsD [OF reads_resolveCustomer rc] by simp_all
  have e1: "db w1 = db w" "env w1 = env w" using readsD [OF reads_get_settings rs] e0 by simp_all
  show thesis
  proof (cases "uuid_ok (env w) (ci_receipt inp) \<and> 0 \<le> ci_amount inp \<and> 0 \<le> ci_redeem inp")
    case False
    with assms show ?thesis
      by (auto simp: Commit_def run intro: refused split: if_splits)
  next
    case ok1: True
    show ?thesis
    proof (cases rc)
      case (Inl e)
      with assms ok1 rc e0 show ?thesis by (intro refused) (auto simp: Commit_def run)
    next
      case c: (Inr c)
      show ?thesis
      proof (cases "customerUsable c")
        case (Some e)
        with assms ok1 rc c e0 show ?thesis by (intro refused) (auto simp: Commit_def run)
      next
        case None
        show ?thesis
        proof (cases rs)
          case (Inl e)
          with assms ok1 rc c None rs e1 show ?thesis
            by (intro refused) (auto simp: Commit_def run)
        next
          case st: (Inr st)
          then have "st = ParseSettings (settings (db w))" using rs e0 by (simp add: get_settings_Inr)
          moreover obtain rt w2 where "run_state (InTx (commit_tx inp c st)) w1 = (rt, w2)" by fastforce
          ultimately show ?thesis
            using assms ok1 rc c None rs st e1 resolveCustomer_Inr [of "ci_barcode inp" w c w0]
            by (intro tx [of c w1 rt w2])
              (auto simp: Commit_def run split: sum.splits prod.splits if_splits)
        qed
      qed
    qed
  qed
qed

end

context enqueuer
begin

text \<open>Success: a replay that changes nothing, or the new receipt.\<close>

lemma Commit_success:
  assumes s: "Jobs s = Some enq" and wf: "wf_db (db w)"
    and go: "run_state (Commit s inp) w = (Inr res, w')"
  obtains
    (replay) c r where "c \<in> set (customers (db w))" "resolved (env w) (ci_barcode inp) (customers (db w)) = Some c"
      "row_by rec_id (ci_receipt inp) (receipts (db w)) = Some r" "same_data inp c r"
      "res = replay_result c r" "db w' = db w" "env w' = env w"
  | (written) c t i j where "commit_ready inp w c"
      "sans_jobs (db w') = sans_jobs (commit_writes inp w c t i j)" "wf_db (db w')"
      "res = commit_result inp (ParseSettings (settings (db w))) c" "env w' = env w"
proof (rule Commit_reaches [OF go])
  fix e assume "Inr res = Inl e" then show thesis by simp
next
  fix c w1 rt w2
  let ?st = "ParseSettings (settings (db w))"
  assume c: "c \<in> set (customers (db w))" "resolved (env w) (ci_barcode inp) (customers (db w)) = Some c"
    and nn: "0 \<le> ci_amount inp" "0 \<le> ci_redeem inp"
    and w1: "db w1 = db w" "env w1 = env w"
    and tx: "run_state (InTx (commit_tx inp c ?st)) w1 = (rt, w2)"
    and out: "case rt of Inl e \<Rightarrow> (Inr res :: go_error + CommitResult) = Inl e \<and> w' = w2
         | Inr r \<Rightarrow> Inr res = Inr r \<and> (if cr_replay r then w' = w2
             else w' = snd (run_state (enqueue s (cr_customer r)) w2))"
  have rt: "rt = Inr res" using out by (cases rt) auto
  then have w': "if cr_replay res then w' = w2 else w' = snd (run_state (enqueue s (cr_customer res)) w2)"
    using out by simp
  obtain w3 where b: "run_state (commit_tx inp c ?st) (next_tick w1) = (Inr res, w3)"
    and w2: "db w2 = db w3" "env w2 = env w3"
    using InTx_Inr [OF tx [unfolded rt]] by metis
  show thesis
  proof (rule commit_tx_from [OF b wf w1 c nn])
    fix r assume "row_by rec_id (ci_receipt inp) (receipts (db w)) = Some r" "same_data inp c r"
      "res = replay_result c r" "db w3 = db w" "env w3 = env w"
    then show thesis using c w2 w' by (intro replay [of c r]) (auto simp: replay_result_def)
  next
    fix t i j
    assume a: "commit_ready inp w c" "db w3 = commit_writes inp w c t i j"
      "res = commit_result inp ?st c" "wf_db (db w3)" "env w3 = env w"
    have "w' = snd (run_state (enqueue s (cr_customer res)) w2)"
      using w' a(3) by (simp add: commit_result_def)
    then have e: "sans_jobs (db w') = sans_jobs (db w2)" "env w' = env w2"
      using enqueue_sans_jobs [OF s, of "cr_customer res" w2] by (metis prod.collapse)+
    show thesis
      by (rule written [of c t i j]) (use a e w2 in \<open>simp_all add: wf_cong_sans_jobs [OF e(1)]\<close>)
  qed
qed

lemma Commit_any:
  assumes s: "Jobs s = Some enq" and wf: "wf_db (db w)"
    and go: "run_state (Commit s inp) w = (r, w')"
  obtains
    (unchanged) "sans_jobs (db w') = sans_jobs (db w)"
  | (written) c t i j where "commit_ready inp w c"
      "sans_jobs (db w') = sans_jobs (commit_writes inp w c t i j)" "wf_db (db w')"
proof (cases r)
  case (Inr res)
  show ?thesis
  proof (rule Commit_success [OF s wf go [unfolded Inr]])
    assume "db w' = db w"
    then show thesis by (intro unchanged) simp
  qed (rule written)
next
  case (Inl err)
  show ?thesis
  proof (rule Commit_reaches [OF go])
    assume "db w' = db w" then show thesis using unchanged by simp
  next
    fix c w1 rt w2
    let ?st = "ParseSettings (settings (db w))"
    assume c: "c \<in> set (customers (db w))" "resolved (env w) (ci_barcode inp) (customers (db w)) = Some c"
      and nn: "0 \<le> ci_amount inp" "0 \<le> ci_redeem inp"
      and w1: "db w1 = db w" "env w1 = env w"
      and tx: "run_state (InTx (commit_tx inp c ?st)) w1 = (rt, w2)"
      and out: "case rt of Inl e \<Rightarrow> r = Inl e \<and> w' = w2
           | Inr x \<Rightarrow> r = Inr x \<and> (if cr_replay x then w' = w2
               else w' = snd (run_state (enqueue s (cr_customer x)) w2))"
    have w': "w' = w2" using out Inl by (cases rt) auto
    show thesis
    proof (rule InTx_cases [OF tx])
      assume "db w2 = db w1" then show thesis using unchanged w' w1 by simp
    next
      fix x w3
      assume b: "run_state (commit_tx inp c ?st) (next_tick w1) = (Inr x, w3)"
        and w3: "db w2 = db w3"
      show thesis
        by (rule commit_tx_from [OF b wf w1 c nn])
          (use w' w3 in \<open>auto intro: unchanged written\<close>)
    qed
  qed
qed

lemma keeps_Commit: "Jobs s = Some enq \<Longrightarrow> keeps wf_db (Commit s inp)"
  unfolding keeps_def
proof (intro allI impI)
  fix w :: world assume s: "Jobs s = Some enq" and w: "wf_db (db w)"
  obtain r w' where go: "run_state (Commit s inp) w = (r, w')" by fastforce
  have "wf_db (db w')"
    by (rule Commit_any [OF s w go]) (use w in \<open>auto dest: wf_cong_sans_jobs\<close>)
  then show "wf_db (db (snd (run_state (Commit s inp) w)))" using go by simp
qed

end

section \<open>Refund\<close>

text \<open>The points taken back (none when not positive): the earned ones, at most the balance.\<close>

definition earned_back :: "Receipt \<Rightarrow> int \<Rightarrow> int" where
  "earned_back r p = (if rec_earn r > 0 then (if rec_earn r > p then p else rec_earn r) else 0)"

definition after_earned :: "Receipt \<Rightarrow> int \<Rightarrow> int" where
  "after_earned r p = (if earned_back r p > 0 then sub64 p (earned_back r p) else p)"

definition refund_points :: "Receipt \<Rightarrow> int \<Rightarrow> int" where
  "refund_points r p =
     (if rec_redeem r > 0 then add64 (after_earned r p) (rec_redeem r) else after_earned r p)"

definition refund_result :: "Receipt \<Rightarrow> Customer \<Rightarrow> RefundResult" where
  "refund_result r cu = \<lparr>rr_receipt = rec_id r, rr_customer = rec_customer r,
     rr_points = refund_points r (cust_points cu), rr_replay = False\<rparr>"

definition refunded_row :: "int \<Rightarrow> gtime \<Rightarrow> Receipt \<Rightarrow> Receipt" where
  "refunded_row p t r = r\<lparr>rec_status := ReceiptRefunded, rec_points_after_refund := Some p,
     rec_refunded := Some t\<rparr>"

definition refund_db ::
  "Receipt \<Rightarrow> Customer \<Rightarrow> string \<Rightarrow> gtime \<Rightarrow> string \<Rightarrow> string \<Rightarrow> database \<Rightarrow> database" where
  "refund_db r cu actor t i j d =
    (let p = refund_points r (cust_points cu); rev = earned_back r (cust_points cu) in d\<lparr>
     ledger := ledger d
       @ entry_unless (\<not> 0 < rev) i (cust_id cu) (rec_id r) (neg64 rev) ReasonRefundEarn actor t
       @ entry_unless (\<not> 0 < rec_redeem r) j (cust_id cu) (rec_id r) (rec_redeem r)
           ReasonRefundRedeem actor t,
     customers := update_by cust_id (cust_id cu)
       (\<lambda>c. c\<lparr>cust_points := p, cust_updated := t\<rparr>) (customers d),
     receipts := update_by rec_id (rec_id r) (refunded_row p t) (receipts d)\<rparr>)"

lemma refund_earned_eq:
  "refund_earned r c a t p = or_return
     (if 0 < earned_back r p
      then InsertLedger c (rec_id r) (neg64 (earned_back r p)) ReasonRefundEarn a t else ok ())
     (\<lambda>_. ok (after_earned r p))"
  by (auto simp: refund_earned_def earned_back_def after_earned_def Let_def or_return_def ok_def)

lemma refund_redeemed_eq:
  "refund_redeemed r c a t p = or_return
     (if 0 < rec_redeem r
      then InsertLedger c (rec_id r) (rec_redeem r) ReasonRefundRedeem a t else ok ())
     (\<lambda>_. ok (if rec_redeem r > 0 then add64 p (rec_redeem r) else p))"
  by (auto simp: refund_redeemed_def or_return_def ok_def)

lemma wf_points_in_i64:
  "\<lbrakk>wf_db d; c \<in> set (customers d)\<rbrakk> \<Longrightarrow> in_i64 (cust_points c)"
  by (simp add: wf_db_def balances_ok_def list_all_iff)

lemma refund_points_gap:
  assumes "in_i64 p"
  shows "refund_points r p = wrap64 (p + ((if 0 < earned_back r p then neg64 (earned_back r p) else 0)
            + (if 0 < rec_redeem r then rec_redeem r else 0)))"
proof -
  have w: "wrap64 p = p" using assms by (rule wrap64_id)
  have n: "wrap64 (p + (neg64 x + y)) = wrap64 (p - x + y)" for x y
  proof -
    have "wrap64 (p + (neg64 x + y)) = wrap64 (p + y + wrap64 (- x))"
      by (simp only: neg64_def add.commute [of "wrap64 (- x)"] add.assoc)
    also have "\<dots> = wrap64 (p - x + y)"
      unfolding wrap64_add_right by (simp add: algebra_simps)
    finally show ?thesis .
  qed
  have "wrap64 (p + neg64 x) = wrap64 (p - x)" for x using n [of x 0] by simp
  with n w show ?thesis
    by (auto simp: refund_points_def after_earned_def add64_def sub64_def)
qed

lemma mark_refunded_db:
  "mark_refunded i p t drv d = Some (n, d') \<Longrightarrow>
     d' = d\<lparr>receipts := update_by rec_id i (refunded_row p t) (receipts d)\<rparr>"
  by (auto simp: mark_refunded_def refunded_row_def [abs_def] split: if_splits)

text \<open>The steps a refund takes when it succeeds.\<close>

lemma refund_receipt_runs:
  assumes go: "run_state (refund_receipt r actor) w = (Inr res, w')"
  obtains cu t w1 w2 w3 w4 where "row_by cust_id (rec_customer r) (customers (db w)) = Some cu"
    "db w1 = db w" "env w1 = env w"
    "run_state (if 0 < earned_back r (cust_points cu)
      then InsertLedger (cust_id cu) (rec_id r) (neg64 (earned_back r (cust_points cu)))
             ReasonRefundEarn actor t else ok ()) w1 = (Inr (), w2)"
    "run_state (if 0 < rec_redeem r
      then InsertLedger (cust_id cu) (rec_id r) (rec_redeem r) ReasonRefundRedeem actor t else ok ())
      w2 = (Inr (), w3)"
    "run_state (SetPoints (cust_id cu) (refund_points r (cust_points cu)) t) w3 = (Inr (), w4)"
    "run_state (MarkRefunded (rec_id r) (refund_points r (cust_points cu)) t) w4 = (Inr (), w')"
    "res = refund_result r cu"
proof -
  obtain cu w1 where l: "run_state (LockCustomer (rec_customer r)) w = (Inr cu, w1)"
    and k: "run_state (State_Monad.bind now (\<lambda>t.
     or_return (refund_earned r (cust_id cu) actor t (cust_points cu)) (\<lambda>p1.
     or_return (refund_redeemed r (cust_id cu) actor t p1) (\<lambda>points.
     or_return (SetPoints (cust_id cu) points t) (\<lambda>_.
     or_return (MarkRefunded (rec_id r) points t) (\<lambda>_.
     ok \<lparr>rr_receipt = rec_id r, rr_customer = rec_customer r, rr_points = points,
         rr_replay = False\<rparr>)))))) w1 = (Inr res, w')"
    using go by (auto simp: refund_receipt_def or_return_Inr)
  have "row_by cust_id (rec_customer r) (customers (db w)) = Some cu"
    "db (next_tick w1) = db w" "env (next_tick w1) = env w"
    using l by (simp_all add: LockCustomer_Inr)
  from that [OF this, of "now_at (env w1) (tick w1)"] k show thesis
    by (auto simp: refund_earned_eq refund_redeemed_eq or_return_Inr run_now run_ok
        refund_result_def refund_points_def [symmetric] simp del: if_split cong: if_cong)
qed

lemma refund_receipt_Inr:
  assumes go: "run_state (refund_receipt r actor) w = (Inr res, w')" and wf: "wf_db (db w)"
  obtains cu t i j where "row_by cust_id (rec_customer r) (customers (db w)) = Some cu"
    "db w' = refund_db r cu actor t i j (db w)" "res = refund_result r cu" "wf_db (db w')"
    "env w' = env w"
    "int_fits (driver_of (env w)) (refund_points r (cust_points cu))"
proof (rule refund_receipt_runs [OF go])
  fix cu :: Customer and t w1 w2 w3 w4
  let ?c = "cust_id cu" and ?p = "cust_points cu"
  let ?q = "refund_points r ?p"
  assume row: "row_by cust_id (rec_customer r) (customers (db w)) = Some cu"
    and w1: "db w1 = db w" "env w1 = env w"
    and 1: "run_state (if 0 < earned_back r ?p
      then InsertLedger ?c (rec_id r) (neg64 (earned_back r ?p)) ReasonRefundEarn actor t else ok ())
      w1 = (Inr (), w2)"
    and 2: "run_state (if 0 < rec_redeem r
      then InsertLedger ?c (rec_id r) (rec_redeem r) ReasonRefundRedeem actor t else ok ())
      w2 = (Inr (), w3)"
    and 3: "run_state (SetPoints ?c ?q t) w3 = (Inr (), w4)"
    and 4: "run_state (MarkRefunded (rec_id r) ?q t) w4 = (Inr (), w')"
    and res: "res = refund_result r cu"
  have cid: "?c = rec_customer r" and mem: "cu \<in> set (customers (db w))"
    using row by (auto dest: row_by_Some_key row_by_Some_in)
  have "wf_gap ?c 0 (db w1)" using wf w1 by simp
  note l = ledger_pair_step [OF 1 2 this]
  obtain i j where d3: "db w3 = (db w1)\<lparr>ledger := ledger (db w1)
      @ entry_unless (\<not> 0 < earned_back r ?p) i ?c (rec_id r) (neg64 (earned_back r ?p)) ReasonRefundEarn actor t
      @ entry_unless (\<not> 0 < rec_redeem r) j ?c (rec_id r) (rec_redeem r) ReasonRefundRedeem actor t\<rparr>"
    and g3: "wf_gap ?c ((if 0 < earned_back r ?p then neg64 (earned_back r ?p) else 0)
                + (if 0 < rec_redeem r then rec_redeem r else 0)) (db w3)"
    and e3: "env w3 = env w1"
    by (rule l)
  have "row_by cust_id ?c (customers (db w3)) = Some cu" using d3 row cid w1 by simp
  note sp = SetPoints_step [OF 3 g3 this refund_points_gap [OF wf_points_in_i64 [OF wf mem]]]
  obtain m' d5 where mr: "mark_refunded (rec_id r) ?q t (driver_of (env w)) (db w4) = Some (m', d5)"
    and w': "w' = (next_tick w4)\<lparr>db := d5\<rparr>"
    using 4 sp(3) e3 w1 by (auto simp: MarkRefunded_Inr)
  have "wf_db (db w')" using gap_mark_refunded(1) [OF mr, of ?c 0] sp(1) w' by simp
  moreover have "db w' = refund_db r cu actor t i j (db w)"
    using mark_refunded_db [OF mr] sp(2) w' d3 w1 by (simp add: refund_db_def Let_def)
  ultimately show thesis
    using that [OF row _ res] w' sp(3,4) e3 w1 by simp
qed

definition refund_replay :: "Receipt \<Rightarrow> RefundResult" where
  "refund_replay r = \<lparr>rr_receipt = rec_id r, rr_customer = rec_customer r,
     rr_points = (case rec_points_after_refund r of Some p \<Rightarrow> p | None \<Rightarrow> rec_points_after r),
     rr_replay = True\<rparr>"

lemma refund_tx_Inr:
  assumes go: "run_state (refund_tx rid actor) w = (Inr res, w')" and wf: "wf_db (db w)"
  obtains
    (replay) r where "row_by rec_id rid (receipts (db w)) = Some r"
      "rec_status r = ReceiptRefunded" "res = refund_replay r" "db w' = db w" "env w' = env w"
  | (written) r cu t i j where "row_by rec_id rid (receipts (db w)) = Some r"
      "rec_status r \<noteq> ReceiptRefunded"
      "row_by cust_id (rec_customer r) (customers (db w)) = Some cu"
      "db w' = refund_db r cu actor t i j (db w)" "res = refund_result r cu" "wf_db (db w')"
      "env w' = env w" "int_fits (driver_of (env w)) (refund_points r (cust_points cu))"
proof -
  obtain r where row: "row_by rec_id rid (receipts (db w)) = Some r"
    using go by (auto simp: refund_tx_def run split: fate.splits option.splits)
  show thesis
  proof (cases "rec_status r = ReceiptRefunded")
    case True
    with go row show ?thesis
      by (intro replay [of r])
        (auto simp: refund_tx_def run refund_replay_def Let_def split: fate.splits)
  next
    case False
    with go row have b: "run_state (refund_receipt r actor) (next_tick w) = (Inr res, w')"
      by (auto simp: refund_tx_def run_GetReceipt run_fail split: fate.splits)
    have wf1: "wf_db (db (next_tick w))" using wf by simp
    show ?thesis
      by (rule refund_receipt_Inr [OF b wf1]) (rule written [OF row False]; simp)
  qed
qed

section \<open>Adjust\<close>

definition adjust_db ::
  "Customer \<Rightarrow> int \<Rightarrow> string \<Rightarrow> string \<Rightarrow> gtime \<Rightarrow> string \<Rightarrow> database \<Rightarrow> database" where
  "adjust_db cu delta reason actor t i d = d\<lparr>
     ledger := ledger d
       @ [entry i (cust_id cu) '''' delta (ReasonAdjust @ '': '' @ reason) actor t],
     customers := update_by cust_id (cust_id cu)
       (\<lambda>c. c\<lparr>cust_points := add64 (cust_points cu) delta, cust_updated := t\<rparr>) (customers d)\<rparr>"

lemma adjust_tx_Inr:
  assumes go: "run_state (adjust_tx cid delta reason actor) w = (Inr (p, t), w')"
    and wf: "wf_db (db w)"
  obtains cu i where "row_by cust_id cid (customers (db w)) = Some cu"
    "db w' = adjust_db cu delta reason actor t i (db w)" "p = add64 (cust_points cu) delta"
    "0 \<le> p" "wf_db (db w')" "env w' = env w" "int_fits (driver_of (env w)) p"
proof -
  obtain cu w1 w2 w3 where
    0: "run_state (LockCustomer cid) w = (Inr cu, w1)" and
    p: "p = add64 (cust_points cu) delta" "0 \<le> p" and
    1: "run_state (InsertLedger (cust_id cu) '''' delta (ReasonAdjust @ '': '' @ reason) actor t)
          w2 = (Inr (), w3)" and
    2: "run_state (SetPoints (cust_id cu) p t) w3 = (Inr (), w')" and
    w2: "w2 = next_tick w1"
    using go
    by (auto simp: adjust_tx_def or_return_Inr Let_def run_now run_ok run_fail split: if_splits)
  have row: "row_by cust_id cid (customers (db w)) = Some cu" and w1: "w1 = next_tick (next_tick w)"
    using 0 by (simp_all add: LockCustomer_Inr)
  then have cid: "cust_id cu = cid" by (auto dest: row_by_Some_key)
  have g: "wf_gap (cust_id cu) 0 (db w2)" using wf w1 w2 by simp
  obtain i where d3: "db w3 = (db w2)\<lparr>ledger := ledger (db w2)
      @ [entry i (cust_id cu) '''' delta (ReasonAdjust @ '': '' @ reason) actor t]\<rparr>"
    and g3: "wf_gap (cust_id cu) delta (db w3)" and e3: "env w3 = env w"
    by (rule InsertLedger_step [OF 1 g]) (simp add: w1 w2)
  have r3: "row_by cust_id (cust_id cu) (customers (db w3)) = Some cu" using d3 w1 w2 row cid by simp
  have "p = wrap64 (cust_points cu + delta)" using p by (simp add: add64_def)
  note sp = SetPoints_step [OF 2 g3 r3 this]
  have "db w' = adjust_db cu delta reason actor t i (db w)"
    using sp(2) d3 w1 w2 p by (simp add: adjust_db_def)
  then show thesis using that row p sp e3 by simp
qed

section \<open>Refund and Adjust as a whole\<close>

text \<open>Both run one transaction and then notify the queue: what they leave behind is what the
  transaction leaves behind.\<close>

context enqueuer
begin

lemma Refund_reaches:
  assumes "run_state (Refund s rid actor) w = (r, w')"
  obtains (refused) e where "r = Inl e" "db w' = db w"
  | (tx) rt w2 where "run_state (InTx (refund_tx rid actor)) w = (rt, w2)"
      "uuid_ok (env w) rid"
      "case rt of Inl e \<Rightarrow> r = Inl e \<and> w' = w2
         | Inr res \<Rightarrow> r = Inr res \<and> (if rr_replay res then w' = w2
             else w' = snd (run_state (enqueue s (rr_customer res)) w2))"
proof (cases "uuid_ok (env w) rid")
  case False
  with assms show ?thesis by (intro refused) (auto simp: Refund_def run)
next
  case True
  obtain rt w2 where "run_state (InTx (refund_tx rid actor)) w = (rt, w2)" by fastforce
  with assms True show ?thesis
    by (intro tx [of rt w2]) (auto simp: Refund_def run split: sum.splits prod.splits if_splits)
qed

lemma Refund_success:
  assumes s: "Jobs s = Some enq" and wf: "wf_db (db w)"
    and go: "run_state (Refund s rid actor) w = (Inr res, w')"
  obtains
    (replay) r where "row_by rec_id rid (receipts (db w)) = Some r"
      "rec_status r = ReceiptRefunded" "res = refund_replay r" "db w' = db w" "env w' = env w"
  | (written) r cu t i j where "row_by rec_id rid (receipts (db w)) = Some r"
      "rec_status r \<noteq> ReceiptRefunded"
      "row_by cust_id (rec_customer r) (customers (db w)) = Some cu"
      "sans_jobs (db w') = sans_jobs (refund_db r cu actor t i j (db w))"
      "res = refund_result r cu" "wf_db (db w')" "env w' = env w"
      "int_fits (driver_of (env w)) (refund_points r (cust_points cu))"
proof (rule Refund_reaches [OF go])
  fix e assume "Inr res = Inl e" then show thesis by simp
next
  fix rt w2
  assume tx: "run_state (InTx (refund_tx rid actor)) w = (rt, w2)"
    and out: "case rt of Inl e \<Rightarrow> (Inr res :: go_error + RefundResult) = Inl e \<and> w' = w2
         | Inr x \<Rightarrow> Inr res = Inr x \<and> (if rr_replay x then w' = w2
             else w' = snd (run_state (enqueue s (rr_customer x)) w2))"
  have rt: "rt = Inr res" using out by (cases rt) auto
  then have w': "if rr_replay res then w' = w2 else w' = snd (run_state (enqueue s (rr_customer res)) w2)"
    using out by simp
  obtain w3 where b: "run_state (refund_tx rid actor) (next_tick w) = (Inr res, w3)"
    and w2: "db w2 = db w3" "env w2 = env w3"
    using InTx_Inr [OF tx [unfolded rt]] by metis
  have wf1: "wf_db (db (next_tick w))" using wf by simp
  show thesis
  proof (rule refund_tx_Inr [OF b wf1])
    fix r assume "row_by rec_id rid (receipts (db (next_tick w))) = Some r"
      "rec_status r = ReceiptRefunded" "res = refund_replay r" "db w3 = db (next_tick w)"
      "env w3 = env (next_tick w)"
    then show thesis using w2 w' by (intro replay [of r]) (auto simp: refund_replay_def)
  next
    fix r cu t i j
    assume a: "row_by rec_id rid (receipts (db (next_tick w))) = Some r"
      "rec_status r \<noteq> ReceiptRefunded"
      "row_by cust_id (rec_customer r) (customers (db (next_tick w))) = Some cu"
      "db w3 = refund_db r cu actor t i j (db (next_tick w))" "res = refund_result r cu"
      "wf_db (db w3)" "env w3 = env (next_tick w)"
      "int_fits (driver_of (env (next_tick w))) (refund_points r (cust_points cu))"
    have "w' = snd (run_state (enqueue s (rr_customer res)) w2)"
      using w' a(5) by (simp add: refund_result_def)
    then have e: "sans_jobs (db w') = sans_jobs (db w2)" "env w' = env w2"
      using enqueue_sans_jobs [OF s, of "rr_customer res" w2] by (metis prod.collapse)+
    show thesis
      by (rule written [of r cu t i j]) (use a e w2 in \<open>auto simp: wf_cong_sans_jobs [OF e(1)]\<close>)
  qed
qed

lemma Refund_any:
  assumes s: "Jobs s = Some enq" and wf: "wf_db (db w)"
    and go: "run_state (Refund s rid actor) w = (r, w')"
  obtains
    (unchanged) "sans_jobs (db w') = sans_jobs (db w)"
  | (written) rc cu t i j where "row_by rec_id rid (receipts (db w)) = Some rc"
      "rec_status rc \<noteq> ReceiptRefunded"
      "row_by cust_id (rec_customer rc) (customers (db w)) = Some cu"
      "sans_jobs (db w') = sans_jobs (refund_db rc cu actor t i j (db w))" "wf_db (db w')"
      "int_fits (driver_of (env w)) (refund_points rc (cust_points cu))"
proof (cases r)
  case (Inr res)
  show ?thesis
  proof (rule Refund_success [OF s wf go [unfolded Inr]])
    assume "db w' = db w" then show thesis by (intro unchanged) simp
  qed (rule written)
next
  case (Inl err)
  show ?thesis
  proof (rule Refund_reaches [OF go])
    assume "db w' = db w" then show thesis by (intro unchanged) simp
  next
    fix rt w2
    assume tx: "run_state (InTx (refund_tx rid actor)) w = (rt, w2)"
      and out: "case rt of Inl e \<Rightarrow> r = Inl e \<and> w' = w2
           | Inr x \<Rightarrow> r = Inr x \<and> (if rr_replay x then w' = w2
               else w' = snd (run_state (enqueue s (rr_customer x)) w2))"
    have w': "w' = w2" using out Inl by (cases rt) auto
    show thesis
    proof (rule InTx_cases [OF tx])
      assume "db w2 = db w" then show thesis using w' by (intro unchanged) simp
    next
      fix x w3
      assume b: "run_state (refund_tx rid actor) (next_tick w) = (Inr x, w3)" and w3: "db w2 = db w3"
      have wf1: "wf_db (db (next_tick w))" using wf by simp
      show thesis
      proof (rule refund_tx_Inr [OF b wf1])
        assume "db w3 = db (next_tick w)"
        then show thesis using w' w3 by (intro unchanged) simp
      next
        fix rc cu t i j
        assume "row_by rec_id rid (receipts (db (next_tick w))) = Some rc"
          "rec_status rc \<noteq> ReceiptRefunded"
          "row_by cust_id (rec_customer rc) (customers (db (next_tick w))) = Some cu"
          "db w3 = refund_db rc cu actor t i j (db (next_tick w))" "wf_db (db w3)"
          "int_fits (driver_of (env (next_tick w))) (refund_points rc (cust_points cu))"
        then show thesis using w' w3 by (intro written [of rc cu t i j]) simp_all
      qed
    qed
  qed
qed

lemma keeps_Refund:
  assumes s: "Jobs s = Some enq"
  shows "keeps wf_db (Refund s rid actor)"
  unfolding keeps_def
proof (intro allI impI)
  fix w :: world assume w: "wf_db (db w)"
  obtain r w' where go: "run_state (Refund s rid actor) w = (r, w')" by fastforce
  have "wf_db (db w')"
    by (rule Refund_any [OF s w go]) (use w in \<open>auto dest: wf_cong_sans_jobs\<close>)
  then show "wf_db (db (snd (run_state (Refund s rid actor) w)))" using go by simp
qed

end

lemma wf_adjust_tx:
  assumes "wf_db (db w)" "run_state (adjust_tx cid delta reason actor) w = (Inr pt, w')"
  shows "wf_db (db w')"
  using assms(2) by (cases pt) (rule adjust_tx_Inr [OF _ assms(1)], auto)

context enqueuer
begin

lemma keeps_enqueue: "Jobs s = Some enq \<Longrightarrow> keeps wf_db (enqueue s c)"
  by (simp add: enqueue_def keeps_enq)

lemma keeps_Adjust: "Jobs s = Some enq \<Longrightarrow> keeps wf_db (Adjust s ref delta reason actor)"
  unfolding Adjust_def
  by (intro keep keeps_enqueue keeps_reads reads_resolveCustomer keeps_InTx) (rule wf_adjust_tx)

lemma Adjust_success:
  assumes s: "Jobs s = Some enq" and wf: "wf_db (db w)"
    and go: "run_state (Adjust s ref delta reason actor) w = (Inr c', w')"
  obtains cu t i where "cu \<in> set (customers (db w))" "resolved (env w) ref (customers (db w)) = Some cu"
    "cust_deleted cu = None" "0 \<le> add64 (cust_points cu) delta"
    "c' = cu\<lparr>cust_points := add64 (cust_points cu) delta, cust_updated := t\<rparr>"
    "sans_jobs (db w') = sans_jobs (adjust_db cu delta reason actor t i (db w))"
    "wf_db (db w')" "env w' = env w"
proof -
  obtain cu w1 p t w2 where
    1: "run_state (resolveCustomer ref) w = (Inr cu, w1)" and
    2: "cust_deleted cu = None" and
    3: "run_state (InTx (adjust_tx (cust_id cu) delta reason actor)) w1 = (Inr (p, t), w2)" and
    4: "c' = cu\<lparr>cust_points := p, cust_updated := t\<rparr>"
      "w' = snd (run_state (enqueue s (cust_id cu)) w2)"
    using go
    by (auto simp: Adjust_def or_return_Inr run_fail run_ok split: if_splits)
      (auto simp: case_prod_beta)
  note r = resolveCustomer_Inr [OF 1]
  obtain w3 where b: "run_state (adjust_tx (cust_id cu) delta reason actor) (next_tick w1)
      = (Inr (p, t), w3)" and w2: "db w2 = db w3" "env w2 = env w3"
    using InTx_Inr [OF 3] by metis
  have wf1: "wf_db (db (next_tick w1))" using wf r by simp
  have e: "sans_jobs (db w') = sans_jobs (db w2)" "env w' = env w2"
    using 4(2) enqueue_sans_jobs [OF s, of "cust_id cu" w2] by (metis prod.collapse)+
  show thesis
  proof (rule adjust_tx_Inr [OF b wf1])
    fix x i
    assume a: "row_by cust_id (cust_id cu) (customers (db (next_tick w1))) = Some x"
      "db w3 = adjust_db x delta reason actor t i (db (next_tick w1))"
      "p = add64 (cust_points x) delta" "0 \<le> p" "wf_db (db w3)" "env w3 = env (next_tick w1)"
    have "x = cu" using a(1) row_of_member [OF wf r(1)] r by simp
    moreover have "wf_db (db w')" using a(5) w2 wf_cong_sans_jobs [OF e(1)] by simp
    ultimately show thesis
      by (intro that [of cu t i]) (use a r 2 4(1) w2 e in auto)
  qed
qed

end

section \<open>Operations without a money transaction\<close>

lemma keeps_CreateCustomer [keep]: "keeps wf_db (CreateCustomer c)"
  unfolding CreateCustomer_def by (intro keep stmt)

lemma keeps_New: "keeps I New"
proof -
  have "keeps I (new_symbols n)" for n
    by (induction n) (auto intro!: keep)
  then show ?thesis unfolding New_def by (intro keep) auto
qed

lemma keeps_RandomToken: "keeps I (RandomToken n)"
  unfolding RandomToken_def Let_def by (intro keep)

lemma keeps_GetCustomer [keep]:
  "keeps I (GetCustomerByID i)" "keeps I (GetCustomerByBarcode b)" "keeps I (GetCustomerByPhone p)"
  "keeps I (GetCustomerByAppleToken a b)"
  unfolding GetCustomerByID_def GetCustomerByBarcode_def GetCustomerByPhone_def
    GetCustomerByAppleToken_def queryCustomer_def by (intro keep)+

lemma keeps_enroll_create: "keeps wf_db (enroll_create s n p g)"
  unfolding enroll_create_def Let_def by (intro keep keeps_New keeps_RandomToken)

lemma keeps_Enroll: "keeps wf_db (Enroll s inp)"
  unfolding Enroll_def enroll_new_def enroll_found_def Let_def
  by (intro keep keeps_enroll_create)

end
