(* ===== verification/Queue.thy ===== *)
theory Queue
  imports Money
begin

text \<open>
  \<^verbatim>\<open>internal/jobs/queue.go\<close>: the outbox of wallet updates and the worker that drains it.
  The channel \<open>wake\<close> of capacity one is a flag of the world.  The worker relies on the interface
  \<^verbatim>\<open>wallet.Updater\<close>, the locale \<open>updater\<close>; it provides the interface \<open>enqueuer\<close> of
  the loyalty service, which is interpreted here on \<open>Enqueue\<close>.
\<close>

section \<open>Operations\<close>

text \<open>\<^verbatim>\<open>select { case q.wake <- struct{}{}: default: }\<close>.\<close>

definition signal_wake :: "unit act" where
  "signal_wake = State (\<lambda>w. ((), w\<lparr>wake := True\<rparr>))"

definition Enqueue :: "string \<Rightarrow> unit act" where
  "Enqueue customerID = do {
     r \<leftarrow> EnqueueWalletJob customerID;
     (case r of Inl err \<Rightarrow> ret () | Inr _ \<Rightarrow> signal_wake) }"

text \<open>One round of the loop of \<open>drain\<close>, and the loop with the set of customers seen.  A nil
  updater is \<^const>\<open>None\<close>.\<close>

definition drain_job :: "(string \<Rightarrow> unit go) option \<Rightarrow> WalletJob \<Rightarrow> unit act" where
  "drain_job upd j = do {
     r \<leftarrow> (case upd of None \<Rightarrow> ok () | Some update \<Rightarrow> update (job_customer j));
     (case r of
        Inl err \<Rightarrow> do { _ \<leftarrow> FailWalletJob (job_id j) (ErrorText err); ret () }
      | Inr _ \<Rightarrow> do { _ \<leftarrow> CompleteWalletJobsForCustomer (job_customer j); ret () }) }"

fun drain_loop :: "(string \<Rightarrow> unit go) option \<Rightarrow> string list \<Rightarrow> WalletJob list \<Rightarrow> unit act" where
  "drain_loop upd seen [] = ret ()"
| "drain_loop upd seen (j # js) =
     (if job_customer j \<in> set seen then drain_loop upd seen js
      else do { _ \<leftarrow> drain_job upd j; drain_loop upd (job_customer j # seen) js })"

definition drain :: "(string \<Rightarrow> unit go) option \<Rightarrow> unit act" where
  "drain upd = do {
     r \<leftarrow> ClaimWalletJobs 50;
     (case r of Inl err \<Rightarrow> ret () | Inr jobs \<Rightarrow> drain_loop upd [] jobs) }"

text \<open>The worker: which branch of its \<^verbatim>\<open>select\<close> is taken is given by a list of events; a
  receive from \<open>wake\<close> is possible only when the channel is full and empties it.\<close>

datatype queue_event = CtxDone | Woken | Ticked

fun Run :: "(string \<Rightarrow> unit go) option \<Rightarrow> queue_event list \<Rightarrow> unit act" where
  "Run upd [] = ret ()"
| "Run upd (CtxDone # es) = ret ()"
| "Run upd (Woken # es) = do {
     w \<leftarrow> State_Monad.get;
     if wake w then do { _ \<leftarrow> State_Monad.set (w\<lparr>wake := False\<rparr>); _ \<leftarrow> drain upd; Run upd es }
     else Run upd es }"
| "Run upd (Ticked # es) = do { _ \<leftarrow> drain upd; Run upd es }"

section \<open>Enqueue\<close>

lemma EnqueueWalletJob_cases:
  assumes "run_state (EnqueueWalletJob c) w = (r, w')"
  shows "env w' = env w \<and> sans_jobs (db w') = sans_jobs (db w)
    \<and> (wallet_jobs (db w') = wallet_jobs (db w)
       \<or> (pending_for c (wallet_jobs (db w)) = []
          \<and> (\<exists>j. wallet_jobs (db w') = wallet_jobs (db w) @ [j] \<and> job_customer j = c \<and> pending j)))"
  using assms
  by (auto simp: EnqueueWalletJob_def run insert_job_def sans_jobs_def pending_def
      split: fate.splits if_splits option.splits)

lemma run_Enqueue:
  "run_state (Enqueue c) w = (case run_state (EnqueueWalletJob c) w of
     (Inl e, w') \<Rightarrow> ((), w') | (Inr _, w') \<Rightarrow> ((), w'\<lparr>wake := True\<rparr>))"
  by (simp add: Enqueue_def signal_wake_def split: prod.splits sum.splits)

text \<open>The contract of the service's queue holds of the queue the program uses.\<close>

interpretation outbox: enqueuer Enqueue
proof
  fix c w
  obtain r w' where e: "run_state (EnqueueWalletJob c) w = (r, w')" by fastforce
  with EnqueueWalletJob_cases [OF e]
  show "sans_jobs (db (snd (run_state (Enqueue c) w))) = sans_jobs (db w)"
    "env (snd (run_state (Enqueue c) w)) = env w"
    by (simp_all add: run_Enqueue split: sum.splits)
qed

text \<open>At most one open job per customer.\<close>

definition one_pending :: "database \<Rightarrow> bool" where
  "one_pending d \<longleftrightarrow> (\<forall>c. length (pending_for c (wallet_jobs d)) \<le> 1)"

lemma pending_for_append [simp]: "pending_for c (xs @ ys) = pending_for c xs @ pending_for c ys"
  by (simp add: pending_for_def)

lemma Enqueue_cases:
  obtains "wallet_jobs (db (snd (run_state (Enqueue c) w))) = wallet_jobs (db w)"
  | j where "pending_for c (wallet_jobs (db w)) = []"
      "wallet_jobs (db (snd (run_state (Enqueue c) w))) = wallet_jobs (db w) @ [j]"
      "job_customer j = c" "pending j"
proof -
  obtain r w' where e: "run_state (EnqueueWalletJob c) w = (r, w')" by fastforce
  then have "wallet_jobs (db (snd (run_state (Enqueue c) w))) = wallet_jobs (db w')"
    by (simp add: run_Enqueue split: sum.splits)
  with EnqueueWalletJob_cases [OF e] show thesis using that by auto
qed

lemma Enqueue_one_pending: "keeps one_pending (Enqueue c)"
  unfolding keeps_def
proof (intro allI impI)
  fix w :: world assume "one_pending (db w)"
  then show "one_pending (db (snd (run_state (Enqueue c) w)))"
    by (cases rule: Enqueue_cases [of c w])
      (auto simp: one_pending_def pending_for_def pending_def)
qed

section \<open>The worker\<close>

locale updater =
  fixes upd :: "string \<Rightarrow> unit go"
  assumes upd_reads: "reads (upd c)"
begin

lemma drain_job_run:
  obtains (failed) e t where
    "run_state (drain_job (Some upd) j) w = ((), t)" "env t = env w"
    "db t = db w \<or> (\<exists>n d. fail_job (job_id j) (ErrorText e) (driver_of (env w)) (db w) = Some (n, d)
        \<and> db t = d)"
  | (completed) t x where
    "run_state (drain_job (Some upd) j) w = ((), t)" "env t = env w"
    "db t = db w \<or> (\<exists>n d. complete_jobs (job_customer j) x (driver_of (env w)) (db w) = Some (n, d)
        \<and> db t = d)"
proof -
  obtain r w1 where u: "run_state (upd (job_customer j)) w = (r, w1)" by fastforce
  with readsD [OF upd_reads] have w1: "db w1 = db w" "env w1 = env w" by auto
  show thesis
  proof (cases r)
    case (Inl e)
    show ?thesis
      by (rule failed [of "snd (run_state (drain_job (Some upd) j) w)" e])
        (use u Inl w1 in \<open>auto simp: drain_job_def FailWalletJob_def run
           split: option.splits fate.splits\<close>)
  next
    case (Inr x)
    show ?thesis
      by (rule completed [of "snd (run_state (drain_job (Some upd) j) w)" "now_at (env w) (tick w1)"])
        (use u Inr w1 in \<open>auto simp: drain_job_def CompleteWalletJobsForCustomer_def run
           split: option.splits fate.splits\<close>)
  qed
qed

lemma drain_job_outbox:
  "sans_jobs (db (snd (run_state (drain_job (Some upd) j) w))) = sans_jobs (db w)"
  "env (snd (run_state (drain_job (Some upd) j) w)) = env w"
  by (cases rule: drain_job_run [of j w];
      auto simp: fail_job_def complete_jobs_def sans_jobs_def split: if_splits)+

lemma fail_job_pending:
  "fail_job i e drv d = Some (n, d') \<Longrightarrow>
     length (pending_for c (wallet_jobs d')) = length (pending_for c (wallet_jobs d))"
proof -
  have "length (pending_for c (update_by job_id i
      (\<lambda>j. j\<lparr>job_attempts := job_attempts j + 1, job_error := Some e\<rparr>) js))
    = length (pending_for c js)" for js
    by (induction js) (auto simp: pending_for_def pending_def)
  then show "fail_job i e drv d = Some (n, d') \<Longrightarrow> ?thesis"
    by (auto simp: fail_job_def split: if_splits)
qed

lemma complete_jobs_pending:
  "complete_jobs c t drv d = Some (n, d') \<Longrightarrow>
     pending_for c' (wallet_jobs d') = (if c' = c then [] else pending_for c' (wallet_jobs d))"
  by (auto simp: complete_jobs_def pending_for_after_complete pending_for_complete_other)

lemma drain_job_pending:
  "length (pending_for c (wallet_jobs (db (snd (run_state (drain_job (Some upd) j) w)))))
     \<le> length (pending_for c (wallet_jobs (db w)))"
  by (cases rule: drain_job_run [of j w]) (auto simp: fail_job_pending complete_jobs_pending)

lemma drain_loop_keeps:
  assumes "\<And>j w. P w \<Longrightarrow> P (snd (run_state (drain_job (Some upd) j) w))" "P w"
  shows "P (snd (run_state (drain_loop (Some upd) seen js) w))"
  using assms(2)
proof (induction js arbitrary: seen w)
  case (Cons j js)
  then show ?case using assms(1) [of w j] by (auto simp: case_prod_beta)
qed simp

lemma drain_keeps:
  assumes "\<And>j w. P w \<Longrightarrow> P (snd (run_state (drain_job (Some upd) j) w))"
    and "\<And>w. P w \<Longrightarrow> P (next_tick w)" and "P w"
  shows "P (snd (run_state (drain (Some upd)) w))"
proof -
  have c: "run_state (ClaimWalletJobs 50) w
      = ((case fate_at (env w) (tick w) of
            Okay \<Rightarrow> Inr (limit_rows 50 (order_asc job_created (filter pending (wallet_jobs (db w)))))
          | _ \<Rightarrow> Inl (db_error (env w) (tick w))), next_tick w)"
    by (simp add: ClaimWalletJobs_def run Let_def)
  show ?thesis
    using drain_loop_keeps [of P, OF assms(1) assms(2) [OF assms(3)]] assms(2) [OF assms(3)]
    by (auto simp: drain_def c split: fate.splits)
qed

text \<open>Draining never creates an open job and touches the outbox only.\<close>

lemma drain_outbox: "sans_jobs (db (snd (run_state (drain (Some upd)) w))) = sans_jobs (db w)"
  by (rule drain_keeps [of "\<lambda>v. sans_jobs (db v) = sans_jobs (db w)"])
    (simp_all add: drain_job_outbox)

lemma drain_one_pending: "keeps one_pending (drain (Some upd))"
  unfolding keeps_def
proof (intro allI impI)
  fix w :: world assume "one_pending (db w)"
  then show "one_pending (db (snd (run_state (drain (Some upd)) w)))"
    by (rule drain_keeps [of "\<lambda>v. one_pending (db v)", rotated 2])
      (auto simp: one_pending_def intro: order_trans [OF drain_job_pending])
qed

lemma Run_keeps:
  assumes "\<And>w. P w \<Longrightarrow> P (snd (run_state (drain (Some upd)) w))"
    and "\<And>w b. P w \<Longrightarrow> P (w\<lparr>wake := b\<rparr>)" and "P w"
  shows "P (snd (run_state (Run (Some upd) es) w))"
  using assms(3)
proof (induction "Some upd" es arbitrary: w rule: Run.induct)
  case (3 es)
  then show ?case
    using assms(1) [of "w\<lparr>wake := False\<rparr>"] assms(2) [of w False]
    by (auto simp: case_prod_beta State_Monad.get_def State_Monad.set_def)
next
  case (4 es)
  then show ?case using assms(1) [of w] by (auto simp: case_prod_beta)
qed simp_all

text \<open>When the database answers and the updater succeeds, a drain closes every open job of the
  customers it claimed.\<close>

definition succeeds :: "world \<Rightarrow> string \<Rightarrow> bool" where
  "succeeds w c \<longleftrightarrow> (\<forall>v. env v = env w \<longrightarrow> sans_jobs (db v) = sans_jobs (db w)
     \<longrightarrow> fst (run_state (upd c) v) = Inr ())"

lemma succeeds_cong:
  "\<lbrakk>env v = env w; sans_jobs (db v) = sans_jobs (db w)\<rbrakk> \<Longrightarrow> succeeds v c = succeeds w c"
  by (simp add: succeeds_def)

lemma drain_job_clears:
  assumes "succeeds w (job_customer j)" "fate_at (env w) = (\<lambda>_. Okay)"
  shows "pending_for (job_customer j)
    (wallet_jobs (db (snd (run_state (drain_job (Some upd) j) w)))) = []"
proof -
  obtain r w1 where u: "run_state (upd (job_customer j)) w = (r, w1)" by fastforce
  with assms(1) have "r = Inr ()" by (auto simp: succeeds_def)
  with u readsD [OF upd_reads u] assms(2) show ?thesis
    by (simp add: drain_job_def CompleteWalletJobsForCustomer_def run complete_jobs_def
        pending_for_after_complete)
qed

lemma drain_loop_pending:
  "length (pending_for c (wallet_jobs (db (snd (run_state (drain_loop (Some upd) seen js) w)))))
     \<le> length (pending_for c (wallet_jobs (db w)))"
  by (rule drain_loop_keeps) (auto intro: order_trans [OF drain_job_pending])

lemma drain_loop_clears:
  assumes "\<forall>j \<in> set js. succeeds w (job_customer j)" "fate_at (env w) = (\<lambda>_. Okay)"
    and "c \<in> job_customer ` set js - set seen"
  shows "pending_for c (wallet_jobs (db (snd (run_state (drain_loop (Some upd) seen js) w)))) = []"
  using assms
proof (induction js arbitrary: seen w)
  case (Cons j js)
  show ?case
  proof (cases "job_customer j \<in> set seen")
    case True
    with Cons show ?thesis by auto
  next
    case False
    let ?w = "snd (run_state (drain_job (Some upd) j) w)"
    have step: "run_state (drain_loop (Some upd) seen (j # js)) w
        = run_state (drain_loop (Some upd) (job_customer j # seen) js) ?w"
      using False by (simp add: case_prod_beta)
    show ?thesis
    proof (cases "c = job_customer j")
      case True
      with Cons.prems have "pending_for c (wallet_jobs (db ?w)) = []"
        using drain_job_clears [of w j] by simp
      with drain_loop_pending [of c "job_customer j # seen" js ?w] show ?thesis unfolding step by simp
    next
      case other: False
      have "\<forall>j \<in> set js. succeeds ?w (job_customer j)"
        using Cons.prems(1) succeeds_cong [OF drain_job_outbox(2,1), of j w] by simp
      with Cons.IH [of ?w "job_customer j # seen"] Cons.prems other show ?thesis
        unfolding step by (auto simp: drain_job_outbox(2))
    qed
  qed
qed simp

lemma drain_clears:
  assumes jobs: "length (filter pending (wallet_jobs (db w))) \<le> 50"
    and succ: "\<forall>j \<in> set (wallet_jobs (db w)). pending j \<longrightarrow> succeeds w (job_customer j)"
    and fate: "fate_at (env w) = (\<lambda>_. Okay)"
  shows "pending_for c (wallet_jobs (db (snd (run_state (drain (Some upd)) w)))) = []"
proof -
  let ?js = "order_asc job_created (filter pending (wallet_jobs (db w)))"
  have js: "limit_rows 50 ?js = ?js" using jobs by (simp add: limit_rows_def order_asc_def)
  have set_js: "set ?js = {j \<in> set (wallet_jobs (db w)). pending j}"
    by (auto simp: order_asc_def)
  have d: "run_state (drain (Some upd)) w = run_state (drain_loop (Some upd) [] ?js) (next_tick w)"
    using fate js by (simp add: drain_def ClaimWalletJobs_def run Let_def)
  show ?thesis
  proof (cases "c \<in> job_customer ` set ?js")
    case True
    have "succeeds (next_tick w) x = succeeds w x" for x by (rule succeeds_cong) simp_all
    with True show ?thesis
      unfolding d using succ fate
      by (intro drain_loop_clears) (auto simp: set_js)
  next
    case False
    then have "pending_for c (wallet_jobs (db (next_tick w))) = []"
      by (auto simp: pending_for_def filter_empty_conv set_js)
    with drain_loop_pending [of c "[]" ?js "next_tick w"] show ?thesis by (simp add: d)
  qed
qed

end

section \<open>The service as the program wires it\<close>

text \<open>\<^verbatim>\<open>cmd/api/main.go\<close> gives the loyalty service the queue and the issuer id of the
  configuration.\<close>

definition the_service :: "string \<Rightarrow> service" where
  "the_service issuer = \<lparr>Jobs = Some Enqueue, IssuerID = issuer\<rparr>"

lemma Jobs_the_service [simp]: "Jobs (the_service i) = Some Enqueue"
  by (simp add: the_service_def)

end
