(* ===== verification/Sample.thy ===== *)
theory Sample
  imports Invariants
begin

text \<open>
  A small database to evaluate the model on: one store, a cashier, an administrator, two
  customers, one of them blocked.  Witnesses start from it.
\<close>

definition sample_customer :: "string \<Rightarrow> string \<Rightarrow> string \<Rightarrow> int \<Rightarrow> bool \<Rightarrow> Customer" where
  "sample_customer i code phone p b = \<lparr>cust_id = i, cust_barcode = code, cust_name = ''Ann'',
     cust_phone = phone, cust_apple_token = ''tok-'' @ i, cust_google_oid = ''merch.'' @ i,
     cust_points = p, cust_blocked = b, cust_created = from_unix 1600000000,
     cust_updated = from_unix 1600000000, cust_deleted = None\<rparr>"

definition sample_staff :: "string \<Rightarrow> string \<Rightarrow> string \<Rightarrow> Staff" where
  "sample_staff i login role = \<lparr>staff_id = i, staff_store = ''m1'', staff_login = login,
     staff_name = login, staff_password_hash = ''$pw'', staff_pin_hash = ''$1234'',
     staff_role = role, staff_active = True, staff_created = from_unix 1600000000,
     staff_deleted = None, staff_store_name = ''''\<rparr>"

definition sample_session :: "string \<Rightarrow> string \<Rightarrow> string \<Rightarrow> Session" where
  "sample_session jti sid kind = \<lparr>ses_jti = jti, ses_staff = sid, ses_kind = kind,
     ses_expires = from_unix 1800000000, ses_revoked = False\<rparr>"

definition sample_db :: database where
  "sample_db = \<lparr>
     stores = [\<lparr>shop_id = ''m1'', shop_name = ''MERCH'', shop_address = '''',
                shop_created = from_unix 1600000000\<rparr>],
     staff = [sample_staff ''s1'' ''kassa'' ''cashier'', sample_staff ''s2'' ''boss'' ''admin''],
     customers = [sample_customer ''c1'' ''MCH-00000001'' ''+79991112233'' 300 False,
                  sample_customer ''c2'' ''MCH-00000002'' ''+79991112244'' 0 True],
     apple_devices = [], receipts = [],
     ledger = [\<lparr>led_id = ''l1'', led_customer = ''c1'', led_receipt = None, led_delta = 300,
                led_reason = ''adjust: start'', led_actor = Some ''s2'',
                led_created = from_unix 1600000000\<rparr>],
     dedupe = [], wallet_jobs = [], settings = default_settings_rows,
     sessions = [sample_session ''j1'' ''s1'' ''cashier'', sample_session ''j2'' ''s2'' ''admin''],
     activity = []\<rparr>"

lemma sample_wf: "wf_db sample_db"
  by (simp add: wf_defs sample_db_def sample_customer_def sample_staff_def sample_session_def
      wrap64_small)

lemma sample_settings [simp]: "ParseSettings (settings sample_db) = DefaultSettings"
  by (simp add: sample_db_def default_settings_rows_parse)

end
