(* ===== verification/MoneyProps.thy ===== *)
theory MoneyProps
  imports Queue Sample
begin

text \<open>
  The properties of the loyalty service, on the service as the program wires it
  (\<open>the_service\<close>), by the interpretation of the queue interface in \<^verbatim>\<open>Queue\<close>.
  \<open>quiet w\<close> says that every SQL statement succeeds; where it is not assumed, the property
  holds whatever fails, a COMMIT whose answer is lost included.
\<close>

definition quiet :: "world \<Rightarrow> bool" where
  "quiet w \<longleftrightarrow> fate_at (env w) = (\<lambda>_. Okay)"

lemma quiet_world_of [simp]: "quiet (world_of d)"
  by (simp add: quiet_def fun_eq_iff)

abbreviation db_settings :: "world \<Rightarrow> Settings" where
  "db_settings w \<equiv> ParseSettings (settings (db w))"

section \<open>Commit\<close>

text \<open>C5: A commit that reports a new receipt has, under any environment, done exactly this:
  the card was usable and the redemption allowed, no receipt had the id, and now the receipt is
  there, the ledger has its entries, the balance is \<open>points - redeemed + earned\<close>, and nothing
  else but the outbox changed.\<close>

theorem Commit_writes_receipt:
  assumes "wf_db (db w)" "run_state (Commit (the_service i) inp) w = (Inr res, w')"
    and "\<not> cr_replay res"
  shows "\<exists>c t a b. c \<in> set (customers (db w))
    \<and> resolved (env w) (ci_barcode inp) (customers (db w)) = Some c
    \<and> cust_deleted c = None \<and> \<not> cust_blocked c
    \<and> CheckRedeem (cust_points c) (ci_amount inp) (ci_redeem inp) (db_settings w) = None
    \<and> \<not> has_row rec_id (ci_receipt inp) (receipts (db w))
    \<and> sans_jobs (db w') = sans_jobs (commit_db inp (db_settings w) c t a b (db w))
    \<and> res = commit_result inp (db_settings w) c"
  using assms(3)
  by (cases rule: outbox.Commit_success [OF Jobs_the_service assms(1,2)])
    (auto simp: replay_result_def commit_ready_def commit_allowed_def commit_writes_def)

definition sample_commit :: CommitInput where
  "sample_commit = \<lparr>ci_receipt = ''r1'', ci_barcode = ''MCH-00000001'', ci_amount = 1000,
     ci_redeem = 200, ci_store = ''m1'', ci_staff = ''s1''\<rparr>"

lemma sample_resolves:
  "resolved calm_env ''MCH-00000001'' (customers sample_db)
     = Some (sample_customer ''c1'' ''MCH-00000001'' ''+79991112233'' 300 False)"
proof -
  have "trim_space ''MCH-00000001'' = ''MCH-00000001''"
    by (simp add: trim_space_ascii byte_def is_space_def)
  moreover have "Normalize id ''MCH-00000001'' = ''MCH-00000001''"
    by (rule plain_normal) (simp add: byte_def)
  ultimately show ?thesis
    by (simp add: resolved_def sample_db_def sample_customer_def)
qed

lemma sample_commit_points:
  "CheckRedeem 300 1000 200 DefaultSettings = None" "ComputeEarn 1000 200 DefaultSettings = 40"
  by code_simp+

section \<open>A valid commit goes through\<close>

text \<open>New identifiers do not repeat: what the UUID library is relied on for.\<close>

definition fresh_ids :: "world \<Rightarrow> bool" where
  "fresh_ids w \<longleftrightarrow> inj (uuid_at (env w)) \<and> (\<forall>n. \<not> has_row led_id (uuid_at (env w) n) (ledger (db w)))"

lemma InsertLedger_forward:
  assumes "quiet w" "\<not> has_row led_id (uuid_at (env w) (tick w)) (ledger (db w))"
    "has_row cust_id c (customers (db w))" "r = '''' \<or> has_row rec_id r (receipts (db w))"
    "int_fits (driver_of (env w)) x"
  shows "run_state (InsertLedger c r x rs a t) w = (Inr (), (next_tick (next_tick w))\<lparr>db := (db w)\<lparr>
     ledger := ledger (db w) @ [entry (uuid_at (env w) (tick w)) c r x rs a t]\<rparr>\<rparr>)"
  using assms
  by (auto simp: InsertLedger_Inr insert_ledger_def entry_def quiet_def)

lemma InsertLedger_unless_forward:
  assumes "quiet w" "fresh_ids w \<or> \<not> has_row led_id (uuid_at (env w) (tick w)) (ledger (db w))"
    "has_row cust_id c (customers (db w))" "r = '''' \<or> has_row rec_id r (receipts (db w))"
    "b \<longrightarrow> int_fits (driver_of (env w)) x"
  obtains w' where "run_state (if b then InsertLedger c r x rs a t else ok ()) w = (Inr (), w')"
    "env w' = env w" "customers (db w') = customers (db w)" "receipts (db w') = receipts (db w)"
    "fresh_ids w \<Longrightarrow> \<not> has_row led_id (uuid_at (env w') (tick w')) (ledger (db w'))"
proof (cases b)
  case False
  then show ?thesis using that [of w] by (auto simp: run_ok fresh_ids_def)
next
  case True
  have f: "\<not> has_row led_id (uuid_at (env w) (tick w)) (ledger (db w))"
    using assms(2) by (auto simp: fresh_ids_def)
  have x: "int_fits (driver_of (env w)) x" using True assms(5) by simp
  show ?thesis
    using that InsertLedger_forward [OF assms(1) f assms(3,4) x, of rs a t] True
    by (simp add: entry_def fresh_ids_def inj_eq)
qed

lemma ledger_pair_forward:
  assumes q: "quiet w" and f: "fresh_ids w"
    and c: "has_row cust_id c (customers (db w))" and r: "r = '''' \<or> has_row rec_id r (receipts (db w))"
    and x: "b1 \<longrightarrow> int_fits (driver_of (env w)) x1" "b2 \<longrightarrow> int_fits (driver_of (env w)) x2"
  obtains w2 w3 where
    "run_state (if b1 then InsertLedger c r x1 rsa a t else ok ()) w = (Inr (), w2)"
    "run_state (if b2 then InsertLedger c r x2 rsb a t else ok ()) w2 = (Inr (), w3)"
    "env w3 = env w" "customers (db w3) = customers (db w)" "receipts (db w3) = receipts (db w)"
proof -
  obtain w2 where 1: "run_state (if b1 then InsertLedger c r x1 rsa a t else ok ()) w = (Inr (), w2)"
    and w2: "env w2 = env w" "customers (db w2) = customers (db w)" "receipts (db w2) = receipts (db w)"
      "\<not> has_row led_id (uuid_at (env w2) (tick w2)) (ledger (db w2))"
    using InsertLedger_unless_forward [OF q disjI1 [OF f] c r x(1), where rs = rsa and a = a and t = t] f
    by blast
  have q2: "quiet w2" and c2: "has_row cust_id c (customers (db w2))"
    and r2: "r = '''' \<or> has_row rec_id r (receipts (db w2))" and x2: "b2 \<longrightarrow> int_fits (driver_of (env w2)) x2"
    using q c r x(2) w2 by (simp_all add: quiet_def)
  obtain w3 where "run_state (if b2 then InsertLedger c r x2 rsb a t else ok ()) w2 = (Inr (), w3)"
    "env w3 = env w" "customers (db w3) = customers (db w)" "receipts (db w3) = receipts (db w)"
    using InsertLedger_unless_forward [OF q2 disjI2 [OF w2(4)] c2 r2 x2, where rs = rsb and a = a and t = t] w2
    by metis
  with 1 that show thesis by blast
qed

definition receipt_storable :: "CommitInput \<Rightarrow> world \<Rightarrow> Customer \<Rightarrow> bool" where
  "receipt_storable inp w c \<longleftrightarrow> has_row shop_id (ci_store inp) (stores (db w))
     \<and> has_row staff_id (ci_staff inp) (staff (db w))
     \<and> int_fits (driver_of (env w)) (ci_amount inp)
     \<and> int_fits (driver_of (env w)) (ci_redeem inp)
     \<and> int_fits (driver_of (env w)) (neg64 (ci_redeem inp))
     \<and> int_fits (driver_of (env w)) (ComputeEarn (ci_amount inp) (ci_redeem inp) (db_settings w))
     \<and> int_fits (driver_of (env w)) (commit_points inp (db_settings w) c)"

lemma commit_new_forward:
  assumes q: "quiet w" and f: "fresh_ids w" and s: "receipt_storable inp w c"
    and c: "has_row cust_id (cust_id c) (customers (db w))"
    and r: "\<not> has_row rec_id (ci_receipt inp) (receipts (db w))"
  shows "fst (run_state (commit_new inp (db_settings w) c) w)
    = Inr (commit_result inp (db_settings w) c)"
proof -
  let ?st = "db_settings w" and ?t = "now_at (env w) (tick w)"
  let ?e = "ComputeEarn (ci_amount inp) (ci_redeem inp) ?st"
  let ?d1 = "(db w)\<lparr>receipts := receipts (db w) @ [commit_receipt inp ?st c ?t]\<rparr>"
  let ?w1 = "(next_tick (next_tick w))\<lparr>db := ?d1\<rparr>"
  have 1: "run_state (InsertReceipt (commit_receipt inp ?st c ?t)) (next_tick w) = (Inr (), ?w1)"
    using q s c r
    by (auto simp: InsertReceipt_Inr insert_receipt_def commit_receipt_def quiet_def
        receipt_storable_def)
  have q1: "quiet ?w1" and f1: "fresh_ids ?w1" and c1: "has_row cust_id (cust_id c) (customers (db ?w1))"
    and r1: "ci_receipt inp = '''' \<or> has_row rec_id (ci_receipt inp) (receipts (db ?w1))"
    and x: "ci_redeem inp \<noteq> 0 \<longrightarrow> int_fits (driver_of (env ?w1)) (neg64 (ci_redeem inp))"
      "?e \<noteq> 0 \<longrightarrow> int_fits (driver_of (env ?w1)) ?e"
    using q f c s by (simp_all add: quiet_def fresh_ids_def commit_receipt_def receipt_storable_def)
  obtain w2 w3 where
    2: "run_state (if ci_redeem inp \<noteq> 0
      then InsertLedger (cust_id c) (ci_receipt inp) (neg64 (ci_redeem inp)) ReasonRedeem
             (ci_staff inp) ?t else ok ()) ?w1 = (Inr (), w2)" and
    3: "run_state (if ?e \<noteq> 0
      then InsertLedger (cust_id c) (ci_receipt inp) ?e ReasonEarn (ci_staff inp) ?t
      else ok ()) w2 = (Inr (), w3)" and w3: "env w3 = env w" "customers (db w3) = customers (db w)"
    by (rule ledger_pair_forward [OF q1 f1 c1 r1 x, where rsa = ReasonRedeem and rsb = ReasonEarn
          and a = "ci_staff inp" and t = ?t]) simp
  have 4: "\<exists>w4. run_state (SetPoints (cust_id c) (commit_points inp ?st c) ?t) w3 = (Inr (), w4)"
    using q s w3
    by (simp add: SetPoints_Inr set_points_def update_customer_def quiet_def receipt_storable_def)
  then obtain w4 where 4: "run_state (SetPoints (cust_id c) (commit_points inp ?st c) ?t) w3 = (Inr (), w4)" ..
  show ?thesis
    unfolding commit_new_eq by (simp add: run_now run_or_return 1 2 3 4 run_ok del: if_split)
qed

lemma Commit_forward:
  assumes "quiet w" "fresh_ids w" "wf_db (db w)" "uuid_ok (env w) (ci_receipt inp)"
    and "0 \<le> ci_amount inp" "0 \<le> ci_redeem inp"
    and "resolved (env w) (ci_barcode inp) (customers (db w)) = Some c"
    and "cust_deleted c = None" "\<not> cust_blocked c"
    and "CheckRedeem (cust_points c) (ci_amount inp) (ci_redeem inp) (db_settings w) = None"
    and "\<not> has_row rec_id (ci_receipt inp) (receipts (db w))" "receipt_storable inp w c"
  shows "fst (run_state (Commit (the_service i) inp) w)
    = Inr (commit_result inp (db_settings w) c)"
proof -
  let ?st = "db_settings w"
  obtain w1 where r: "run_state (resolveCustomer (ci_barcode inp)) w = (Inr c, w1)"
    and w1: "db w1 = db w" "env w1 = env w"
    using resolveCustomer_calm assms(1,7) unfolding quiet_def by blast
  have q: "\<And>n. fate_at (env w) n = Okay" using assms(1) by (simp add: quiet_def)
  have g: "run_state get_settings w1 = (Inr ?st, next_tick w1)"
    using q w1 by (simp add: get_settings_Inr)
  have c: "c \<in> set (customers (db w))" using assms(7) by (rule resolved_in)
  let ?v = "next_tick (next_tick w1)"
  let ?u = "next_tick (next_tick (next_tick ?v))"
  have n: "fst (run_state (commit_new inp ?st c) ?u) = Inr (commit_result inp ?st c)"
    using commit_new_forward [of ?u inp c] assms w1 row_by_Some_has [OF row_of_member [OF assms(3) c]]
    by (simp add: quiet_def fresh_ids_def receipt_storable_def)
  have u: "customerUsable c = None" using assms(8,9) by (simp add: customerUsable_None)
  have none: "row_by rec_id (ci_receipt inp) (receipts (db w)) = None"
    using assms(11) by (simp add: row_by_None)
  have t: "run_state (commit_tx inp c ?st) ?v = run_state (commit_new inp ?st c) ?u"
    using none row_of_member [OF assms(3) c] u assms(10) w1 q
    by (simp add: commit_tx_def run_GetReceipt run_or_return run_LockCustomer run_check)
  obtain w5 where b: "run_state (commit_tx inp c ?st) ?v = (Inr (commit_result inp ?st c), w5)"
    using n t by (metis prod.collapse)
  have "env w5 = env w"
    using b assms(3) c w1
    by (elim commit_tx_Inr) auto
  then have tx: "fst (run_state (InTx (commit_tx inp c ?st)) (next_tick w1))
      = Inr (commit_result inp ?st c)"
    using b q w1 by (simp add: run_InTx)
  show ?thesis
    using assms(4-6) r g u tx
    by (auto simp: Commit_def run_or_return run_check run_the_env run_ok commit_result_def case_prod_beta
        simp del: run_InTx split: sum.splits prod.splits)
qed

text \<open>C27: A commit of a valid receipt succeeds: the card is found and usable, the redemption
  allowed, the receipt new, store and staff member known, every number within the column width,
  and the database and the id source behave.\<close>

theorem Commit_goes_through:
  assumes "quiet w" "fresh_ids w" "wf_db (db w)" "uuid_ok (env w) (ci_receipt inp)"
    and "0 \<le> ci_amount inp" "0 \<le> ci_redeem inp"
    and "resolved (env w) (ci_barcode inp) (customers (db w)) = Some c"
    and "cust_deleted c = None" "\<not> cust_blocked c"
    and "CheckRedeem (cust_points c) (ci_amount inp) (ci_redeem inp) (db_settings w) = None"
    and "\<not> has_row rec_id (ci_receipt inp) (receipts (db w))" "receipt_storable inp w c"
  shows "fst (run_state (Commit (the_service i) inp) w)
    = Inr (commit_result inp (db_settings w) c)"
  by (rule Commit_forward [OF assms])

lemma inj_itoa: "inj (\<lambda>n. itoa (int n))"
proof (rule injI)
  fix m n assume "itoa (int m) = itoa (int n)"
  then have "dec_digits m = dec_digits n" by (simp add: itoa_def)
  then show "m = n" by (metis dec_val_dec_digits)
qed

lemma sample_fresh: "fresh_ids (world_of sample_db)"
proof -
  have "inj (uuid_at calm_env)"
    using inj_itoa by (auto simp: inj_def)
  then show ?thesis by (simp add: fresh_ids_def sample_db_def)
qed

lemma sample_commit_facts:
  "ci_amount sample_commit = 1000" "ci_redeem sample_commit = 200" "ci_receipt sample_commit = ''r1''"
  "ci_barcode sample_commit = ''MCH-00000001''" "ci_store sample_commit = ''m1''"
  "ci_staff sample_commit = ''s1''"
  by (simp_all add: sample_commit_def)

definition sample_c1 :: Customer where
  "sample_c1 = sample_customer ''c1'' ''MCH-00000001'' ''+79991112233'' 300 False"

lemma sample_c1_sel:
  "cust_points sample_c1 = 300" "cust_id sample_c1 = ''c1''" "cust_deleted sample_c1 = None"
  "\<not> cust_blocked sample_c1" "cust_barcode sample_c1 = ''MCH-00000001''"
  by (simp_all add: sample_c1_def sample_customer_def)

lemma sample_commit_result:
  "commit_points sample_commit DefaultSettings sample_c1 = 140"
  by (simp add: commit_points_def sample_commit_facts sample_c1_sel sample_commit_points
      add64_def sub64_def wrap64_small)

lemma sample_commit_storable: "receipt_storable sample_commit (world_of sample_db) sample_c1"
  by (simp add: receipt_storable_def sample_commit_facts sample_commit_points
      sample_commit_result int_fits_def in_i64_def neg64_def wrap64_small)
    (simp add: sample_db_def sample_staff_def)

lemma sample_resolved:
  "resolved (env (world_of sample_db)) (ci_barcode sample_commit)
     (customers (db (world_of sample_db))) = Some sample_c1"
  using sample_resolves by (simp add: sample_commit_facts sample_c1_def)

lemma sample_no_receipts [simp]: "receipts sample_db = []"
  by (simp add: sample_db_def)

lemmas sample_facts = sample_commit_facts sample_commit_points sample_fresh sample_wf sample_c1_sel
  sample_commit_storable sample_commit_result

abbreviation sample_result :: CommitResult where
  "sample_result \<equiv> \<lparr>cr_receipt = ''r1'', cr_customer = ''c1'', cr_barcode = ''MCH-00000001'',
     cr_points = 140, cr_earn = 40, cr_redeem = 200, cr_replay = False\<rparr>"

definition sample_w1 :: world where
  "sample_w1 = snd (run_state (Commit (the_service ''x'') sample_commit) (world_of sample_db))"

lemma sample_commit_runs:
  "run_state (Commit (the_service ''x'') sample_commit) (world_of sample_db)
    = (Inr sample_result, sample_w1)"
  unfolding sample_w1_def
proof (rule run_pair)
  have "fst (run_state (Commit (the_service ''x'') sample_commit) (world_of sample_db))
      = Inr (commit_result sample_commit (db_settings (world_of sample_db)) sample_c1)"
    by (rule Commit_forward [OF _ _ _ _ _ _ sample_resolved]) (simp_all add: sample_facts)
  then show "fst (run_state (Commit (the_service ''x'') sample_commit) (world_of sample_db))
      = Inr sample_result"
    by (simp add: commit_result_def sample_facts)
qed

theorem Commit_goes_through_witness:
  "fst (run_state (Commit (the_service ''x'') sample_commit) (world_of sample_db))
    = Inr (commit_result sample_commit DefaultSettings sample_c1)"
  using Commit_goes_through [OF _ _ _ _ _ _ sample_resolved] by (simp add: sample_facts)

theorem Commit_writes_receipt_witness:
  "\<exists>c t a b. c \<in> set (customers sample_db) \<and> cust_points c = 300
    \<and> sans_jobs (db sample_w1) = sans_jobs (commit_db sample_commit DefaultSettings c t a b sample_db)"
  using Commit_writes_receipt [OF _ sample_commit_runs] sample_resolved
  by (force simp: sample_facts)

section \<open>Atomicity and replay\<close>



lemma commit_db_sel:
  "customers (commit_db inp st c t a b d) = update_by cust_id (cust_id c)
     (\<lambda>x. x\<lparr>cust_points := commit_points inp st c, cust_updated := t\<rparr>) (customers d)"
  "receipts (commit_db inp st c t a b d) = receipts d @ [commit_receipt inp st c t]"
  "settings (commit_db inp st c t a b d) = settings d"
  by (simp_all add: commit_db_def)

lemma commit_receipt_sel:
  "rec_id (commit_receipt inp st c t) = ci_receipt inp"
  "rec_customer (commit_receipt inp st c t) = cust_id c"
  "rec_amount (commit_receipt inp st c t) = ci_amount inp"
  "rec_redeem (commit_receipt inp st c t) = ci_redeem inp"
  "rec_earn (commit_receipt inp st c t) = ComputeEarn (ci_amount inp) (ci_redeem inp) st"
  "rec_status (commit_receipt inp st c t) = ReceiptCommitted"
  "rec_points_after (commit_receipt inp st c t) = commit_points inp st c"
  by (simp_all add: commit_receipt_def)

lemma commit_db_row:
  "\<not> has_row rec_id (ci_receipt inp) (receipts d) \<Longrightarrow>
   row_by rec_id (ci_receipt inp) (receipts (commit_db inp st c t a b d))
     = Some (commit_receipt inp st c t)"
  by (simp add: commit_db_sel commit_receipt_sel flip: row_by_None)


lemma Commit_replays:
  assumes wf: "wf_db (db w)" and q: "quiet w"
    and row: "row_by rec_id (ci_receipt inp) (receipts (db w)) = Some rc"
    and r: "resolved (env w) (ci_barcode inp) (customers (db w)) = Some c"
    and u: "cust_deleted c = None" "\<not> cust_blocked c" and id: "uuid_ok (env w) (ci_receipt inp)"
    and nn: "0 \<le> ci_amount inp" "0 \<le> ci_redeem inp" and d: "same_data inp c rc"
  shows "\<exists>w'. run_state (Commit s inp) w = (Inr (replay_result c rc), w') \<and> db w' = db w"
proof -
  let ?st = "db_settings w"
  obtain w1 where res: "run_state (resolveCustomer (ci_barcode inp)) w = (Inr c, w1)"
    and w1: "db w1 = db w" "env w1 = env w"
    using resolveCustomer_calm q r unfolding quiet_def by blast
  have f: "\<And>n. fate_at (env w) n = Okay" using q by (simp add: quiet_def)
  have g: "run_state get_settings w1 = (Inr ?st, next_tick w1)"
    using f w1 by (simp add: get_settings_Inr)
  let ?v = "next_tick w1"
  have tx: "run_state (InTx (commit_tx inp c ?st)) ?v
      = (Inr (replay_result c rc), next_tick (next_tick (next_tick ?v)))"
    using f w1 row d
    by (simp add: run_InTx commit_tx_def run_GetReceipt commit_replay_def same_data_def run_ok
        replay_result_def)
  have "customerUsable c = None" using u by (simp add: customerUsable_None)
  then have "run_state (Commit s inp) w
      = (Inr (replay_result c rc), next_tick (next_tick (next_tick ?v)))"
    using id nn res g tx
    by (simp add: Commit_def run_or_return run_check run_the_env run_ok replay_result_def)
  then show ?thesis using w1 by simp
qed

text \<open>C7: Retrying is safe and answers the same: after a commit has taken effect (its answer
  may have been lost), the same request on the resulting database returns the same receipt,
  customer, barcode, points and earned points, marked as a replay, and changes nothing.\<close>

theorem Commit_retry:
  assumes "wf_db (db w)" "run_state (Commit (the_service i) inp) w = (Inr res, w1)"
    and "\<not> cr_replay res" "uuid_ok (env w) (ci_receipt inp)"
    and "quiet w2" "env w2 = env w" "sans_jobs (db w2) = sans_jobs (db w1)"
  shows "\<exists>w3. run_state (Commit (the_service i) inp) w2 = (Inr (res\<lparr>cr_replay := True\<rparr>), w3)
    \<and> db w3 = db w2"
proof (rule outbox.Commit_success [OF Jobs_the_service assms(1,2)])
  fix c r assume "res = replay_result c r"
  with assms(3) show ?thesis by (simp add: replay_result_def)
next
  fix c t a b
  assume written: "commit_ready inp w c" "sans_jobs (db w1) = sans_jobs (commit_writes inp w c t a b)"
    "wf_db (db w1)" "res = commit_result inp (db_settings w) c"
  let ?st = "db_settings w" and ?d = "commit_db inp (db_settings w) c t a b (db w)"
  let ?c = "c\<lparr>cust_points := commit_points inp ?st c, cust_updated := t\<rparr>"
  note e = sans_jobs_eqD [OF trans [OF assms(7) written(2) [unfolded commit_writes_def]]]
  note rd = written(1) [unfolded commit_ready_def commit_allowed_def]
  have "\<exists>w3. run_state (Commit (the_service i) inp) w2
      = (Inr (replay_result ?c (commit_receipt inp ?st c t)), w3) \<and> db w3 = db w2"
  proof (rule Commit_replays)
    show "wf_db (db w2)" using written(3) wf_cong_sans_jobs [OF assms(7)] by simp
    show "row_by rec_id (ci_receipt inp) (receipts (db w2)) = Some (commit_receipt inp ?st c t)"
      using e(2) rd by (simp add: commit_db_row)
    show "resolved (env w2) (ci_barcode inp) (customers (db w2)) = Some ?c"
      using e(1) rd assms(6) by (simp add: commit_db_sel resolved_points_update)
  qed (use assms rd in \<open>auto simp: same_data_def commit_receipt_sel\<close>)
  moreover have "replay_result ?c (commit_receipt inp ?st c t) = res\<lparr>cr_replay := True\<rparr>"
    using written(4) by (simp add: replay_result_def commit_result_def commit_receipt_sel)
  ultimately show ?thesis by simp
qed

theorem Commit_retry_witness:
  "\<exists>w3. run_state (Commit (the_service ''x'') sample_commit) (sample_w1\<lparr>env := calm_env\<rparr>)
     = (Inr (sample_result\<lparr>cr_replay := True\<rparr>), w3) \<and> db w3 = db sample_w1"
proof -
  have "quiet (sample_w1\<lparr>env := calm_env\<rparr>)" by (simp add: quiet_def fun_eq_iff)
  with Commit_retry [OF _ sample_commit_runs, of "sample_w1\<lparr>env := calm_env\<rparr>"]
  show ?thesis by (simp add: sample_wf sample_commit_facts)
qed

lemma sample_w1_shape:
  "\<exists>t a b. sans_jobs (db sample_w1)
     = sans_jobs (commit_db sample_commit DefaultSettings sample_c1 t a b sample_db)"
  "wf_db (db sample_w1)" "env sample_w1 = calm_env"
proof -
  have "\<exists>t a b. sans_jobs (db sample_w1)
       = sans_jobs (commit_db sample_commit DefaultSettings sample_c1 t a b sample_db)
     \<and> wf_db (db sample_w1) \<and> env sample_w1 = calm_env"
  proof (rule outbox.Commit_success [OF Jobs_the_service _ sample_commit_runs])
    show "wf_db (db (world_of sample_db))" by (simp add: sample_wf)
  next
    fix c r assume "sample_result = replay_result c r"
    then show ?thesis by (simp add: replay_result_def)
  next
    fix c t a b
    assume "commit_ready sample_commit (world_of sample_db) c" and
      "sans_jobs (db sample_w1) = sans_jobs (commit_writes sample_commit (world_of sample_db) c t a b)"
      "wf_db (db sample_w1)" "env sample_w1 = env (world_of sample_db)"
    moreover from this(1) have "c = sample_c1"
      using sample_resolved by (simp add: commit_ready_def)
    ultimately show ?thesis by (auto simp: commit_writes_def)
  qed
  then show "\<exists>t a b. sans_jobs (db sample_w1)
     = sans_jobs (commit_db sample_commit DefaultSettings sample_c1 t a b sample_db)"
    "wf_db (db sample_w1)" "env sample_w1 = calm_env" by blast+
qed

lemma sample_w1_receipt:
  "\<exists>t. row_by rec_id ''r1'' (receipts (db sample_w1))
     = Some (commit_receipt sample_commit DefaultSettings sample_c1 t)"
proof -
  obtain t a b where s: "sans_jobs (db sample_w1)
      = sans_jobs (commit_db sample_commit DefaultSettings sample_c1 t a b sample_db)"
    using sample_w1_shape(1) by blast
  show ?thesis
    using commit_db_row [of sample_commit sample_db DefaultSettings sample_c1 t a b]
    by (intro exI [of _ t]) (simp add: sans_jobs_eqD(2) [OF s] sample_commit_facts)
qed


section \<open>Refund\<close>

text \<open>C9: A refund that reports a new refund has done exactly this: the receipt was there and
  not refunded; the earned points (at most the balance) are taken back, the redeemed ones returned,
  each with its ledger entry; the receipt is marked with the new balance; nothing else but the
  outbox changed.\<close>

theorem Refund_effect:
  assumes "wf_db (db w)" "run_state (Refund (the_service i) rid actor) w = (Inr res, w')"
    and "\<not> rr_replay res"
  shows "\<exists>rc cu t a b. row_by rec_id rid (receipts (db w)) = Some rc
    \<and> rec_status rc \<noteq> ReceiptRefunded
    \<and> row_by cust_id (rec_customer rc) (customers (db w)) = Some cu
    \<and> sans_jobs (db w') = sans_jobs (refund_db rc cu actor t a b (db w))
    \<and> res = refund_result rc cu"
  using assms(3)
  by (cases rule: outbox.Refund_success [OF Jobs_the_service assms(1,2)])
    (auto simp: refund_replay_def)

lemma refund_db_row:
  assumes "row_by rec_id rid (receipts d) = Some rc"
  shows "row_by rec_id rid (receipts (refund_db rc cu actor t a b d))
    = Some (refunded_row (refund_points rc (cust_points cu)) t rc)"
  using assms row_by_Some_key [OF assms]
  by (simp add: refund_db_def Let_def row_by_update_by refunded_row_def)

text \<open>C10: A receipt is refunded at most once when requests do not overlap: after a refund, a
  second one changes nothing, whatever fails, and if it answers, it repeats the first answer marked
  as a replay.\<close>

theorem Refund_once:
  assumes "wf_db (db w)" "run_state (Refund (the_service i) rid actor) w = (Inr res, w1)"
    and "sans_jobs (db w2) = sans_jobs (db w1)"
    and "run_state (Refund (the_service i) rid actor2) w2 = (r2, w3)"
  shows "sans_jobs (db w3) = sans_jobs (db w2)
    \<and> (\<forall>res2. r2 = Inr res2 \<longrightarrow> res2 = res\<lparr>rr_replay := True\<rparr>)"
proof -
  obtain rc where rc: "row_by rec_id rid (receipts (db w2)) = Some rc"
    "rec_status rc = ReceiptRefunded" "refund_replay rc = res\<lparr>rr_replay := True\<rparr>"
    and wf1: "wf_db (db w1)"
  proof (rule outbox.Refund_success [OF Jobs_the_service assms(1,2)])
    fix r assume "row_by rec_id rid (receipts (db w)) = Some r" "rec_status r = ReceiptRefunded"
      "res = refund_replay r" "db w1 = db w"
    then show thesis
      using that [of r] sans_jobs_eqD(2) [OF assms(3)] assms(1) by (simp add: refund_replay_def)
  next
    fix r cu t a b
    assume r: "row_by rec_id rid (receipts (db w)) = Some r" "res = refund_result r cu"
      "sans_jobs (db w1) = sans_jobs (refund_db r cu actor t a b (db w))" "wf_db (db w1)"
    show thesis
      by (rule that [OF _ _ _ r(4)])
        (use refund_db_row [OF r(1)] r(2) sans_jobs_eqD(2) [OF trans [OF assms(3) r(3)]]
         in \<open>auto simp: refunded_row_def refund_replay_def refund_result_def\<close>)
  qed
  have wf2: "wf_db (db w2)" using wf1 wf_cong_sans_jobs [OF assms(3)] by simp
  have "sans_jobs (db w3) = sans_jobs (db w2)"
    by (cases rule: outbox.Refund_any [OF Jobs_the_service wf2 assms(4)]) (use rc in auto)
  moreover have "res2 = res\<lparr>rr_replay := True\<rparr>" if "r2 = Inr res2" for res2
    by (cases rule: outbox.Refund_success [OF Jobs_the_service wf2 assms(4) [unfolded that]])
      (use rc in auto)
  ultimately show ?thesis by blast
qed

lemma refund_points_restores:
  assumes p: "0 \<le> p" "p \<le> 1000000000000" and r: "0 \<le> r" "r \<le> p" and e: "0 \<le> e"
    "e \<le> 1000000000000000000"
    and rc: "rec_earn rc = e" "rec_redeem rc = r"
  shows "refund_points rc (add64 (sub64 p r) e) = p"
proof -
  have q: "add64 (sub64 p r) e = p - r + e"
    using p r e by (simp add: add64_def sub64_def wrap64_small)
  have "earned_back rc (p - r + e) = e"
    using r e rc by (auto simp: earned_back_def)
  then have "after_earned rc (p - r + e) = p - r"
    using p r e by (auto simp: after_earned_def sub64_def wrap64_small)
  then show ?thesis
    unfolding q refund_points_def using p r rc
    by (cases "r = 0") (simp_all add: add64_def wrap64_small)
qed

lemma refund_db_customer:
  assumes "row_by cust_id (cust_id cu) (customers d) = Some x"
  shows "row_by cust_id (cust_id cu) (customers (refund_db rc cu actor t a b d))
     = Some (x\<lparr>cust_points := refund_points rc (cust_points cu), cust_updated := t\<rparr>)"
  using assms row_by_Some_key [OF assms] by (simp add: refund_db_def Let_def row_by_update_by)

lemma commit_db_customer:
  assumes "row_by cust_id (cust_id c) (customers d) = Some x"
  shows "row_by cust_id (cust_id c) (customers (commit_db inp st c t a b d))
     = Some (x\<lparr>cust_points := commit_points inp st c, cust_updated := t\<rparr>)"
  using assms row_by_Some_key [OF assms] by (simp add: commit_db_sel row_by_update_by)

lemma commit_refund_points:
  assumes "amount_ok (ci_amount inp)" "amount_ok (ci_redeem inp)" "settings_ok st" "amount_ok (cust_points x)"
    and "CheckRedeem (cust_points x) (ci_amount inp) (ci_redeem inp) st = None"
  shows "refund_points (commit_receipt inp st x t) (commit_points inp st x) = cust_points x"
proof -
  have "redeem_spec (cust_points x) (ci_amount inp) (ci_redeem inp) st"
    using assms CheckRedeem_spec_aux [of "ci_amount inp" "cust_points x" st "ci_redeem inp"]
    by (simp add: amount_ok_def)
  moreover have "0 \<le> ComputeEarn (ci_amount inp) (ci_redeem inp) st"
    "ComputeEarn (ci_amount inp) (ci_redeem inp) st \<le> 1000000000000000000"
    using ComputeEarn_spec_aux [OF assms(1-3)] earn_spec_nonneg earn_spec_bound [OF assms(1-3)] by simp_all
  ultimately show ?thesis
    unfolding commit_points_def using assms(2,4)
    by (intro refund_points_restores) (auto simp: commit_receipt_sel amount_ok_def redeem_spec_def)
qed

text \<open>C11: Commit and then refund restores the balance: with amounts, balance and settings
  inside the bounds of the rules, the customer has after both exactly the points of before.\<close>

theorem Commit_then_Refund:
  assumes "wf_db (db w)" "run_state (Commit (the_service i) inp) w = (Inr res, w1)"
    and "\<not> cr_replay res" "amount_ok (ci_amount inp)" "amount_ok (ci_redeem inp)"
    and "settings_ok (db_settings w)"
    and "row_by cust_id (cr_customer res) (customers (db w)) = Some c" "amount_ok (cust_points c)"
    and "sans_jobs (db w2) = sans_jobs (db w1)"
    and "run_state (Refund (the_service i) (cr_receipt res) actor) w2 = (Inr res2, w3)"
  shows "\<not> rr_replay res2 \<and> rr_points res2 = cust_points c
    \<and> map_option cust_points (row_by cust_id (cr_customer res) (customers (db w3)))
        = Some (cust_points c)"
proof (rule outbox.Commit_success [OF Jobs_the_service assms(1,2)])
  fix x r assume "res = replay_result x r"
  with assms(3) show ?thesis by (simp add: replay_result_def)
next
  fix x t a b
  assume k: "commit_ready inp w x" "sans_jobs (db w1) = sans_jobs (commit_writes inp w x t a b)"
    "wf_db (db w1)" "res = commit_result inp (db_settings w) x"
  let ?st = "db_settings w" and ?d = "commit_db inp (db_settings w) x t a b (db w)"
  let ?rc = "commit_receipt inp ?st x t"
  have x: "x \<in> set (customers (db w))" using k(1) by (simp add: commit_ready_def)
  have xc: "row_by cust_id (cust_id x) (customers (db w)) = Some x"
    by (rule row_of_member [OF assms(1) x])
  then have c: "c = x" and cid: "cr_customer res = cust_id x" "cr_receipt res = ci_receipt inp"
    using assms(7) k(4) by (simp_all add: commit_result_def)
  note e = sans_jobs_eqD [OF trans [OF assms(9) k(2) [unfolded commit_writes_def]]]
  have row: "row_by rec_id (ci_receipt inp) (receipts (db w2)) = Some ?rc"
    using k(1) e(2) by (simp add: commit_db_row commit_ready_def)
  have cu: "row_by cust_id (cust_id x) (customers (db w2))
      = Some (x\<lparr>cust_points := commit_points inp ?st x, cust_updated := t\<rparr>)"
    using e(1) commit_db_customer [OF xc] by simp
  have wf2: "wf_db (db w2)" using k(3) wf_cong_sans_jobs [OF assms(9)] by simp
  have pts: "refund_points ?rc (commit_points inp ?st x) = cust_points x"
    using k(1) c assms(4-6,8) by (intro commit_refund_points) (auto simp: commit_ready_def commit_allowed_def)
  show ?thesis
  proof (rule outbox.Refund_success [OF Jobs_the_service wf2 assms(10)])
    fix r assume "row_by rec_id (cr_receipt res) (receipts (db w2)) = Some r"
      "rec_status r = ReceiptRefunded"
    with row show ?thesis by (auto simp: cid commit_receipt_def)
  next
    fix r y t' a' b'
    assume r: "row_by rec_id (cr_receipt res) (receipts (db w2)) = Some r"
      "row_by cust_id (rec_customer r) (customers (db w2)) = Some y"
      "sans_jobs (db w3) = sans_jobs (refund_db r y actor t' a' b' (db w2))" "res2 = refund_result r y"
    have r': "r = ?rc" using r(1) row cid by simp
    have y: "y = x\<lparr>cust_points := commit_points inp ?st x, cust_updated := t\<rparr>"
      using r(2) cu by (simp add: r' commit_receipt_sel)
    have "row_by cust_id (cust_id y) (customers (refund_db r y actor t' a' b' (db w2)))
        = Some (y\<lparr>cust_points := refund_points r (cust_points y), cust_updated := t'\<rparr>)"
      by (rule refund_db_customer) (simp add: y cu)
    then show ?thesis
      using pts sans_jobs_eqD(1) [OF r(3)] cid by (simp add: r(4) refund_result_def r' y c)
  qed
qed

section \<open>A valid refund goes through\<close>

definition refund_storable :: "Receipt \<Rightarrow> world \<Rightarrow> Customer \<Rightarrow> bool" where
  "refund_storable rc w cu \<longleftrightarrow>
     (0 < earned_back rc (cust_points cu)
        \<longrightarrow> int_fits (driver_of (env w)) (neg64 (earned_back rc (cust_points cu))))
     \<and> (0 < rec_redeem rc \<longrightarrow> int_fits (driver_of (env w)) (rec_redeem rc))
     \<and> int_fits (driver_of (env w)) (refund_points rc (cust_points cu))"

lemma refund_receipt_forward:
  assumes q: "quiet w" and f: "fresh_ids w" and wf: "wf_db (db w)"
    and hr: "has_row rec_id (rec_id rc) (receipts (db w))"
    and cu: "row_by cust_id (rec_customer rc) (customers (db w)) = Some cu"
    and s: "refund_storable rc w cu"
  shows "fst (run_state (refund_receipt rc actor) w) = Inr (refund_result rc cu)"
proof -
  let ?w = "next_tick (next_tick w)" and ?t = "now_at (env w) (Suc (Suc (tick w)))"
  let ?c = "cust_id cu" and ?p = "cust_points cu" and ?v = "next_tick (next_tick (next_tick w))"
  have fate: "\<And>n. fate_at (env w) n = Okay" using q by (simp add: quiet_def)
  have cid: "?c = rec_customer rc" using cu by (rule row_by_Some_key)
  have hc: "has_row cust_id ?c (customers (db w))" using row_by_Some_has [OF cu] by (simp add: cid)
  have q': "quiet ?v" and f': "fresh_ids ?v" using q f by (simp_all add: quiet_def fresh_ids_def)
  have s': "0 < earned_back rc ?p \<longrightarrow> int_fits (driver_of (env ?v)) (neg64 (earned_back rc ?p))"
    "0 < rec_redeem rc \<longrightarrow> int_fits (driver_of (env ?v)) (rec_redeem rc)"
    using s by (simp_all add: refund_storable_def)
  have hc': "has_row cust_id ?c (customers (db ?v))"
    and hr': "rec_id rc = '''' \<or> has_row rec_id (rec_id rc) (receipts (db ?v))"
    using hc hr by simp_all
  obtain w2 w3 where
    1: "run_state (if 0 < earned_back rc ?p
      then InsertLedger ?c (rec_id rc) (neg64 (earned_back rc ?p)) ReasonRefundEarn actor ?t
      else ok ()) ?v = (Inr (), w2)" and
    2: "run_state (if 0 < rec_redeem rc
      then InsertLedger ?c (rec_id rc) (rec_redeem rc) ReasonRefundRedeem actor ?t
      else ok ()) w2 = (Inr (), w3)" and
    w3: "env w3 = env w" "customers (db w3) = customers (db w)"
    by (rule ledger_pair_forward [OF q' f' hc' hr' s', where rsa = ReasonRefundEarn
          and rsb = ReasonRefundRedeem and a = actor and t = ?t]) simp
  have fits: "int_fits (driver_of (env w)) (refund_points rc ?p)"
    using s by (simp add: refund_storable_def)
  obtain w4 where 3: "run_state (SetPoints ?c (refund_points rc ?p) ?t) w3 = (Inr (), w4)"
    and w4: "env w4 = env w"
    using fate w3 fits by (auto simp: SetPoints_Inr set_points_def update_customer_def)
  have "\<exists>w5. run_state (MarkRefunded (rec_id rc) (refund_points rc ?p) ?t) w4 = (Inr (), w5)"
    using fate w4 fits by (auto simp: MarkRefunded_Inr mark_refunded_def)
  then obtain w5 where 4: "run_state (MarkRefunded (rec_id rc) (refund_points rc ?p) ?t) w4 = (Inr (), w5)" ..
  have e: "run_state (refund_earned rc ?c actor ?t ?p) ?v = (Inr (after_earned rc ?p), w2)"
    unfolding refund_earned_eq using 1 by (simp add: run_or_return run_ok del: if_split)
  have r: "run_state (refund_redeemed rc ?c actor ?t (after_earned rc ?p)) w2
      = (Inr (refund_points rc ?p), w3)"
    unfolding refund_redeemed_eq using 2
    by (simp add: run_or_return run_ok refund_points_def del: if_split)
  have l: "run_state (LockCustomer (rec_customer rc)) w = (Inr cu, ?w)"
    using cu fate by (simp add: LockCustomer_Inr)
  show ?thesis
    unfolding refund_receipt_def
    using e r 3 4 by (simp add: run_or_return l run_now run_ok refund_result_def)
qed

lemma Refund_forward:
  assumes "quiet w" "fresh_ids w" "wf_db (db w)" "uuid_ok (env w) rid"
    and "row_by rec_id rid (receipts (db w)) = Some rc" "rec_status rc \<noteq> ReceiptRefunded"
    and "row_by cust_id (rec_customer rc) (customers (db w)) = Some cu" "refund_storable rc w cu"
  shows "fst (run_state (Refund (the_service i) rid actor) w) = Inr (refund_result rc cu)"
proof -
  let ?v = "next_tick w" and ?u = "next_tick (next_tick w)"
  have q: "\<And>n. fate_at (env w) n = Okay" using assms(1) by (simp add: quiet_def)
  have n: "fst (run_state (refund_receipt rc actor) ?u) = Inr (refund_result rc cu)"
    by (rule refund_receipt_forward)
      (use assms row_by_Some_key [OF assms(5)] row_by_Some_has [OF assms(5)]
        in \<open>auto simp: quiet_def fresh_ids_def refund_storable_def\<close>)
  have t: "run_state (refund_tx rid actor) ?v = run_state (refund_receipt rc actor) ?u"
    using assms(5,6) q by (simp add: refund_tx_def run_GetReceipt)
  obtain w5 where b: "run_state (refund_tx rid actor) ?v = (Inr (refund_result rc cu), w5)"
    using n t by (metis prod.collapse)
  have "wf_db (db ?v)" using assms(3) by simp
  with b have "env w5 = env w" by (elim refund_tx_Inr) auto
  then have "fst (run_state (InTx (refund_tx rid actor)) w) = Inr (refund_result rc cu)"
    using b q by (simp add: run_InTx)
  then show ?thesis
    using assms(4)
    by (auto simp: Refund_def run_or_return run_the_env run_ok refund_result_def case_prod_beta
        split: sum.splits prod.splits)
qed

text \<open>C28: A refund of a committed receipt succeeds: the receipt is known and not refunded, the
  numbers fit the columns, and the database and the id source behave.\<close>

theorem Refund_goes_through:
  assumes "quiet w" "fresh_ids w" "wf_db (db w)" "uuid_ok (env w) rid"
    and "row_by rec_id rid (receipts (db w)) = Some rc" "rec_status rc \<noteq> ReceiptRefunded"
    and "row_by cust_id (rec_customer rc) (customers (db w)) = Some cu" "refund_storable rc w cu"
  shows "fst (run_state (Refund (the_service i) rid actor) w) = Inr (refund_result rc cu)"
  by (rule Refund_forward [OF assms])

text \<open>Every world has an environment with fresh ids.\<close>

definition with_ids :: "(nat \<Rightarrow> string) \<Rightarrow> world \<Rightarrow> world" where
  "with_ids u w = w\<lparr>env := calm_env\<lparr>driver_of := DriverPostgres, uuid_at := u\<rparr>\<rparr>"

lemma with_ids_sel [simp]:
  "db (with_ids u w) = db w" "quiet (with_ids u w)" "uuid_ok (env (with_ids u w)) s \<longleftrightarrow> s \<noteq> ''''"
  "driver_of (env (with_ids u w)) = DriverPostgres"
  by (simp_all add: with_ids_def quiet_def fun_eq_iff)

lemma fresh_world: "\<exists>u. fresh_ids (with_ids u w)"
proof -
  have "infinite (UNIV - led_id ` set (ledger (db w)))"
    by (rule Diff_infinite_finite) (simp_all add: infinite_UNIV_listI)
  then obtain u :: "nat \<Rightarrow> string" where "inj u" "range u \<subseteq> UNIV - led_id ` set (ledger (db w))"
    using infinite_countable_subset by blast
  then show ?thesis
    by (intro exI [of _ u]) (auto simp: fresh_ids_def with_ids_def has_row_iff)
qed

abbreviation sample_refunded :: RefundResult where
  "sample_refunded \<equiv> \<lparr>rr_receipt = ''r1'', rr_customer = ''c1'', rr_points = 300, rr_replay = False\<rparr>"

lemma sample_w1_rows:
  obtains rc cu where "row_by rec_id ''r1'' (receipts (db sample_w1)) = Some rc"
    "row_by cust_id ''c1'' (customers (db sample_w1)) = Some cu" "cust_points cu = 140"
    "rec_customer rc = ''c1''" "rec_status rc \<noteq> ReceiptRefunded" "rec_earn rc = 40"
    "rec_redeem rc = 200" "rec_id rc = ''r1''"
proof -
  obtain t a b where s: "sans_jobs (db sample_w1)
      = sans_jobs (commit_db sample_commit DefaultSettings sample_c1 t a b sample_db)"
    using sample_w1_shape(1) by blast
  let ?rc = "commit_receipt sample_commit DefaultSettings sample_c1 t"
  have rc: "row_by rec_id ''r1'' (receipts (db sample_w1)) = Some ?rc"
    using commit_db_row [of sample_commit sample_db DefaultSettings sample_c1 t a b]
    by (simp add: sans_jobs_eqD(2) [OF s] sample_commit_facts)
  have "row_by cust_id (cust_id sample_c1) (customers sample_db) = Some sample_c1"
    by (simp add: sample_db_def sample_c1_def sample_customer_def)
  from commit_db_customer [OF this, of sample_commit DefaultSettings t a b]
  have cu: "row_by cust_id ''c1'' (customers (db sample_w1))
      = Some (sample_c1\<lparr>cust_points := 140, cust_updated := t\<rparr>)"
    by (simp add: sans_jobs_eqD(1) [OF s] sample_facts)
  show thesis by (rule that [OF rc cu]) (simp_all add: commit_receipt_sel sample_facts)
qed

text \<open>Refunds of such a receipt at a balance between 40 and 1000.\<close>

lemma sample_refund_points:
  assumes "rec_earn rc = 40" "rec_redeem rc = 200" "40 \<le> p" "p \<le> 1000"
  shows "earned_back rc p = 40" "refund_points rc p = p + 160"
  using assms
  by (simp_all add: earned_back_def after_earned_def refund_points_def sub64_def add64_def wrap64_small)

lemma sample_refund_storable:
  assumes "rec_earn rc = 40" "rec_redeem rc = 200" "40 \<le> cust_points cu" "cust_points cu \<le> 1000"
  shows "refund_storable rc (with_ids u w) cu"
  using assms
  by (simp add: refund_storable_def sample_refund_points int_fits_def in_i64_def neg64_def wrap64_small)

lemma sample_refund:
  assumes "fresh_ids (with_ids u sample_w1)"
  shows "\<exists>w'. run_state (Refund (the_service ''x'') ''r1'' ''s1'') (with_ids u sample_w1)
    = (Inr sample_refunded, w')"
    and "\<exists>rc cu. row_by rec_id ''r1'' (receipts (db sample_w1)) = Some rc
      \<and> rec_status rc \<noteq> ReceiptRefunded
      \<and> row_by cust_id (rec_customer rc) (customers (db sample_w1)) = Some cu
      \<and> refund_storable rc (with_ids u sample_w1) cu
      \<and> refund_result rc cu = sample_refunded"
proof -
  obtain rc cu where r: "row_by rec_id ''r1'' (receipts (db sample_w1)) = Some rc"
    "row_by cust_id ''c1'' (customers (db sample_w1)) = Some cu" "cust_points cu = 140"
    "rec_customer rc = ''c1''" "rec_status rc \<noteq> ReceiptRefunded" "rec_earn rc = 40"
    "rec_redeem rc = 200" "rec_id rc = ''r1''" by (rule sample_w1_rows)
  have st: "refund_storable rc (with_ids u sample_w1) cu"
    by (rule sample_refund_storable) (simp_all add: r)
  have res: "refund_result rc cu = sample_refunded"
    by (simp add: refund_result_def r sample_refund_points)
  have "fst (run_state (Refund (the_service ''x'') ''r1'' ''s1'') (with_ids u sample_w1)) = Inr (refund_result rc cu)"
    by (rule Refund_forward) (use assms r st sample_w1_shape(2) in simp_all)
  then show "\<exists>w'. run_state (Refund (the_service ''x'') ''r1'' ''s1'') (with_ids u sample_w1)
    = (Inr sample_refunded, w')" unfolding res by (metis prod.collapse)
  show "\<exists>rc cu. row_by rec_id ''r1'' (receipts (db sample_w1)) = Some rc
      \<and> rec_status rc \<noteq> ReceiptRefunded
      \<and> row_by cust_id (rec_customer rc) (customers (db sample_w1)) = Some cu
      \<and> refund_storable rc (with_ids u sample_w1) cu
      \<and> refund_result rc cu = sample_refunded"
    using r st res by metis
qed

theorem Refund_goes_through_witness:
  "\<exists>u. fst (run_state (Refund (the_service ''x'') ''r1'' ''s1'') (with_ids u sample_w1))
     = Inr sample_refunded"
proof -
  obtain u where f: "fresh_ids (with_ids u sample_w1)" using fresh_world by blast
  obtain rc cu where r: "row_by rec_id ''r1'' (receipts (db (with_ids u sample_w1))) = Some rc"
    "rec_status rc \<noteq> ReceiptRefunded"
    "row_by cust_id (rec_customer rc) (customers (db (with_ids u sample_w1))) = Some cu"
    "refund_storable rc (with_ids u sample_w1) cu"
    and res: "refund_result rc cu
      = sample_refunded"
    using sample_refund(2) [OF f] by auto
  have "fst (run_state (Refund (the_service ''x'') ''r1'' ''s1'') (with_ids u sample_w1))
      = Inr (refund_result rc cu)"
    by (rule Refund_goes_through [OF _ f _ _ r]) (simp_all add: sample_w1_shape)
  with res show ?thesis by (intro exI [of _ u]) simp
qed

theorem Refund_effect_witness:
  "\<exists>u rc cu t a b w'. row_by rec_id ''r1'' (receipts (db sample_w1)) = Some rc
    \<and> sans_jobs (db w') = sans_jobs (refund_db rc cu ''s1'' t a b (db sample_w1))
    \<and> run_state (Refund (the_service ''x'') ''r1'' ''s1'') (with_ids u sample_w1)
       = (Inr (refund_result rc cu), w')"
proof -
  obtain u where f: "fresh_ids (with_ids u sample_w1)" using fresh_world by blast
  obtain w' where r: "run_state (Refund (the_service ''x'') ''r1'' ''s1'') (with_ids u sample_w1)
      = (Inr sample_refunded, w')"
    using sample_refund(1) [OF f] by blast
  from Refund_effect [OF _ r] r sample_w1_shape(2) show ?thesis by fastforce
qed

theorem Refund_once_witness:
  "\<exists>u w' w3. run_state (Refund (the_service ''x'') ''r1'' ''s1'') (with_ids u sample_w1)
      = (Inr sample_refunded, w')
    \<and> w3 = snd (run_state (Refund (the_service ''x'') ''r1'' ''s2'') w')
    \<and> sans_jobs (db w3) = sans_jobs (db w')"
proof -
  obtain u where f: "fresh_ids (with_ids u sample_w1)" using fresh_world by blast
  obtain w' where r: "run_state (Refund (the_service ''x'') ''r1'' ''s1'') (with_ids u sample_w1)
      = (Inr sample_refunded, w')"
    using sample_refund(1) [OF f] by blast
  have "sans_jobs (db (snd (run_state (Refund (the_service ''x'') ''r1'' ''s2'') w')))
      = sans_jobs (db w')"
    using Refund_once [OF _ r refl prod.collapse [symmetric]] sample_w1_shape(2) by simp
  with r show ?thesis by blast
qed

theorem Commit_then_Refund_witness:
  "\<exists>u w3. map_option cust_points (row_by cust_id ''c1'' (customers (db w3))) = Some 300
    \<and> (\<exists>res2. run_state (Refund (the_service ''x'') ''r1'' ''s1'') (with_ids u sample_w1)
         = (Inr res2, w3))"
proof -
  obtain u where f: "fresh_ids (with_ids u sample_w1)" using fresh_world by blast
  obtain res2 w3 where r: "run_state (Refund (the_service ''x'') ''r1'' ''s1'') (with_ids u sample_w1)
      = (Inr res2, w3)"
    using sample_refund(1) [OF f] by blast
  have c: "row_by cust_id (cr_customer sample_result) (customers (db (world_of sample_db)))
      = Some sample_c1"
    by (simp add: sample_db_def sample_c1_def sample_customer_def)
  have "sans_jobs (db (with_ids u sample_w1)) = sans_jobs (db sample_w1)" by simp
  from Commit_then_Refund [OF _ sample_commit_runs _ _ _ _ c _ this, of "''s1''" res2 w3] r
  have "map_option cust_points (row_by cust_id ''c1'' (customers (db w3))) = Some 300"
    by (simp add: sample_facts amount_ok_def)
  with r show ?thesis by blast
qed

section \<open>Adjust\<close>

text \<open>C26: An adjustment that succeeds belongs to a card that is not deleted, leaves a balance
  that is not negative and equal to the old one plus the delta, writes one ledger entry with the
  reason and the actor, and changes nothing else but the outbox.\<close>

theorem Adjust_effect:
  assumes "wf_db (db w)"
    and "run_state (Adjust (the_service i) ref delta reason actor) w = (Inr c', w')"
  shows "\<exists>cu t a. cu \<in> set (customers (db w)) \<and> cust_deleted cu = None
    \<and> c' = cu\<lparr>cust_points := add64 (cust_points cu) delta, cust_updated := t\<rparr>
    \<and> 0 \<le> cust_points c'
    \<and> sans_jobs (db w') = sans_jobs (adjust_db cu delta reason actor t a (db w))"
  by (rule outbox.Adjust_success [OF Jobs_the_service assms]) auto

theorem Adjust_effect_witness:
  "\<exists>c' w' cu t a. run_state (Adjust (the_service ''x'') ''MCH-00000001'' 50 ''gift'' ''s2'')
        (world_of sample_db) = (Inr c', w')
    \<and> cust_points c' = 350
    \<and> sans_jobs (db w') = sans_jobs (adjust_db cu 50 ''gift'' ''s2'' t a sample_db)"
proof -
  obtain w1 where r: "run_state (resolveCustomer ''MCH-00000001'') (world_of sample_db)
      = (Inr sample_c1, w1)" and w1: "db w1 = sample_db" "env w1 = calm_env"
    using resolveCustomer_calm [of "world_of sample_db" "''MCH-00000001''" sample_c1] sample_resolves
    by (auto simp: sample_c1_def fun_eq_iff)
  have row: "row_by cust_id ''c1'' (customers sample_db) = Some sample_c1"
    "has_row cust_id ''c1'' (customers sample_db)"
    by (simp_all add: sample_db_def sample_c1_def sample_customer_def)
  have fresh: "\<not> has_row led_id (''id'' @ itoa n) (ledger sample_db)" for n
    by (simp add: sample_db_def)
  have sp: "trim_space ''gift'' = ''gift''"
    by (simp add: trim_space_ascii byte_def is_space_def)
  have p: "add64 300 50 = 350" by (simp add: add64_def wrap64_small)
  obtain pt w2 where tx: "run_state (InTx (adjust_tx ''c1'' 50 ''gift'' ''s2'')) w1 = (Inr pt, w2)"
    and pt: "fst pt = 350"
    using w1 row fresh p
    by (simp add: run_InTx adjust_tx_def run Let_def InsertLedger_def SetPoints_def insert_ledger_def
        set_points_def update_customer_def sample_c1_sel int_fits_def in_i64_def)
  then obtain c' w' where a: "run_state (Adjust (the_service ''x'') ''MCH-00000001'' 50 ''gift'' ''s2'')
      (world_of sample_db) = (Inr c', w')" "cust_points c' = 350"
    using r sp by (cases pt) (auto simp: Adjust_def run_or_return run_ok sample_c1_sel case_prod_beta)
  have "wf_db (db (world_of sample_db))" by (simp add: sample_wf)
  from Adjust_effect [OF this a(1)] a show ?thesis by auto
qed

end
