(* ===== verification/Balances.thy ===== *)
theory Balances
  imports MoneyProps
begin

text \<open>
  Bounds of the balances: the operations on points as one datatype (\<open>money_op\<close>), and what
  keeps a balance from becoming negative.
\<close>

section \<open>Balances stay within bounds\<close>

text \<open>On PostgreSQL, where the columns are 32 bits wide, with settings inside the bounds of the
  rules: balances and redeemed points lie between zero and \<open>2^31 - 1\<close>.\<close>

definition money_ok :: "database \<Rightarrow> bool" where
  "money_ok d \<longleftrightarrow> list_all (\<lambda>c. 0 \<le> cust_points c \<and> cust_points c \<le> 2147483647) (customers d)
     \<and> list_all (\<lambda>r. 0 \<le> rec_redeem r \<and> rec_redeem r \<le> 2147483647) (receipts d)"

lemma money_ok_sans_jobs:
  assumes "sans_jobs d = sans_jobs d'"
  shows "money_ok d = money_ok d'"
  using sans_jobs_eqD(1,2) [OF assms] by (simp add: money_ok_def)

lemma money_ok_points:
  "\<lbrakk>money_ok d; 0 \<le> p; p \<le> 2147483647\<rbrakk> \<Longrightarrow>
   list_all (\<lambda>c. 0 \<le> cust_points c \<and> cust_points c \<le> 2147483647)
     (update_by cust_id k (\<lambda>c. c\<lparr>cust_points := p, cust_updated := t\<rparr>) (customers d))"
  by (rule list_all_update_by) (simp_all add: money_ok_def)

lemma commit_points_bounds:
  assumes c: "CheckRedeem p a r st = None" and s: "settings_ok st"
    and p: "0 \<le> p" "p \<le> 2147483647" and a: "0 \<le> a" "a \<le> 2147483647"
    and r: "0 \<le> r" "r \<le> 2147483647"
  shows "0 \<le> add64 (sub64 p r) (ComputeEarn a r st)"
proof -
  have k: "amount_ok a" "amount_ok r" "p \<le> 1000000000000" using assms by (simp_all add: amount_ok_def)
  have e: "0 \<le> ComputeEarn a r st" "ComputeEarn a r st \<le> 1000000000000000000"
    using ComputeEarn_spec_aux [OF k(1,2) s] earn_spec_nonneg earn_spec_bound [OF k(1,2) s] by simp_all
  have "r \<le> p" using c CheckRedeem_spec_aux [OF k(1,3) s, of r] p by (auto simp: redeem_spec_def)
  with e p r show ?thesis by (simp add: add64_def sub64_def wrap64_small)
qed

lemma refund_points_bounds:
  assumes "0 \<le> p" "p \<le> 2147483647" "0 \<le> rec_redeem rc" "rec_redeem rc \<le> 2147483647"
  shows "0 \<le> refund_points rc p"
proof -
  define b where "b = earned_back rc p"
  have b: "b \<le> p" using assms(1) by (simp add: b_def earned_back_def)
  have a: "0 \<le> after_earned rc p \<and> after_earned rc p \<le> 2147483647"
    using assms(1,2) b
    by (cases "0 < b") (simp_all add: after_earned_def sub64_def wrap64_small flip: b_def)
  with assms(3,4) show ?thesis by (simp add: refund_points_def add64_def wrap64_small)
qed

text \<open>An operation on points, as a request makes it.\<close>

datatype money_op =
    OpCommit CommitInput
  | OpRefund string string
  | OpAdjust string int string string

definition run_op :: "service \<Rightarrow> money_op \<Rightarrow> unit act" where
  "run_op s p = (case p of
     OpCommit inp \<Rightarrow> do { _ \<leftarrow> Commit s inp; ret () }
   | OpRefund rid actor \<Rightarrow> do { _ \<leftarrow> Refund s rid actor; ret () }
   | OpAdjust ref delta reason actor \<Rightarrow> do { _ \<leftarrow> Adjust s ref delta reason actor; ret () })"

lemma run_op_db:
  "db (snd (run_state (run_op s p) w)) = (case p of
     OpCommit inp \<Rightarrow> db (snd (run_state (Commit s inp) w))
   | OpRefund rid actor \<Rightarrow> db (snd (run_state (Refund s rid actor) w))
   | OpAdjust ref delta reason actor \<Rightarrow> db (snd (run_state (Adjust s ref delta reason actor) w)))"
  by (simp add: run_op_def case_prod_beta split: money_op.splits)

text \<open>What an adjustment leaves behind, success or error.\<close>

lemma Adjust_after_tx:
  assumes "run_state (resolveCustomer ref) w = (Inr c, w1)" "cust_deleted c = None" "trim_space reason \<noteq> ''''"
    and "run_state (InTx (adjust_tx (cust_id c) delta reason actor)) w1 = (rt, w2)"
  shows "sans_jobs (db (snd (run_state (Adjust (the_service i) ref delta reason actor) w))) = sans_jobs (db w2)"
proof (cases rt)
  case (Inl err)
  then show ?thesis using assms by (simp add: Adjust_def run_or_return)
next
  case (Inr pt)
  then show ?thesis
    using assms outbox.enqueue_sans_jobs(1) [OF Jobs_the_service prod.collapse [symmetric],
        of i "cust_id c" w2]
    by (simp add: Adjust_def run_or_return run_ok case_prod_beta)
qed

lemma Adjust_any:
  assumes "wf_db (db w)"
  shows "sans_jobs (db (snd (run_state (Adjust (the_service i) ref delta reason actor) w)))
      = sans_jobs (db w)
    \<or> (\<exists>cu t a. row_by cust_id (cust_id cu) (customers (db w)) = Some cu
        \<and> 0 \<le> add64 (cust_points cu) delta
        \<and> int_fits (driver_of (env w)) (add64 (cust_points cu) delta)
        \<and> sans_jobs (db (snd (run_state (Adjust (the_service i) ref delta reason actor) w)))
          = sans_jobs (adjust_db cu delta reason actor t a (db w)))"
proof -
  let ?A = "run_state (Adjust (the_service i) ref delta reason actor) w"
  obtain rc w1 where r: "run_state (resolveCustomer ref) w = (rc, w1)" by fastforce
  have e: "db w1 = db w" "env w1 = env w" using readsD [OF reads_resolveCustomer r] by simp_all
  show ?thesis
  proof (cases "\<exists>c. rc = Inr c \<and> cust_deleted c = None \<and> trim_space reason \<noteq> ''''")
    case False
    then have "db (snd ?A) = db w"
      using r e by (auto simp: Adjust_def run_or_return run_fail split: sum.splits)
    then show ?thesis by simp
  next
    case True
    then obtain c where c: "rc = Inr c" "cust_deleted c = None" "trim_space reason \<noteq> ''''" by blast
    obtain rt w2 where tx: "run_state (InTx (adjust_tx (cust_id c) delta reason actor)) w1 = (rt, w2)"
      by fastforce
    have d: "sans_jobs (db (snd ?A)) = sans_jobs (db w2)"
      by (rule Adjust_after_tx [OF r [unfolded c(1)] c(2,3) tx])
    show ?thesis
    proof (rule InTx_cases [OF tx])
      assume "db w2 = db w1" with d e show ?thesis by simp
    next
      fix x w3
      assume b: "run_state (adjust_tx (cust_id c) delta reason actor) (next_tick w1) = (Inr x, w3)"
        and w3: "db w2 = db w3"
      have wf1: "wf_db (db (next_tick w1))" using assms e by simp
      obtain p t where x: "x = (p, t)" by fastforce
      show ?thesis
      proof (rule adjust_tx_Inr [OF b [unfolded x] wf1])
        fix cu i
        assume row: "row_by cust_id (cust_id c) (customers (db (next_tick w1))) = Some cu"
          and "db w3 = adjust_db cu delta reason actor t i (db (next_tick w1))"
          "p = add64 (cust_points cu) delta" "0 \<le> p" "int_fits (driver_of (env (next_tick w1))) p"
        moreover from row e have "row_by cust_id (cust_id cu) (customers (db w)) = Some cu"
          by (simp add: row_by_Some_key [OF row])
        ultimately show ?thesis using d w3 e by auto
      qed
    qed
  qed
qed

lemma Commit_money:
  assumes "wf_db (db w)" "money_ok (db w)" "driver_of (env w) = DriverPostgres" "settings_ok (db_settings w)"
  shows "money_ok (db (snd (run_state (Commit (the_service i) inp) w)))"
proof -
  obtain r w' where go: "run_state (Commit (the_service i) inp) w = (r, w')" by fastforce
  have "money_ok (db w')"
  proof (rule outbox.Commit_any [OF Jobs_the_service assms(1) go])
    assume "sans_jobs (db w') = sans_jobs (db w)"
    then show ?thesis using assms(2) money_ok_sans_jobs by blast
  next
    fix c t a b
    assume k: "commit_ready inp w c" "sans_jobs (db w') = sans_jobs (commit_writes inp w c t a b)"
    have pc: "0 \<le> cust_points c" "cust_points c \<le> 2147483647"
      using k(1) assms(2) by (auto simp: commit_ready_def money_ok_def list_all_iff)
    have b: "ci_amount inp \<le> 2147483647" "ci_redeem inp \<le> 2147483647"
      "commit_points inp (db_settings w) c \<le> 2147483647" "0 \<le> ci_amount inp" "0 \<le> ci_redeem inp"
      using k(1) assms(3) by (auto simp: commit_ready_def int_fits_def)
    have "0 \<le> commit_points inp (db_settings w) c"
      unfolding commit_points_def
      using k(1) assms(4) pc b
      by (intro commit_points_bounds) (auto simp: commit_ready_def commit_allowed_def)
    then have "money_ok (commit_writes inp w c t a b)"
      using money_ok_points [OF assms(2), of "commit_points inp (db_settings w) c"] b assms(2)
      by (simp add: commit_writes_def money_ok_def commit_db_sel commit_receipt_sel)
    then show ?thesis using money_ok_sans_jobs [OF k(2)] by simp
  qed
  with go show ?thesis by simp
qed

lemma Refund_money:
  assumes "wf_db (db w)" "money_ok (db w)" "driver_of (env w) = DriverPostgres"
  shows "money_ok (db (snd (run_state (Refund (the_service i) rid actor) w)))"
proof -
  obtain r w' where go: "run_state (Refund (the_service i) rid actor) w = (r, w')" by fastforce
  have "money_ok (db w')"
  proof (rule outbox.Refund_any [OF Jobs_the_service assms(1) go])
    assume "sans_jobs (db w') = sans_jobs (db w)"
    then show ?thesis using assms(2) money_ok_sans_jobs by blast
  next
    fix rc cu t a b
    assume k: "row_by rec_id rid (receipts (db w)) = Some rc"
      "row_by cust_id (rec_customer rc) (customers (db w)) = Some cu"
      "sans_jobs (db w') = sans_jobs (refund_db rc cu actor t a b (db w))"
      "int_fits (driver_of (env w)) (refund_points rc (cust_points cu))"
    have "0 \<le> refund_points rc (cust_points cu)"
      using assms(2) row_by_Some_in [OF k(1)] row_by_Some_in [OF k(2)]
      by (intro refund_points_bounds) (auto simp: money_ok_def list_all_iff)
    then have "money_ok (refund_db rc cu actor t a b (db w))"
      using money_ok_points [OF assms(2), of "refund_points rc (cust_points cu)"] k(4) assms(2,3)
      by (auto simp: money_ok_def refund_db_def Let_def int_fits_def refunded_row_def
          intro!: list_all_update_by)
    then show ?thesis using money_ok_sans_jobs [OF k(3)] by simp
  qed
  with go show ?thesis by simp
qed

lemma Adjust_money:
  assumes "wf_db (db w)" "money_ok (db w)" "driver_of (env w) = DriverPostgres"
  shows "money_ok (db (snd (run_state (Adjust (the_service i) ref delta reason actor) w)))"
  using Adjust_any [OF assms(1), of i ref delta reason actor]
proof (elim disjE exE conjE)
  assume "sans_jobs (db (snd (run_state (Adjust (the_service i) ref delta reason actor) w)))
    = sans_jobs (db w)"
  then show ?thesis using assms(2) money_ok_sans_jobs by blast
next
  fix cu t a
  assume k: "0 \<le> add64 (cust_points cu) delta"
    "int_fits (driver_of (env w)) (add64 (cust_points cu) delta)"
    "sans_jobs (db (snd (run_state (Adjust (the_service i) ref delta reason actor) w)))
      = sans_jobs (adjust_db cu delta reason actor t a (db w))"
  then have "money_ok (adjust_db cu delta reason actor t a (db w))"
    using money_ok_points [OF assms(2) k(1)] assms(2,3)
    by (simp add: money_ok_def adjust_db_def int_fits_def)
  then show ?thesis using money_ok_sans_jobs [OF k(3)] by simp
qed

lemma run_op_money_aux:
  assumes "wf_db (db w)" "money_ok (db w)" "driver_of (env w) = DriverPostgres" "settings_ok (db_settings w)"
  shows "money_ok (db (snd (run_state (run_op (the_service i) p) w)))"
  using Commit_money [OF assms] Refund_money [OF assms(1-3)] Adjust_money [OF assms(1-3)]
  by (cases p) (simp_all add: run_op_db)



end
