(* ===== verification/Config.thy ===== *)
theory Config
  imports Models
begin

text \<open>
  \<^verbatim>\<open>internal/config/config.go\<close>: the configuration after the environment has been read
  (\<^verbatim>\<open>env.Parse\<close>, a library, gives the raw record), its normalisation and the values derived
  from it.  Durations are nanoseconds.
\<close>

record Config =
  HTTPAddr :: string
  APIBaseURL :: string
  PublicBaseURL :: string
  CORSOrigins :: string
  DatabaseURL :: string
  CashierJWTSecret :: string
  AdminJWTSecret :: string
  CashierJWTTTL :: int
  AdminJWTTTL :: int
  AdminBootstrapLogin :: string
  AdminBootstrapPassword :: string
  AdminBootstrapName :: string
  CashierBootstrapLogin :: string
  CashierBootstrapPassword :: string
  CashierBootstrapName :: string
  TermsURL :: string
  SupportContact :: string
  AppMinSupported :: string
  AppDownloadURL :: string
  AppleTeamID :: string
  ApplePassTypeID :: string
  ApplePassCertP12 :: string
  ApplePassCertPassword :: string
  AppleWWDRCert :: string
  AppleAPNsP8 :: string
  AppleAPNsKeyID :: string
  AppleAPNsProduction :: bool
  GoogleIssuerID :: string
  GoogleSAJSON :: string
  GoogleClassSuffix :: string
  PassBGColor :: string
  PassFGColor :: string
  PassLabelColor :: string
  ShutdownTimeout :: int

text \<open>The defaults the struct tags give to variables that are not set.\<close>

definition default_config :: Config where
  "default_config = \<lparr>
     HTTPAddr = '':8080'', APIBaseURL = ''http://localhost:8080'',
     PublicBaseURL = ''http://localhost:8080'', CORSOrigins = '''',
     DatabaseURL = ''sqlite:./data/merch.db'',
     CashierJWTSecret = ''dev-cashier-secret-change-me'',
     AdminJWTSecret = ''dev-admin-secret-change-me'',
     CashierJWTTTL = 720 * 3600 * second, AdminJWTTTL = 720 * 3600 * second,
     AdminBootstrapLogin = ''admin'', AdminBootstrapPassword = ''changeme'',
     AdminBootstrapName = cfg_admin_name,
     CashierBootstrapLogin = '''', CashierBootstrapPassword = '''',
     CashierBootstrapName = cfg_cashier_name,
     TermsURL = '''', SupportContact = ''Telegram @merch'', AppMinSupported = ''1.0.0'',
     AppDownloadURL = ''https://example.com/merch-kassa.apk'',
     AppleTeamID = '''', ApplePassTypeID = ''pass.com.merch.loyalty'', ApplePassCertP12 = '''',
     ApplePassCertPassword = '''', AppleWWDRCert = '''', AppleAPNsP8 = '''',
     AppleAPNsKeyID = '''', AppleAPNsProduction = False,
     GoogleIssuerID = '''', GoogleSAJSON = '''', GoogleClassSuffix = ''merch_loyalty'',
     PassBGColor = ''rgb(255,255,255)'', PassFGColor = ''rgb(28,29,77)'',
     PassLabelColor = ''rgb(110,112,150)'', ShutdownTimeout = 10 * second\<rparr>"

definition Load :: "go_error + Config \<Rightarrow> go_error + Config" where
  "Load parsed = (case parsed of
     Inl e \<Rightarrow> Inl (Opaque (''config: '' @ ErrorText e))
   | Inr c \<Rightarrow>
      (let c = c\<lparr>APIBaseURL := trim_right_byte (CHR ''/'') (APIBaseURL c)\<rparr>;
           c = c\<lparr>PublicBaseURL := trim_right_byte (CHR ''/'') (PublicBaseURL c)\<rparr>;
           terms = trim_space (TermsURL c);
           c = (if terms = '''' \<or> terms = ''https://example.com/loyalty-terms''
                then c\<lparr>TermsURL := PublicBaseURL c @ ''/loyalty-terms''\<rparr> else c)
       in Inr c))"

definition CORSList :: "Config \<Rightarrow> string list" where
  "CORSList c =
    (if trim_space (CORSOrigins c) = '''' then [PublicBaseURL c, APIBaseURL c]
     else map (trim_right_byte (CHR ''/''))
            (filter (\<lambda>p. p \<noteq> '''') (map trim_space (split_on (CHR '','') (CORSOrigins c)))))"

definition GoogleClassID :: "Config \<Rightarrow> string" where
  "GoogleClassID c = (if GoogleIssuerID c = '''' then ''merch.merch_loyalty''
     else GoogleIssuerID c @ ''.'' @ GoogleClassSuffix c)"

definition GoogleObjectID :: "Config \<Rightarrow> string \<Rightarrow> string" where
  "GoogleObjectID c customerID =
    (let issuer = (if GoogleIssuerID c = '''' then ''merch'' else GoogleIssuerID c)
     in issuer @ ''.'' @ customerID)"

section \<open>Properties\<close>

lemma Load_urls_aux:
  assumes "Load parsed = Inr c"
  shows "PublicBaseURL c \<noteq> '''' \<Longrightarrow> last (PublicBaseURL c) \<noteq> CHR ''/''"
    "APIBaseURL c \<noteq> '''' \<Longrightarrow> last (APIBaseURL c) \<noteq> CHR ''/''"
    "trim_space (TermsURL c) \<noteq> '''' \<or> TermsURL c = PublicBaseURL c @ ''/loyalty-terms''"
  using assms by (auto simp: Load_def Let_def trim_right_byte_last split: sum.splits if_splits)

lemma Load_idem_aux:
  assumes "Load parsed = Inr c"
  shows "\<exists>c'. Load (Inr c) = Inr c' \<and> APIBaseURL c' = APIBaseURL c
    \<and> PublicBaseURL c' = PublicBaseURL c \<and> CORSOrigins c' = CORSOrigins c"
  using assms by (auto simp: Load_def Let_def split: sum.splits if_splits)

lemma CORSList_no_trailing_slash:
  assumes "Load parsed = Inr c" "x \<in> set (CORSList c)" "x \<noteq> ''''"
  shows "last x \<noteq> CHR ''/'' \<and> (PublicBaseURL c \<noteq> '''' \<longrightarrow> last (PublicBaseURL c) \<noteq> CHR ''/'')"
  using assms(2,3) Load_urls_aux [OF assms(1)]
  by (auto simp: CORSList_def trim_right_byte_last split: if_splits)

end
