(* ===== verification/Wallet.thy ===== *)
theory Wallet
  imports Queue Config
begin

text \<open>
  \<^verbatim>\<open>internal/wallet/wallet.go\<close> and the adapters \<^verbatim>\<open>wallet/apple\<close> (pass.go, apns.go) and
  \<^verbatim>\<open>wallet/google\<close> (google.go).  The interfaces \<^verbatim>\<open>Apple\<close> and \<^verbatim>\<open>Google\<close> are records of
  their methods.  Certificates, keys, signatures, access tokens and the zip archive come from
  libraries and are fields of the clients.
\<close>

section \<open>The interfaces and the composite updater\<close>

record Apple =
  apl_enabled :: bool
  apl_build :: "Customer \<Rightarrow> int \<Rightarrow> string \<Rightarrow> string go"
  apl_push :: "string list \<Rightarrow> unit go"

record Google =
  ggl_enabled :: bool
  ggl_save :: "Customer \<Rightarrow> string \<Rightarrow> string go"
  ggl_patch :: "string \<Rightarrow> int \<Rightarrow> unit go"

definition push_tokens :: "AppleDevice list \<Rightarrow> string list" where
  "push_tokens devs = map dev_token (filter (\<lambda>d. dev_token d \<noteq> '''') devs)"

definition update_apple :: "Apple option \<Rightarrow> string \<Rightarrow> unit act" where
  "update_apple apple customerID = (case apple of
     Some a \<Rightarrow>
       if apl_enabled a then do {
         r \<leftarrow> ListAppleDevices customerID;
         (case r of
            Inl err \<Rightarrow> ret ()
          | Inr devs \<Rightarrow>
              (let tokens = push_tokens devs in
               if length tokens > 0 then do { _ \<leftarrow> apl_push a tokens; ret () } else ret ())) }
       else ret ()
   | None \<Rightarrow> ret ())"

definition update_google :: "Google option \<Rightarrow> Customer \<Rightarrow> unit act" where
  "update_google google cust = (case google of
     Some g \<Rightarrow>
       if ggl_enabled g
       then do { _ \<leftarrow> ggl_patch g (cust_google_oid cust) (cust_points cust); ret () }
       else ret ()
   | None \<Rightarrow> ret ())"

definition UpdateWallet :: "Apple option \<Rightarrow> Google option \<Rightarrow> string \<Rightarrow> unit go" where
  "UpdateWallet apple google customerID = or_return (GetCustomerByID customerID) (\<lambda>cust. do {
     _ \<leftarrow> update_apple apple customerID;
     _ \<leftarrow> update_google google cust;
     ok () })"

section \<open>Requests to other servers\<close>

text \<open>\<^verbatim>\<open>http.NewRequestWithContext\<close> parses the URL.  For a URL whose scheme and host are
  constants the parse fails on a control byte before the fragment, and on a percent sign
  without two hexadecimal digits in the path or the fragment.\<close>

definition hex_byte :: "char \<Rightarrow> bool" where
  "hex_byte c \<longleftrightarrow> (let b = byte c in
     48 \<le> b \<and> b \<le> 57 \<or> 97 \<le> b \<and> b \<le> 102 \<or> 65 \<le> b \<and> b \<le> 70)"

fun escapes_ok :: "string \<Rightarrow> bool" where
  "escapes_ok [] \<longleftrightarrow> True"
| "escapes_ok (c # cs) \<longleftrightarrow>
     (if c = CHR ''%''
      then (case cs of a # b # cs' \<Rightarrow> hex_byte a \<and> hex_byte b \<and> escapes_ok cs' | _ \<Rightarrow> False)
      else escapes_ok cs)"

definition url_ok :: "string \<Rightarrow> bool" where
  "url_ok s \<longleftrightarrow>
    (let u = takeWhile (\<lambda>c. c \<noteq> CHR ''#'') s;
         frag = drop 1 (dropWhile (\<lambda>c. c \<noteq> CHR ''#'') s);
         path = takeWhile (\<lambda>c. c \<noteq> CHR ''?'') u
     in list_all (\<lambda>c. 32 \<le> byte c \<and> byte c \<noteq> 127) u \<and> escapes_ok path \<and> escapes_ok frag)"

definition NewRequest :: "HttpCall \<Rightarrow> HttpCall go" where
  "NewRequest c = (if url_ok (call_url c) then ok c else fail (Opaque ''net/url''))"

section \<open>APNs\<close>

datatype pusher = NoPusher | NoopPusher | APNsPusher bool

text \<open>The two signers of passes.  \<open>PKCS12Signer None\<close> has no certificate or no key.\<close>

datatype signer = StubSigner | PKCS12Signer "(string \<Rightarrow> string option) option"

text \<open>The client of \<^verbatim>\<open>wallet/apple\<close>.  \<open>APNsPusher k\<close> has a key when \<open>k\<close>.  Parameters of the
  libraries: \<open>ap_sign\<close> signs the bearer token (issuer, time, key id); \<open>ap_image\<close> is the
  embedded file system, \<open>ap_sha1\<close> the hash, \<open>ap_marshal\<close> the encoding of a JSON document and
  \<open>ap_zip\<close> the archive (its order of entries may differ each time).\<close>

record apple_libs =
  ap_sign :: "string \<Rightarrow> int \<Rightarrow> string \<Rightarrow> string option"
  ap_image :: "string \<Rightarrow> string option"
  ap_sha1 :: "string \<Rightarrow> nat list"
  ap_marshal :: "json \<Rightarrow> string"
  ap_zip :: "nat \<Rightarrow> (string \<times> string) list \<Rightarrow> string option"

record apple_client =
  ap_cfg :: Config
  ap_signer :: signer
  ap_pusher :: pusher
  ap_on :: bool
  ap_libs :: apple_libs

text \<open>\<^verbatim>\<open>apple.New\<close>, given the signer of the certificate when it loads, and whether the APNs
  key loads.\<close>

definition apple_New ::
  "Config \<Rightarrow> (string \<Rightarrow> string option) option \<Rightarrow> bool \<Rightarrow> apple_libs \<Rightarrow> apple_client" where
  "apple_New cfg p12 p8_loads libs =
    (let apns = (AppleAPNsP8 cfg \<noteq> '''' \<and> AppleTeamID cfg \<noteq> '''' \<and> AppleAPNsKeyID cfg \<noteq> '''');
         (sig, on1) = (if ApplePassCertP12 cfg \<noteq> ''''
                       then (case p12 of None \<Rightarrow> (StubSigner, False)
                             | Some f \<Rightarrow> (PKCS12Signer (Some f), True))
                       else (StubSigner, False))
     in \<lparr>ap_cfg = cfg, ap_signer = sig,
         ap_pusher = (if apns then APNsPusher p8_loads else NoopPusher),
         ap_on = (on1 \<or> apns), ap_libs = libs\<rparr>)"

definition bearer :: "apple_client \<Rightarrow> string go" where
  "bearer a = do {
     t \<leftarrow> now;
     (case ap_sign (ap_libs a) (AppleTeamID (ap_cfg a)) (unix t) (AppleAPNsKeyID (ap_cfg a)) of
        None \<Rightarrow> fail (Opaque ''jwt'') | Some s \<Rightarrow> ok s) }"

definition push_call :: "apple_client \<Rightarrow> string \<Rightarrow> string \<Rightarrow> HttpCall" where
  "push_call a tok device =
    (let host = (if AppleAPNsProduction (ap_cfg a) then ''https://api.push.apple.com''
                 else ''https://api.sandbox.push.apple.com'')
     in \<lparr>call_method = ''POST'', call_url = host @ ''/3/device/'' @ device,
         call_headers = [(''Authorization'', ''bearer '' @ tok),
           (''apns-topic'', ApplePassTypeID (ap_cfg a)), (''apns-push-type'', ''background''),
           (''apns-priority'', ''5'')],
         call_body = JObj []\<rparr>)"

text \<open>The loop over the devices: a transport error or a status of 300 and more is logged only,
  a URL that does not parse ends the loop.\<close>

fun push_loop :: "apple_client \<Rightarrow> string \<Rightarrow> string list \<Rightarrow> unit go" where
  "push_loop a tok [] = ok ()"
| "push_loop a tok (device # ds) = or_return (NewRequest (push_call a tok device)) (\<lambda>req. do {
     _ \<leftarrow> http_do req; push_loop a tok ds })"

definition Push :: "apple_client \<Rightarrow> bool \<Rightarrow> string list \<Rightarrow> unit go" where
  "Push a has_key tokens =
     (if \<not> has_key then ok ()
      else or_return (bearer a) (\<lambda>tok. push_loop a tok tokens))"

definition PushUpdate :: "apple_client \<Rightarrow> string list \<Rightarrow> unit go" where
  "PushUpdate a tokens = (case ap_pusher a of
     NoPusher \<Rightarrow> ok () | NoopPusher \<Rightarrow> ok () | APNsPusher k \<Rightarrow> Push a k tokens)"

section \<open>The Apple pass\<close>

definition secondaryFields :: "Customer \<Rightarrow> int \<Rightarrow> json list" where
  "secondaryFields cust earnPercent =
    (let name = trim_space (cust_name cust) in
     (if name \<noteq> ''''
      then [JObj [(''key'', JStr ''name''), (''label'', JStr w_owner_label), (''value'', JStr name)]]
      else [])
     @ [JObj [(''key'', JStr ''bonus''), (''label'', JStr w_bonus_label),
              (''value'', JStr (itoa earnPercent @ ''%'')),
              (''textAlignment'', JStr ''PKTextAlignmentRight'')]])"

definition passJSON :: "Config \<Rightarrow> Customer \<Rightarrow> int \<Rightarrow> string \<Rightarrow> json" where
  "passJSON cfg cust earnPercent back = JObj [
     (''formatVersion'', JInt 1),
     (''passTypeIdentifier'', JStr (ApplePassTypeID cfg)),
     (''teamIdentifier'', JStr (AppleTeamID cfg)),
     (''serialNumber'', JStr (cust_id cust)),
     (''organizationName'', JStr ''MERCH''),
     (''description'', JStr w_pass_descr),
     (''foregroundColor'', JStr (PassFGColor cfg)),
     (''backgroundColor'', JStr (PassBGColor cfg)),
     (''labelColor'', JStr (PassLabelColor cfg)),
     (''webServiceURL'', JStr (trim_right_byte (CHR ''/'') (APIBaseURL cfg) @ ''/passes/'')),
     (''authenticationToken'', JStr (cust_apple_token cust)),
     (''barcodes'', JArr [JObj [(''format'', JStr ''PKBarcodeFormatQR''),
        (''message'', JStr (cust_barcode cust)), (''messageEncoding'', JStr ''iso-8859-1''),
        (''altText'', JStr (cust_barcode cust))]]),
     (''storeCard'', JObj [
        (''headerFields'', JArr [JObj [(''key'', JStr ''points''), (''label'', JStr w_balance_label),
           (''value'', JStr (itoa (cust_points cust))), (''changeMessage'', JStr w_balance_change)]]),
        (''primaryFields'', JArr []),
        (''secondaryFields'', JArr (secondaryFields cust earnPercent)),
        (''backFields'', JArr [
           JObj [(''key'', JStr ''terms_body''), (''label'', JStr w_terms_label), (''value'', JStr back)],
           JObj [(''key'', JStr ''terms''), (''label'', JStr w_rules_label),
                 (''value'', JStr (TermsURL cfg))],
           JObj [(''key'', JStr ''support''), (''label'', JStr w_contacts_label),
                 (''value'', JStr (SupportContact cfg))]])])]"

definition pass_images :: "string list" where
  "pass_images = [''icon.png'', ''icon@2x.png'', ''icon@3x.png'',
     ''logo.png'', ''logo@2x.png'', ''logo@3x.png'', ''strip.png'', ''strip@2x.png'', ''strip@3x.png'']"

fun read_images :: "(string \<Rightarrow> string option) \<Rightarrow> string list \<Rightarrow> go_error + (string \<times> string) list" where
  "read_images fs [] = Inr []"
| "read_images fs (name # names) = (case fs (''assets/'' @ name) of
     None \<Rightarrow> Inl (Opaque ''embed'')
   | Some b \<Rightarrow> (case read_images fs names of Inl e \<Rightarrow> Inl e | Inr fl \<Rightarrow> Inr ((name, b) # fl)))"

text \<open>The manifest: for each file the SHA-1 of its bytes, in hexadecimal.\<close>

definition manifest :: "(string \<Rightarrow> nat list) \<Rightarrow> (string \<times> string) list \<Rightarrow> (string \<times> json) list" where
  "manifest sha1 fl = map (\<lambda>(name, data). (name, JStr (hex_encode (sha1 data)))) fl"

fun signer_Sign :: "(string \<Rightarrow> nat list) \<Rightarrow> signer \<Rightarrow> string \<Rightarrow> string option" where
  "signer_Sign sha1 StubSigner m = Some (''STUB-SIGNATURE-'' @ hex_encode (sha1 m))"
| "signer_Sign sha1 (PKCS12Signer None) m = Some (''STUB-SIGNATURE-'' @ hex_encode (sha1 m))"
| "signer_Sign sha1 (PKCS12Signer (Some f)) m = f m"

text \<open>The files of the archive.\<close>

definition pass_files :: "apple_client \<Rightarrow> Customer \<Rightarrow> int \<Rightarrow> string \<Rightarrow> go_error + (string \<times> string) list" where
  "pass_files a cust earnPercent back =
    (let L = ap_libs a; pass = ap_marshal L (passJSON (ap_cfg a) cust earnPercent back)
     in (case read_images (ap_image L) pass_images of
           Inl e \<Rightarrow> Inl e
         | Inr imgs \<Rightarrow>
             (let fl = (''pass.json'', pass) # imgs;
                  man = ap_marshal L (JObj (manifest (ap_sha1 L) fl))
              in (case signer_Sign (ap_sha1 L) (ap_signer a) man of
                    None \<Rightarrow> Inl (Opaque ''pkcs7'')
                  | Some sig \<Rightarrow> Inr (fl @ [(''manifest.json'', man), (''signature'', sig)])))))"

definition BuildPKPass :: "apple_client \<Rightarrow> Customer \<Rightarrow> int \<Rightarrow> string \<Rightarrow> string go" where
  "BuildPKPass a cust earnPercent back = State (\<lambda>w.
     ((case pass_files a cust earnPercent back of
         Inl e \<Rightarrow> Inl e
       | Inr fl \<Rightarrow> (case ap_zip (ap_libs a) (tick w) fl of
                     None \<Rightarrow> Inl (Opaque ''zip'') | Some b \<Rightarrow> Inr b)), next_tick w))"

definition apple_of :: "apple_client \<Rightarrow> Apple" where
  "apple_of a = \<lparr>apl_enabled = ap_on a, apl_build = BuildPKPass a, apl_push = PushUpdate a\<rparr>"

section \<open>Google Wallet\<close>

text \<open>\<open>gg_sa\<close>: the credentials are there; \<open>gg_file\<close>: the service account file (e-mail, key) as
  it is read and parsed for a save link; \<open>gg_token\<close>: the access token the library returns at
  a time; \<open>gg_sign\<close>: the signed save link for the account, the time and the object and class
  ids.\<close>

record google_client =
  gg_cfg :: Config
  gg_on :: bool
  gg_sa :: bool
  gg_file :: "(string \<times> string) option"
  gg_token :: "nat \<Rightarrow> string option"
  gg_sign :: "string \<times> string \<Rightarrow> int \<Rightarrow> json \<Rightarrow> json \<Rightarrow> string option"

definition google_New ::
  "Config \<Rightarrow> bool \<Rightarrow> (string \<times> string) option \<Rightarrow> (nat \<Rightarrow> string option)
     \<Rightarrow> (string \<times> string \<Rightarrow> int \<Rightarrow> json \<Rightarrow> json \<Rightarrow> string option) \<Rightarrow> google_client" where
  "google_New cfg creds_load sa_file tok signer =
    (let on = (\<not> (GoogleSAJSON cfg = '''' \<or> GoogleIssuerID cfg = '''') \<and> creds_load)
     in \<lparr>gg_cfg = cfg, gg_on = on, gg_sa = on, gg_file = sa_file, gg_token = tok, gg_sign = signer\<rparr>)"

definition access_token :: "google_client \<Rightarrow> string go" where
  "access_token g = State (\<lambda>w. ((case gg_token g (tick w) of
     None \<Rightarrow> Inl (Opaque ''oauth2'') | Some t \<Rightarrow> Inr t), next_tick w))"

definition wallet_call :: "string \<Rightarrow> string \<Rightarrow> string \<Rightarrow> json \<Rightarrow> HttpCall" where
  "wallet_call m url tok body = \<lparr>call_method = m, call_url = url,
     call_headers = [(''Authorization'', ''Bearer '' @ tok), (''Content-Type'', ''application/json'')],
     call_body = body\<rparr>"

definition walletJSON :: "string \<Rightarrow> string \<Rightarrow> string \<Rightarrow> json \<Rightarrow> (nat \<times> string) go" where
  "walletJSON m url tok body =
     or_return (NewRequest (wallet_call m url tok body)) (\<lambda>req.
     or_return (http_do req) (\<lambda>(status, b). ok (status, take 4096 b)))"

definition loyalty_points :: "int \<Rightarrow> json" where
  "loyalty_points p = JObj [(''label'', JStr w_points_label), (''balance'', JObj [(''int'', JInt p)])]"

definition gobject :: "Config \<Rightarrow> Customer \<Rightarrow> string \<Rightarrow> json" where
  "gobject cfg cust back = JObj ([
     (''id'', JStr (cust_google_oid cust)),
     (''classId'', JStr (GoogleClassID cfg)),
     (''state'', JStr ''ACTIVE''),
     (''accountId'', JStr (cust_barcode cust)),
     (''accountName'', JStr (cust_name cust)),
     (''loyaltyPoints'', loyalty_points (cust_points cust)),
     (''barcode'', JObj [(''type'', JStr ''QR_CODE''), (''value'', JStr (cust_barcode cust))])]
     @ (if trim_space back \<noteq> ''''
        then [(''textModulesData'', JArr [JObj [(''id'', JStr ''terms_body''),
                (''header'', JStr w_terms_label), (''body'', JStr back)]])]
        else []))"

definition google_url :: string where
  "google_url = ''https://walletobjects.googleapis.com/walletobjects/v1/''"

definition upsertObject :: "google_client \<Rightarrow> json \<Rightarrow> string \<Rightarrow> unit go" where
  "upsertObject g obj oid = or_return (access_token g) (\<lambda>tok.
     or_return (walletJSON ''POST'' (google_url @ ''loyaltyObject'') tok obj) (\<lambda>r1.
     or_return (if fst r1 = 409
                then walletJSON ''PUT'' (google_url @ ''loyaltyObject/'' @ oid) tok obj
                else ok r1) (\<lambda>(status, respBody).
     if status \<ge> 300
     then fail (Opaque (''google loyalty object '' @ itoa (int status) @ '': '' @ respBody))
     else ok ())))"

definition SaveURL :: "google_client \<Rightarrow> Customer \<Rightarrow> string \<Rightarrow> string go" where
  "SaveURL g cust back =
     (if \<not> gg_on g \<or> \<not> gg_sa g then ok ''''
      else (case gg_file g of
         None \<Rightarrow> fail (Opaque ''service account'')
       | Some sa \<Rightarrow>
           (let obj = gobject (gg_cfg g) cust back in
            or_return (upsertObject g obj (cust_google_oid cust)) (\<lambda>_. do {
              t \<leftarrow> now;
              (case gg_sign g sa (unix t) (JStr (cust_google_oid cust))
                      (JStr (GoogleClassID (gg_cfg g))) of
                 None \<Rightarrow> fail (Opaque ''jwt'')
               | Some signed \<Rightarrow> ok (''https://pay.google.com/gp/v/save/'' @ signed)) }))))"

definition patch_call :: "string \<Rightarrow> string \<Rightarrow> int \<Rightarrow> HttpCall" where
  "patch_call tok objectID points = wallet_call ''PATCH''
     (google_url @ ''loyaltyobject/'' @ objectID @ ''?updateMask=loyaltyPoints'') tok
     (JObj [(''loyaltyPoints'', loyalty_points points)])"

definition PatchPoints :: "google_client \<Rightarrow> string \<Rightarrow> int \<Rightarrow> unit go" where
  "PatchPoints g objectID points =
     (if \<not> gg_on g \<or> \<not> gg_sa g then ok ()
      else or_return (access_token g) (\<lambda>tok.
        or_return (NewRequest (patch_call tok objectID points)) (\<lambda>req.
        or_return (http_do req) (\<lambda>(status, b).
          if status \<ge> 300
          then fail (Opaque (''google patch '' @ itoa (int status) @ '': '' @ take 4096 b))
          else ok ()))))"

definition google_of :: "google_client \<Rightarrow> Google" where
  "google_of g = \<lparr>ggl_enabled = gg_on g, ggl_save = SaveURL g, ggl_patch = PatchPoints g\<rparr>"

section \<open>Lemmas\<close>

lemma reads_http_do: "reads (http_do c)"
  by (simp add: reads_def run)

lemma reads_access_token: "reads (access_token g)"
  by (simp add: reads_def access_token_def)

lemma reads_NewRequest: "reads (NewRequest c)"
  by (simp add: reads_def run NewRequest_def)

lemma reads_case_prod: "(\<And>x y. reads (f x y)) \<Longrightarrow> reads (case p of (x, y) \<Rightarrow> f x y)"
  by (simp split: prod.splits)

lemma reads_let: "(\<And>x. reads (k x)) \<Longrightarrow> reads (let x = e in k x)"
  by simp

lemmas reads_more =
  reads_intros reads_http_do reads_access_token reads_NewRequest reads_case_prod reads_let

lemma reads_push_loop: "reads (push_loop a tok ds)"
  by (induction ds) (auto intro!: reads_more)

lemma reads_PushUpdate: "reads (PushUpdate a tokens)"
  unfolding PushUpdate_def Push_def bearer_def
  by (cases "ap_pusher a") (auto intro!: reads_more reads_push_loop)

lemma reads_PatchPoints: "reads (PatchPoints g i p)"
  unfolding PatchPoints_def by (intro reads_more)

lemma reads_walletJSON: "reads (walletJSON m u t b)"
  unfolding walletJSON_def by (intro reads_more)

lemma reads_SaveURL: "reads (SaveURL g c b)"
  unfolding SaveURL_def upsertObject_def by (intro reads_more reads_walletJSON)

lemma reads_BuildPKPass: "reads (BuildPKPass a c e b)"
  by (simp add: reads_def BuildPKPass_def)

text \<open>A provider reads the database at most; the clients of the program are such providers.\<close>

locale wallet_providers =
  fixes apple :: "Apple option" and google :: "Google option"
  assumes push_reads: "apple = Some a \<Longrightarrow> reads (apl_push a ts)"
    and patch_reads: "google = Some g \<Longrightarrow> reads (ggl_patch g i p)"
begin

lemma reads_update_apple: "reads (update_apple apple c)"
  unfolding update_apple_def ListAppleDevices_def Let_def
  by (cases apple) (auto intro!: reads_intros push_reads)

lemma reads_update_google: "reads (update_google google c)"
  unfolding update_google_def by (cases google) (auto intro!: reads_intros patch_reads)

lemma reads_UpdateWallet: "reads (UpdateWallet apple google c)"
  unfolding UpdateWallet_def GetCustomerByID_def
  by (intro reads_intros reads_update_apple reads_update_google)

text \<open>Errors of the providers are swallowed: the update fails only when the customer cannot be
  read.\<close>

lemma UpdateWallet_result:
  "fst (run_state (UpdateWallet apple google c) w) =
     (case fst (run_state (GetCustomerByID c) w) of Inl e \<Rightarrow> Inl e | Inr _ \<Rightarrow> Inr ())"
  by (simp add: UpdateWallet_def run_or_return run_ok case_prod_beta split: sum.splits)

end

sublocale wallet_providers \<subseteq> updater "UpdateWallet apple google"
  by unfold_locales (rule reads_UpdateWallet)

text \<open>The updater of the program.\<close>

definition the_updater :: "apple_client \<Rightarrow> google_client \<Rightarrow> string \<Rightarrow> unit go" where
  "the_updater a g = UpdateWallet (Some (apple_of a)) (Some (google_of g))"

interpretation wallet: wallet_providers "Some (apple_of a)" "Some (google_of g)" for a g
  by unfold_locales (auto simp: apple_of_def google_of_def reads_PushUpdate reads_PatchPoints)

lemma the_updater_succeeds:
  assumes "fate_at (env w) = (\<lambda>_. Okay)" "has_row cust_id c (customers (db w))"
  shows "wallet.succeeds a g w c"
proof -
  have "fst (run_state (UpdateWallet (Some (apple_of a)) (Some (google_of g)) c) v) = Inr ()"
    if "env v = env w" "sans_jobs (db v) = sans_jobs (db w)" for v
    using assms that sans_jobs_eqD(1) [OF that(2)]
    by (auto simp: wallet.UpdateWallet_result run row_by_None split: option.splits)
  then show ?thesis by (simp add: wallet.succeeds_def)
qed

end
