(* ===== verification/StoreConn.thy ===== *)
theory StoreConn
  imports World
begin

text \<open>
  The pure part of \<^verbatim>\<open>internal/store/store.go\<close>: the placeholders of a query, the database
  URL and the path of a SQLite file.  Opening the connection and the migrations are I/O.
\<close>

section \<open>Placeholders\<close>

text \<open>The loop of \<open>Q\<close> over the bytes; \<open>n\<close> counts the placeholders so far.\<close>

fun q_loop :: "nat \<Rightarrow> string \<Rightarrow> string" where
  "q_loop n [] = []"
| "q_loop n (c # cs) =
     (if c = CHR ''?'' then CHR ''$'' # itoa (int (Suc n)) @ q_loop (Suc n) cs
      else c # q_loop n cs)"

definition Q :: "driver \<Rightarrow> string \<Rightarrow> string" where
  "Q d sql = (if d \<noteq> DriverPostgres then sql else q_loop 0 sql)"

section \<open>The database URL\<close>

definition parseURL :: "string \<Rightarrow> go_error + driver \<times> string" where
  "parseURL raw0 =
    (let raw = trim_space raw0 in
     if has_prefix raw ''postgres://'' \<or> has_prefix raw ''postgresql://''
     then Inr (DriverPostgres, raw)
     else if has_prefix raw ''sqlite:'' then
       (let path = trim_prefix raw ''sqlite:'';
            path = trim_prefix path ''//'' in
        if has_prefix path ''file:'' then Inr (DriverSQLite, path)
        else if path = '':memory:'' \<or> contains_str path ''mode=memory'' then
          (let path = (if \<not> has_prefix path ''file:'' then ''file:'' @ trim_prefix path ''file:''
                       else path)
           in Inr (DriverSQLite, path))
        else if path = '''' then Inl (Opaque ''empty sqlite path'')
        else Inr (DriverSQLite, path))
     else Inl (Opaque ''unsupported DATABASE_URL scheme''))"

definition dsnPath :: "string \<Rightarrow> string" where
  "dsnPath dsn =
    (let p = trim_prefix dsn ''file:'' in takeWhile (\<lambda>c. c \<noteq> CHR ''?'') p)"

definition boolToInt :: "bool \<Rightarrow> int" where
  "boolToInt v = (if v then 1 else 0)"

section \<open>Properties\<close>

text \<open>The pieces of a query between its placeholders, joined by numbered ones.\<close>

fun numbered :: "nat \<Rightarrow> string list \<Rightarrow> string" where
  "numbered n [] = []"
| "numbered n [p] = p"
| "numbered n (p # q # ps) = p @ ''$'' @ itoa (int n) @ numbered (Suc n) (q # ps)"

lemma q_loop_append: "CHR ''?'' \<notin> set p \<Longrightarrow> q_loop n (p @ s) = p @ q_loop n s"
  by (induction p) auto

lemma q_loop_join:
  "\<forall>p \<in> set ps. CHR ''?'' \<notin> set p \<Longrightarrow> q_loop n (join ''?'' ps) = numbered (Suc n) ps"
proof (induction "Suc n" ps arbitrary: n rule: numbered.induct)
  case (2 p)
  then show ?case using q_loop_append [of p n "[]"] by simp
next
  case (3 p q ps)
  then show ?case by (simp add: q_loop_append)
qed simp

text \<open>For PostgreSQL the \<open>k\<close>-th placeholder of a query becomes \<open>$k\<close> and nothing else
  changes; for SQLite the query stays as it is.\<close>

lemma Q_numbers_placeholders:
  assumes "\<forall>p \<in> set ps. CHR ''?'' \<notin> set p"
  shows "Q d (join ''?'' ps) = (if d = DriverPostgres then numbered 1 ps else join ''?'' ps)"
  using q_loop_join [OF assms, of 0] by (simp add: Q_def)

lemma Q_numbers_placeholders_example:
  "Q DriverPostgres ''a = ? AND b = ?'' = ''a = $1 AND b = $2''"
proof -
  have "Q DriverPostgres (join ''?'' [''a = '', '' AND b = '', ''''])
      = numbered 1 [''a = '', '' AND b = '', '''']"
    using Q_numbers_placeholders [of "[''a = '', '' AND b = '', '''']" DriverPostgres] by simp
  moreover have "itoa 1 = ''1''" "itoa 2 = ''2''" by code_simp+
  ultimately show ?thesis by simp
qed

lemma parseURL_sqlite_path:
  "parseURL raw = Inr (DriverSQLite, dsn) \<Longrightarrow> dsn \<noteq> ''''
    \<and> (contains_str dsn ''mode=memory'' \<or> dsn = '':memory:'' \<longrightarrow> has_prefix dsn ''file:'')"
  by (auto simp: parseURL_def Let_def has_prefix_def split: if_splits)

end
