(* ===== verification/Copy.thy ===== *)
theory Copy
  imports Models
begin

text \<open>
  \<^verbatim>\<open>internal/loyalty/copy.go\<close>: the text on the back of the card, with Russian plurals.
\<close>

definition plural :: "int \<Rightarrow> string \<Rightarrow> string \<Rightarrow> string \<Rightarrow> string" where
  "plural n0 one few many =
    (let n = (if n0 < 0 then neg64 n0 else n0);
         mod100 = rem64 n 100;
         mod10 = rem64 n 10
     in if 11 \<le> mod100 \<and> mod100 \<le> 14 then many
        else if mod10 = 1 then one
        else if mod10 = 2 \<or> mod10 = 3 \<or> mod10 = 4 then few
        else many)"

definition pointsWord :: "int \<Rightarrow> string" where
  "pointsWord n = plural n w_point_one w_point_few w_point_many"

definition daysWord :: "int \<Rightarrow> string" where
  "daysWord n = plural n w_day_one w_day_few w_day_many"

text \<open>One line of \<open>formatStores\<close>; a store with neither name nor address gives none.\<close>

definition store_line :: "StoreRow \<Rightarrow> string option" where
  "store_line row =
    (let name = trim_space (shop_name row); addr = trim_space (shop_address row) in
     if name \<noteq> '''' \<and> addr \<noteq> '''' then Some (name @ cp_dash @ addr)
     else if name \<noteq> '''' then Some name
     else if addr \<noteq> '''' then Some addr
     else None)"

definition formatStores :: "StoreRow list \<Rightarrow> string" where
  "formatStores rows =
    (let lines = List.map_filter store_line rows in
     if lines = [] then cp_no_stores else cp_stores @ join [CHR 0x0A] lines)"

definition ProgramDescription :: "Settings \<Rightarrow> StoreRow list \<Rightarrow> string \<Rightarrow> string" where
  "ProgramDescription s0 rows support0 =
    (let s = withDefaults s0;
         per100 = quo64 (mul64 100 (EarnPercent s)) 100;
         support = trim_space support0
     in cp_rate_1 @ itoa (RedeemRate s) @ cp_rate_2
        @ cp_earn_1 @ itoa (EarnPercent s) @ cp_earn_2 @ itoa per100 @ '' '' @ pointsWord per100
        @ cp_earn_3
        @ (if EarnMinReceipt s > 0 then cp_min_1 @ itoa (EarnMinReceipt s) @ cp_rub else '''')
        @ cp_red_1 @ itoa (RedeemMin s) @ '' '' @ pointsWord (RedeemMin s)
        @ cp_red_2 @ itoa (RedeemMaxShare s) @ cp_red_3
        @ (case ExpireDays s of
             Some d \<Rightarrow> if d > 0 then cp_exp_1 @ itoa d @ '' '' @ daysWord d @ ''.'' @ [CHR 0x0A]
                       else cp_exp_none
           | None \<Rightarrow> cp_exp_none)
        @ cp_card
        @ formatStores rows
        @ (if support \<noteq> '''' then cp_ask @ support @ ''.'' else ''''))"

section \<open>Properties\<close>

definition card_rate :: "Settings \<Rightarrow> int" where
  "card_rate s = quo64 (mul64 100 (EarnPercent (withDefaults s))) 100"

text \<open>The card's "every 100 roubles give" is what the till credits for 100 roubles.\<close>

lemma card_rate_is_earned:
  assumes "settings_ok s" "EarnMinReceipt s \<le> 100"
  shows "card_rate s = ComputeEarn 100 0 s" "card_rate s = percent_of s"
proof -
  have p: "0 \<le> percent_of s" "percent_of s \<le> 1000000"
    using percent_nonneg percent_bound [OF assms(1)] .
  have "card_rate s = 100 * percent_of s div 100"
    unfolding card_rate_def using p by (intro mul_div_bound) auto
  then show *: "card_rate s = percent_of s" by simp
  have "ComputeEarn 100 0 s = earn_spec 100 0 s"
    using assms(1) by (intro ComputeEarn_spec_aux) (auto simp: amount_ok_def)
  also have "\<dots> = percent_of s"
    using assms(2) by (simp add: earn_spec_def del: withDefaults_sel(1,2))
  finally show "card_rate s = ComputeEarn 100 0 s" using * by simp
qed

text \<open>The text of the card promises for every 100 roubles what \<^verbatim>\<open>ComputeEarn\<close> credits
  for a receipt of 100 roubles without redemption, unless a higher minimal receipt is set (which
  the text then states).\<close>

lemma ProgramDescription_promises_earn:
  assumes "settings_ok s" "EarnMinReceipt s \<le> 100"
  shows "\<exists>rest. ProgramDescription s rows support =
    cp_rate_1 @ itoa (RedeemRate (withDefaults s)) @ cp_rate_2
    @ cp_earn_1 @ itoa (EarnPercent (withDefaults s)) @ cp_earn_2
    @ itoa (ComputeEarn 100 0 s) @ '' '' @ pointsWord (ComputeEarn 100 0 s) @ cp_earn_3 @ rest"
  unfolding ProgramDescription_def Let_def card_rate_is_earned(1) [OF assms, symmetric] card_rate_def
  by blast

lemma ProgramDescription_promises_earn_example:
  "\<exists>rest. ProgramDescription DefaultSettings [] '''' =
    cp_rate_1 @ ''1'' @ cp_rate_2 @ cp_earn_1 @ ''5'' @ cp_earn_2 @ ''5 '' @ w_point_many @ cp_earn_3
    @ rest"
proof -
  have e: "ComputeEarn 100 0 DefaultSettings = 5" "RedeemRate (withDefaults DefaultSettings) = 1"
    "EarnPercent (withDefaults DefaultSettings) = 5"
    by code_simp+
  have i: "itoa 5 = ''5''" "itoa 1 = ''1''" by code_simp+
  have p: "pointsWord 5 = w_point_many"
    by (simp add: pointsWord_def plural_def rem64_def Let_def)
  have "EarnMinReceipt DefaultSettings \<le> 100" by (simp add: DefaultSettings_def)
  from ProgramDescription_promises_earn [OF settings_ok_default this, of "[]" "''''",
      unfolded e i p]
  show ?thesis by (simp only: append_Cons append_Nil)
qed

end
