(* ===== verification/Clock.thy ===== *)
theory Clock
  imports Models "HOL-Library.Monad_Syntax"
begin

text \<open>
  The package \<^verbatim>\<open>time\<close> as far as the handlers use it: the Gregorian calendar of a UTC
  instant, the layouts RFC 3339 (with and without fractions) and RFC 1123, and \<^verbatim>\<open>time.Parse\<close>
  for two of them.  The server's local zone is UTC, so a zone name that \<^verbatim>\<open>Parse\<close> does not
  know shifts nothing.  Years run from 1 on.
\<close>

section \<open>The calendar\<close>

text \<open>Days before the year \<open>k + 1\<close>, counted from 1 January of the year 1.\<close>

definition days_before :: "int \<Rightarrow> int" where
  "days_before k = 365 * k + k div 4 - k div 100 + k div 400"

definition is_leap :: "int \<Rightarrow> bool" where
  "is_leap y \<longleftrightarrow> y mod 4 = 0 \<and> (y mod 100 \<noteq> 0 \<or> y mod 400 = 0)"

definition month_lengths :: "int \<Rightarrow> int list" where
  "month_lengths y = [31, if is_leap y then 29 else 28, 31, 30, 31, 30, 31, 31, 30, 31, 30, 31]"

lemma div_step: "0 < n \<Longrightarrow> (k + 1) div n = k div n + (if (k + 1) mod n = 0 then 1 else (0::int))"
proof -
  assume n: "0 < n"
  have e: "k = n * (k div n) + k mod n" by simp
  have b: "0 \<le> k mod n" "k mod n < n" using n by simp_all
  show ?thesis
  proof (cases "k mod n = n - 1")
    case True
    then have "k + 1 = n * (k div n + 1)" using e by (simp only: distrib_left)
    then show ?thesis using n by simp
  next
    case False
    then have s: "k + 1 = n * (k div n) + (k mod n + 1)" "0 \<le> k mod n + 1" "k mod n + 1 < n"
      using e b by simp_all
    have "(k + 1) div n = k div n" "(k + 1) mod n = k mod n + 1"
      by (rule int_div_pos_eq [OF s], rule int_mod_pos_eq [OF s])
    then have "(k + 1) mod n \<noteq> 0" using b by linarith
    with \<open>(k + 1) div n = k div n\<close> show ?thesis by simp
  qed
qed

lemma mod_factor_0: "x mod (m * n) = 0 \<Longrightarrow> x mod n = (0::int)"
  by (auto simp: mod_eq_0_iff_dvd elim: dvd_mult_right)

lemma leap_count:
  fixes a b c k :: int
  assumes "a' = a + (if p then 1 else 0)" "b' = b + (if q then 1 else 0)"
    "c' = c + (if r then 1 else 0)" "q \<Longrightarrow> p" "r \<Longrightarrow> q"
  shows "365 * (k + 1) + a' - b' + c'
    = 365 * k + a - b + c + (if p \<and> (\<not> q \<or> r) then 366 else 365)"
  using assms by (cases p; cases q; cases r) simp_all

lemma days_before_step:
  "days_before (k + 1) = days_before k + (if is_leap (k + 1) then 366 else 365)"
proof -
  have s: "(k + 1) div n = k div n + (if (k + 1) mod n = 0 then 1 else 0)"
    if "n \<in> {4, 100, 400}" for n using that by (intro div_step) auto
  have "(k + 1) mod 100 = 0 \<Longrightarrow> (k + 1) mod 4 = 0" "(k + 1) mod 400 = 0 \<Longrightarrow> (k + 1) mod 100 = 0"
    using mod_factor_0 [of "k + 1" 25 4] mod_factor_0 [of "k + 1" 4 100] by simp_all
  then show ?thesis
    unfolding days_before_def is_leap_def by (intro leap_count s) auto
qed

lemma sum_month_lengths: "sum_list (month_lengths y) = (if is_leap y then 366 else 365)"
  by (simp add: month_lengths_def)

function year_from :: "int \<Rightarrow> int \<Rightarrow> int" where
  "year_from k d = (if days_before (k + 1) \<le> d then year_from (k + 1) d else k)"
  by pat_completeness auto
termination
  by (relation "measure (\<lambda>(k, d). nat (d + 1 - days_before k))")
    (auto simp: days_before_step split: if_splits)

declare year_from.simps [simp del]

lemma year_from_bounds:
  "days_before k \<le> d \<Longrightarrow>
     days_before (year_from k d) \<le> d \<and> d < days_before (year_from k d + 1) \<and> k \<le> year_from k d"
proof (induction k d rule: year_from.induct)
  case (1 k d)
  show ?case
  proof (cases "days_before (k + 1) \<le> d")
    case True
    then have "year_from k d = year_from (k + 1) d" by (subst year_from.simps) simp
    then show ?thesis using 1(1) [OF True True] by simp
  next
    case False
    then have "year_from k d = k" by (subst year_from.simps) simp
    then show ?thesis using 1(2) False by simp
  qed
qed

text \<open>The month (from 1) and the day in it of the day \<open>n\<close> (from 0) of a year.\<close>

fun month_day :: "int list \<Rightarrow> int \<Rightarrow> int \<times> int" where
  "month_day [] n = (1, n + 1)"
| "month_day (l # ls) n =
     (if n < l then (1, n + 1) else (case month_day ls (n - l) of (m, d) \<Rightarrow> (m + 1, d)))"

definition civil :: "int \<Rightarrow> int \<times> int \<times> int" where
  "civil d = (let k = year_from (d div 366) d in (k + 1, month_day (month_lengths (k + 1)) (d - days_before k)))"

definition day_number :: "int \<Rightarrow> int \<Rightarrow> int \<Rightarrow> int" where
  "day_number y m d =
     days_before (y - 1) + sum_list (take (nat (m - 1)) (month_lengths y)) + (d - 1)"

definition days_in :: "int \<Rightarrow> int \<Rightarrow> int" where
  "days_in m y = month_lengths y ! nat (m - 1)"

lemma month_day_spec:
  assumes "0 \<le> n" "n < sum_list ls" "month_day ls n = (m, d)" "\<forall>l\<in>set ls. 0 < l"
  shows "1 \<le> m \<and> m \<le> int (length ls) \<and> 1 \<le> d \<and> d \<le> ls ! nat (m - 1)
    \<and> sum_list (take (nat (m - 1)) ls) + (d - 1) = n"
  using assms
proof (induction ls arbitrary: n m)
  case (Cons l ls)
  show ?case
  proof (cases "n < l")
    case True
    with Cons.prems show ?thesis by auto
  next
    case False
    obtain m' where r: "month_day ls (n - l) = (m', d)" "m = m' + 1"
      using False Cons.prems(3) by (auto split: prod.splits)
    have i: "1 \<le> m' \<and> m' \<le> int (length ls) \<and> 1 \<le> d \<and> d \<le> ls ! nat (m' - 1)
      \<and> sum_list (take (nat (m' - 1)) ls) + (d - 1) = n - l"
      using False Cons.prems by (intro Cons.IH [OF _ _ r(1)]) auto
    moreover have "nat (m - 1) = Suc (nat (m' - 1))" using i r(2) by linarith
    ultimately show ?thesis using r(2) by (simp only: take_Suc_Cons nth_Cons_Suc) simp
  qed
qed simp

lemma civil_day_number:
  assumes "0 \<le> n" "civil n = (y, m, d)"
  shows "day_number y m d = n" "1 \<le> m" "m \<le> 12" "1 \<le> d" "d \<le> days_in m y" "1 \<le> y"
proof -
  define k where "k = year_from (n div 366) n"
  have "0 \<le> n div 366" using assms(1) by (simp add: pos_imp_zdiv_nonneg_iff)
  moreover have "days_before (n div 366) \<le> 366 * (n div 366)"
  proof -
    let ?q = "n div 366"
    have "?q div 4 \<le> ?q" "0 \<le> ?q div 100" "?q div 400 \<le> ?q div 100"
      using \<open>0 \<le> ?q\<close> by (auto intro: div_le_self simp: zdiv_mono2 pos_imp_zdiv_nonneg_iff)
    then show ?thesis by (simp add: days_before_def)
  qed
  moreover have "366 * (n div 366) \<le> n" by simp
  ultimately have b: "days_before k \<le> n" "n < days_before (k + 1)" "0 \<le> k"
    using year_from_bounds [of "n div 366" n] by (auto simp: k_def)
  have y: "y = k + 1" and md: "month_day (month_lengths (k + 1)) (n - days_before k) = (m, d)"
    using assms(2) by (auto simp: civil_def Let_def k_def)
  have len: "length (month_lengths (k + 1)) = 12" "\<forall>l\<in>set (month_lengths (k + 1)). 0 < l"
    by (simp_all add: month_lengths_def)
  have "n - days_before k < sum_list (month_lengths (k + 1))"
    using b(2) by (simp add: sum_month_lengths days_before_step)
  from month_day_spec [OF _ this md len(2)] b(1) len(1) y b(3)
  show "day_number y m d = n" "1 \<le> m" "m \<le> 12" "1 \<le> d" "d \<le> days_in m y" "1 \<le> y"
    by (simp_all add: day_number_def days_in_def)
qed

section \<open>Layouts\<close>

definition pad :: "nat \<Rightarrow> int \<Rightarrow> string" where
  "pad w n = replicate (w - length (itoa n)) (CHR ''0'') @ itoa n"

definition day_of :: "gtime \<Rightarrow> int" where
  "day_of t = unix t div 86400 + 719162"

definition clock_text :: "gtime \<Rightarrow> string" where
  "clock_text t = (let s = unix t mod 86400 in
     pad 2 (s div 3600) @ '':'' @ pad 2 (s mod 3600 div 60) @ '':'' @ pad 2 (s mod 60))"

definition weekdays :: "string list" where
  "weekdays = [''Mon'', ''Tue'', ''Wed'', ''Thu'', ''Fri'', ''Sat'', ''Sun'']"

definition months :: "string list" where
  "months = [''Jan'', ''Feb'', ''Mar'', ''Apr'', ''May'', ''Jun'', ''Jul'', ''Aug'', ''Sep'',
     ''Oct'', ''Nov'', ''Dec'']"

definition date_text :: "gtime \<Rightarrow> string" where
  "date_text t = (case civil (day_of t) of (y, m, d) \<Rightarrow>
     pad 4 y @ ''-'' @ pad 2 m @ ''-'' @ pad 2 d)"

text \<open>\<^verbatim>\<open>t.UTC().Format(time.RFC3339)\<close>, \<^verbatim>\<open>RFC3339Nano\<close> (the JSON text of a time) and
  \<^verbatim>\<open>RFC1123\<close>, whose zone of a UTC time is the text UTC.\<close>

definition RFC3339 :: "gtime \<Rightarrow> string" where
  "RFC3339 t = date_text t @ ''T'' @ clock_text t @ ''Z''"

definition fraction :: "gtime \<Rightarrow> string" where
  "fraction t = (let n = ns t mod second in
     if n = 0 then '''' else CHR ''.'' # trim_right_byte (CHR ''0'') (pad 9 n))"

definition RFC3339Nano :: "gtime \<Rightarrow> string" where
  "RFC3339Nano t = date_text t @ ''T'' @ clock_text t @ fraction t @ ''Z''"

definition RFC1123 :: "gtime \<Rightarrow> string" where
  "RFC1123 t = (case civil (day_of t) of (y, m, d) \<Rightarrow>
     weekdays ! nat (day_of t mod 7) @ '', '' @ pad 2 d @ '' '' @ months ! nat (m - 1) @ '' ''
     @ pad 4 y @ '' '' @ clock_text t @ '' UTC'')"

section \<open>Parsing\<close>

text \<open>The steps of \<^verbatim>\<open>time.Parse\<close>: each takes the rest of the text.\<close>

definition digit :: "char \<Rightarrow> int" where
  "digit c = int (byte c) - 48"

definition getnum :: "bool \<Rightarrow> string \<Rightarrow> (int \<times> string) option" where
  "getnum fixed v = (case v of
     [] \<Rightarrow> None
   | a # r \<Rightarrow>
       if \<not> dec_byte a then None
       else (case r of
          b # r' \<Rightarrow> if dec_byte b then Some (digit a * 10 + digit b, r')
                    else if fixed then None else Some (digit a, r)
        | [] \<Rightarrow> if fixed then None else Some (digit a, [])))"

definition within :: "int \<Rightarrow> int \<Rightarrow> (int \<times> string) option \<Rightarrow> (int \<times> string) option" where
  "within lo hi r = (case r of Some (n, v) \<Rightarrow> if lo \<le> n \<and> n < hi then Some (n, v) else None
     | None \<Rightarrow> None)"

definition getyear :: "string \<Rightarrow> (int \<times> string) option" where
  "getyear v = (if length v < 4 \<or> \<not> list_all dec_byte (take 4 v) then None
     else Some (int (dec_val (take 4 v)), drop 4 v))"

text \<open>Text between the fields: one or more spaces of the layout match any number of spaces.\<close>

function skip :: "string \<Rightarrow> string \<Rightarrow> string option" where
  "skip [] v = Some v"
| "skip (p # ps) v =
     (if p = CHR '' ''
      then (if v \<noteq> [] \<and> hd v \<noteq> CHR '' '' then None
            else skip (dropWhile (\<lambda>c. c = CHR '' '') ps) (dropWhile (\<lambda>c. c = CHR '' '') v))
      else (case v of c # cs \<Rightarrow> if c = p then skip ps cs else None | [] \<Rightarrow> None))"
  by pat_completeness auto
termination
  by (relation "measure (\<lambda>(p, v). length p)") (auto simp: le_imp_less_Suc length_dropWhile_le)

definition same_letters :: "string \<Rightarrow> string \<Rightarrow> bool" where
  "same_letters a b \<longleftrightarrow> map (\<lambda>c. rune_lower id (byte c)) a = map (\<lambda>c. rune_lower id (byte c)) b"

fun lookup_name :: "string list \<Rightarrow> int \<Rightarrow> string \<Rightarrow> (int \<times> string) option" where
  "lookup_name [] i v = None"
| "lookup_name (n # names) i v =
     (if length n \<le> length v \<and> same_letters (take (length n) v) n
      then Some (i, drop (length n) v) else lookup_name names (i + 1) v)"

text \<open>Hour, minute, second and an optional fraction: seconds and nanoseconds.\<close>

definition getfraction :: "string \<Rightarrow> int \<times> string" where
  "getfraction v = (case v of
     p # c # _ \<Rightarrow>
       if (p = CHR ''.'' \<or> p = CHR '','') \<and> dec_byte c
       then (let ds = takeWhile dec_byte (tl v); d9 = take 9 ds
             in (int (dec_val d9) * 10 ^ (9 - length d9), dropWhile dec_byte (tl v)))
       else (0, v)
   | _ \<Rightarrow> (0, v))"

definition getclock :: "string \<Rightarrow> (int \<times> int \<times> string) option" where
  "getclock v0 = do {
     (h, v1) \<leftarrow> within 0 24 (getnum False v0);
     v2 \<leftarrow> skip '':'' v1;
     (mi, v3) \<leftarrow> within 0 60 (getnum True v2);
     v4 \<leftarrow> skip '':'' v3;
     (s, v5) \<leftarrow> within 0 60 (getnum True v4);
     Some (case getfraction v5 of (nsec, v6) \<Rightarrow> (h * 3600 + mi * 60 + s, nsec, v6)) }"

definition signed_offset_len :: "string \<Rightarrow> nat" where
  "signed_offset_len v = (case v of
     [] \<Rightarrow> 0
   | c # r \<Rightarrow> let ds = takeWhile dec_byte r in
       if c \<noteq> CHR ''+'' \<and> c \<noteq> CHR ''-'' \<or> ds = [] \<or> dec_val ds > 23 then 0
       else Suc (length ds))"

definition zone_len :: "string \<Rightarrow> nat option" where
  "zone_len v =
    (let up = length (takeWhile (\<lambda>c. 65 \<le> byte c \<and> byte c \<le> 90) (take 6 v)) in
     if length v < 3 then None
     else if take 4 v = ''ChST'' \<or> take 4 v = ''MeST'' then Some 4
     else if take 3 v = ''GMT'' then Some (3 + signed_offset_len (drop 3 v))
     else if hd v = CHR ''+'' \<or> hd v = CHR ''-''
     then (if signed_offset_len v > 0 then Some (signed_offset_len v) else None)
     else if up = 5 \<and> v ! 4 = CHR ''T'' then Some 5
     else if up = 4 \<and> (v ! 3 = CHR ''T'' \<or> take 4 v = ''WITA'') then Some 4
     else if up = 3 then Some 3 else None)"

definition skip_zone :: "string \<Rightarrow> string option" where
  "skip_zone v = (if take 3 v = ''UTC'' then Some (drop 3 v)
     else map_option (\<lambda>n. drop n v) (zone_len v))"

definition instant :: "int \<Rightarrow> int \<Rightarrow> int \<Rightarrow> int \<Rightarrow> int \<Rightarrow> gtime" where
  "instant y m d secs nsec = Ns (((day_number y m d - 719162) * 86400 + secs) * second + nsec)"

definition parse_rfc1123 :: "string \<Rightarrow> gtime option" where
  "parse_rfc1123 v0 = do {
     (_, v1) \<leftarrow> lookup_name weekdays 1 v0;
     v2 \<leftarrow> skip '', '' v1;
     (d, v3) \<leftarrow> getnum True v2;
     v4 \<leftarrow> skip '' '' v3;
     (m, v5) \<leftarrow> lookup_name months 1 v4;
     v6 \<leftarrow> skip '' '' v5;
     (y, v7) \<leftarrow> getyear v6;
     v8 \<leftarrow> skip '' '' v7;
     (secs, nsec, v9) \<leftarrow> getclock v8;
     v10 \<leftarrow> skip '' '' v9;
     v11 \<leftarrow> skip_zone v10;
     if v11 \<noteq> [] \<or> d < 1 \<or> days_in m y < d then None else Some (instant y m d secs nsec) }"

definition getoffset :: "string \<Rightarrow> (int \<times> string) option" where
  "getoffset v =
    (if v \<noteq> [] \<and> hd v = CHR ''Z'' then Some (0, tl v)
     else if length v < 6 \<or> v ! 3 \<noteq> CHR '':'' \<or> (hd v \<noteq> CHR ''+'' \<and> hd v \<noteq> CHR ''-'') then None
     else do {
       (h, _) \<leftarrow> within 0 25 (getnum True (take 2 (drop 1 v)));
       (mi, _) \<leftarrow> within 0 61 (getnum True (take 2 (drop 4 v)));
       Some ((if hd v = CHR ''-'' then - 1 else 1) * (h * 60 + mi) * 60, drop 6 v) })"

definition parse_rfc3339 :: "string \<Rightarrow> gtime option" where
  "parse_rfc3339 v0 = do {
     (y, v1) \<leftarrow> getyear v0;
     v2 \<leftarrow> skip ''-'' v1;
     (m, v3) \<leftarrow> within 1 13 (getnum True v2);
     v4 \<leftarrow> skip ''-'' v3;
     (d, v5) \<leftarrow> getnum True v4;
     v6 \<leftarrow> skip ''T'' v5;
     (secs, nsec, v7) \<leftarrow> getclock v6;
     (off, v8) \<leftarrow> getoffset v7;
     if v8 \<noteq> [] \<or> d < 1 \<or> days_in m y < d then None
     else Some (instant y m d (secs - off) nsec) }"

section \<open>Reading back what was written\<close>

lemma dec_digits_small: "n < 10 \<Longrightarrow> dec_digits n = [char_of (48 + n)]"
  by (subst dec_digits.simps) simp

lemma dec_digits_step: "10 \<le> n \<Longrightarrow> dec_digits n = dec_digits (n div 10) @ [char_of (48 + n mod 10)]"
  by (subst dec_digits.simps) simp

lemma length_dec_digits: "n < 10 ^ k \<Longrightarrow> 0 < k \<Longrightarrow> length (dec_digits n) \<le> k"
proof (induction k arbitrary: n)
  case (Suc k)
  show ?case
  proof (cases "n < 10")
    case False
    then have "0 < k" using Suc.prems(1) by (cases k) auto
    moreover have "n div 10 < 10 ^ k" using Suc.prems(1) by (simp add: less_mult_imp_div_less mult.commute)
    ultimately have "length (dec_digits (n div 10)) \<le> k" by (rule Suc.IH [rotated])
    then show ?thesis using False by (simp add: dec_digits_step)
  qed (simp add: dec_digits_small)
qed simp

lemma dec_val_zeros: "dec_val (replicate k (CHR ''0'') @ s) = dec_val s"
  by (induction k) (simp_all add: dec_val_def byte_def)

lemma pad_props:
  assumes "0 \<le> n" "n < 10 ^ w" "0 < w"
  shows "length (pad w n) = w" "list_all dec_byte (pad w n)" "dec_val (pad w n) = nat n"
proof -
  have "nat n < 10 ^ w" using assms by (simp add: nat_less_iff)
  then have l: "length (dec_digits (nat n)) \<le> w" using assms(3) by (rule length_dec_digits)
  have i: "itoa n = dec_digits (nat n)" using assms(1) by (simp add: itoa_def)
  show "length (pad w n) = w" "list_all dec_byte (pad w n)" "dec_val (pad w n) = nat n"
    using l dec_digits_dec [of "nat n"]
    by (auto simp: pad_def i dec_val_zeros list_all_iff dec_byte_def byte_def)
qed

lemma getyear_pad: "0 \<le> y \<Longrightarrow> y < 10000 \<Longrightarrow> getyear (pad 4 y @ v) = Some (y, v)"
  using pad_props [of y 4] by (simp add: getyear_def)

lemma getnum_pad:
  assumes "0 \<le> n" "n < 100"
  shows "getnum f (pad 2 n @ v) = Some (n, v)"
proof -
  have p: "length (pad 2 n) = 2" "list_all dec_byte (pad 2 n)" "dec_val (pad 2 n) = nat n"
    using pad_props [of n 2] assms by simp_all
  then obtain a b where ab: "pad 2 n = [a, b]"
    by (metis One_nat_def Suc_1 length_0_conv length_Suc_conv)
  with p have "dec_byte a" "dec_byte b" "(byte a - 48) * 10 + (byte b - 48) = nat n"
    by (simp_all add: dec_val_def)
  moreover have "int (byte a) - 48 = int (byte a - 48)" "int (byte b) - 48 = int (byte b - 48)"
    using calculation(1,2) by (simp_all add: dec_byte_def of_nat_diff)
  moreover have "int ((byte a - 48) * 10 + (byte b - 48)) = int (nat n)"
    using calculation(3) by (simp only:)
  ultimately have "digit a * 10 + digit b = int (nat n)"
    unfolding digit_def by (simp only: of_nat_add of_nat_mult of_nat_numeral)
  then have "digit a * 10 + digit b = n" using assms(1) by simp
  with \<open>dec_byte a\<close> \<open>dec_byte b\<close> ab show ?thesis by (simp add: getnum_def)
qed

lemma dec_not_space: "dec_byte c \<Longrightarrow> c \<noteq> CHR '' '' \<and> c \<noteq> CHR '':''"
  by (auto simp: dec_byte_def byte_def)

lemma pad_hd: "0 \<le> n \<Longrightarrow> n < 10 ^ w \<Longrightarrow> 0 < w \<Longrightarrow> \<exists>c s. pad w n = c # s \<and> dec_byte c"
  using pad_props [of n w] by (cases "pad w n") auto

lemma skip_space:
  "hd v \<noteq> CHR '' '' \<Longrightarrow> skip '' '' (CHR '' '' # v) = Some v"
  "hd v \<noteq> CHR '' '' \<Longrightarrow> skip '', '' (CHR '','' # CHR '' '' # v) = Some v"
  by (cases v; simp)+

lemma hd_pad: "0 \<le> n \<Longrightarrow> n < 10 ^ w \<Longrightarrow> 0 < w \<Longrightarrow> hd (pad w n @ v) \<noteq> CHR '' ''"
  using pad_hd [of n w] by (auto dest: dec_not_space)

lemma getclock_pads:
  assumes "0 \<le> h" "h < 24" "0 \<le> mi" "mi < 60" "0 \<le> s" "s < 60"
  shows "getclock (pad 2 h @ '':'' @ pad 2 mi @ '':'' @ pad 2 s @ CHR '' '' # v)
    = Some (h * 3600 + mi * 60 + s, 0, CHR '' '' # v)"
  using assms by (simp add: getclock_def within_def getnum_pad getfraction_def split: list.splits)

lemma getclock_text:
  assumes "0 \<le> s" "s < 86400"
  shows "getclock (pad 2 (s div 3600) @ '':'' @ pad 2 (s mod 3600 div 60) @ '':'' @ pad 2 (s mod 60)
    @ CHR '' '' # v) = Some (s, 0, CHR '' '' # v)"
proof -
  have b: "0 \<le> s div 3600" "s div 3600 < 24" "0 \<le> s mod 3600 div 60" "s mod 3600 div 60 < 60"
    "0 \<le> s mod 60" "s mod 60 < 60"
    using assms zdiv_mono1 [of s 86399 3600] zdiv_mono1 [of "s mod 3600" 3599 60]
      pos_mod_bound [of 3600 s]
    by (simp_all add: pos_imp_zdiv_nonneg_iff)
  have m: "s mod 3600 mod 60 = s mod 60" using mod_mod_cancel [of 60 3600 s] by simp
  have "s = s div 3600 * 3600 + s mod 3600" "s mod 3600 = s mod 3600 div 60 * 60 + s mod 60"
    using m by (metis div_mult_mod_eq)+
  then have "s div 3600 * 3600 + s mod 3600 div 60 * 60 + s mod 60 = s" by linarith
  then show ?thesis using getclock_pads [OF b] by simp
qed

lemma lookup_name_nth:
  assumes "\<forall>n\<in>set names. length n = w" "k < length names"
    and "distinct (map (map (\<lambda>c. rune_lower id (byte c))) names)"
  shows "lookup_name names i (names ! k @ v) = Some (i + int k, v)"
  using assms
proof (induction names arbitrary: i k)
  case (Cons n names)
  show ?case
  proof (cases k)
    case 0
    then show ?thesis by (simp add: same_letters_def)
  next
    case (Suc j)
    then have j: "j < length names" using Cons.prems(2) by simp
    then have m: "names ! j \<in> set names" by simp
    then have "length (names ! j) = w" "length n = w" using Cons.prems(1) by auto
    moreover have "\<not> same_letters (names ! j) n"
    proof
      let ?f = "map (\<lambda>c. rune_lower id (byte c))"
      assume "same_letters (names ! j) n"
      then have "?f n = ?f (names ! j)" by (simp only: same_letters_def)
      with m have "?f n \<in> ?f ` set names" by (simp only: image_eqI)
      moreover have "?f n \<notin> ?f ` set names"
        using Cons.prems(3) by (simp only: list.map distinct.simps set_map not_False_eq_True)
      ultimately show False by contradiction
    qed
    moreover have "lookup_name names (i + 1) (names ! j @ v) = Some (i + 1 + int j, v)"
      using Cons.prems(1,3) j by (intro Cons.IH) simp_all
    ultimately show ?thesis using Suc by simp
  qed
qed simp

lemma hd_month:
  assumes "1 \<le> m" "m \<le> 12"
  shows "hd (months ! nat (m - 1) @ v) \<noteq> CHR '' ''"
proof -
  have "length months = 12" by (simp add: months_def)
  then have "months ! nat (m - 1) \<in> set months" using assms by (intro nth_mem) simp
  moreover have "\<forall>n\<in>set months. n \<noteq> [] \<and> hd n \<noteq> CHR '' ''" by (simp add: months_def)
  ultimately show ?thesis by simp
qed

lemma lookup_name_months:
  assumes "1 \<le> m" "m \<le> 12"
  shows "lookup_name months 1 (months ! nat (m - 1) @ v) = Some (m, v)"
proof -
  have "distinct (map (map (\<lambda>c. rune_lower id (byte c))) months)"
    by code_simp
  moreover have "length months = 12" "\<forall>n\<in>set months. length n = 3"
    by (simp_all add: months_def)
  ultimately show ?thesis
    using lookup_name_nth [of months 3 "nat (m - 1)" 1 v] assms by simp
qed

lemma lookup_name_weekdays:
  assumes "0 \<le> i" "i < 7"
  shows "lookup_name weekdays 1 (weekdays ! nat i @ v) = Some (1 + i, v)"
proof -
  have "distinct (map (map (\<lambda>c. rune_lower id (byte c))) weekdays)"
    by code_simp
  moreover have "length weekdays = 7" "\<forall>n\<in>set weekdays. length n = 3"
    by (simp_all add: weekdays_def)
  ultimately show ?thesis
    using lookup_name_nth [of weekdays 3 "nat i" 1 v] assms by simp
qed

text \<open>A time written by \<^verbatim>\<open>Format(time.RFC1123)\<close> in UTC, as the \<^verbatim>\<open>Last-Modified\<close> header
  of a pass is, is read back by \<^verbatim>\<open>time.Parse(time.RFC1123, .)\<close> up to the fraction of a second it
  leaves out, for every instant of the years 1 to 9999.\<close>

lemma RFC1123_round_trip:
  assumes "zero_time \<le> t" "fst (civil (day_of t)) \<le> 9999"
  shows "parse_rfc1123 (RFC1123 t) = Some (from_unix (unix t))"
proof -
  obtain y m d where c: "civil (day_of t) = (y, m, d)" by (cases "civil (day_of t)")
  have "- 62135596800 \<le> unix t"
    using zdiv_mono1 [of "- 62135596800 * second" "ns t" second] assms(1)
    by (simp add: zero_time_def less_eq_gtime_def unix_def second_def)
  then have "- 719162 \<le> unix t div 86400" using zdiv_mono1 [of "- 62135596800" "unix t" 86400] by simp
  then have pos: "0 \<le> day_of t" by (simp add: day_of_def)
  note date = civil_day_number [OF pos c]
  have y: "1 \<le> y" "y < 10000" using date(6) assms(2) c by simp_all
  have dm: "days_in m y \<le> 31"
  proof -
    have "nat (m - 1) < length (month_lengths y)" using date(2,3) by (simp add: month_lengths_def)
    then have "days_in m y \<in> set (month_lengths y)" by (simp add: days_in_def)
    then show ?thesis by (auto simp: month_lengths_def split: if_splits)
  qed
  have w: "0 \<le> day_of t mod 7" "day_of t mod 7 < 7" by simp_all
  have s: "0 \<le> unix t mod 86400" "unix t mod 86400 < 86400" by simp_all
  have h: "0 \<le> unix t mod 86400 div 3600" "unix t mod 86400 div 3600 < 100"
    using zdiv_mono1 [of "unix t mod 86400" 86399 3600] s
    by (simp_all add: pos_imp_zdiv_nonneg_iff)
  have "(day_number y m d - 719162) * 86400 + unix t mod 86400 = unix t"
    using date(1) div_mult_mod_eq [of "unix t" 86400] by (simp add: day_of_def)
  then have "instant y m d (unix t mod 86400) 0 = from_unix (unix t)"
    by (simp add: instant_def from_unix_def)
  then show ?thesis
    using date y dm h
    by (simp add: parse_rfc1123_def RFC1123_def c Let_def clock_text_def
        lookup_name_weekdays [OF w] lookup_name_months getnum_pad getyear_pad skip_space hd_pad
        hd_month getclock_text [OF s, simplified] skip_zone_def del: skip.simps hd_append2)
qed

end
