(* ===== verification/HttpBase.thy ===== *)
theory HttpBase
  imports Wallet StoreConn Copy Clock "HOL-Library.AList"
begin

text \<open>
  What the handlers of \<^verbatim>\<open>internal/httpapi\<close> share: the request as they see it, the response,
  \<^verbatim>\<open>errors.go\<close>, and the decoding of a JSON body into a struct by \<^verbatim>\<open>encoding/json\<close>.  The
  text of a body is parsed and printed by that package; \<open>rq_body\<close> is the first JSON value of
  the body, \<^const>\<open>None\<close> when it is malformed or longer than 1 MiB.
\<close>

section \<open>Requests and responses\<close>

text \<open>\<open>rq_query\<close> and \<open>rq_param\<close> return the empty string for what is not there, as in Go.  The last
  two fields are the values that \<^verbatim>\<open>authenticateStaff\<close> puts into the context.\<close>

record request =
  rq_method :: string
  rq_path :: string
  rq_auth :: string
  rq_origin :: string
  rq_proto :: string
  rq_tls :: bool
  rq_ims :: string
  rq_agent :: string
  rq_remote :: string
  rq_cookie :: "string option"
  rq_query :: "string \<Rightarrow> string"
  rq_param :: "string \<Rightarrow> string"
  rq_body :: "json option"
  ctx_staff :: "Staff option"
  ctx_claims :: "Claims option"

text \<open>A body: a JSON value, a \<^verbatim>\<open>map[string]string\<close> printed as a JSON object, a template with its
  data, or bytes.\<close>

datatype body = NoBody | Json json | StrMap "string \<rightharpoonup> string" | Html string json | Bytes string

record response =
  rs_status :: nat
  rs_headers :: "(string \<times> string) list"
  rs_cookie :: "string option"
  rs_body :: body

definition empty_response :: "nat \<Rightarrow> response" where
  "empty_response st = \<lparr>rs_status = st, rs_headers = [], rs_cookie = None, rs_body = NoBody\<rparr>"

section \<open>errors.go\<close>

definition writeJSON :: "nat \<Rightarrow> json \<Rightarrow> response" where
  "writeJSON st v = \<lparr>rs_status = st,
     rs_headers = [(''Content-Type'', ''application/json; charset=utf-8'')], rs_cookie = None,
     rs_body = Json v\<rparr>"

definition errorBody :: "string \<Rightarrow> string \<Rightarrow> json" where
  "errorBody c m = JObj [(''error'', JObj [(''code'', JStr c), (''message'', JStr m)])]"

definition writeError :: "nat \<Rightarrow> code \<Rightarrow> string \<Rightarrow> response" where
  "writeError st c m = writeJSON st (errorBody (code_text c) m)"

definition statusFor :: "code \<Rightarrow> nat" where
  "statusFor c =
     (if c = CodeUnauthorized then 401
      else if c = CodeCustomerNotFound then 404
      else if c = CodeCustomerBlocked \<or> c = CodeStaffForbidden then 403
      else if c = CodeDuplicateReceipt then 409
      else if c = CodeInsufficientPoints \<or> c = CodeBelowMinRedeem \<or> c = CodeExceedsShare
              \<or> c = CodeInvalidRequest then 422
      else 400)"

definition writeErr :: "go_error \<Rightarrow> response" where
  "writeErr e = (case e of
     Loyalty le \<Rightarrow> writeError (statusFor (Code le)) (Code le) (Message le)
   | _ \<Rightarrow> writeError 500 CodeInternal h_internal)"

text \<open>\<^verbatim>\<open>x, err := m; if err != nil { writeErr(w, err); return }\<close>.\<close>

definition or_write :: "'a go \<Rightarrow> ('a \<Rightarrow> response act) \<Rightarrow> response act" where
  "or_write m k = do { r \<leftarrow> m; (case r of Inl e \<Rightarrow> ret (writeErr e) | Inr x \<Rightarrow> k x) }"

text \<open>The same with a response of its own for \<^verbatim>\<open>sql.ErrNoRows\<close>.\<close>

definition or_missing :: "'a go \<Rightarrow> response \<Rightarrow> ('a \<Rightarrow> response act) \<Rightarrow> response act" where
  "or_missing m missing k = do {
     r \<leftarrow> m;
     (case r of
        Inl e \<Rightarrow> if IsNoRows e then ret missing else ret (writeErr e)
      | Inr x \<Rightarrow> k x) }"

section \<open>decodeJSON\<close>

text \<open>A field of a struct: how a JSON value of the right kind is stored.\<close>

datatype 'a slot =
    SStr "string \<Rightarrow> 'a \<Rightarrow> 'a"
  | SInt "int \<Rightarrow> 'a \<Rightarrow> 'a"
  | SBoolPtr "bool option \<Rightarrow> 'a \<Rightarrow> 'a"

text \<open>Field names are matched exactly, else by case folding, in which the long s and the Kelvin
  sign fold to ASCII letters.\<close>

definition fold_rune :: "rune \<Rightarrow> rune" where
  "fold_rune r = (if r = 383 then 83 else if r = 8490 then 75 else if 97 \<le> r \<and> r \<le> 122 then r - 32 else r)"

definition fold_name :: "string \<Rightarrow> rune list" where
  "fold_name s = map fold_rune (runes s)"

definition find_slot :: "(string \<times> 'a slot) list \<Rightarrow> string \<Rightarrow> 'a slot option" where
  "find_slot slots k = (case map_of slots k of
     Some s \<Rightarrow> Some s
   | None \<Rightarrow> map_option snd (find (\<lambda>f. fold_name (fst f) = fold_name k) slots))"

text \<open>JSON null leaves a string or an integer as it is and sets a pointer to nil.  Any other value
  of the wrong kind, and an integer that does not fit, is an error.\<close>

fun store_slot :: "'a slot \<Rightarrow> json \<Rightarrow> 'a \<Rightarrow> 'a option" where
  "store_slot (SStr f) (JStr s) x = Some (f s x)"
| "store_slot (SStr f) JNull x = Some x"
| "store_slot (SInt f) (JInt n) x = (if in_i64 n then Some (f n x) else None)"
| "store_slot (SInt f) JNull x = Some x"
| "store_slot (SBoolPtr f) (JBool b) x = Some (f (Some b) x)"
| "store_slot (SBoolPtr f) JNull x = Some (f None x)"
| "store_slot _ _ x = None"

fun decode_fields :: "(string \<times> 'a slot) list \<Rightarrow> (string \<times> json) list \<Rightarrow> 'a \<Rightarrow> 'a option" where
  "decode_fields slots [] x = Some x"
| "decode_fields slots ((k, v) # kvs) x =
     (case find_slot slots k of
        None \<Rightarrow> decode_fields slots kvs x
      | Some s \<Rightarrow> (case store_slot s v x of None \<Rightarrow> None | Some x' \<Rightarrow> decode_fields slots kvs x'))"

fun decode_struct :: "(string \<times> 'a slot) list \<Rightarrow> json \<Rightarrow> 'a \<Rightarrow> 'a option" where
  "decode_struct slots (JObj kvs) x = decode_fields slots kvs x"
| "decode_struct slots JNull x = Some x"
| "decode_struct slots _ x = None"

text \<open>Into a \<^verbatim>\<open>map[string]string\<close>: a null value is the empty string, a repeated key keeps its last
  value.\<close>

fun decode_entries :: "(string \<times> json) list \<Rightarrow> (string \<times> string) list \<Rightarrow> (string \<times> string) list option" where
  "decode_entries [] m = Some m"
| "decode_entries ((k, JStr s) # kvs) m = decode_entries kvs (AList.update k s m)"
| "decode_entries ((k, JNull) # kvs) m = decode_entries kvs (AList.update k '''' m)"
| "decode_entries (_ # kvs) m = None"

fun decode_map :: "json \<Rightarrow> (string \<times> string) list option" where
  "decode_map (JObj kvs) = decode_entries kvs []"
| "decode_map JNull = Some []"
| "decode_map _ = None"

definition bad_json :: go_error where
  "bad_json = Loyalty (Err CodeInvalidRequest h_bad_json)"

definition decodeJSON :: "request \<Rightarrow> (string \<times> 'a slot) list \<Rightarrow> 'a \<Rightarrow> 'a go" where
  "decodeJSON rq slots zero = (case rq_body rq of
     None \<Rightarrow> fail bad_json
   | Some j \<Rightarrow> (case decode_struct slots j zero of None \<Rightarrow> fail bad_json | Some x \<Rightarrow> ok x))"

definition decodeJSON_map :: "request \<Rightarrow> (string \<times> string) list go" where
  "decodeJSON_map rq = (case rq_body rq of
     None \<Rightarrow> fail bad_json
   | Some j \<Rightarrow> (case decode_map j of None \<Rightarrow> fail bad_json | Some m \<Rightarrow> ok m))"

section \<open>The server\<close>

text \<open>\<open>s_png\<close> is the QR encoder, with its data URI; templates are named in \<^const>\<open>Html\<close> with their
  data, the logo and the rate limiters are in the dispatcher.\<close>

record server =
  Cfg :: Config
  Loy :: service
  AppleC :: "apple_client option"
  GoogleC :: "google_client option"
  s_png :: "string \<Rightarrow> string option"
  s_logo :: string

definition staffFrom :: "request \<Rightarrow> Staff" where
  "staffFrom rq = (case ctx_staff rq of Some st \<Rightarrow> st | None \<Rightarrow>
     \<lparr>staff_id = '''', staff_store = '''', staff_login = '''', staff_name = '''',
      staff_password_hash = '''', staff_pin_hash = '''', staff_role = '''', staff_active = False,
      staff_created = zero_time, staff_deleted = None, staff_store_name = ''''\<rparr>)"

definition claimsFrom :: "request \<Rightarrow> Claims option" where
  "claimsFrom rq = ctx_claims rq"

section \<open>Laws\<close>

lemma run_or_write [run]:
  "run_state (or_write m k) w =
     (case run_state m w of (Inl e, w') \<Rightarrow> (writeErr e, w') | (Inr x, w') \<Rightarrow> run_state (k x) w')"
  by (simp add: or_write_def split: prod.splits sum.splits)

lemma run_or_missing [run]:
  "run_state (or_missing m missing k) w =
     (case run_state m w of
        (Inl e, w') \<Rightarrow> (if IsNoRows e then missing else writeErr e, w')
      | (Inr x, w') \<Rightarrow> run_state (k x) w')"
  by (simp add: or_missing_def split: prod.splits sum.splits)

lemma rs_status_simps [simp]:
  "rs_status (writeJSON n v) = n" "rs_status (writeError n c m) = n"
  "rs_status (empty_response n) = n"
  by (simp_all add: writeJSON_def writeError_def empty_response_def)

text \<open>A response below 400 went through every check.\<close>

lemma writeErr_status: "400 \<le> rs_status (writeErr e)"
  by (simp add: writeErr_def statusFor_def split: go_error.splits)

lemma or_write_success:
  assumes "run_state (or_write m k) w = (r, w')" "rs_status r < 400"
  obtains x w1 where "run_state m w = (Inr x, w1)" "run_state (k x) w1 = (r, w')"
  using assms writeErr_status
  by (auto simp: run_or_write split: prod.splits sum.splits) (metis leD)

lemma or_missing_success:
  assumes "run_state (or_missing m missing k) w = (r, w')" "rs_status r < 400" "400 \<le> rs_status missing"
  obtains x w1 where "run_state m w = (Inr x, w1)" "run_state (k x) w1 = (r, w')"
  using assms writeErr_status
  by (auto simp: run_or_missing split: prod.splits sum.splits if_splits) (metis leD)

end
