(* ===== verification/HttpAuth.thy ===== *)
theory HttpAuth
  imports HttpBase
begin

text \<open>
  \<^verbatim>\<open>internal/httpapi/middleware.go\<close>: the headers of CORS and HSTS, the rate limiters, and the
  authentication of staff.  A middleware takes the next handler to a handler.
\<close>

type_synonym handler = "request \<Rightarrow> response act"

definition add_headers :: "(string \<times> string) list \<Rightarrow> response \<Rightarrow> response" where
  "add_headers hs r = r\<lparr>rs_headers := hs @ rs_headers r\<rparr>"

section \<open>CORS and HSTS\<close>

definition cors_headers :: "string list \<Rightarrow> string \<Rightarrow> (string \<times> string) list" where
  "cors_headers origins origin =
     (if origin \<noteq> '''' \<and> (origin \<in> set origins \<or> origin = ''null'')
      then [(''Access-Control-Allow-Origin'', origin), (''Vary'', ''Origin''),
            (''Access-Control-Allow-Headers'', ''Authorization, Content-Type''),
            (''Access-Control-Allow-Methods'', ''GET, POST, PUT, PATCH, DELETE, OPTIONS''),
            (''Access-Control-Allow-Credentials'', ''true'')]
      else [])"

definition cors :: "string list \<Rightarrow> handler \<Rightarrow> handler" where
  "cors origins next rq =
    (let hs = cors_headers origins (rq_origin rq) in
     if rq_method rq = ''OPTIONS'' then ret (add_headers hs (empty_response 204))
     else do { r \<leftarrow> next rq; ret (add_headers hs r) })"

definition hsts :: "handler \<Rightarrow> handler" where
  "hsts next rq = do {
     r \<leftarrow> next rq;
     ret (add_headers (if rq_tls rq \<or> fold_name (rq_proto rq) = fold_name ''https''
       then [(''Strict-Transport-Security'', ''max-age=31536000'')] else []) r) }"

section \<open>Request identifiers\<close>

text \<open>The log lines are not modelled; the header is.  A failing random source leaves zero bytes.\<close>

definition randomID :: "string act" where
  "randomID = do {
     b \<leftarrow> rand_read 8;
     ret (hex_encode (case b of Inl _ \<Rightarrow> replicate 8 0 | Inr bs \<Rightarrow> bs)) }"

definition requestLog :: "handler \<Rightarrow> handler" where
  "requestLog next rq = do {
     rid \<leftarrow> randomID;
     r \<leftarrow> next rq;
     ret (add_headers [(''X-Request-Id'', rid)] r) }"

section \<open>Rate limits\<close>

text \<open>A limiter: its name, events a minute and burst.  \<^verbatim>\<open>allow\<close> creates the bucket of an address
  at its first request; buckets are never removed.\<close>

record ip_limiter =
  lim_name :: string
  lim_rate :: int
  lim_burst :: nat

definition newIPLimiter :: "string \<Rightarrow> int \<Rightarrow> nat \<Rightarrow> ip_limiter" where
  "newIPLimiter name perMin burst = \<lparr>lim_name = name, lim_rate = perMin, lim_burst = burst\<rparr>"

definition enrollL :: ip_limiter where
  "enrollL = newIPLimiter ''enroll'' 10 5"

definition lookupL :: ip_limiter where
  "lookupL = newIPLimiter ''lookup'' 60 20"

definition allow :: "ip_limiter \<Rightarrow> string \<Rightarrow> bool act" where
  "allow l ip = State (\<lambda>w.
     let asked = (case limits w (lim_name l) ip of None \<Rightarrow> [] | Some ts \<Rightarrow> ts);
         t = now_at (env w) (tick w)
     in (rate_allows (env w) (lim_rate l) (lim_burst l) asked t,
         (next_tick w)\<lparr>limits := (limits w)(lim_name l := (limits w (lim_name l))(ip \<mapsto> asked @ [t]))\<rparr>))"

text \<open>\<^verbatim>\<open>net.SplitHostPort\<close>: the host before the last colon, in brackets for IPv6, the empty
  string on an error.\<close>

definition split_host :: "string \<Rightarrow> string" where
  "split_host s =
    (let host = rev (drop 1 (dropWhile (\<lambda>c. c \<noteq> CHR '':'') (rev s)));
         inner = butlast (tl host)
     in if CHR '':'' \<notin> set s then ''''
        else if s \<noteq> [] \<and> hd s = CHR ''[''
        then (if 2 \<le> length host \<and> last host = CHR '']'' \<and> CHR ''['' \<notin> set inner \<and> CHR '']'' \<notin> set inner
                 \<and> CHR ''['' \<notin> set (drop (length host + 1) s) \<and> CHR '']'' \<notin> set (drop (length host + 1) s)
              then inner else '''')
        else if CHR '':'' \<in> set host \<or> CHR ''['' \<in> set s \<or> CHR '']'' \<in> set s then '''' else host)"

definition rateLimit :: "ip_limiter \<Rightarrow> handler \<Rightarrow> handler" where
  "rateLimit l next rq = do {
     let ip = (if split_host (rq_remote rq) = '''' then rq_remote rq else split_host (rq_remote rq));
     yes \<leftarrow> allow l ip;
     if \<not> yes then ret (writeError 429 CodeInvalidRequest h_too_many) else next rq }"

section \<open>Staff\<close>

definition bearer_token :: "string \<Rightarrow> string" where
  "bearer_token h =
     (if has_prefix h ''Bearer '' then trim_space (drop 7 h)
      else if has_prefix h ''bearer '' then trim_space (drop 7 h)
      else '''')"

definition applePassToken :: "string \<Rightarrow> string" where
  "applePassToken h = (if has_prefix h ''ApplePass '' then trim_space (drop 10 h) else '''')"

definition authenticateStaff :: "string \<Rightarrow> string \<Rightarrow> bool \<Rightarrow> handler \<Rightarrow> handler" where
  "authenticateStaff kind secret allowRevoked next rq =
    (let raw = bearer_token (rq_auth rq) in
     if raw = '''' then ret (writeError 401 CodeUnauthorized h_need_auth)
     else do {
       parsed \<leftarrow> Parse secret raw;
       (case parsed of
          Inl _ \<Rightarrow> ret (writeError 401 CodeUnauthorized h_bad_token)
        | Inr claims \<Rightarrow>
            if clm_kind claims \<noteq> kind then ret (writeError 401 CodeUnauthorized h_bad_token)
            else or_write (SessionValid (clm_id claims)) (\<lambda>valid.
              if \<not> valid \<and> \<not> allowRevoked then ret (writeError 401 CodeUnauthorized h_revoked)
              else do {
                found \<leftarrow> GetStaffByID (clm_subject claims);
                (case found of
                   Inl _ \<Rightarrow> ret (writeError 401 CodeUnauthorized h_inactive)
                 | Inr st \<Rightarrow>
                     if \<not> staff_active st \<or> staff_deleted st \<noteq> None
                     then ret (writeError 401 CodeUnauthorized h_inactive)
                     else next (rq\<lparr>ctx_staff := Some st, ctx_claims := Some claims\<rparr>)) })) })"

definition requireStaff :: "string \<Rightarrow> string \<Rightarrow> handler \<Rightarrow> handler" where
  "requireStaff kind secret = authenticateStaff kind secret False"

definition requireStaffAllowRevoked :: "string \<Rightarrow> string \<Rightarrow> handler \<Rightarrow> handler" where
  "requireStaffAllowRevoked kind secret = authenticateStaff kind secret True"

end
