(* ===== verification/HttpCashier.thy ===== *)
theory HttpCashier
  imports HttpAuth
begin

text \<open>
  \<^verbatim>\<open>internal/httpapi/activity.go\<close> and \<^verbatim>\<open>cashier.go\<close>: the activity log, and the handlers of
  the till.
\<close>

section \<open>activity.go\<close>

text \<open>A failed insert is only logged.\<close>

definition recordActivity :: "Staff \<Rightarrow> string \<Rightarrow> string \<Rightarrow> string \<Rightarrow> string \<Rightarrow> unit act" where
  "recordActivity actor storeID kind title detail = do {
     let name = (if staff_id actor = '''' \<and> trim_space (staff_name actor) = '''' then a_customer
                 else trim_space (staff_name actor));
     aid \<leftarrow> NewID;
     t \<leftarrow> now;
     _ \<leftarrow> InsertActivity \<lparr>act_id = aid, act_created = t, act_staff = staff_id actor,
       act_actor = name, act_store = storeID, act_kind = kind, act_title = title,
       act_detail = detail\<rparr>;
     ret () }"

definition activityJSON :: "Activity \<Rightarrow> json" where
  "activityJSON a = JObj [(''id'', JStr (act_id a)), (''created_at'', JStr (RFC3339 (act_created a))),
     (''actor_name'', JStr (act_actor a)), (''kind'', JStr (act_kind a)),
     (''title'', JStr (act_title a)), (''detail'', JStr (act_detail a))]"

definition writeActivity :: "bool \<Rightarrow> string \<Rightarrow> string \<Rightarrow> response act" where
  "writeActivity all staffID storeID = or_write (ListActivity all staffID storeID 80) (\<lambda>list.
     ret (writeJSON 200 (JObj [(''activity'', JArr (map activityJSON list))])))"

definition getCashierActivity :: handler where
  "getCashierActivity rq =
     (let st = staffFrom rq in writeActivity False (staff_id st) (staff_store st))"

definition getAdminActivity :: handler where
  "getAdminActivity rq = writeActivity True '''' ''''"

definition customerLabel :: "Customer \<Rightarrow> string" where
  "customerLabel c =
    (let name = (if trim_space (cust_name c) = '''' then cust_barcode c else trim_space (cust_name c))
     in if cust_phone c \<noteq> '''' then name @ a_dot @ cust_phone c else name)"

definition roleLabel :: "string \<Rightarrow> string" where
  "roleLabel role = (if role = RoleAdmin then a_admin else a_cashier)"

definition receiptActivity :: "int \<Rightarrow> int \<Rightarrow> int \<Rightarrow> string \<Rightarrow> string \<times> string" where
  "receiptActivity amount redeem earn code =
     ((if redeem > 0 \<and> earn > 0 then a_rec_both
       else if redeem > 0 then a_redeem
       else if earn > 0 then a_earn
       else a_rec),
      itoa amount @ a_rec_1 @ itoa redeem @ a_rec_2 @ itoa earn @ a_dot @ code)"

text \<open>\<^verbatim>\<open>%+d\<close> always prints a sign.\<close>

definition pointsActivity :: "int \<Rightarrow> string \<Rightarrow> string \<Rightarrow> string \<times> string" where
  "pointsActivity delta who reason =
     ((if delta < 0 then a_redeem else a_earn),
      (if delta < 0 then itoa delta else CHR ''+'' # itoa delta) @ a_dot @ who
      @ (if trim_space reason \<noteq> '''' then a_dot @ trim_space reason else ''''))"

section \<open>Login and logout\<close>

record loginReq =
  lg_login :: string
  lg_password :: string
  lg_pin :: string

definition loginReq_slots :: "(string \<times> loginReq slot) list" where
  "loginReq_slots = [(''login'', SStr (\<lambda>v x. x\<lparr>lg_login := v\<rparr>)),
     (''password'', SStr (\<lambda>v x. x\<lparr>lg_password := v\<rparr>)), (''pin'', SStr (\<lambda>v x. x\<lparr>lg_pin := v\<rparr>))]"

definition login_granted :: "server \<Rightarrow> string \<Rightarrow> string \<Rightarrow> Staff \<Rightarrow> response act" where
  "login_granted s kind secret st = do {
     let dur = (if kind = KindAdmin then AdminJWTTTL (Cfg s) else CashierJWTTTL (Cfg s));
     or_write NewJTI (\<lambda>jti.
     or_write (Sign secret kind (staff_id st) (staff_login st) (staff_role st) (staff_store st) jti dur)
       (\<lambda>(token, expiry).
     or_write (CreateSession jti (staff_id st) kind expiry) (\<lambda>_. do {
       row \<leftarrow> GetStore (staff_store st);
       let storeName = (case row of Inl _ \<Rightarrow> '''' | Inr sh \<Rightarrow> shop_name sh);
       ret (writeJSON 200 (JObj [
         (''token'', JStr token), (''expires_at'', JStr (RFC3339 expiry)),
         (''staff'', JObj [(''id'', JStr (staff_id st)), (''name'', JStr (staff_name st)),
            (''role'', JStr (staff_role st)), (''store_id'', JStr (staff_store st)),
            (''store_name'', JStr storeName)])])) }))) }"

definition login :: "server \<Rightarrow> string \<Rightarrow> string \<Rightarrow> bool \<Rightarrow> handler" where
  "login s kind secret adminOnly rq =
     or_write (decodeJSON rq loginReq_slots \<lparr>lg_login = '''', lg_password = '''', lg_pin = ''''\<rparr>) (\<lambda>req.
     or_missing (GetStaffByLogin (lg_login req)) (writeError 401 CodeUnauthorized h_bad_login) (\<lambda>st.
       if staff_deleted st \<noteq> None then ret (writeError 401 CodeUnauthorized h_staff_deleted)
       else if \<not> staff_active st then ret (writeError 401 CodeUnauthorized h_inactive)
       else if adminOnly \<and> staff_role st \<noteq> RoleAdmin
       then ret (writeError 403 CodeStaffForbidden h_forbidden)
       else do {
         e \<leftarrow> the_env;
         let good = CheckSecret e (staff_password_hash st) (lg_password req);
         let good = (if \<not> good \<and> lg_pin req \<noteq> '''' then CheckSecret e (staff_pin_hash st) (lg_pin req)
                     else good);
         if \<not> good then ret (writeError 401 CodeUnauthorized h_bad_login)
         else login_granted s kind secret st }))"

definition postCashierLogin :: "server \<Rightarrow> handler" where
  "postCashierLogin s = login s KindCashier (CashierJWTSecret (Cfg s)) False"

definition postAdminLogin :: "server \<Rightarrow> handler" where
  "postAdminLogin s = login s KindAdmin (AdminJWTSecret (Cfg s)) True"

definition postLogout :: handler where
  "postLogout rq = (case claimsFrom rq of
     None \<Rightarrow> ret (writeError 401 CodeUnauthorized h_bad_token)
   | Some c \<Rightarrow>
       if clm_id c = '''' then ret (writeError 401 CodeUnauthorized h_bad_token)
       else or_write (RevokeSession (clm_id c)) (\<lambda>_. ret (writeJSON 200 (JObj []))))"

section \<open>The till\<close>

definition getAppVersion :: "server \<Rightarrow> handler" where
  "getAppVersion s rq = ret (writeJSON 200 (JObj [
     (''min_supported'', JStr (AppMinSupported (Cfg s))), (''download_url'', JStr (AppDownloadURL (Cfg s)))]))"

definition decode_barcode :: "request \<Rightarrow> string go" where
  "decode_barcode rq = decodeJSON rq [(''barcode'', SStr (\<lambda>v _. v))] ''''"

definition postLookup :: handler where
  "postLookup rq = or_write (decode_barcode rq) (\<lambda>code.
     or_write (Lookup code) (\<lambda>res. ret (writeJSON 200 (JObj [
       (''customer_id'', JStr (cust_id (lk_customer res))), (''name'', JStr (cust_name (lk_customer res))),
       (''points'', JInt (cust_points (lk_customer res))),
       (''redeem_min'', JInt (RedeemMin (lk_settings res))),
       (''redeem_rate'', JInt (RedeemRate (lk_settings res))),
       (''can_redeem'', JBool (lk_can_redeem res))]))))"

record quoteReq =
  qr_barcode :: string
  qr_amount :: int
  qr_points :: int

definition quoteReq_slots :: "(string \<times> quoteReq slot) list" where
  "quoteReq_slots = [(''barcode'', SStr (\<lambda>v x. x\<lparr>qr_barcode := v\<rparr>)),
     (''receipt_amount_rub'', SInt (\<lambda>v x. x\<lparr>qr_amount := v\<rparr>)),
     (''requested_points'', SInt (\<lambda>v x. x\<lparr>qr_points := v\<rparr>))]"

definition quoteJSON :: "Quote \<Rightarrow> json" where
  "quoteJSON q = JObj ([(''allowed'', JBool (Allowed q))]
     @ omit_empty ''code'' (case QCode q of None \<Rightarrow> '''' | Some c \<Rightarrow> code_text c)
     @ omit_empty ''reason'' (Reason q)
     @ [(''requested_points'', JInt (RequestedPoints q)), (''max_points'', JInt (MaxPoints q)),
        (''redeem_points'', JInt (RedeemPoints q)), (''redeem_rub'', JInt (RedeemRub q)),
        (''earn_points'', JInt (EarnPoints q)), (''payable_rub'', JInt (PayableRub q)),
        (''current_points'', JInt (CurrentPoints q))])"

definition postQuote :: handler where
  "postQuote rq =
     or_write (decodeJSON rq quoteReq_slots \<lparr>qr_barcode = '''', qr_amount = 0, qr_points = 0\<rparr>) (\<lambda>req.
     or_write (Quote_op (qr_barcode req) (qr_amount req) (qr_points req)) (\<lambda>q.
       ret (writeJSON 200 (quoteJSON q))))"

record commitReq =
  cq_receipt :: string
  cq_barcode :: string
  cq_amount :: int
  cq_redeem :: int
  cq_store :: string

definition commitReq_slots :: "(string \<times> commitReq slot) list" where
  "commitReq_slots = [(''receipt_id'', SStr (\<lambda>v x. x\<lparr>cq_receipt := v\<rparr>)),
     (''barcode'', SStr (\<lambda>v x. x\<lparr>cq_barcode := v\<rparr>)),
     (''receipt_amount_rub'', SInt (\<lambda>v x. x\<lparr>cq_amount := v\<rparr>)),
     (''redeem_points'', SInt (\<lambda>v x. x\<lparr>cq_redeem := v\<rparr>)),
     (''store_id'', SStr (\<lambda>v x. x\<lparr>cq_store := v\<rparr>))]"

definition commitReq_zero :: commitReq where
  "commitReq_zero = \<lparr>cq_receipt = '''', cq_barcode = '''', cq_amount = 0, cq_redeem = 0, cq_store = ''''\<rparr>"

definition commitJSON :: "CommitResult \<Rightarrow> json" where
  "commitJSON r = JObj [(''receipt_id'', JStr (cr_receipt r)), (''customer_id'', JStr (cr_customer r)),
     (''barcode'', JStr (cr_barcode r)), (''points'', JInt (cr_points r)),
     (''earn_points'', JInt (cr_earn r)), (''redeem_points'', JInt (cr_redeem r)),
     (''idempotent_replay'', JBool (cr_replay r))]"

definition commit_input :: "commitReq \<Rightarrow> string \<Rightarrow> Staff \<Rightarrow> CommitInput" where
  "commit_input req storeID st = \<lparr>ci_receipt = cq_receipt req, ci_barcode = cq_barcode req,
     ci_amount = cq_amount req, ci_redeem = cq_redeem req, ci_store = storeID, ci_staff = staff_id st\<rparr>"

definition postCommit :: "server \<Rightarrow> handler" where
  "postCommit s rq =
    (let st = staffFrom rq in
     or_write (decodeJSON rq commitReq_slots commitReq_zero) (\<lambda>req.
       let storeID = (if cq_store req = '''' then staff_store st else cq_store req) in
       if storeID \<noteq> staff_store st \<and> staff_role st \<noteq> RoleAdmin
       then ret (writeError 403 CodeStaffForbidden h_other_store)
       else or_missing (GetStore storeID) (writeError 422 CodeInvalidRequest h_no_store) (\<lambda>_.
         or_write (Commit (Loy s) (commit_input req storeID st)) (\<lambda>res. do {
           _ \<leftarrow> (if \<not> cr_replay res
                 then (let (title, detail) = receiptActivity (cq_amount req) (cr_redeem res) (cr_earn res)
                                               (cr_barcode res)
                       in recordActivity st storeID ''receipt_committed'' title detail)
                 else ret ());
           ret (writeJSON 200 (commitJSON res)) }))))"

definition shiftReceiptJSON :: "ShiftReceipt \<Rightarrow> json" where
  "shiftReceiptJSON r = JObj [(''receipt_id'', JStr (shr_id r)),
     (''created_at'', JStr (RFC3339 (shr_created r))), (''barcode'', JStr (shr_barcode r)),
     (''name'', JStr (shr_name r)), (''amount_rub'', JInt (shr_amount r)),
     (''redeem_points'', JInt (shr_redeem r)), (''earn_points'', JInt (shr_earn r)),
     (''status'', JStr (shr_status r)), (''points_after'', JInt (shr_points_after r))]"

definition shift_store :: "request \<Rightarrow> string" where
  "shift_store rq = (case claimsFrom rq of
     Some c \<Rightarrow> if clm_store c \<noteq> '''' then clm_store c else staff_store (staffFrom rq)
   | None \<Rightarrow> staff_store (staffFrom rq))"

definition getShiftReceipts :: handler where
  "getShiftReceipts rq = do {
     t \<leftarrow> now;
     let (t0, t1) = DayBounds t;
     or_write (ListStoreReceipts (shift_store rq) t0 t1) (\<lambda>list.
       ret (writeJSON 200 (JObj [(''receipts'', JArr (map shiftReceiptJSON list))]))) }"

definition refundJSON :: "RefundResult \<Rightarrow> json" where
  "refundJSON r = JObj [(''receipt_id'', JStr (rr_receipt r)), (''customer_id'', JStr (rr_customer r)),
     (''points'', JInt (rr_points r)), (''idempotent_replay'', JBool (rr_replay r))]"

definition decode_receipt :: "request \<Rightarrow> string go" where
  "decode_receipt rq = decodeJSON rq [(''receipt_id'', SStr (\<lambda>v _. v))] ''''"

definition postRefund :: "server \<Rightarrow> handler" where
  "postRefund s rq =
    (let st = staffFrom rq in
     if \<not> CanRefund (staff_role st) then ret (writeError 403 CodeStaffForbidden h_forbidden)
     else or_write (decode_receipt rq) (\<lambda>rid.
       or_write (Refund (Loy s) rid (staff_id st)) (\<lambda>res. do {
         _ \<leftarrow> (if \<not> rr_replay res
               then recordActivity st (staff_store st) ''receipt_refunded'' a_refund rid
               else ret ());
         ret (writeJSON 200 (refundJSON res)) })))"

end
