(* ===== verification/HttpAdmin.thy ===== *)
theory HttpAdmin
  imports HttpCashier
begin

text \<open>
  \<^verbatim>\<open>internal/httpapi/admin.go\<close>: adjustments, staff, stores, settings and customers.
\<close>

section \<open>Adjustments\<close>

record adjustReq =
  aj_customer :: string
  aj_barcode :: string
  aj_delta :: int
  aj_reason :: string

definition adjustReq_slots :: "(string \<times> adjustReq slot) list" where
  "adjustReq_slots = [(''customer_id'', SStr (\<lambda>v x. x\<lparr>aj_customer := v\<rparr>)),
     (''barcode'', SStr (\<lambda>v x. x\<lparr>aj_barcode := v\<rparr>)), (''delta'', SInt (\<lambda>v x. x\<lparr>aj_delta := v\<rparr>)),
     (''reason'', SStr (\<lambda>v x. x\<lparr>aj_reason := v\<rparr>))]"

definition postAdjust :: "server \<Rightarrow> handler" where
  "postAdjust s rq =
    (let st = staffFrom rq in
     if \<not> IsAdmin (staff_role st) then ret (writeError 403 CodeStaffForbidden h_forbidden)
     else or_write (decodeJSON rq adjustReq_slots
         \<lparr>aj_customer = '''', aj_barcode = '''', aj_delta = 0, aj_reason = ''''\<rparr>) (\<lambda>req.
       let ref = (if aj_customer req = '''' then aj_barcode req else aj_customer req) in
       or_write (Adjust (Loy s) ref (aj_delta req) (aj_reason req) (staff_id st)) (\<lambda>c.
         let (title, detail) = pointsActivity (aj_delta req) (customerLabel c) (aj_reason req) in
         do {
           _ \<leftarrow> recordActivity st '''' ''points_adjusted'' title detail;
           ret (writeJSON 200 (JObj [(''customer_id'', JStr (cust_id c)),
             (''barcode'', JStr (cust_barcode c)), (''points'', JInt (cust_points c))])) })))"

section \<open>Staff\<close>

definition staffJSON :: "Staff \<Rightarrow> json act" where
  "staffJSON st = do {
     name \<leftarrow> (if staff_store_name st = '''' \<and> staff_store st \<noteq> ''''
              then do {
                r \<leftarrow> GetStore (staff_store st);
                ret (case r of Inr row \<Rightarrow> shop_name row | Inl _ \<Rightarrow> staff_store_name st) }
              else ret (staff_store_name st));
     ret (JObj [(''id'', JStr (staff_id st)), (''store_id'', JStr (staff_store st)),
       (''store_name'', JStr name), (''login'', JStr (staff_login st)),
       (''name'', JStr (staff_name st)), (''role'', JStr (staff_role st)),
       (''active'', JBool (staff_active st))]) }"

fun staff_list_JSON :: "Staff list \<Rightarrow> json list act" where
  "staff_list_JSON [] = ret []"
| "staff_list_JSON (st # sts) = do { j \<leftarrow> staffJSON st; js \<leftarrow> staff_list_JSON sts; ret (j # js) }"

definition listStaff :: handler where
  "listStaff rq = or_write ListStaff (\<lambda>list. do {
     js \<leftarrow> staff_list_JSON list;
     ret (writeJSON 200 (JObj [(''staff'', JArr js)])) })"

record staffReq =
  sq_login :: string
  sq_name :: string
  sq_password :: string
  sq_pin :: string
  sq_role :: string
  sq_store :: string
  sq_active :: "bool option"

definition staffReq_slots :: "(string \<times> staffReq slot) list" where
  "staffReq_slots = [(''login'', SStr (\<lambda>v x. x\<lparr>sq_login := v\<rparr>)),
     (''name'', SStr (\<lambda>v x. x\<lparr>sq_name := v\<rparr>)), (''password'', SStr (\<lambda>v x. x\<lparr>sq_password := v\<rparr>)),
     (''pin'', SStr (\<lambda>v x. x\<lparr>sq_pin := v\<rparr>)), (''role'', SStr (\<lambda>v x. x\<lparr>sq_role := v\<rparr>)),
     (''store_id'', SStr (\<lambda>v x. x\<lparr>sq_store := v\<rparr>)), (''active'', SBoolPtr (\<lambda>v x. x\<lparr>sq_active := v\<rparr>))]"

definition staffReq_zero :: staffReq where
  "staffReq_zero = \<lparr>sq_login = '''', sq_name = '''', sq_password = '''', sq_pin = '''', sq_role = '''',
     sq_store = '''', sq_active = None\<rparr>"

definition staff_label :: "Staff \<Rightarrow> string" where
  "staff_label st = staff_name st @ a_dot @ roleLabel (staff_role st)"

definition create_staff_row :: "request \<Rightarrow> staffReq \<Rightarrow> string \<Rightarrow> string \<Rightarrow> response act" where
  "create_staff_row rq req ph pin = do {
     sid \<leftarrow> NewID;
     t \<leftarrow> now;
     let st = \<lparr>staff_id = sid, staff_store = sq_store req, staff_login = sq_login req,
       staff_name = trim_space (sq_name req), staff_password_hash = ph, staff_pin_hash = pin,
       staff_role = sq_role req,
       staff_active = (case sq_active req of Some b \<Rightarrow> b | None \<Rightarrow> True),
       staff_created = t, staff_deleted = None, staff_store_name = ''''\<rparr>;
     or_write (CreateStaff st) (\<lambda>_. do {
       _ \<leftarrow> recordActivity (staffFrom rq) (staff_store st) ''staff_created'' a_staff_new (staff_label st);
       j \<leftarrow> staffJSON st;
       ret (writeJSON 200 j) }) }"

definition createStaff :: handler where
  "createStaff rq = or_write (decodeJSON rq staffReq_slots staffReq_zero) (\<lambda>req0. do {
     e \<leftarrow> the_env;
     let req = req0\<lparr>sq_login := NormalizeLogin (lower_tab e) (sq_login req0)\<rparr>;
     if sq_login req = '''' \<or> trim_space (sq_name req) = '''' \<or> sq_password req = ''''
        \<or> \<not> ValidRole (sq_role req)
     then ret (writeError 422 CodeInvalidRequest h_staff_fields)
     else do {
       let req = (if sq_store req = '''' then req\<lparr>sq_store := DefaultStoreID\<rparr> else req);
       or_missing (GetStore (sq_store req)) (writeError 422 CodeInvalidRequest h_no_store) (\<lambda>_.
       or_write (HashSecret (sq_password req)) (\<lambda>ph.
       or_write (HashSecret (sq_pin req)) (\<lambda>pin. create_staff_row rq req ph pin))) } })"

text \<open>The fields of \<^verbatim>\<open>patchStaff\<close> that are set without a check, then those with one.\<close>

definition patch_names :: "env \<Rightarrow> staffReq \<Rightarrow> Staff \<Rightarrow> Staff" where
  "patch_names e req st =
    (let st = (if sq_name req \<noteq> '''' then st\<lparr>staff_name := sq_name req\<rparr> else st) in
     if sq_login req \<noteq> '''' then st\<lparr>staff_login := NormalizeLogin (lower_tab e) (sq_login req)\<rparr> else st)"

definition patch_store :: "staffReq \<Rightarrow> Staff \<Rightarrow> (Staff \<Rightarrow> response act) \<Rightarrow> response act" where
  "patch_store req st k =
     (if sq_store req \<noteq> ''''
      then or_missing (GetStore (sq_store req)) (writeError 422 CodeInvalidRequest h_no_store)
             (\<lambda>_. k (st\<lparr>staff_store := sq_store req\<rparr>))
      else k st)"

definition patch_secrets :: "staffReq \<Rightarrow> Staff \<Rightarrow> (Staff \<Rightarrow> response act) \<Rightarrow> response act" where
  "patch_secrets req st0 k =
    (let pin = (\<lambda>st. if sq_pin req \<noteq> ''''
                     then or_write (HashSecret (sq_pin req)) (\<lambda>h. k (st\<lparr>staff_pin_hash := h\<rparr>))
                     else k st)
     in if sq_password req \<noteq> ''''
        then or_write (HashSecret (sq_password req)) (\<lambda>h. pin (st0\<lparr>staff_password_hash := h\<rparr>))
        else pin st0)"

definition patch_active :: "staffReq \<Rightarrow> Staff \<Rightarrow> Staff act" where
  "patch_active req st = (case sq_active req of
     None \<Rightarrow> ret st
   | Some b \<Rightarrow>
       let st = st\<lparr>staff_active := b\<rparr> in
       if \<not> b then do { _ \<leftarrow> RevokeStaffSessions (staff_id st); ret st } else ret st)"

definition patchStaff :: handler where
  "patchStaff rq =
     or_missing (GetStaffByID (rq_param rq ''id'')) (writeError 404 CodeInvalidRequest h_no_staff) (\<lambda>st0.
     if staff_deleted st0 \<noteq> None then ret (writeError 404 CodeInvalidRequest h_no_staff)
     else or_write (decodeJSON rq staffReq_slots staffReq_zero) (\<lambda>req. do {
       e \<leftarrow> the_env;
       let st1 = patch_names e req st0;
       if sq_role req \<noteq> '''' \<and> \<not> ValidRole (sq_role req)
       then ret (writeError 422 CodeInvalidRequest h_bad_role)
       else do {
         let st2 = (if sq_role req \<noteq> '''' then st1\<lparr>staff_role := sq_role req\<rparr> else st1);
         patch_store req st2 (\<lambda>st3. patch_secrets req st3 (\<lambda>st4. do {
           st5 \<leftarrow> patch_active req st4;
           or_write (UpdateStaff st5) (\<lambda>_. do {
             _ \<leftarrow> recordActivity (staffFrom rq) (staff_store st5) ''staff_updated'' a_staff_upd
                   (staff_label st5);
             j \<leftarrow> staffJSON st5;
             ret (writeJSON 200 j) }) })) } }))"

definition deleteStaff :: handler where
  "deleteStaff rq =
    (let sid = rq_param rq ''id''; actor = staffFrom rq in
     if staff_id actor = sid then ret (writeError 422 CodeInvalidRequest h_self_delete)
     else or_missing (GetStaffByID sid) (writeError 404 CodeInvalidRequest h_no_staff) (\<lambda>st.
       if staff_deleted st \<noteq> None then ret (writeError 404 CodeInvalidRequest h_no_staff)
       else do {
         t \<leftarrow> now;
         or_write (SoftDeleteStaff sid t) (\<lambda>_. do {
           _ \<leftarrow> RevokeStaffSessions sid;
           _ \<leftarrow> recordActivity actor (staff_store st) ''staff_deleted'' a_staff_del (staff_label st);
           ret (empty_response 204) }) }))"

section \<open>Stores\<close>

definition storeJSON :: "StoreRow \<Rightarrow> json" where
  "storeJSON r = JObj [(''ID'', JStr (shop_id r)), (''Name'', JStr (shop_name r)),
     (''Address'', JStr (shop_address r)), (''CreatedAt'', JStr (RFC3339Nano (shop_created r)))]"

definition listStores :: handler where
  "listStores rq = or_write ListStores (\<lambda>list.
     ret (writeJSON 200 (JObj [(''stores'', if list = [] then JNull else JArr (map storeJSON list))])))"

record storeReq =
  tq_name :: string
  tq_address :: string

definition decode_store :: "request \<Rightarrow> storeReq go" where
  "decode_store rq = decodeJSON rq [(''name'', SStr (\<lambda>v x. x\<lparr>tq_name := v\<rparr>)),
     (''address'', SStr (\<lambda>v x. x\<lparr>tq_address := v\<rparr>))] \<lparr>tq_name = '''', tq_address = ''''\<rparr>"

definition createStore :: handler where
  "createStore rq = or_write (decode_store rq) (\<lambda>req.
     if trim_space (tq_name req) = '''' then ret (writeError 422 CodeInvalidRequest h_name_required)
     else do {
       sid \<leftarrow> NewID;
       t \<leftarrow> now;
       let row = \<lparr>shop_id = sid, shop_name = tq_name req, shop_address = tq_address req, shop_created = t\<rparr>;
       or_write (CreateStore row) (\<lambda>_. do {
         _ \<leftarrow> recordActivity (staffFrom rq) (shop_id row) ''store_created'' a_store_new (shop_name row);
         ret (writeJSON 200 (storeJSON row)) }) })"

definition patchStore :: handler where
  "patchStore rq =
     or_missing (GetStore (rq_param rq ''id'')) (writeError 404 CodeInvalidRequest h_no_store) (\<lambda>row0.
     or_write (decode_store rq) (\<lambda>req.
       let row = (if tq_name req \<noteq> '''' then row0\<lparr>shop_name := tq_name req\<rparr> else row0);
           row = (if tq_address req \<noteq> '''' then row\<lparr>shop_address := tq_address req\<rparr> else row)
       in or_write (UpdateStore row) (\<lambda>_. do {
         _ \<leftarrow> recordActivity (staffFrom rq) (shop_id row) ''store_updated'' a_store_upd (shop_name row);
         ret (writeJSON 200 (storeJSON row)) })))"

definition deleteStore :: handler where
  "deleteStore rq =
    (let sid = rq_param rq ''id'' in
     or_missing (GetStore sid) (writeError 404 CodeInvalidRequest h_no_store) (\<lambda>row.
     or_write (DeleteStore sid) (\<lambda>_. do {
       _ \<leftarrow> recordActivity (staffFrom rq) (shop_id row) ''store_deleted'' a_store_del (shop_name row);
       ret (empty_response 204) })))"

section \<open>Loyalty settings\<close>

definition getSettings :: handler where
  "getSettings rq = or_write SettingsMap (\<lambda>m. ret ((writeJSON 200 JNull)\<lparr>rs_body := StrMap m\<rparr>))"

definition putSettings :: handler where
  "putSettings rq = or_write (decodeJSON_map rq) (\<lambda>kv.
     or_write (PutSettings kv) (\<lambda>_. do {
       _ \<leftarrow> recordActivity (staffFrom rq) '''' ''settings_updated'' a_settings '''';
       getSettings rq }))"

section \<open>Customers\<close>

definition customerJSON :: "Customer \<Rightarrow> json" where
  "customerJSON c = JObj [(''id'', JStr (cust_id c)), (''barcode'', JStr (cust_barcode c)),
     (''name'', JStr (cust_name c)), (''phone'', JStr (cust_phone c)),
     (''points'', JInt (cust_points c)), (''blocked'', JBool (cust_blocked c)),
     (''deleted'', JBool (cust_deleted c \<noteq> None))]"

definition listCustomers :: handler where
  "listCustomers rq = or_write (SearchCustomers (rq_query rq ''q'') (rq_query rq ''status'') 100) (\<lambda>list.
     ret (writeJSON 200 (JObj [(''customers'', JArr (map customerJSON list))])))"

definition no_customer :: response where
  "no_customer = writeError 404 CodeCustomerNotFound msg_customer_not_found"

definition setCustomerDeleted :: "bool \<Rightarrow> handler" where
  "setCustomerDeleted deleted rq =
    (let cid = rq_param rq ''id'' in
     or_missing (GetCustomerByID cid) no_customer (\<lambda>c.
     if (cust_deleted c \<noteq> None) = deleted then ret (writeJSON 200 (customerJSON c))
     else or_write (SetCustomerDeleted cid deleted) (\<lambda>_.
       or_write (GetCustomerByID cid) (\<lambda>c.
         let (kind, title) = (if \<not> deleted then (''customer_restored'', a_restored)
                              else (''customer_deleted'', msg_card_deleted))
         in do {
           _ \<leftarrow> recordActivity (staffFrom rq) '''' kind title (customerLabel c);
           ret (writeJSON 200 (customerJSON c)) }))))"

definition deleteCustomer :: handler where
  "deleteCustomer = setCustomerDeleted True"

definition restoreCustomer :: handler where
  "restoreCustomer = setCustomerDeleted False"

definition setBlocked :: "bool \<Rightarrow> handler" where
  "setBlocked blocked rq =
    (let cid = rq_param rq ''id'' in
     or_missing (GetCustomerByID cid) no_customer (\<lambda>c.
     if cust_deleted c \<noteq> None then ret (writeError 422 CodeCustomerDeleted msg_card_deleted)
     else or_missing (SetCustomerBlocked cid blocked) no_customer (\<lambda>_.
       let (kind, title) = (if \<not> blocked then (''customer_unblocked'', a_unblocked)
                            else (''customer_blocked'', msg_card_blocked))
       in do {
         _ \<leftarrow> recordActivity (staffFrom rq) '''' kind title (customerLabel c);
         ret (writeJSON 200 (JObj [(''id'', JStr cid), (''blocked'', JBool blocked)])) })))"

definition blockCustomer :: handler where
  "blockCustomer = setBlocked True"

definition unblockCustomer :: handler where
  "unblockCustomer = setBlocked False"

end
