(* ===== verification/HttpPublic.thy ===== *)
theory HttpPublic
  imports HttpAdmin
begin

text \<open>
  \<^verbatim>\<open>internal/httpapi/public.go\<close>, \<^verbatim>\<open>card.go\<close>, \<^verbatim>\<open>apple.go\<close> and \<^verbatim>\<open>logo.go\<close>: enrolment, the pages
  of the card, the pass and the web service of PassKit.
\<close>

section \<open>Enrolment\<close>

record enrollReq =
  eq_name :: string
  eq_phone :: string

definition decode_enroll :: "request \<Rightarrow> enrollReq go" where
  "decode_enroll rq = decodeJSON rq [(''name'', SStr (\<lambda>v x. x\<lparr>eq_name := v\<rparr>)),
     (''phone'', SStr (\<lambda>v x. x\<lparr>eq_phone := v\<rparr>))] \<lparr>eq_name = '''', eq_phone = ''''\<rparr>"

text \<open>Errors of both reads fall back to the defaults.\<close>

definition programBack :: "server \<Rightarrow> (Settings \<times> string) act" where
  "programBack s = do {
     m \<leftarrow> SettingsMap;
     let st = (case m of Inr m \<Rightarrow> ParseSettings m | Inl _ \<Rightarrow> DefaultSettings);
     list \<leftarrow> ListStores;
     let rows = (case list of Inr l \<Rightarrow> l | Inl _ \<Rightarrow> []);
     ret (st, ProgramDescription st rows (SupportContact (Cfg s))) }"

definition google_link :: "server \<Rightarrow> Customer \<Rightarrow> string \<Rightarrow> string act" where
  "google_link s c back = (case GoogleC s of
     None \<Rightarrow> ret ''''
   | Some g \<Rightarrow> do { u \<leftarrow> SaveURL g c back; ret (case u of Inr link \<Rightarrow> link | Inl _ \<Rightarrow> '''') })"

definition pass_url :: "server \<Rightarrow> Customer \<Rightarrow> string" where
  "pass_url s c = APIBaseURL (Cfg s) @ ''/public/passes/apple/'' @ cust_id c @ ''.pkpass''"

definition enroll :: "server \<Rightarrow> enrollReq \<Rightarrow> bool \<Rightarrow> handler" where
  "enroll s req setCookie rq =
    (let cookieID = (case rq_cookie rq of Some v \<Rightarrow> v | None \<Rightarrow> '''') in
     or_write (Enroll (Loy s) \<lparr>enr_name = eq_name req, enr_phone = eq_phone req,
       enr_cookie = cookieID, enr_google = ''''\<rparr>) (\<lambda>res. do {
       let c = enr_customer res;
       _ \<leftarrow> (if enr_created res
             then (let actor = staffFrom rq;
                       title = (if staff_id actor = '''' then a_self_issued else a_issued)
                   in recordActivity actor (staff_store actor) ''card_issued'' title (customerLabel c))
             else ret ());
       (st, back) \<leftarrow> programBack s;
       googleURL \<leftarrow> google_link s c back;
       ret ((writeJSON 200 (JObj [(''customer_id'', JStr (cust_id c)),
         (''barcode'', JStr (cust_barcode c)), (''apple_url'', JStr (pass_url s c)),
         (''google_save_url'', JStr googleURL),
         (''add_page'', JStr (PublicBaseURL (Cfg s) @ ''/card/add/'' @ cust_id c)),
         (''created'', JBool (enr_created res))]))
         \<lparr>rs_cookie := (if setCookie then Some (cust_id c) else None)\<rparr>) }))"

definition postPublicEnroll :: "server \<Rightarrow> handler" where
  "postPublicEnroll s rq = or_write (decode_enroll rq) (\<lambda>req. enroll s req True rq)"

definition postCashierEnroll :: "server \<Rightarrow> handler" where
  "postCashierEnroll s rq = or_write (decode_enroll rq) (\<lambda>req. enroll s req False rq)"

section \<open>The pass\<close>

definition loadCustomer :: "string \<Rightarrow> Customer go" where
  "loadCustomer ref = do {
     r \<leftarrow> GetCustomerByID ref;
     (case r of
        Inr c \<Rightarrow> ok c
      | Inl e \<Rightarrow>
          if \<not> IsNoRows e then fail e
          else do {
            r2 \<leftarrow> GetCustomerByBarcode ref;
            (case r2 of
               Inr c \<Rightarrow> ok c
             | Inl e2 \<Rightarrow>
                 if IsNoRows e2 then fail (Loyalty (Err CodeCustomerNotFound msg_customer_not_found))
                 else fail e2) }) }"

text \<open>The condition of a 304: the header parses and the card has not changed later than a second
  after it.\<close>

definition not_modified :: "string \<Rightarrow> Customer \<Rightarrow> bool" where
  "not_modified ims c \<longleftrightarrow> ims \<noteq> '''' \<and>
     (case parse_rfc1123 ims of Some t \<Rightarrow> \<not> add_time t second < cust_updated c | None \<Rightarrow> False)"

definition writePKPass :: "server \<Rightarrow> request \<Rightarrow> Customer \<Rightarrow> response act" where
  "writePKPass s rq c = (case AppleC s of
     None \<Rightarrow> ret (writeError 503 CodeInternal h_no_apple)
   | Some a \<Rightarrow>
       if not_modified (rq_ims rq) c then ret (empty_response 304)
       else do {
         (st, back) \<leftarrow> programBack s;
         or_write (BuildPKPass a c (EarnPercent st) back) (\<lambda>bytes.
           ret \<lparr>rs_status = 200,
             rs_headers = [(''Content-Type'', ''application/vnd.apple.pkpass''),
               (''Content-Disposition'', ''attachment; filename=\"merch.pkpass\"''),
               (''Last-Modified'', RFC1123 (cust_updated c))],
             rs_cookie = None, rs_body = Bytes bytes\<rparr>) })"

definition getApplePass :: "server \<Rightarrow> handler" where
  "getApplePass s rq =
     or_write (loadCustomer (trim_suffix (rq_param rq ''id'') ''.pkpass'')) (\<lambda>c. writePKPass s rq c)"

section \<open>Pages\<close>

definition detectPlatform :: "(rune \<Rightarrow> rune) \<Rightarrow> request \<Rightarrow> string" where
  "detectPlatform tab rq =
    (let p = rq_query rq ''platform''; ua = to_lower tab (rq_agent rq);
         huawei = contains_str ua ''huawei'' \<or> contains_str ua ''honor'' \<or> contains_str ua ''harmony''
     in if p \<noteq> '''' then p
        else if contains_str ua ''iphone'' \<or> contains_str ua ''ipad'' \<or> contains_str ua ''ipod''
        then ''apple''
        else if contains_str ua ''android'' \<and> \<not> huawei then ''google''
        else ''web'')"

definition page :: "string \<Rightarrow> json \<Rightarrow> response" where
  "page tpl d = \<lparr>rs_status = 200, rs_headers = [(''Content-Type'', ''text/html; charset=utf-8'')],
     rs_cookie = None, rs_body = Html tpl d\<rparr>"

definition getPrivacy :: handler where
  "getPrivacy rq = ret (page ''privacy.gohtml'' JNull)"

definition getSupport :: handler where
  "getSupport rq = ret (page ''support.gohtml'' JNull)"

definition getLoyaltyTerms :: "server \<Rightarrow> handler" where
  "getLoyaltyTerms s rq = do {
     m \<leftarrow> SettingsMap;
     let st = (case m of Inr m \<Rightarrow> ParseSettings m | Inl _ \<Rightarrow> DefaultSettings);
     let expire = (case ExpireDays st of Some d \<Rightarrow> if d > 0 then d else 0 | None \<Rightarrow> 0);
     ret (page ''terms.gohtml'' (JObj [(''EarnPercent'', JInt (EarnPercent st)),
       (''RedeemRate'', JInt (RedeemRate st)), (''RedeemMin'', JInt (RedeemMin st)),
       (''RedeemMaxShare'', JInt (RedeemMaxShare st)), (''EarnMinReceipt'', JInt (EarnMinReceipt st)),
       (''ExpireDays'', JInt expire), (''Support'', JStr (SupportContact (Cfg s)))])) }"

definition enroll_page :: "server \<Rightarrow> response" where
  "enroll_page s = page ''enroll.gohtml''
     (JObj [(''TermsURL'', JStr (TermsURL (Cfg s))), (''Support'', JStr (SupportContact (Cfg s)))])"

definition getCardAddLanding :: "server \<Rightarrow> handler" where
  "getCardAddLanding s rq = (case rq_cookie rq of
     Some v \<Rightarrow>
       if v \<noteq> '''' then do {
         r \<leftarrow> GetCustomerByID v;
         ret (case r of
            Inr _ \<Rightarrow> (empty_response 302)\<lparr>rs_headers := [(''Location'', ''/card/add/'' @ v)]\<rparr>
          | Inl _ \<Rightarrow> enroll_page s) }
       else ret (enroll_page s)
   | None \<Rightarrow> ret (enroll_page s))"

record cardPage =
  cp_name :: string
  cp_barcode :: string
  cp_points :: int
  cp_qr :: string
  cp_apple :: string
  cp_google :: string
  cp_platform :: string
  cp_terms :: string
  cp_support :: string
  cp_back :: string
  cp_show_apple :: bool
  cp_show_google :: bool
  cp_show_web :: bool

definition card_page :: "server \<Rightarrow> Customer \<Rightarrow> string \<Rightarrow> string \<Rightarrow> string \<Rightarrow> string \<Rightarrow> cardPage" where
  "card_page s c png back googleURL p =
    (let pg = \<lparr>cp_name = cust_name c, cp_barcode = cust_barcode c, cp_points = cust_points c,
       cp_qr = png, cp_apple = pass_url s c, cp_google = googleURL, cp_platform = p,
       cp_terms = TermsURL (Cfg s), cp_support = SupportContact (Cfg s), cp_back = back,
       cp_show_apple = (p = ''apple''), cp_show_google = (p = ''google''),
       cp_show_web = (p = ''web'' \<or> p = ''google'' \<or> p = ''apple'')\<rparr>
     in if p = ''web'' then pg\<lparr>cp_show_apple := False, cp_show_google := False\<rparr> else pg)"

definition card_data :: "cardPage \<Rightarrow> json" where
  "card_data p = JObj [(''Name'', JStr (cp_name p)), (''Barcode'', JStr (cp_barcode p)),
     (''Points'', JInt (cp_points p)), (''QRDataURI'', JStr (cp_qr p)), (''AppleURL'', JStr (cp_apple p)),
     (''GoogleURL'', JStr (cp_google p)), (''Platform'', JStr (cp_platform p)),
     (''TermsURL'', JStr (cp_terms p)), (''Support'', JStr (cp_support p)),
     (''BackText'', JStr (cp_back p)), (''ShowApple'', JBool (cp_show_apple p)),
     (''ShowGoogle'', JBool (cp_show_google p)), (''ShowWeb'', JBool (cp_show_web p))]"

definition getCardAdd :: "server \<Rightarrow> handler" where
  "getCardAdd s rq = or_write (loadCustomer (rq_param rq ''id'')) (\<lambda>c.
     case s_png s (cust_barcode c) of
       None \<Rightarrow> ret (writeErr (Opaque ''qrcode''))
     | Some png \<Rightarrow> do {
         (st, back) \<leftarrow> programBack s;
         googleURL \<leftarrow> google_link s c back;
         e \<leftarrow> the_env;
         ret (page ''add.gohtml'' (card_data (card_page s c png back googleURL
           (detectPlatform (lower_tab e) rq)))) })"

definition getWalletLogo :: "server \<Rightarrow> handler" where
  "getWalletLogo s rq = ret \<lparr>rs_status = 200, rs_headers = [(''Content-Type'', ''image/png''),
     (''Cache-Control'', ''public, max-age=86400'')], rs_cookie = None, rs_body = Bytes (s_logo s)\<rparr>"

section \<open>The web service of PassKit\<close>

definition appleAuth :: "request \<Rightarrow> string \<Rightarrow> unit go" where
  "appleAuth rq serial =
    (let tok = applePassToken (rq_auth rq) in
     if tok = '''' then fail (Loyalty (Err CodeUnauthorized h_need_pass_token))
     else do {
       r \<leftarrow> GetCustomerByAppleToken tok serial;
       (case r of
          Inr _ \<Rightarrow> ok ()
        | Inl e \<Rightarrow> if IsNoRows e then fail (Loyalty (Err CodeUnauthorized h_bad_pass_token))
                  else fail e) })"

definition decode_push_token :: "request \<Rightarrow> string go" where
  "decode_push_token rq = decodeJSON rq [(''pushToken'', SStr (\<lambda>v _. v))] ''''"

definition appleRegister :: "server \<Rightarrow> handler" where
  "appleRegister s rq =
    (let serial = rq_param rq ''serial''; device = rq_param rq ''deviceLibraryId'' in
     if rq_param rq ''passType'' \<noteq> ApplePassTypeID (Cfg s)
     then ret (writeError 404 CodeCustomerNotFound h_pass_type)
     else or_write (appleAuth rq serial) (\<lambda>_. do {
       b \<leftarrow> decode_push_token rq;
       (case b of
          Inl _ \<Rightarrow> ret (writeError 422 CodeInvalidRequest h_push_token)
        | Inr tok \<Rightarrow>
            if tok = '''' then ret (writeError 422 CodeInvalidRequest h_push_token)
            else or_write (RegisterAppleDevice serial device tok) (\<lambda>_. ret (empty_response 201))) }))"

definition appleUnregister :: handler where
  "appleUnregister rq =
    (let serial = rq_param rq ''serial''; device = rq_param rq ''deviceLibraryId'' in
     or_write (appleAuth rq serial) (\<lambda>_.
     or_write (UnregisterAppleDevice serial device) (\<lambda>_. ret (empty_response 200))))"

definition updated_since :: "string \<Rightarrow> gtime" where
  "updated_since q =
     (if q = '''' then zero_time
      else (case atoi_go q of
         Some n \<Rightarrow> from_unix n
       | None \<Rightarrow> (case parse_rfc3339 q of Some t \<Rightarrow> t | None \<Rightarrow> zero_time)))"

definition appleUpdated :: "server \<Rightarrow> handler" where
  "appleUpdated s rq =
     (if rq_param rq ''passType'' \<noteq> ApplePassTypeID (Cfg s) then ret (empty_response 204)
      else or_write (ListUpdatedSerials (rq_param rq ''deviceLibraryId'')
             (updated_since (rq_query rq ''passesUpdatedSince''))) (\<lambda>(serials, last).
        if length serials = 0 then ret (empty_response 204)
        else ret (writeJSON 200 (JObj [(''lastUpdated'', JStr (itoa (unix last))),
               (''serialNumbers'', JArr (map JStr serials))]))))"

definition appleGetPass :: "server \<Rightarrow> handler" where
  "appleGetPass s rq =
    (let serial = rq_param rq ''serial'' in
     or_write (appleAuth rq serial) (\<lambda>_.
     or_write (GetCustomerByID serial) (\<lambda>c. writePKPass s rq c)))"

text \<open>The log entries of PassKit only go to the server's log.\<close>

definition appleLog :: handler where
  "appleLog rq = ret (empty_response 200)"

end
