(* ===== verification/Server.thy ===== *)
theory Server
  imports HttpPublic
begin

text \<open>
  \<^verbatim>\<open>internal/httpapi/server.go\<close>: the routes with their middleware, and the handler of the whole
  server; \<^verbatim>\<open>cmd/api/main.go\<close>: the first accounts and the composition of the parts.  The router
  is \<^verbatim>\<open>chi\<close>: a parameter matches one non-empty segment of the path, a path without a route
  answers 404, a known path with another method 405.
\<close>

section \<open>Routes\<close>

datatype segment = Lit string | Param string

fun match_segments :: "segment list \<Rightarrow> string list \<Rightarrow> (string \<times> string) list option" where
  "match_segments [] [] = Some []"
| "match_segments (Lit l # ps) (s # ss) = (if l = s then match_segments ps ss else None)"
| "match_segments (Param p # ps) (s # ss) =
     (if s = '''' then None else map_option (\<lambda>m. (p, s) # m) (match_segments ps ss))"
| "match_segments _ _ = None"

type_synonym route = "string \<times> segment list \<times> handler"

definition staff_guard :: "server \<Rightarrow> handler \<Rightarrow> handler" where
  "staff_guard s = requireStaff KindCashier (CashierJWTSecret (Cfg s))"

definition admin_guard :: "server \<Rightarrow> handler \<Rightarrow> handler" where
  "admin_guard s = requireStaff KindAdmin (AdminJWTSecret (Cfg s))"

definition public_routes :: "server \<Rightarrow> route list" where
  "public_routes s = [
     (''GET'', [Lit ''healthz''], \<lambda>_. ret (writeJSON 200 (JObj [(''status'', JStr ''ok'')]))),
     (''POST'', [Lit ''public'', Lit ''enroll''], rateLimit enrollL (postPublicEnroll s)),
     (''GET'', [Lit ''public'', Lit ''passes'', Lit ''apple'', Param ''id''], getApplePass s),
     (''GET'', [Lit ''loyalty-terms''], getLoyaltyTerms s),
     (''GET'', [Lit ''privacy''], getPrivacy),
     (''GET'', [Lit ''support''], getSupport),
     (''GET'', [Lit ''wallet'', Lit ''logo.png''], getWalletLogo s),
     (''GET'', [Lit ''card'', Lit ''add''], getCardAddLanding s),
     (''GET'', [Lit ''card'', Lit ''add'', Param ''id''], getCardAdd s)]"

definition cashier_routes :: "server \<Rightarrow> route list" where
  "cashier_routes s = [
     (''POST'', [Lit ''cashier'', Lit ''login''], postCashierLogin s),
     (''GET'', [Lit ''cashier'', Lit ''app-version''], getAppVersion s),
     (''POST'', [Lit ''cashier'', Lit ''logout''],
        requireStaffAllowRevoked KindCashier (CashierJWTSecret (Cfg s)) postLogout),
     (''POST'', [Lit ''cashier'', Lit ''lookup''], staff_guard s (rateLimit lookupL postLookup)),
     (''POST'', [Lit ''cashier'', Lit ''quote-redeem''], staff_guard s postQuote),
     (''POST'', [Lit ''cashier'', Lit ''commit''], staff_guard s (postCommit s)),
     (''POST'', [Lit ''cashier'', Lit ''refund''], staff_guard s (postRefund s)),
     (''POST'', [Lit ''cashier'', Lit ''enroll''], staff_guard s (postCashierEnroll s)),
     (''GET'', [Lit ''cashier'', Lit ''receipts''], staff_guard s getShiftReceipts),
     (''GET'', [Lit ''cashier'', Lit ''activity''], staff_guard s getCashierActivity)]"

definition admin_routes :: "server \<Rightarrow> route list" where
  "admin_routes s = [
     (''POST'', [Lit ''admin'', Lit ''login''], postAdminLogin s),
     (''POST'', [Lit ''admin'', Lit ''logout''],
        requireStaffAllowRevoked KindAdmin (AdminJWTSecret (Cfg s)) postLogout),
     (''POST'', [Lit ''admin'', Lit ''adjust''], admin_guard s (postAdjust s)),
     (''GET'', [Lit ''admin'', Lit ''staff''], admin_guard s listStaff),
     (''POST'', [Lit ''admin'', Lit ''staff''], admin_guard s createStaff),
     (''PATCH'', [Lit ''admin'', Lit ''staff'', Param ''id''], admin_guard s patchStaff),
     (''DELETE'', [Lit ''admin'', Lit ''staff'', Param ''id''], admin_guard s deleteStaff),
     (''GET'', [Lit ''admin'', Lit ''stores''], admin_guard s listStores),
     (''POST'', [Lit ''admin'', Lit ''stores''], admin_guard s createStore),
     (''PATCH'', [Lit ''admin'', Lit ''stores'', Param ''id''], admin_guard s patchStore),
     (''DELETE'', [Lit ''admin'', Lit ''stores'', Param ''id''], admin_guard s deleteStore),
     (''GET'', [Lit ''admin'', Lit ''loyalty-settings''], admin_guard s getSettings),
     (''PUT'', [Lit ''admin'', Lit ''loyalty-settings''], admin_guard s putSettings),
     (''GET'', [Lit ''admin'', Lit ''customers''], admin_guard s listCustomers),
     (''DELETE'', [Lit ''admin'', Lit ''customers'', Param ''id''], admin_guard s deleteCustomer),
     (''POST'', [Lit ''admin'', Lit ''customers'', Param ''id'', Lit ''restore''],
        admin_guard s restoreCustomer),
     (''POST'', [Lit ''admin'', Lit ''customers'', Param ''id'', Lit ''block''],
        admin_guard s blockCustomer),
     (''POST'', [Lit ''admin'', Lit ''customers'', Param ''id'', Lit ''unblock''],
        admin_guard s unblockCustomer),
     (''GET'', [Lit ''admin'', Lit ''activity''], admin_guard s getAdminActivity)]"

definition registration :: "segment list" where
  "registration = [Lit ''passes'', Lit ''v1'', Lit ''devices'', Param ''deviceLibraryId'',
     Lit ''registrations'', Param ''passType'']"

definition pass_routes :: "server \<Rightarrow> route list" where
  "pass_routes s = [
     (''POST'', registration @ [Param ''serial''], appleRegister s),
     (''DELETE'', registration @ [Param ''serial''], appleUnregister),
     (''GET'', registration, appleUpdated s),
     (''GET'', [Lit ''passes'', Lit ''v1'', Lit ''passes'', Param ''passType'', Param ''serial''],
        appleGetPass s),
     (''POST'', [Lit ''passes'', Lit ''v1'', Lit ''log''], appleLog)]"

definition routes :: "server \<Rightarrow> route list" where
  "routes s = public_routes s @ cashier_routes s @ admin_routes s @ pass_routes s"

definition path_segments :: "string \<Rightarrow> string list option" where
  "path_segments p = (case split_on (CHR ''/'') p of
     first # segs \<Rightarrow> if first = '''' then Some segs else None | [] \<Rightarrow> None)"

definition matching :: "string list \<Rightarrow> route list \<Rightarrow> (string \<times> (string \<times> string) list \<times> handler) list" where
  "matching segs rts = List.map_filter
     (\<lambda>(m, pat, h). map_option (\<lambda>ps. (m, ps, h)) (match_segments pat segs)) rts"

definition plain :: "nat \<Rightarrow> string \<Rightarrow> response" where
  "plain n t = (empty_response n)\<lparr>rs_body := Bytes t\<rparr>"

definition router :: "server \<Rightarrow> handler" where
  "router s rq = (case path_segments (rq_path rq) of
     None \<Rightarrow> ret (plain 404 ''404 page not found'')
   | Some segs \<Rightarrow>
       let ms = matching segs (routes s) in
       (case find (\<lambda>(m, _). m = rq_method rq) ms of
          Some (_, ps, h) \<Rightarrow> h (rq\<lparr>rq_param := \<lambda>k. case map_of ps k of Some v \<Rightarrow> v | None \<Rightarrow> ''''\<rparr>)
        | None \<Rightarrow> if ms = [] then ret (plain 404 ''404 page not found'') else ret (plain 405 '''')))"

text \<open>The whole server.  A request arrives without the values of the context.\<close>

definition Handler :: "server \<Rightarrow> handler" where
  "Handler s rq = requestLog (cors (CORSList (Cfg s)) (hsts (router s)))
     (rq\<lparr>ctx_staff := None, ctx_claims := None\<rparr>)"

section \<open>main.go\<close>

definition bootstrap_staff :: "string \<Rightarrow> string \<Rightarrow> string \<Rightarrow> string \<Rightarrow> unit go" where
  "bootstrap_staff lg name hash role = do {
     sid \<leftarrow> NewID;
     t \<leftarrow> now;
     CreateStaff \<lparr>staff_id = sid, staff_store = DefaultStoreID, staff_login = lg,
       staff_name = name, staff_password_hash = hash, staff_pin_hash = '''', staff_role = role,
       staff_active = True, staff_created = t, staff_deleted = None, staff_store_name = ''''\<rparr> }"

definition bootstrap_cashier :: "Config \<Rightarrow> unit go" where
  "bootstrap_cashier cfg =
     (if CashierBootstrapLogin cfg \<noteq> '''' \<and> CashierBootstrapPassword cfg \<noteq> ''''
      then do {
        r \<leftarrow> GetStaffByLogin (CashierBootstrapLogin cfg);
        (case r of
           Inr _ \<Rightarrow> ok ()
         | Inl e \<Rightarrow>
             if IsNoRows e
             then or_return (HashSecret (CashierBootstrapPassword cfg)) (\<lambda>ch.
               bootstrap_staff (CashierBootstrapLogin cfg) (CashierBootstrapName cfg) ch RoleCashier)
             else fail e) }
      else ok ())"

definition bootstrap :: "Config \<Rightarrow> unit go" where
  "bootstrap cfg =
     (if AdminBootstrapLogin cfg = '''' \<or> AdminBootstrapPassword cfg = '''' then ok ()
      else do {
        r \<leftarrow> GetStaffByLogin (AdminBootstrapLogin cfg);
        (case r of
           Inr _ \<Rightarrow> ok ()
         | Inl e \<Rightarrow>
             if \<not> IsNoRows e then fail e
             else or_return (HashSecret (AdminBootstrapPassword cfg)) (\<lambda>hash.
               or_return (bootstrap_staff (AdminBootstrapLogin cfg) (AdminBootstrapName cfg) hash
                 RoleAdmin) (\<lambda>_. bootstrap_cashier cfg))) })"

text \<open>The parts as \<^verbatim>\<open>main\<close> puts them together: the service enqueues into the outbox, the worker
  drains it with the wallet providers.\<close>

definition new_server ::
  "Config \<Rightarrow> apple_client \<Rightarrow> google_client \<Rightarrow> (string \<Rightarrow> string option) \<Rightarrow> string \<Rightarrow> server" where
  "new_server cfg a g png logo = \<lparr>Cfg = cfg, Loy = the_service (GoogleIssuerID cfg),
     AppleC = Some a, GoogleC = Some g, s_png = png, s_logo = logo\<rparr>"

definition worker :: "apple_client \<Rightarrow> google_client \<Rightarrow> queue_event list \<Rightarrow> unit act" where
  "worker a g = Run (Some (the_updater a g))"

end
