(* ===== verification/System.thy ===== *)
theory System
  imports Balances Server
begin

text \<open>
  The whole program as a transition system: requests, runs of the worker and starts of the
  process, one after the other, in surroundings that change freely between them.  The locale
  \<open>server_invariant\<close> is the interface between an invariant and the statements of the store;
  its lemmas carry any such invariant through every handler.  It is interpreted for the
  well-formedness of the database and for the coalescing of wallet jobs.
\<close>

section \<open>Preservation through handlers\<close>

lemma keeps_or_write [keep]: "\<lbrakk>keeps I m; \<And>x. keeps I (k x)\<rbrakk> \<Longrightarrow> keeps I (or_write m k)"
  unfolding or_write_def by (intro keep)

lemma keeps_or_missing [keep]: "\<lbrakk>keeps I m; \<And>x. keeps I (k x)\<rbrakk> \<Longrightarrow> keeps I (or_missing m r k)"
  unfolding or_missing_def by (intro keep)

lemma keeps_decodeJSON [keep]: "keeps I (decodeJSON rq slots z)" "keeps I (decodeJSON_map rq)"
  by (simp_all add: decodeJSON_def decodeJSON_map_def keep split: option.splits)

lemma keeps_decoders [keep]:
  "keeps I (decode_barcode rq)" "keeps I (decode_receipt rq)" "keeps I (decode_store rq)"
  "keeps I (decode_enroll rq)" "keeps I (decode_push_token rq)"
  unfolding decode_barcode_def decode_receipt_def decode_store_def decode_enroll_def
    decode_push_token_def by (intro keep)+

lemma keeps_HashSecret [keep]: "keeps I (HashSecret p)"
  by (simp add: keeps_def run)

lemma keeps_tokens [keep]: "keeps I NewJTI" "keeps I (Sign a b c d e f g h)" "keeps I (Parse a b)"
  by (simp_all add: keeps_def run Let_def)

lemma keeps_store_reads [keep]:
  "keeps I (GetStaffByLogin l)" "keeps I (GetStaffByID i)" "keeps I ListStaff" "keeps I ListStores"
  "keeps I (GetStore i)" "keeps I (SessionValid j)" "keeps I (SearchCustomers q st n)"
  "keeps I SettingsMap" "keeps I (ListActivity al si so n)" "keeps I (ListStoreReceipts si t0 t1)"
  "keeps I (ListUpdatedSerials dv t)"
  unfolding GetStaffByLogin_def GetStaffByID_def ListStaff_def ListStores_def GetStore_def
    SessionValid_def SearchCustomers_def SettingsMap_def ListActivity_def ListStoreReceipts_def
    ListUpdatedSerials_def
  by (intro keep)+

lemma keeps_services [keep]:
  "keeps I (Lookup code)" "keeps I (Quote_op code a p)" "keeps I (SaveURL g c b)"
  "keeps I (BuildPKPass ap c n b)"
  by (intro keeps_reads reads_Lookup reads_Quote_op reads_SaveURL reads_BuildPKPass)+

lemma keeps_loadCustomer [keep]: "keeps I (loadCustomer ref)" "keeps I (appleAuth rq serial)"
  unfolding loadCustomer_def appleAuth_def by (intro keep)+

lemma keeps_pages [keep]:
  "keeps I (programBack s)" "keeps I (google_link s c b)" "keeps I (writePKPass s rq c)"
  "keeps I (staffJSON st)"
proof -
  show 1: "keeps I (programBack s)" unfolding programBack_def by (intro keep)
  show "keeps I (google_link s c b)" unfolding google_link_def by (intro keep)
  show "keeps I (writePKPass s rq c)" unfolding writePKPass_def by (intro keep 1)
  show "keeps I (staffJSON st)" unfolding staffJSON_def by (intro keep)
qed

lemma keeps_staff_list [keep]: "keeps I (staff_list_JSON sts)"
  by (induction sts) (auto intro!: keep)

lemma keeps_allow [keep]: "keeps I (allow l ip)"
  by (simp add: keeps_def allow_def Let_def)

lemma keeps_randomID [keep]: "keeps I randomID"
  unfolding randomID_def by (intro keep)

section \<open>Invariants of the server\<close>

text \<open>The routes that move points.\<close>

definition money_routes :: "(string \<times> segment list) list" where
  "money_routes = [(''POST'', [Lit ''cashier'', Lit ''commit'']), (''POST'', [Lit ''cashier'', Lit ''refund'']),
     (''POST'', [Lit ''admin'', Lit ''adjust''])]"

text \<open>First the statements that move no points: the locale \<open>statement_invariant\<close>.\<close>

locale statement_invariant =
  fixes I :: "database \<Rightarrow> bool"
  assumes stmt_customer: "stmt_keeps I (insert_customer c)"
    and stmt_block: "stmt_keeps I (update_customer i (\<lambda>c. c\<lparr>cust_blocked := b, cust_updated := t\<rparr>))"
    and stmt_delete: "stmt_keeps I (update_customer i (\<lambda>c. c\<lparr>cust_deleted := x, cust_updated := t\<rparr>))"
    and stmt_setting: "stmt_keeps I (upsert_setting k v)"
    and stmt_staff: "stmt_keeps I (soft_delete_staff i t)" "stmt_keeps I (insert_staff st)"
      "stmt_keeps I (update_staff st)"
    and stmt_store: "stmt_keeps I (insert_store r)" "stmt_keeps I (update_store r)"
      "stmt_keeps I (delete_store i)"
    and stmt_session: "stmt_keeps I (insert_session se)" "stmt_keeps I (revoke_where p)"
    and stmt_device: "stmt_keeps I (upsert_device dv)" "stmt_keeps I (delete_device i lb)"
    and stmt_activity: "stmt_keeps I (insert_activity a)"
    and keeps_drain: "keeps I (drain (Some (the_updater ap go)))"
begin

lemmas stmts = stmt_customer stmt_block stmt_delete stmt_setting stmt_staff stmt_store stmt_session
  stmt_device stmt_activity

lemma keeps_recordActivity: "keeps I (recordActivity actor sid kind title detail)"
  unfolding recordActivity_def InsertActivity_def by (intro keep stmts)

lemma keeps_put_settings_loop: "keeps I (put_settings_loop kv)"
  by (induction kv) (auto intro!: keep stmts)

lemma keeps_writes:
  "keeps I (CreateCustomer c)" "keeps I (SetCustomerBlocked i b)" "keeps I (SetCustomerDeleted i b)"
  "keeps I (PutSettings kv)" "keeps I (SoftDeleteStaff i t)" "keeps I (CreateStaff st)"
  "keeps I (UpdateStaff st)" "keeps I (CreateStore r)" "keeps I (UpdateStore r)" "keeps I (DeleteStore i)"
  "keeps I (CreateSession j i k t)" "keeps I (RevokeSession j)" "keeps I (RevokeStaffSessions i)"
  "keeps I (RegisterAppleDevice i lb tok)" "keeps I (UnregisterAppleDevice i lb)"
  unfolding CreateCustomer_def SetCustomerBlocked_def SetCustomerDeleted_def PutSettings_def
    SoftDeleteStaff_def CreateStaff_def UpdateStaff_def CreateStore_def UpdateStore_def DeleteStore_def
    CreateSession_def RevokeSession_def RevokeStaffSessions_def RegisterAppleDevice_def
    UnregisterAppleDevice_def Let_def
  by (intro keep keeps_put_settings_loop stmts)+

lemma keeps_Enroll_any: "keeps I (Enroll sv inp)"
proof -
  have "keeps I (enroll_create sv n p g)" for n p g
    unfolding enroll_create_def Let_def by (intro keep keeps_New keeps_RandomToken keeps_writes)
  then show ?thesis
    unfolding Enroll_def enroll_new_def enroll_found_def Let_def by (intro keep)
qed

lemmas keeps_parts = keep keeps_writes keeps_recordActivity keeps_Enroll_any

text \<open>Every handler.\<close>

lemma keeps_cashier:
  "keeps I (login s kind secret adm rq)" "keeps I (postLogout rq)" "keeps I (getAppVersion s rq)"
  "keeps I (postLookup rq)" "keeps I (postQuote rq)" "keeps I (getShiftReceipts rq)"
  "keeps I (getCashierActivity rq)" "keeps I (getAdminActivity rq)"
proof -
  have "keeps I (login_granted s kind secret st)" for st
    unfolding login_granted_def Let_def by (intro keeps_parts)
  then show "keeps I (login s kind secret adm rq)" unfolding login_def Let_def by (intro keeps_parts)
  show "keeps I (postLogout rq)" "keeps I (getAppVersion s rq)" "keeps I (postLookup rq)"
    "keeps I (postQuote rq)" "keeps I (getShiftReceipts rq)" "keeps I (getCashierActivity rq)"
    "keeps I (getAdminActivity rq)"
    unfolding postLogout_def getAppVersion_def postLookup_def postQuote_def getShiftReceipts_def
      getCashierActivity_def getAdminActivity_def writeActivity_def Let_def
    by (intro keeps_parts)+
qed

lemma keeps_enroll:
  "keeps I (enroll s req b rq)" "keeps I (postPublicEnroll s rq)" "keeps I (postCashierEnroll s rq)"
proof -
  show 1: "keeps I (enroll s req b rq)" for req b rq
    unfolding enroll_def Let_def by (intro keeps_parts)
  show "keeps I (postPublicEnroll s rq)" "keeps I (postCashierEnroll s rq)"
    unfolding postPublicEnroll_def postCashierEnroll_def by (intro keeps_parts 1)+
qed

lemma keeps_admin:
  "keeps I (listStaff rq)" "keeps I (createStaff rq)" "keeps I (patchStaff rq)"
  "keeps I (deleteStaff rq)" "keeps I (listStores rq)" "keeps I (createStore rq)"
  "keeps I (patchStore rq)" "keeps I (deleteStore rq)" "keeps I (getSettings rq)"
  "keeps I (putSettings rq)" "keeps I (listCustomers rq)" "keeps I (setCustomerDeleted b rq)"
  "keeps I (setBlocked b rq)"
proof -
  have c: "keeps I (create_staff_row rq req ph pin)" for req ph pin
    unfolding create_staff_row_def Let_def by (intro keeps_parts)
  have p: "keeps I (patch_store req st k)" "keeps I (patch_secrets req st k)"
    if "\<And>x. keeps I (k x)" for req st k
    unfolding patch_store_def patch_secrets_def Let_def by (intro keeps_parts that)+
  have a: "keeps I (patch_active req st)" for req st
    unfolding patch_active_def Let_def by (intro keeps_parts)
  show "keeps I (patchStaff rq)" unfolding patchStaff_def Let_def by (intro keeps_parts p a)
  show "keeps I (createStaff rq)" unfolding createStaff_def Let_def by (intro keeps_parts c)
  show "keeps I (listStaff rq)" "keeps I (deleteStaff rq)" "keeps I (listStores rq)"
    "keeps I (createStore rq)" "keeps I (patchStore rq)" "keeps I (deleteStore rq)"
    "keeps I (listCustomers rq)" "keeps I (setCustomerDeleted b rq)" "keeps I (setBlocked b rq)"
    unfolding listStaff_def deleteStaff_def listStores_def createStore_def patchStore_def
      deleteStore_def listCustomers_def setCustomerDeleted_def setBlocked_def Let_def
    by (intro keeps_parts)+
  show g: "keeps I (getSettings rq)" unfolding getSettings_def by (intro keeps_parts)
  show "keeps I (putSettings rq)" unfolding putSettings_def by (intro keeps_parts g)
qed

lemma keeps_public:
  "keeps I (getApplePass s rq)" "keeps I (getLoyaltyTerms s rq)" "keeps I (getCardAddLanding s rq)"
  "keeps I (getCardAdd s rq)" "keeps I (getPrivacy rq)" "keeps I (getSupport rq)"
  "keeps I (getWalletLogo s rq)" "keeps I (appleRegister s rq)" "keeps I (appleUnregister rq)"
  "keeps I (appleUpdated s rq)" "keeps I (appleGetPass s rq)" "keeps I (appleLog rq)"
  unfolding getApplePass_def getLoyaltyTerms_def getCardAddLanding_def getCardAdd_def getPrivacy_def
    getSupport_def getWalletLogo_def appleRegister_def appleUnregister_def appleUpdated_def
    appleGetPass_def appleLog_def Let_def
  by (intro keeps_parts)+

text \<open>The middleware and the router.\<close>

lemma keeps_middleware:
  assumes "\<And>rq. keeps I (h rq)"
  shows "keeps I (authenticateStaff kind secret rv h rq)" "keeps I (rateLimit l h rq)"
    "keeps I (cors os h rq)" "keeps I (hsts h rq)" "keeps I (requestLog h rq)"
  unfolding authenticateStaff_def rateLimit_def cors_def hsts_def requestLog_def Let_def
  by (intro keeps_parts assms)+

text \<open>The routes that move points are not among the others.\<close>

lemma keeps_other_routes:
  assumes "(m, pat, h) \<in> set (routes s)" "(m, pat) \<notin> set money_routes"
  shows "keeps I (h rq)"
  using assms
  unfolding routes_def public_routes_def cashier_routes_def admin_routes_def pass_routes_def
  by (auto simp: staff_guard_def admin_guard_def requireStaff_def requireStaffAllowRevoked_def
      postCashierLogin_def postAdminLogin_def deleteCustomer_def restoreCustomer_def money_routes_def
      blockCustomer_def unblockCustomer_def
      intro!: keeps_middleware keeps_cashier keeps_enroll keeps_admin keeps_public keep)

lemma keeps_worker: "keeps I (worker a g es)"
  unfolding keeps_def
proof (intro allI impI)
  fix w :: world assume "I (db w)"
  then show "I (db (snd (run_state (worker a g es) w)))"
    unfolding worker_def the_updater_def
    by (intro wallet.Run_keeps [of "\<lambda>v. I (db v)"])
      (auto intro: keepsD [OF keeps_drain, unfolded the_updater_def])
qed

lemma keeps_bootstrap: "keeps I (bootstrap cfg)"
proof -
  have b: "keeps I (bootstrap_staff l n h r)" for l n h r
    unfolding bootstrap_staff_def by (intro keeps_parts)
  have "keeps I (bootstrap_cashier cfg)" unfolding bootstrap_cashier_def by (intro keeps_parts b)
  then show ?thesis unfolding bootstrap_def by (intro keeps_parts b)
qed

end

text \<open>Then, with the money operations, the whole server.\<close>

locale server_invariant = statement_invariant +
  assumes keeps_money: "keeps I (Commit (the_service i) inp)" "keeps I (Refund (the_service i) rid actor)"
      "keeps I (Adjust (the_service i) ref delta reason actor)"
begin

lemma keeps_money_handlers:
  assumes "Loy s = the_service i"
  shows "keeps I (postCommit s rq)" "keeps I (postRefund s rq)" "keeps I (postAdjust s rq)"
  unfolding postCommit_def postRefund_def postAdjust_def Let_def assms
  by (intro keeps_parts keeps_money)+

lemma keeps_routes:
  assumes "Loy s = the_service i" "(m, pat, h) \<in> set (routes s)"
  shows "keeps I (h rq)"
proof (cases "(m, pat) \<in> set money_routes")
  case True
  with assms(2) show ?thesis
    unfolding routes_def public_routes_def cashier_routes_def admin_routes_def pass_routes_def
    by (auto simp: staff_guard_def admin_guard_def requireStaff_def money_routes_def registration_def
        intro!: keeps_middleware keeps_money_handlers [OF assms(1)])
qed (rule keeps_other_routes [OF assms(2)])

lemma keeps_router:
  assumes "Loy s = the_service i"
  shows "keeps I (router s rq)"
proof (cases "path_segments (rq_path rq)")
  case (Some segs)
  let ?ms = "matching segs (routes s)"
  have "keeps I (h rq')" if "find (\<lambda>(m, _). m = rq_method rq) ?ms = Some (m, ps, h)" for m ps h rq'
  proof -
    have "(m, ps, h) \<in> set ?ms" using that by (auto simp: find_Some_iff) (metis nth_mem)
    then obtain pat where "(m, pat, h) \<in> set (routes s)"
      by (auto simp: matching_def List.map_filter_def split: prod.splits)
    then show ?thesis by (rule keeps_routes [OF assms])
  qed
  then show ?thesis by (auto simp: router_def Some Let_def keeps_ret split: option.splits)
qed (simp add: router_def keeps_ret)

lemma keeps_Handler: "Loy s = the_service i \<Longrightarrow> keeps I (Handler s rq)"
  unfolding Handler_def by (intro keeps_middleware keeps_router)

end

section \<open>The invariants\<close>

interpretation tables: server_invariant wf_db
proof
  show "keeps wf_db (drain (Some (the_updater ap go)))" for ap go
    using wallet.drain_outbox [of ap go]
    by (auto simp: keeps_def the_updater_def dest: wf_cong_sans_jobs)
qed (auto intro: stmt outbox.keeps_Commit outbox.keeps_Refund outbox.keeps_Adjust Jobs_the_service)

text \<open>The other statements leave the outbox alone.\<close>

lemma one_pending_cong: "wallet_jobs d' = wallet_jobs d \<Longrightarrow> one_pending d' = one_pending d"
  by (simp add: one_pending_def)

lemma stmt_one_pending:
  "(\<And>drv d n d'. f drv d = Some (n, d') \<Longrightarrow> wallet_jobs d' = wallet_jobs d) \<Longrightarrow> stmt_keeps one_pending f"
  by (rule stmt_keepsI) (blast dest: one_pending_cong [THEN iffD2])

lemmas other_tables = insert_customer_def update_customer_def upsert_setting_def soft_delete_staff_def
  insert_staff_def update_staff_def insert_store_def update_store_def delete_store_def
  insert_session_def revoke_where_def upsert_device_def delete_device_def insert_activity_def
  insert_receipt_def mark_refunded_def set_points_def insert_ledger_def

text \<open>The money operations keep what their statements and the queue keep.\<close>

lemma keeps_money_statements:
  assumes s: "\<And>r. stmt_keeps I (insert_receipt r)" "\<And>rid p t. stmt_keeps I (mark_refunded rid p t)"
      "\<And>c p t. stmt_keeps I (set_points c p t)" "\<And>l. stmt_keeps I (insert_ledger l)"
    and e: "\<And>c. keeps I (Enqueue c)"
  shows "keeps I (Commit (the_service i) inp)" "keeps I (Refund (the_service i) rid actor)"
    "keeps I (Adjust (the_service i) ref delta reason actor)"
proof -
  have t: "keeps I (InsertReceipt r)" "keeps I (MarkRefunded rid p t)"
    "keeps I (SetPoints c p t)" "keeps I (InsertLedger c rid dl rs ac t)"
    "keeps I (LockCustomer c)" "keeps I (GetReceipt rid)" for r rid p t c dl rs ac
    unfolding InsertReceipt_def MarkRefunded_def SetPoints_def InsertLedger_def LockCustomer_def
      lockCustomer_def GetReceipt_def Let_def
    by (intro keep s)+
  have q: "keeps I (enqueue (the_service i) c)" for c
    by (simp add: enqueue_def e)
  note r = keeps_reads [OF reads_resolveCustomer] keeps_reads [OF reads_get_settings]
  show "keeps I (Commit (the_service i) inp)"
    unfolding Commit_def commit_tx_def commit_new_def commit_replay_def Let_def
    by (intro keep t q r)
  show "keeps I (Refund (the_service i) rid actor)"
    unfolding Refund_def refund_tx_def refund_receipt_def refund_earned_def refund_redeemed_def Let_def
    by (intro keep t q r)
  show "keeps I (Adjust (the_service i) ref delta reason actor)"
    unfolding Adjust_def adjust_tx_def Let_def by (intro keep t q r)
qed

lemma one_pending_money:
  "keeps one_pending (Commit (the_service i) inp)" "keeps one_pending (Refund (the_service i) rid actor)"
  "keeps one_pending (Adjust (the_service i) ref delta reason actor)"
  by (intro keeps_money_statements stmt_one_pending Enqueue_one_pending;
      auto simp: other_tables split: if_splits)+

interpretation coalescing: server_invariant one_pending
proof
  show "keeps one_pending (drain (Some (the_updater ap go)))" for ap go
    using wallet.drain_one_pending [of ap go] by (simp add: the_updater_def)
qed (auto intro!: stmt_one_pending one_pending_money simp: other_tables split: if_splits)

section \<open>Invariants of the accounts\<close>

text \<open>An invariant of the tables \<open>staff\<close> and \<open>staff_sessions\<close> only has to hold under the
  statements on these two.\<close>

locale account_invariant =
  fixes P :: "Staff list \<Rightarrow> Session list \<Rightarrow> bool"
  assumes accounts: "stmt_keeps (\<lambda>d. P (staff d) (sessions d)) (soft_delete_staff i t)"
    "stmt_keeps (\<lambda>d. P (staff d) (sessions d)) (insert_staff st)"
    "stmt_keeps (\<lambda>d. P (staff d) (sessions d)) (update_staff st)"
    "stmt_keeps (\<lambda>d. P (staff d) (sessions d)) (insert_session se)"
    "stmt_keeps (\<lambda>d. P (staff d) (sessions d)) (revoke_where p)"
begin

lemma other_statement:
  "(\<And>drv d n d'. f drv d = Some (n, d') \<Longrightarrow> staff d' = staff d \<and> sessions d' = sessions d)
     \<Longrightarrow> stmt_keeps (\<lambda>d. P (staff d) (sessions d)) f"
  by (rule stmt_keepsI) metis

lemma outbox_only:
  "(\<And>w. sans_jobs (db (snd (run_state m w))) = sans_jobs (db w))
     \<Longrightarrow> keeps (\<lambda>d. P (staff d) (sessions d)) m"
proof -
  assume a: "\<And>w. sans_jobs (db (snd (run_state m w))) = sans_jobs (db w)"
  have "staff (db (snd (run_state m w))) = staff (db w)" "sessions (db (snd (run_state m w))) = sessions (db w)"
    for w using arg_cong [OF a [of w], of staff] arg_cong [OF a [of w], of sessions]
    by (simp_all add: sans_jobs_def)
  then show ?thesis by (simp add: keeps_def)
qed

end

sublocale account_invariant \<subseteq> server_invariant "\<lambda>d. P (staff d) (sessions d)"
proof
  show "keeps (\<lambda>d. P (staff d) (sessions d)) (drain (Some (the_updater ap go)))" for ap go
    unfolding the_updater_def by (intro outbox_only wallet.drain_outbox)
next
  show "keeps (\<lambda>d. P (staff d) (sessions d)) (Commit (the_service i) inp)"
    "keeps (\<lambda>d. P (staff d) (sessions d)) (Refund (the_service i) rid actor)"
    "keeps (\<lambda>d. P (staff d) (sessions d)) (Adjust (the_service i) ref delta reason actor)"
    for i inp rid actor ref delta reason
    by (intro keeps_money_statements other_statement outbox_only outbox.only_outbox;
        auto simp: other_tables split: if_splits)+
qed (intro accounts other_statement; auto simp: other_tables split: if_splits)+

section \<open>Runs of the system\<close>

text \<open>One step: a start of the process (its bootstrap), a request, a run of the worker, or a
  change of the surroundings (clock, fates of statements, remote servers) and of the volatile
  state, which a restart of the process loses.\<close>

inductive step :: "server \<Rightarrow> world \<Rightarrow> world \<Rightarrow> bool" for s where
  boot: "step s w (snd (run_state (bootstrap (Cfg s)) w))"
| request: "step s w (snd (run_state (Handler s rq) w))"
| work: "AppleC s = Some a \<Longrightarrow> GoogleC s = Some g \<Longrightarrow> step s w (snd (run_state (worker a g es) w))"
| surroundings: "db w' = db w \<Longrightarrow> step s w w'"

inductive reachable :: "server \<Rightarrow> world \<Rightarrow> bool" for s where
  migrated: "db w = initial_db t \<Longrightarrow> reachable s w"
| continue: "reachable s w \<Longrightarrow> step s w w' \<Longrightarrow> reachable s w'"

context server_invariant
begin

lemma step_keeps: "step s w w' \<Longrightarrow> Loy s = the_service i \<Longrightarrow> I (db w) \<Longrightarrow> I (db w')"
  by (induction rule: step.induct)
    (auto intro: keepsD keeps_bootstrap keeps_Handler keeps_worker)

lemma later_keeps:
  "(step s)\<^sup>*\<^sup>* w w' \<Longrightarrow> Loy s = the_service i \<Longrightarrow> I (db w) \<Longrightarrow> I (db w')"
  by (induction rule: rtranclp_induct) (auto intro: step_keeps)

lemma reachable_keeps:
  "reachable s w \<Longrightarrow> Loy s = the_service i \<Longrightarrow> (\<And>t. I (initial_db t)) \<Longrightarrow> I (db w)"
  by (induction rule: reachable.induct) (auto intro: step_keeps)

end

lemma new_server_sel [simp]:
  "Loy (new_server cfg a g png logo) = the_service (GoogleIssuerID cfg)"
  "Cfg (new_server cfg a g png logo) = cfg"
  "AppleC (new_server cfg a g png logo) = Some a" "GoogleC (new_server cfg a g png logo) = Some g"
  by (simp_all add: new_server_def)

section \<open>Properties\<close>

text \<open>C2: In every state the program can reach from a migrated database, by requests of any kind
  and in any order, runs of the worker, restarts, failing or lost statements and transactions, and
  any answers of remote servers: the unique keys hold, no row refers to a missing row, every
  balance is the sum of its ledger entries (at the width of Go's \<^verbatim>\<open>int\<close>), and exactly the refunded
  receipts carry a balance after refund.\<close>

theorem reachable_well_formed:
  assumes "reachable (new_server cfg a g png logo) w"
  shows "wf_db (db w)"
  using assms by (rule tables.reachable_keeps) (simp_all add: wf_initial)

definition sample_config :: Config where
  "sample_config = default_config\<lparr>AdminJWTSecret := ''admin-key'', CashierJWTSecret := ''till-key''\<rparr>"

definition sample_apple :: apple_client where
  "sample_apple = \<lparr>ap_cfg = sample_config, ap_signer = StubSigner, ap_pusher = APNsPusher True,
     ap_on = True, ap_libs = \<lparr>ap_sign = (\<lambda>_ _ _. Some ''t''), ap_image = (\<lambda>n. Some n),
       ap_sha1 = (\<lambda>_. [0]), ap_marshal = (\<lambda>_. ''{}''), ap_zip = (\<lambda>_ _. Some ''PK'')\<rparr>\<rparr>"

definition sample_google :: google_client where
  "sample_google = \<lparr>gg_cfg = sample_config, gg_on = True, gg_sa = True, gg_file = None,
     gg_token = (\<lambda>_. Some ''g''), gg_sign = (\<lambda>_ _ _ _. None)\<rparr>"

definition sample_server :: server where
  "sample_server = new_server sample_config sample_apple sample_google (\<lambda>_. None) ''''"

definition empty_request :: request where
  "empty_request = \<lparr>rq_method = ''GET'', rq_path = ''/'', rq_auth = '''', rq_origin = '''',
     rq_proto = '''', rq_tls = False, rq_ims = '''', rq_agent = '''', rq_remote = ''10.0.0.1:5000'',
     rq_cookie = None, rq_query = (\<lambda>_. ''''), rq_param = (\<lambda>_. ''''), rq_body = None,
     ctx_staff = None, ctx_claims = None\<rparr>"

theorem reachable_well_formed_witness:
  "wf_db (db (snd (run_state (Handler sample_server (empty_request\<lparr>rq_method := ''POST'',
     rq_path := ''/public/enroll''\<rparr>)) (world_of (initial_db zero_time)))))"
  unfolding sample_server_def
  by (rule reachable_well_formed, rule continue [OF migrated request]) (rule world_of_sel(3))

text \<open>C30: Wallet jobs are coalesced: in every state reached by requests one after the other, runs
  of the worker and restarts, under any failures, a customer has at most one open job.\<close>

theorem reachable_one_pending:
  assumes "reachable (new_server cfg a g png logo) w"
  shows "length (pending_for c (wallet_jobs (db w))) \<le> 1"
proof -
  have "one_pending (initial_db t)" for t by (simp add: one_pending_def pending_for_def initial_db_def)
  then have "one_pending (db w)" by (intro coalescing.reachable_keeps [OF assms]) simp_all
  then show ?thesis by (simp add: one_pending_def)
qed

theorem reachable_one_pending_witness:
  "length (pending_for ''c1'' (wallet_jobs (db (snd (run_state (bootstrap sample_config)
     (world_of (initial_db zero_time))))))) \<le> 1"
proof -
  have "reachable sample_server (snd (run_state (bootstrap sample_config) (world_of (initial_db zero_time))))"
    using continue [OF migrated boot, of "world_of (initial_db zero_time)" zero_time sample_server]
    by (simp add: sample_server_def)
  then show ?thesis unfolding sample_server_def by (rule reachable_one_pending)
qed

end
