(* ===== verification/AuthProps.thy ===== *)
theory AuthProps
  imports System
begin

text \<open>
  Who may do what: the guard in front of the staff routes, the areas it protects, and what a
  logout or the removal of a staff member means for every later request.
\<close>

section \<open>The guard\<close>

text \<open>What an admitted request has shown: a token of the right kind, signed with the secret, for a
  staff member who is active and not removed, with a session that is not revoked and not over.\<close>

definition admitted :: "string \<Rightarrow> string \<Rightarrow> request \<Rightarrow> world \<Rightarrow> Claims \<Rightarrow> Staff \<Rightarrow> bool" where
  "admitted kind secret rq w c st \<longleftrightarrow>
     (\<exists>t. jwt_parse (env w) t (key_func secret) (bearer_token (rq_auth rq)) = Some c)
     \<and> bearer_token (rq_auth rq) \<noteq> '''' \<and> clm_kind c = kind
     \<and> row_by staff_id (clm_subject c) (staff (db w)) = Some st
     \<and> staff_active st \<and> staff_deleted st = None
     \<and> (\<exists>se t. row_by ses_jti (clm_id c) (sessions (db w)) = Some se
          \<and> \<not> ses_revoked se \<and> t < ses_expires se \<and> (\<exists>n. t = now_at (env w) n))"

lemma SessionValid_Inr:
  assumes "run_state (SessionValid jti) w = (Inr True, w1)"
  shows "db w1 = db w \<and> env w1 = env w \<and> (\<exists>se t. row_by ses_jti jti (sessions (db w)) = Some se
    \<and> \<not> ses_revoked se \<and> t < ses_expires se \<and> (\<exists>n. t = now_at (env w) n))"
  using assms by (auto simp: run split: fate.splits option.splits if_splits)

lemma SessionValid_reads:
  "run_state (SessionValid jti) w = (x, w1) \<Longrightarrow> db w1 = db w \<and> env w1 = env w
     \<and> (\<forall>e. x = Inl e \<longrightarrow> rs_status (writeErr e) = 500)"
  by (auto simp: run db_error_def writeErr_def split: fate.splits option.splits if_splits)

lemma requireStaff_with_session:
  assumes go: "run_state (requireStaff kind secret next rq) w = (r, w')"
    and token: "bearer_token (rq_auth rq) \<noteq> ''''"
      "jwt_parse (env w) (now_at (env w) (tick w)) (key_func secret) (bearer_token (rq_auth rq)) = Some c"
      "clm_kind c = kind"
    and sv: "run_state (SessionValid (clm_id c)) (next_tick w) = (Inr True, w1)"
  obtains (refused) "db w' = db w" "env w' = env w" "rs_status r \<in> {401, 500}"
  | (admitted) st w2 where "admitted kind secret rq w c st" "db w2 = db w" "env w2 = env w"
      "run_state (next (rq\<lparr>ctx_staff := Some st, ctx_claims := Some c\<rparr>)) w2 = (r, w')"
proof -
  note defs = requireStaff_def authenticateStaff_def Let_def
  note valid = SessionValid_Inr [OF sv]
  let ?good = "\<lambda>st. fate_at (env w1) (tick w1) = Okay \<and> row_by staff_id (clm_subject c) (staff (db w1)) = Some st
    \<and> staff_active st \<and> staff_deleted st = None"
  show thesis
  proof (cases "\<exists>st. ?good st")
    case False
    then show ?thesis
      using go token valid
      by (intro refused) (auto simp: defs run_or_write run_Parse sv run_GetStaffByID
          split: fate.splits option.splits if_splits)
  next
    case good: True
    then obtain st where st: "?good st" by blast
    moreover from this have
      "run_state (next (rq\<lparr>ctx_staff := Some st, ctx_claims := Some c\<rparr>)) (next_tick w1) = (r, w')"
      using go token by (auto simp: defs run_or_write run_Parse sv run_GetStaffByID)
    moreover have "admitted kind secret rq w c st"
      unfolding admitted_def using st token valid by (auto simp: exI)
    ultimately show ?thesis using valid by (intro admitted) simp_all
  qed
qed

lemma requireStaff_cases:
  assumes go: "run_state (requireStaff kind secret next rq) w = (r, w')"
  obtains (refused) "db w' = db w" "env w' = env w" "rs_status r \<in> {401, 500}"
  | (admitted) c st w1 where "admitted kind secret rq w c st" "db w1 = db w" "env w1 = env w"
      "run_state (next (rq\<lparr>ctx_staff := Some st, ctx_claims := Some c\<rparr>)) w1 = (r, w')"
proof -
  let ?tok = "bearer_token (rq_auth rq)"
  let ?parsed = "jwt_parse (env w) (now_at (env w) (tick w)) (key_func secret) ?tok"
  note defs = requireStaff_def authenticateStaff_def Let_def
  consider (bad) "?tok = '''' \<or> (case ?parsed of None \<Rightarrow> True | Some c \<Rightarrow> clm_kind c \<noteq> kind)"
    | (token) c where "?tok \<noteq> ''''" "?parsed = Some c" "clm_kind c = kind"
    by (cases ?parsed) auto
  then show thesis
  proof cases
    case bad
    then show ?thesis using go by (intro refused) (auto simp: defs run split: if_splits option.splits)
  next
    case token
    obtain x w1 where sv: "run_state (SessionValid (clm_id c)) (next_tick w) = (x, w1)" by fastforce
    note w1 = SessionValid_reads [OF sv]
    show ?thesis
    proof (cases "x = Inr True")
      case False
      then show ?thesis
        using go token w1
        by (intro refused) (auto simp: defs run_or_write run_Parse sv split: sum.splits)
    next
      case True
      show ?thesis
        by (rule requireStaff_with_session [OF go token sv [unfolded True]])
          (use refused admitted in blast)+
    qed
  qed
qed

lemma admitted_cong:
  "\<lbrakk>env w1 = env w; db w1 = db w; rq_auth rq1 = rq_auth rq\<rbrakk>
     \<Longrightarrow> admitted kind secret rq1 w1 c st = admitted kind secret rq w c st"
  by (simp add: admitted_def)

section \<open>The protected areas\<close>

definition staff_area :: "server \<Rightarrow> string \<Rightarrow> (string \<times> string) option" where
  "staff_area s area =
     (if area = ''admin'' then Some (KindAdmin, AdminJWTSecret (Cfg s))
      else if area = ''cashier'' then Some (KindCashier, CashierJWTSecret (Cfg s))
      else None)"

lemma match_Lit_single: "match_segments [Lit l] ss = Some ps \<Longrightarrow> ss = [l]"
  by (cases ss rule: list.exhaust) (auto split: if_splits elim: match_segments.elims)

lemma guarded_route:
  assumes r: "(m, pat, h) \<in> set (routes s)" and a: "staff_area s area = Some (kind, secret)"
    and p: "match_segments pat (area # rest) = Some ps"
    and n: "rest \<notin> {[''login''], [''logout''], [''app-version'']}"
  shows "\<exists>h'. h = requireStaff kind secret h'"
proof -
  from a consider "area = ''admin''" "kind = KindAdmin" "secret = AdminJWTSecret (Cfg s)"
    | "area = ''cashier''" "kind = KindCashier" "secret = CashierJWTSecret (Cfg s)"
    by (auto simp: staff_area_def split: if_splits)
  then show ?thesis
  proof cases
    case 1
    with r p n show ?thesis
      unfolding routes_def public_routes_def cashier_routes_def admin_routes_def pass_routes_def
      by (auto simp: registration_def admin_guard_def dest: match_Lit_single split: if_splits)
  next
    case 2
    with r p n show ?thesis
      unfolding routes_def public_routes_def cashier_routes_def admin_routes_def pass_routes_def
      by (auto simp: registration_def staff_guard_def dest: match_Lit_single split: if_splits)
  qed
qed

lemma router_route:
  assumes "path_segments (rq_path rq) = Some segs" "run_state (router s rq) w = (r, w')"
  obtains (unrouted) "w' = w" "rs_status r \<in> {404, 405}"
  | (routed) m pat h ps prm where "(m, pat, h) \<in> set (routes s)" "match_segments pat segs = Some ps"
      "m = rq_method rq" "run_state (h (rq\<lparr>rq_param := prm\<rparr>)) w = (r, w')"
proof -
  let ?ms = "matching segs (routes s)"
  show thesis
  proof (cases "find (\<lambda>(m, _). m = rq_method rq) ?ms")
    case None
    then show ?thesis
      using assms by (intro unrouted) (auto simp: router_def Let_def plain_def split: if_splits)
  next
    case (Some x)
    then obtain ps h where x: "x = (rq_method rq, ps, h)" "x \<in> set ?ms"
      by (cases x) (auto simp: find_Some_iff, metis nth_mem)
    then obtain pat where p: "(rq_method rq, pat, h) \<in> set (routes s)" "match_segments pat segs = Some ps"
      by (auto simp: matching_def List.map_filter_def split: prod.splits)
    show ?thesis
      using routed [OF p refl] assms Some x by (auto simp: router_def Let_def)
  qed
qed

text \<open>The layers around the router add headers only.\<close>

lemma Handler_layers:
  assumes "run_state (Handler s rq) w = (r, w')"
  obtains (options) "db w' = db w"
  | (routed) w1 r1 where "db w1 = db w" "env w1 = env w" "rs_status r = rs_status r1"
      "run_state (router s (rq\<lparr>ctx_staff := None, ctx_claims := None\<rparr>)) w1 = (r1, w')"
proof (cases "rq_method rq = ''OPTIONS''")
  case True
  with assms show ?thesis
    by (intro options) (auto simp: Handler_def requestLog_def randomID_def cors_def Let_def run split: prod.splits)
next
  case False
  obtain r1 w2 where g: "run_state (router s (rq\<lparr>ctx_staff := None, ctx_claims := None\<rparr>)) (next_tick w) = (r1, w2)"
    by fastforce
  have "w2 = w'" "rs_status r = rs_status r1"
    using assms False g
    by (auto simp: Handler_def requestLog_def randomID_def cors_def hsts_def Let_def run add_headers_def
        split: prod.splits)
  with g show ?thesis by (intro routed [of "next_tick w" r1]) simp_all
qed

text \<open>C17: No request changes data below \<^verbatim>\<open>/admin\<close> or \<^verbatim>\<open>/cashier\<close>, login and logout apart, unless it
  carries a token signed with the secret of that area and of its kind, for a staff member who
  exists, is active and is not removed, with a session that is on record, not revoked and not
  over.\<close>

theorem staff_areas_guarded:
  assumes "path_segments (rq_path rq) = Some (area # rest)"
    and "staff_area s area = Some (kind, secret)"
    and "rest \<notin> {[''login''], [''logout''], [''app-version'']}"
  shows "db (snd (run_state (Handler s rq) w)) = db w
    \<or> (\<exists>c st. admitted kind secret rq w c st)"
proof -
  obtain r w' where go: "run_state (Handler s rq) w = (r, w')" by fastforce
  have "db w' = db w \<or> (\<exists>c st. admitted kind secret rq w c st)"
  proof (rule Handler_layers [OF go])
    fix w1 r1
    assume w1: "db w1 = db w" "env w1 = env w"
      and g: "run_state (router s (rq\<lparr>ctx_staff := None, ctx_claims := None\<rparr>)) w1 = (r1, w')"
    show ?thesis
    proof (rule router_route [OF _ g])
      show "path_segments (rq_path (rq\<lparr>ctx_staff := None, ctx_claims := None\<rparr>)) = Some (area # rest)"
        using assms(1) by simp
    next
      fix m pat h ps prm
      assume "(m, pat, h) \<in> set (routes s)" "match_segments pat (area # rest) = Some ps"
      then obtain h' where h: "h = requireStaff kind secret h'"
        using guarded_route assms(2,3) by blast
      assume "run_state (h (rq\<lparr>ctx_staff := None, ctx_claims := None, rq_param := prm\<rparr>)) w1 = (r1, w')"
      then have "run_state (requireStaff kind secret h'
          (rq\<lparr>ctx_staff := None, ctx_claims := None, rq_param := prm\<rparr>)) w1 = (r1, w')"
        by (simp only: h)
      then show ?thesis
      proof (rule requireStaff_cases)
        assume "db w' = db w1" with w1 show ?thesis by simp
      next
        fix c st
        assume "admitted kind secret (rq\<lparr>ctx_staff := None, ctx_claims := None, rq_param := prm\<rparr>) w1 c st"
        then have "admitted kind secret rq w c st" by (subst admitted_cong [OF w1(2,1), symmetric]) simp_all
        then show ?thesis by blast
      qed
    qed (use w1 in simp)
  qed simp
  with go show ?thesis by simp
qed

theorem staff_areas_guarded_witness:
  "db (snd (run_state (Handler sample_server (empty_request\<lparr>rq_method := ''POST'',
      rq_path := ''/admin/adjust''\<rparr>)) (world_of sample_db))) = sample_db
    \<or> (\<exists>c st. admitted KindAdmin ''admin-key'' (empty_request\<lparr>rq_method := ''POST'',
      rq_path := ''/admin/adjust''\<rparr>) (world_of sample_db) c st)"
proof -
  have "path_segments ''/admin/adjust'' = Some [''admin'', ''adjust'']"
    by (simp add: path_segments_def)
  moreover have "staff_area sample_server ''admin'' = Some (KindAdmin, ''admin-key'')"
    by (simp add: staff_area_def sample_server_def sample_config_def default_config_def)
  ultimately show ?thesis
    using staff_areas_guarded [of "empty_request\<lparr>rq_method := ''POST'', rq_path := ''/admin/adjust''\<rparr>"
        "''admin''" "[''adjust'']" sample_server KindAdmin "''admin-key''" "world_of sample_db"]
    by simp
qed

section \<open>What stays forever\<close>

text \<open>A revoked session is never valid again, a removed staff member never comes back.\<close>

lemma has_row_revoke [simp]:
  "has_row ses_jti j (map (\<lambda>s. if p s then s\<lparr>ses_revoked := True\<rparr> else s) ss) = has_row ses_jti j ss"
  by (induction ss) auto

definition revoked_session :: "string \<Rightarrow> Staff list \<Rightarrow> Session list \<Rightarrow> bool" where
  "revoked_session j sts ss \<longleftrightarrow>
     has_row ses_jti j ss \<and> list_all (\<lambda>se. ses_jti se = j \<longrightarrow> ses_revoked se) ss"

definition removed_staff :: "string \<Rightarrow> Staff list \<Rightarrow> Session list \<Rightarrow> bool" where
  "removed_staff i sts ss \<longleftrightarrow>
     has_row staff_id i sts \<and> list_all (\<lambda>s. staff_id s = i \<longrightarrow> staff_deleted s \<noteq> None) sts"

interpretation revoked: account_invariant "revoked_session j" for j
proof
  fix p
  show "stmt_keeps (\<lambda>d. revoked_session j (staff d) (sessions d)) (revoke_where p)"
    by (rule stmt_keepsI) (auto simp: revoke_where_def revoked_session_def list_all_iff)
qed (rule stmt_keepsI, auto simp: other_tables revoked_session_def split: if_splits)+

interpretation removed: account_invariant "removed_staff i" for i
proof
  fix k :: string and t st
  show "stmt_keeps (\<lambda>d. removed_staff i (staff d) (sessions d)) (soft_delete_staff k t)"
    by (rule stmt_keepsI) (auto simp: soft_delete_staff_def removed_staff_def
        staff_soft_delete.has_row_kept intro!: list_all_update_by)
  show "stmt_keeps (\<lambda>d. removed_staff i (staff d) (sessions d)) (update_staff st)"
    by (rule stmt_keepsI) (auto simp: update_staff_def removed_staff_def staff_update.has_row_kept
        set_staff_row_def intro!: list_all_update_by split: if_splits)
qed (rule stmt_keepsI, auto simp: other_tables removed_staff_def has_row_iff split: if_splits)+

lemma revoked_not_admitted:
  assumes "revoked_session (clm_id c) (staff (db w)) (sessions (db w))"
  shows "\<not> admitted kind secret rq w c st"
proof
  assume "admitted kind secret rq w c st"
  then obtain se where se: "row_by ses_jti (clm_id c) (sessions (db w)) = Some se" "\<not> ses_revoked se"
    by (auto simp: admitted_def)
  with row_by_Some_key [OF se(1)] row_by_Some_in [OF se(1)] assms show False
    by (auto simp: revoked_session_def list_all_iff)
qed

lemma removed_not_admitted:
  assumes "removed_staff (clm_subject c) (staff (db w)) (sessions (db w))"
  shows "\<not> admitted kind secret rq w c st"
proof
  assume "admitted kind secret rq w c st"
  then have st: "row_by staff_id (clm_subject c) (staff (db w)) = Some st" "staff_deleted st = None"
    by (auto simp: admitted_def)
  with row_by_Some_key [OF st(1)] row_by_Some_in [OF st(1)] assms show False
    by (auto simp: removed_staff_def list_all_iff)
qed

lemma not_admitted_refused:
  assumes "\<And>c st. \<not> admitted kind secret rq w c st"
  shows "rs_status (fst (run_state (requireStaff kind secret next rq) w)) \<in> {401, 500}"
    "db (snd (run_state (requireStaff kind secret next rq) w)) = db w"
  using requireStaff_cases [OF surjective_pairing, of kind secret "next" rq w] assms by metis+

text \<open>A logout that answers 200 has revoked the session of its token.\<close>

lemma logout_revokes:
  assumes go: "run_state (requireStaffAllowRevoked kind secret postLogout rq) w = (r, w1)"
    and r: "rs_status r = 200"
    and tok: "jwt_parse (env w) (now_at (env w) (tick w)) (key_func secret) (bearer_token (rq_auth rq)) = Some c"
    and on_record: "has_row ses_jti (clm_id c) (sessions (db w))"
  shows "revoked_session (clm_id c) (staff (db w1)) (sessions (db w1))"
proof -
  obtain x w2 where sv: "run_state (SessionValid (clm_id c)) (next_tick w) = (x, w2)" by fastforce
  note w2 = SessionValid_reads [OF sv]
  note defs = requireStaffAllowRevoked_def authenticateStaff_def postLogout_def claimsFrom_def Let_def
  have "\<exists>d n. revoke_where (\<lambda>s. ses_jti s = clm_id c) (driver_of (env w)) (db w) = Some (n, d)
      \<and> db w1 = d"
    using go r tok w2
    by (auto simp: defs run_or_write run_Parse sv run_GetStaffByID RevokeSession_def run_or_return run_exec
        run_ok writeErr_def db_error_def
        split: if_splits sum.splits fate.splits option.splits)
  then have "db w1 = (db w)\<lparr>sessions := map (\<lambda>s. if ses_jti s = clm_id c then s\<lparr>ses_revoked := True\<rparr> else s)
      (sessions (db w))\<rparr>"
    by (auto simp: revoke_where_def)
  with on_record show ?thesis by (auto simp: revoked_session_def list_all_iff)
qed

text \<open>C18: After a logout answered with 200, the token it carried opens nothing any more: in every
  later state, after any requests, restarts and changes of the surroundings, the guard of the
  staff routes refuses it and no data changes.  (The claims the JWT library reads from a token
  do not change.)\<close>

theorem logout_is_final:
  assumes "run_state (requireStaffAllowRevoked kind secret postLogout rq) w = (r, w1)" "rs_status r = 200"
    and "jwt_parse (env w) (now_at (env w) (tick w)) (key_func secret) (bearer_token (rq_auth rq)) = Some c"
    and "has_row ses_jti (clm_id c) (sessions (db w))"
    and "Loy s = the_service i" "(step s)\<^sup>*\<^sup>* w1 w2"
    and "bearer_token (rq_auth rq2) = bearer_token (rq_auth rq)"
    and "\<And>t c'. jwt_parse (env w2) t (key_func secret') (bearer_token (rq_auth rq)) = Some c' \<Longrightarrow> c' = c"
  shows "rs_status (fst (run_state (requireStaff kind' secret' next rq2) w2)) \<in> {401, 500}
    \<and> db (snd (run_state (requireStaff kind' secret' next rq2) w2)) = db w2"
proof -
  have "revoked_session (clm_id c) (staff (db w2)) (sessions (db w2))"
    using logout_revokes [OF assms(1-4)] revoked.later_keeps [OF assms(6,5)] by blast
  then have no: "\<not> admitted kind' secret' rq2 w2 c st" for st by (rule revoked_not_admitted)
  have "c' = c" if "admitted kind' secret' rq2 w2 c' st" for c' st
    using that assms(7,8) by (auto simp: admitted_def)
  with no have "\<not> admitted kind' secret' rq2 w2 c' st" for c' st by blast
  then show ?thesis using not_admitted_refused [of kind' secret' rq2 w2] by blast
qed

definition boss_claims :: Claims where
  "boss_claims = \<lparr>clm_subject = ''s2'', clm_id = ''j2'', clm_issued = from_unix 1600000000,
     clm_expires = from_unix 1800000000, clm_role = RoleAdmin, clm_store = ''m1'',
     clm_kind = KindAdmin, clm_login = ''boss''\<rparr>"

definition boss_env :: env where
  "boss_env = calm_env\<lparr>jwt_parse := (\<lambda>t kf s. if kf ''HS256'' = Some ''admin-key'' \<and> s = ''tok''
     then Some boss_claims else None)\<rparr>"

definition boss_world :: world where
  "boss_world = (world_of sample_db)\<lparr>env := boss_env\<rparr>"

definition boss_request :: request where
  "boss_request = empty_request\<lparr>rq_auth := ''Bearer tok''\<rparr>"

lemma boss_sel [simp]:
  "fate_at boss_env n = Okay" "driver_of boss_env = DriverSQLite" "uuid_at boss_env = uuid_at calm_env"
  "now_at boss_env n = from_unix (1700000000 + int n)" "lower_tab boss_env = id"
  "env boss_world = boss_env" "db boss_world = sample_db" "tick boss_world = 0"
  "rq_auth boss_request = ''Bearer tok''"
  "clm_id boss_claims = ''j2''" "clm_subject boss_claims = ''s2''" "clm_kind boss_claims = KindAdmin"
  by (simp_all add: boss_env_def boss_world_def boss_request_def boss_claims_def)

lemma boss_token [simp]: "bearer_token ''Bearer tok'' = ''tok''"
  by (simp add: bearer_token_def has_prefix_def trim_space_ascii is_ascii_def byte_def is_space_def)

lemma boss_parse [simp]: "jwt_parse boss_env t (key_func ''admin-key'') ''tok'' = Some boss_claims"
  by (simp add: boss_env_def key_func_def)

lemma boss_rows [simp]:
  "row_by ses_jti ''j2'' (sessions sample_db) = Some (sample_session ''j2'' ''s2'' ''admin'')"
  "row_by staff_id ''s2'' (staff sample_db) = Some (sample_staff ''s2'' ''boss'' ''admin'')"
  "has_row ses_jti ''j2'' (sessions sample_db)"
  by (simp_all add: sample_db_def sample_session_def sample_staff_def)

theorem logout_is_final_witness:
  "rs_status (fst (run_state (requireStaffAllowRevoked KindAdmin ''admin-key'' postLogout boss_request) boss_world)) = 200
   \<and> (let w1 = snd (run_state (requireStaffAllowRevoked KindAdmin ''admin-key'' postLogout boss_request) boss_world)
      in rs_status (fst (run_state (requireStaff KindAdmin ''admin-key'' createStore boss_request) w1)) \<in> {401, 500}
         \<and> db (snd (run_state (requireStaff KindAdmin ''admin-key'' createStore boss_request) w1)) = db w1)"
proof -
  obtain r w1 where go:
    "run_state (requireStaffAllowRevoked KindAdmin ''admin-key'' postLogout boss_request) boss_world = (r, w1)"
    by fastforce
  have r: "rs_status r = 200" "env w1 = boss_env"
    using go
    by (auto simp: requireStaffAllowRevoked_def authenticateStaff_def postLogout_def claimsFrom_def Let_def
        RevokeSession_def revoke_where_def run sample_session_def sample_staff_def from_unix_def second_def
        split: if_splits)
  have "rs_status (fst (run_state (requireStaff KindAdmin ''admin-key'' createStore boss_request) w1)) \<in> {401, 500}
      \<and> db (snd (run_state (requireStaff KindAdmin ''admin-key'' createStore boss_request) w1)) = db w1"
    by (rule logout_is_final [OF go r(1), where c = boss_claims and s = sample_server
          and i = "GoogleIssuerID sample_config"])
      (simp_all add: r sample_server_def)
  with go r show ?thesis by simp
qed

section \<open>Removal of staff\<close>

lemma SoftDeleteStaff_removes:
  assumes "run_state (SoftDeleteStaff sid t) w = (Inr u, w1)"
  shows "removed_staff sid (staff (db w1)) (sessions (db w1))"
proof -
  let ?f = "\<lambda>s. if staff_deleted s = None then s\<lparr>staff_deleted := Some t\<rparr> else s"
  let ?live = "filter (\<lambda>s. staff_id s = sid \<and> staff_deleted s = None) (staff (db w))"
  have hit: "?live \<noteq> []" and w1: "staff (db w1) = update_by staff_id sid ?f (staff (db w))"
    using assms
    by (auto simp: SoftDeleteStaff_def run_or_return run_exec soft_delete_staff_def run_fail run_ok
        simp del: filter_empty_conv split: fate.splits if_splits)
  then obtain s where "s \<in> set ?live" by (meson last_in_set)
  then have n: "\<exists>s\<in>set (staff (db w)). staff_id s = sid" by auto
  have "list_all (\<lambda>s. staff_id s = sid \<longrightarrow> staff_deleted s \<noteq> None) (update_by staff_id sid ?f xs)" for xs
    by (induction xs) (auto simp: update_by_def)
  then have "list_all (\<lambda>s. staff_id s = sid \<longrightarrow> staff_deleted s \<noteq> None) (staff (db w1))"
    unfolding w1 .
  moreover have "has_row staff_id sid (staff (db w1))"
    unfolding w1 staff_soft_delete.has_row_kept using n by (auto simp: has_row_iff)
  ultimately show ?thesis by (simp add: removed_staff_def)
qed

lemma deleteStaff_removes:
  assumes go: "run_state (deleteStaff rq) w = (r, w1)" and r: "rs_status r = 204"
  shows "removed_staff (rq_param rq ''id'') (staff (db w1)) (sessions (db w1))"
proof -
  let ?sid = "rq_param rq ''id''"
  let ?tail = "\<lambda>st. do { _ \<leftarrow> RevokeStaffSessions ?sid;
    _ \<leftarrow> recordActivity (staffFrom rq) (staff_store st) ''staff_deleted'' a_staff_del (staff_label st);
    ret (empty_response 204) }"
  let ?rest = "\<lambda>st. if staff_deleted st \<noteq> None then ret (writeError 404 CodeInvalidRequest h_no_staff)
    else do { t \<leftarrow> now; or_write (SoftDeleteStaff ?sid t) (\<lambda>_. ?tail st) }"
  have ok: "rs_status r < 400" using r by simp
  have "run_state (or_missing (GetStaffByID ?sid) (writeError 404 CodeInvalidRequest h_no_staff) ?rest) w = (r, w1)"
    using go r by (auto simp: deleteStaff_def Let_def run_ret split: if_splits)
  then obtain st w2 where "run_state (?rest st) w2 = (r, w1)"
    by (rule or_missing_success [OF _ ok]) auto
  then have "run_state (or_write (SoftDeleteStaff ?sid (now_at (env w2) (tick w2))) (\<lambda>_. ?tail st))
      (next_tick w2) = (r, w1)"
    using r by (auto simp: run_now run_ret split: if_splits)
  then obtain u w3 where d: "run_state (SoftDeleteStaff ?sid (now_at (env w2) (tick w2))) (next_tick w2) = (Inr u, w3)"
    and t: "run_state (?tail st) w3 = (r, w1)"
    by (rule or_write_success [OF _ ok])
  have "keeps (\<lambda>d. removed_staff ?sid (staff d) (sessions d)) (?tail st)"
    by (intro keep removed.keeps_writes removed.keeps_recordActivity)
  from keepsD [OF this, of w3] SoftDeleteStaff_removes [OF d] t
  show ?thesis by simp
qed



end
