(* ===== verification/Accounts.thy ===== *)
theory Accounts
  imports System
begin

text \<open>
  What the program promises about points, as a machine of its own: accounts with a balance, sales
  that are made once and refunded at most once.  The abstraction \<open>accounts\<close> forgets everything
  else; every run of the server, its worker and its bootstrap is a run of this machine.
\<close>

section \<open>The specification\<close>

record sale =
  sale_customer :: string
  sale_redeem :: int
  sale_earn :: int
  sale_refunded :: bool

record accounts =
  ac_points :: "string \<rightharpoonup> int"
  ac_sales :: "string \<rightharpoonup> sale"

text \<open>A refund takes back what the sale earned, as far as the balance goes, and returns what it
  redeemed.\<close>

definition after_refund :: "sale \<Rightarrow> int \<Rightarrow> int" where
  "after_refund s p = wrap64 (p - max 0 (min (sale_earn s) p) + max 0 (sale_redeem s))"

inductive account_step :: "accounts \<Rightarrow> accounts \<Rightarrow> bool" where
  opened: "ac_points a c = None \<Longrightarrow> account_step a (a\<lparr>ac_points := (ac_points a)(c \<mapsto> 0)\<rparr>)"
| sold: "\<lbrakk>ac_points a c = Some p; ac_sales a r = None; 0 \<le> red; red = 0 \<or> red \<le> p\<rbrakk> \<Longrightarrow>
    account_step a (a\<lparr>ac_points := (ac_points a)(c \<mapsto> wrap64 (p - red + earn)),
      ac_sales := (ac_sales a)(r \<mapsto> \<lparr>sale_customer = c, sale_redeem = red, sale_earn = earn,
        sale_refunded = False\<rparr>)\<rparr>)"
| refunded: "\<lbrakk>ac_sales a r = Some s; \<not> sale_refunded s; ac_points a (sale_customer s) = Some p\<rbrakk> \<Longrightarrow>
    account_step a (a\<lparr>ac_points := (ac_points a)(sale_customer s \<mapsto> after_refund s p),
      ac_sales := (ac_sales a)(r \<mapsto> s\<lparr>sale_refunded := True\<rparr>)\<rparr>)"
| adjusted: "\<lbrakk>ac_points a c = Some p; 0 \<le> wrap64 (p + delta)\<rbrakk> \<Longrightarrow>
    account_step a (a\<lparr>ac_points := (ac_points a)(c \<mapsto> wrap64 (p + delta))\<rparr>)"

inductive_cases account_stepE: "account_step a b"

text \<open>Consequences for any run: accounts stay, a sale keeps its customer and its points, and is
  not refunded twice.\<close>

lemma account_kept: "account_step a b \<Longrightarrow> ac_points a c \<noteq> None \<Longrightarrow> ac_points b c \<noteq> None"
  by (auto elim!: account_stepE)

definition sale_continues :: "sale \<Rightarrow> sale \<Rightarrow> bool" where
  "sale_continues s s' \<longleftrightarrow> sale_customer s' = sale_customer s \<and> sale_redeem s' = sale_redeem s
     \<and> sale_earn s' = sale_earn s \<and> (sale_refunded s \<longrightarrow> sale_refunded s')"

lemma sale_kept:
  "account_step a b \<Longrightarrow> ac_sales a r = Some s \<Longrightarrow> \<exists>s'. ac_sales b r = Some s' \<and> sale_continues s s'"
  by (auto elim!: account_stepE simp: sale_continues_def)

lemma sale_kept_runs:
  "account_step\<^sup>*\<^sup>* a b \<Longrightarrow> ac_sales a r = Some s \<Longrightarrow> \<exists>s'. ac_sales b r = Some s' \<and> sale_continues s s'"
proof (induction rule: rtranclp_induct)
  case base
  then show ?case by (simp add: sale_continues_def)
next
  case (step b c)
  then obtain s1 where "ac_sales b r = Some s1" "sale_continues s s1" by blast
  with sale_kept [OF step(2)] show ?case by (fastforce simp: sale_continues_def)
qed

section \<open>The abstraction\<close>

definition sale_of :: "Receipt \<Rightarrow> sale" where
  "sale_of r = \<lparr>sale_customer = rec_customer r, sale_redeem = rec_redeem r, sale_earn = rec_earn r,
     sale_refunded = (rec_status r = ReceiptRefunded)\<rparr>"

definition accounts :: "database \<Rightarrow> accounts" where
  "accounts d = \<lparr>ac_points = (\<lambda>c. map_option cust_points (row_by cust_id c (customers d))),
     ac_sales = (\<lambda>r. map_option sale_of (row_by rec_id r (receipts d)))\<rparr>"

lemma accounts_cong:
  "customers d = customers d' \<Longrightarrow> receipts d = receipts d' \<Longrightarrow> accounts d = accounts d'"
  by (simp add: accounts_def)

lemma accounts_sans_jobs: "sans_jobs d = sans_jobs d' \<Longrightarrow> accounts d = accounts d'"
  by (rule accounts_cong) (auto dest: sans_jobs_eqD(1,2))

text \<open>Setting the points of a row, and appending or updating a receipt.\<close>

lemma row_by_points:
  "row_by cust_id j (update_by cust_id k (\<lambda>c. c\<lparr>cust_points := p, cust_updated := t\<rparr>) cs)
     = (if j = k then map_option (\<lambda>c. c\<lparr>cust_points := p, cust_updated := t\<rparr>) (row_by cust_id k cs)
        else row_by cust_id j cs)"
  by (induction cs) auto

lemma points_written:
  assumes "row_by cust_id k (customers d) = Some c"
  shows "(\<lambda>j. map_option cust_points (row_by cust_id j
       (update_by cust_id k (\<lambda>c. c\<lparr>cust_points := p, cust_updated := t\<rparr>) (customers d))))
     = (ac_points (accounts d))(k \<mapsto> p)"
  using assms by (auto simp: row_by_points accounts_def)

lemma row_by_receipt:
  "row_by rec_id j (update_by rec_id k (refunded_row p t) rs)
     = (if j = k then map_option (refunded_row p t) (row_by rec_id k rs) else row_by rec_id j rs)"
proof -
  have "rec_id (refunded_row p t r) = rec_id r" for r by (simp add: refunded_row_def)
  then show ?thesis by (induction rs) auto
qed

lemma account_of: "row_by cust_id k (customers d) = Some c \<Longrightarrow> ac_points (accounts d) k = Some (cust_points c)"
  by (simp add: accounts_def)

section \<open>Simulation\<close>

lemma commit_simulated:
  assumes "commit_allowed inp st c" "0 \<le> ci_redeem inp"
    and c: "row_by cust_id (cust_id c) (customers d) = Some c"
    and f: "\<not> has_row rec_id (ci_receipt inp) (receipts d)"
  shows "account_step (accounts d) (accounts (commit_db inp st c t i j d))"
proof -
  let ?e = "ComputeEarn (ci_amount inp) (ci_redeem inp) st"
  have r: "ci_redeem inp = 0 \<or> ci_redeem inp \<le> cust_points c"
    using assms(1) by (auto simp: commit_allowed_def CheckRedeem_def Let_def split: if_splits)
  have n: "row_by rec_id (ci_receipt inp) (receipts d) = None" using f by (simp add: table)
  have "accounts (commit_db inp st c t i j d) = (accounts d)
      \<lparr>ac_points := (ac_points (accounts d))(cust_id c \<mapsto> wrap64 (cust_points c - ci_redeem inp + ?e)),
       ac_sales := (ac_sales (accounts d))(ci_receipt inp \<mapsto> \<lparr>sale_customer = cust_id c,
         sale_redeem = ci_redeem inp, sale_earn = ?e, sale_refunded = False\<rparr>)\<rparr>"
    using n points_written [OF c]
    by (auto simp: accounts_def commit_db_def commit_points_def commit_receipt_def sale_of_def
        add64_def sub64_def split: option.splits)
  with account_step.sold [OF account_of [OF c] _ assms(2) r] n show ?thesis
    by (simp add: accounts_def)
qed

lemma refund_simulated:
  assumes rc: "row_by rec_id k (receipts d) = Some rc" and n: "rec_status rc \<noteq> ReceiptRefunded"
    and cu: "row_by cust_id (rec_customer rc) (customers d) = Some cu" and p: "in_i64 (cust_points cu)"
  shows "account_step (accounts d) (accounts (refund_db rc cu actor t i j d))"
proof -
  have key: "rec_id rc = k" "cust_id cu = rec_customer rc"
    using row_by_Some_key [OF rc] row_by_Some_key [OF cu] by simp_all
  have q: "refund_points rc (cust_points cu) = after_refund (sale_of rc) (cust_points cu)"
    using p by (auto simp: after_refund_def refund_points_def after_earned_def earned_back_def sale_of_def
        sub64_def add64_def wrap64_id max_def min_def)
  have "accounts (refund_db rc cu actor t i j d) = (accounts d)
      \<lparr>ac_points := (ac_points (accounts d))(sale_customer (sale_of rc) \<mapsto>
         after_refund (sale_of rc) (cust_points cu)),
       ac_sales := (ac_sales (accounts d))(k \<mapsto> (sale_of rc)\<lparr>sale_refunded := True\<rparr>)\<rparr>"
    using points_written [OF cu] rc
    by (auto simp: accounts_def refund_db_def Let_def key q row_by_receipt sale_of_def refunded_row_def)
  with account_step.refunded [of "accounts d" k "sale_of rc" "cust_points cu"] rc n account_of [OF cu]
  show ?thesis by (simp add: accounts_def sale_of_def)
qed

lemma adjust_simulated:
  assumes c: "row_by cust_id (cust_id cu) (customers d) = Some cu" and "0 \<le> add64 (cust_points cu) delta"
  shows "account_step (accounts d) (accounts (adjust_db cu delta reason actor t i d))"
proof -
  have "accounts (adjust_db cu delta reason actor t i d) = (accounts d)
      \<lparr>ac_points := (ac_points (accounts d))(cust_id cu \<mapsto> wrap64 (cust_points cu + delta))\<rparr>"
    using points_written [OF c] by (simp add: accounts_def adjust_db_def add64_def)
  with account_step.adjusted [OF account_of [OF c], of delta] assms(2) show ?thesis
    by (simp add: add64_def)
qed

text \<open>The money operations as the machine sees them: nothing, or one step.\<close>

lemma accounts_Commit:
  assumes wf: "wf_db (db w)"
  shows "account_step\<^sup>=\<^sup>= (accounts (db w)) (accounts (db (snd (run_state (Commit (the_service i) inp) w))))"
proof -
  obtain r w' where go: "run_state (Commit (the_service i) inp) w = (r, w')" by fastforce
  have "account_step\<^sup>=\<^sup>= (accounts (db w)) (accounts (db w'))"
  proof (rule outbox.Commit_any [OF Jobs_the_service wf go])
    assume "sans_jobs (db w') = sans_jobs (db w)"
    from accounts_sans_jobs [OF this] show ?thesis by simp
  next
    fix c t a b
    assume k: "commit_ready inp w c" and e: "sans_jobs (db w') = sans_jobs (commit_writes inp w c t a b)"
    have "row_by cust_id (cust_id c) (customers (db w)) = Some c"
      using k wf by (intro row_by_distinct) (simp_all add: commit_ready_def wf_defs)
    with k have "account_step (accounts (db w)) (accounts (commit_writes inp w c t a b))"
      unfolding commit_writes_def by (intro commit_simulated) (simp_all add: commit_ready_def)
    then show ?thesis using accounts_sans_jobs [OF e] by simp
  qed
  with go show ?thesis by simp
qed

lemma accounts_Refund:
  assumes wf: "wf_db (db w)"
  shows "account_step\<^sup>=\<^sup>= (accounts (db w)) (accounts (db (snd (run_state (Refund (the_service i) rid actor) w))))"
proof -
  obtain r w' where go: "run_state (Refund (the_service i) rid actor) w = (r, w')" by fastforce
  have "account_step\<^sup>=\<^sup>= (accounts (db w)) (accounts (db w'))"
  proof (rule outbox.Refund_any [OF Jobs_the_service wf go])
    assume "sans_jobs (db w') = sans_jobs (db w)"
    from accounts_sans_jobs [OF this] show ?thesis by simp
  next
    fix rc cu t a b
    assume k: "row_by rec_id rid (receipts (db w)) = Some rc" "rec_status rc \<noteq> ReceiptRefunded"
        "row_by cust_id (rec_customer rc) (customers (db w)) = Some cu"
      and e: "sans_jobs (db w') = sans_jobs (refund_db rc cu actor t a b (db w))"
    have "account_step (accounts (db w)) (accounts (refund_db rc cu actor t a b (db w)))"
      by (rule refund_simulated [OF k wf_points_in_i64 [OF wf row_by_Some_in [OF k(3)]]])
    then show ?thesis using accounts_sans_jobs [OF e] by simp
  qed
  with go show ?thesis by simp
qed

lemma accounts_Adjust:
  assumes wf: "wf_db (db w)"
  shows "account_step\<^sup>=\<^sup>= (accounts (db w))
    (accounts (db (snd (run_state (Adjust (the_service i) ref delta reason actor) w))))"
  using Adjust_any [OF wf, of i ref delta reason actor]
proof
  assume "sans_jobs (db (snd (run_state (Adjust (the_service i) ref delta reason actor) w))) = sans_jobs (db w)"
  from accounts_sans_jobs [OF this] show ?thesis by simp
next
  assume "\<exists>cu t a. row_by cust_id (cust_id cu) (customers (db w)) = Some cu
    \<and> 0 \<le> add64 (cust_points cu) delta \<and> int_fits (driver_of (env w)) (add64 (cust_points cu) delta)
    \<and> sans_jobs (db (snd (run_state (Adjust (the_service i) ref delta reason actor) w)))
      = sans_jobs (adjust_db cu delta reason actor t a (db w))"
  then obtain cu t a where c: "row_by cust_id (cust_id cu) (customers (db w)) = Some cu"
      "0 \<le> add64 (cust_points cu) delta"
    and e: "sans_jobs (db (snd (run_state (Adjust (the_service i) ref delta reason actor) w)))
      = sans_jobs (adjust_db cu delta reason actor t a (db w))" by blast
  from adjust_simulated [OF c, of reason actor t a] accounts_sans_jobs [OF e] show ?thesis by simp
qed

text \<open>One account is opened with each card.\<close>

lemma accounts_insert_customer:
  assumes "insert_customer c drv d = Some (n, d')"
  shows "account_step (accounts d) (accounts d')"
proof -
  let ?new = "c\<lparr>cust_points := 0, cust_blocked := False, cust_deleted := None\<rparr>"
  have n: "row_by cust_id (cust_id c) (customers d) = None" and d': "d' = d\<lparr>customers := customers d @ [?new]\<rparr>"
    using assms by (auto simp: insert_customer_def table split: if_splits)
  have "accounts d' = (accounts d)\<lparr>ac_points := (ac_points (accounts d))(cust_id c \<mapsto> 0)\<rparr>"
    using n by (auto simp: accounts_def d' split: option.splits)
  with account_step.opened [of "accounts d" "cust_id c"] n show ?thesis by (simp add: accounts_def)
qed

definition runs_from :: "accounts \<Rightarrow> database \<Rightarrow> bool" where
  "runs_from a d \<longleftrightarrow> wf_db d \<and> account_step\<^sup>*\<^sup>* a (accounts d)"

lemma runs_from_step: "runs_from a d \<Longrightarrow> wf_db d' \<Longrightarrow> account_step\<^sup>=\<^sup>= (accounts d) (accounts d') \<Longrightarrow> runs_from a d'"
  by (auto simp: runs_from_def)

text \<open>A statement that keeps points and receipts.\<close>

lemma runs_from_same:
  assumes "stmt_keeps wf_db f" "\<And>drv d n d'. f drv d = Some (n, d') \<Longrightarrow> accounts d' = accounts d"
  shows "stmt_keeps (runs_from a) f"
  by (rule stmt_keepsI) (use assms in \<open>auto simp: runs_from_def stmt_keeps_def\<close>)

lemma accounts_customer_field:
  assumes "\<And>c. cust_id (f c) = cust_id c \<and> cust_points (f c) = cust_points c"
  shows "accounts (d\<lparr>customers := update_by cust_id i f cs\<rparr>) = accounts (d\<lparr>customers := cs\<rparr>)"
proof -
  have "map_option cust_points (row_by cust_id j (update_by cust_id i f cs))
      = map_option cust_points (row_by cust_id j cs)" for j
    by (induction cs) (auto simp: assms)
  then show ?thesis by (simp add: accounts_def)
qed

lemma stmt_runs_customer:
  "(\<And>c. cust_id (f c) = cust_id c \<and> cust_points (f c) = cust_points c)
     \<Longrightarrow> stmt_keeps wf_db (update_customer i f) \<Longrightarrow> stmt_keeps (runs_from a) (update_customer i f)"
proof (rule runs_from_same)
  fix drv n and d d' :: database
  assume f: "\<And>c. cust_id (f c) = cust_id c \<and> cust_points (f c) = cust_points c"
    and "update_customer i f drv d = Some (n, d')"
  then have "d' = d\<lparr>customers := update_by cust_id i f (customers d)\<rparr>" by (simp add: update_customer_def)
  then show "accounts d' = accounts d" using accounts_customer_field [OF f, where d = d and i = i and cs = "customers d"] by simp
qed

lemma keeps_runs_from:
  assumes "keeps wf_db m"
    and "\<And>w. wf_db (db w) \<Longrightarrow> account_step\<^sup>=\<^sup>= (accounts (db w)) (accounts (db (snd (run_state m w))))"
  shows "keeps (runs_from a) m"
  unfolding keeps_def
proof (intro allI impI)
  fix w :: world assume "runs_from a (db w)"
  moreover from this have "wf_db (db w)" by (simp add: runs_from_def)
  ultimately show "runs_from a (db (snd (run_state m w)))"
    using assms(2) [of w] keepsD [OF assms(1), of w] by (auto intro: runs_from_step)
qed

interpretation simulation: server_invariant "runs_from a" for a
proof
  fix c i t
  show "stmt_keeps (runs_from a) (insert_customer c)"
  proof (rule stmt_keepsI)
    fix drv d n d'
    assume f: "insert_customer c drv d = Some (n, d')" and r: "runs_from a d"
    from f r have "wf_db d'"
      using stmt_insert_customer [of c] unfolding stmt_keeps_def runs_from_def by blast
    moreover from accounts_insert_customer [OF f]
    have "account_step\<^sup>=\<^sup>= (accounts d) (accounts d')" by simp
    ultimately show "runs_from a d'" by (rule runs_from_step [OF r])
  qed
  show "stmt_keeps (runs_from a) (update_customer i (\<lambda>c. c\<lparr>cust_blocked := b, cust_updated := t\<rparr>))" for b
    by (intro stmt_runs_customer tables.stmt_block) simp
  show "stmt_keeps (runs_from a) (update_customer i (\<lambda>c. c\<lparr>cust_deleted := x, cust_updated := t\<rparr>))" for x
    by (intro stmt_runs_customer tables.stmt_delete) simp
next
  fix i inp
  show "keeps (runs_from a) (Commit (the_service i) inp)"
    by (intro keeps_runs_from tables.keeps_money accounts_Commit)
next
  fix i rid actor
  show "keeps (runs_from a) (Refund (the_service i) rid actor)"
    by (intro keeps_runs_from tables.keeps_money accounts_Refund)
next
  fix i ref delta reason actor
  show "keeps (runs_from a) (Adjust (the_service i) ref delta reason actor)"
    by (intro keeps_runs_from tables.keeps_money accounts_Adjust)
next
  fix ap go
  have "accounts (db (snd (run_state (drain (Some (the_updater ap go))) w))) = accounts (db w)" for w
    unfolding the_updater_def by (intro accounts_sans_jobs wallet.drain_outbox)
  then show "keeps (runs_from a) (drain (Some (the_updater ap go)))"
    by (intro keeps_runs_from tables.keeps_drain) simp
qed (intro runs_from_same tables.stmts; auto simp: other_tables intro: accounts_cong split: if_splits)+

section \<open>Properties\<close>





end
