(* ===== verification/Access.thy ===== *)
theory Access
  imports AuthProps Accounts
begin

text \<open>
  Who may move points: the three routes that do, and the roles behind them; and what the guards
  look at, and do not look at, once a token has been issued.
\<close>

section \<open>The routes that move points\<close>

lemma stmt_untouched:
  "(\<And>drv d n d'. f drv d = Some (n, d') \<Longrightarrow> accounts d' = accounts d)
     \<Longrightarrow> stmt_keeps (\<lambda>d. A \<subseteq>\<^sub>m ac_points (accounts d)) f"
  by (rule stmt_keepsI) metis

lemma stmt_untouched_customer:
  assumes "\<And>c. cust_id (f c) = cust_id c \<and> cust_points (f c) = cust_points c"
  shows "stmt_keeps (\<lambda>d. A \<subseteq>\<^sub>m ac_points (accounts d)) (update_customer i f)"
proof (rule stmt_untouched)
  fix drv n and d d' :: database
  assume "update_customer i f drv d = Some (n, d')"
  then have "d' = d\<lparr>customers := update_by cust_id i f (customers d)\<rparr>" by (simp add: update_customer_def)
  then show "accounts d' = accounts d"
    using accounts_customer_field [OF assms, where d = d and i = i and cs = "customers d"] by simp
qed

interpretation untouched: statement_invariant "\<lambda>d. A \<subseteq>\<^sub>m ac_points (accounts d)" for A
proof
  fix c
  show "stmt_keeps (\<lambda>d. A \<subseteq>\<^sub>m ac_points (accounts d)) (insert_customer c)"
  proof (rule stmt_keepsI)
    fix drv n and d d' :: database
    assume f: "insert_customer c drv d = Some (n, d')" and a: "A \<subseteq>\<^sub>m ac_points (accounts d)"
    have "ac_points (accounts d) \<subseteq>\<^sub>m ac_points (accounts d')"
      using f by (auto simp: insert_customer_def accounts_def map_le_def split: if_splits)
    with a show "A \<subseteq>\<^sub>m ac_points (accounts d')" by (rule map_le_trans)
  qed
next
  fix ap go
  have "accounts (db (snd (run_state (drain (Some (the_updater ap go))) w))) = accounts (db w)" for w
    unfolding the_updater_def by (intro accounts_sans_jobs wallet.drain_outbox)
  then show "keeps (\<lambda>d. A \<subseteq>\<^sub>m ac_points (accounts d)) (drain (Some (the_updater ap go)))"
    by (simp add: keeps_def)
qed (simp add: stmt_untouched_customer
  | rule stmt_untouched, auto simp: other_tables intro: accounts_cong split: if_splits)+

lemma money_route_handler:
  assumes "(m, pat, h) \<in> set (routes s)" "(m, pat) \<in> set money_routes" "match_segments pat segs = Some ps"
  shows "segs = [''cashier'', ''commit''] \<and> h = staff_guard s (postCommit s)
    \<or> segs = [''cashier'', ''refund''] \<and> h = staff_guard s (postRefund s)
    \<or> segs = [''admin'', ''adjust''] \<and> h = admin_guard s (postAdjust s)"
  using assms
  unfolding routes_def public_routes_def cashier_routes_def admin_routes_def pass_routes_def money_routes_def
  by (cases segs) (auto simp: registration_def dest: match_Lit_single split: if_splits)

lemma other_route_keeps_points:
  assumes "(m, pat, h) \<in> set (routes s)" "(m, pat) \<notin> set money_routes"
    and "run_state (h rq) w = (r, w')" "ac_points (accounts (db w)) c = Some p"
  shows "ac_points (accounts (db w')) c = Some p"
proof -
  have "ac_points (accounts (db w)) \<subseteq>\<^sub>m ac_points (accounts (db w'))"
    using keepsD [OF untouched.keeps_other_routes [OF assms(1,2), of "ac_points (accounts (db w))" rq], of w]
      assms(3) by simp
  with assms(4) show ?thesis by (auto simp: map_le_def dom_def)
qed

text \<open>What a request must show before it reaches an operation on points.\<close>

definition may_move_points :: "server \<Rightarrow> request \<Rightarrow> world \<Rightarrow> string list \<Rightarrow> bool" where
  "may_move_points s rq w segs \<longleftrightarrow> rq_method rq = ''POST'' \<and>
     (segs = [''cashier'', ''commit'']
        \<and> (\<exists>c st. admitted KindCashier (CashierJWTSecret (Cfg s)) rq w c st)
      \<or> segs = [''cashier'', ''refund'']
        \<and> (\<exists>c st. admitted KindCashier (CashierJWTSecret (Cfg s)) rq w c st \<and> CanRefund (staff_role st))
      \<or> segs = [''admin'', ''adjust'']
        \<and> (\<exists>c st. admitted KindAdmin (AdminJWTSecret (Cfg s)) rq w c st \<and> IsAdmin (staff_role st)))"

lemma postRefund_role:
  "run_state (postRefund s (rq\<lparr>ctx_staff := Some st, ctx_claims := c\<rparr>)) w = (r, w') \<Longrightarrow> w' \<noteq> w
     \<Longrightarrow> CanRefund (staff_role st)"
  by (rule ccontr) (simp add: postRefund_def staffFrom_def run_ret)

lemma postAdjust_role:
  "run_state (postAdjust s (rq\<lparr>ctx_staff := Some st, ctx_claims := c\<rparr>)) w = (r, w') \<Longrightarrow> w' \<noteq> w
     \<Longrightarrow> IsAdmin (staff_role st)"
  by (rule ccontr) (simp add: postAdjust_def staffFrom_def run_ret)

lemma money_route_guard:
  assumes "(m, pat, h) \<in> set (routes s)" "(m, pat) \<in> set money_routes" "match_segments pat segs = Some ps"
    and m: "m = rq_method rq" and go: "run_state (h rq) w = (r, w')" and ch: "db w' \<noteq> db w"
  shows "may_move_points s rq w segs"
proof -
  have post: "rq_method rq = ''POST''" using assms(2) m by (auto simp: money_routes_def)
  note guards = staff_guard_def admin_guard_def
  from money_route_handler [OF assms(1-3)] show ?thesis
  proof (elim disjE conjE)
    assume s: "segs = [''cashier'', ''commit'']" and h: "h = staff_guard s (postCommit s)"
    show ?thesis
      by (rule requireStaff_cases [OF go [unfolded h guards]])
        (use ch post s in \<open>auto simp: may_move_points_def\<close>)
  next
    assume s: "segs = [''cashier'', ''refund'']" and h: "h = staff_guard s (postRefund s)"
    show ?thesis
      by (rule requireStaff_cases [OF go [unfolded h guards]])
        (use ch post s in \<open>auto simp: may_move_points_def dest!: postRefund_role\<close>)
  next
    assume s: "segs = [''admin'', ''adjust'']" and h: "h = admin_guard s (postAdjust s)"
    show ?thesis
      by (rule requireStaff_cases [OF go [unfolded h guards]])
        (use ch post s in \<open>auto simp: may_move_points_def dest!: postAdjust_role\<close>)
  qed
qed

lemma points_moved_by:
  assumes go: "run_state (Handler s rq) w = (r, w')" and p: "ac_points (accounts (db w)) k = Some p"
    and ch: "ac_points (accounts (db w')) k \<noteq> Some p"
  shows "\<exists>segs. path_segments (rq_path rq) = Some segs \<and> may_move_points s rq w segs"
proof -
  let ?rq = "rq\<lparr>ctx_staff := None, ctx_claims := None\<rparr>"
  show ?thesis
  proof (rule Handler_layers [OF go])
    assume "db w' = db w" with p ch show ?thesis by simp
  next
    fix w1 r1
    assume w1: "db w1 = db w" "env w1 = env w" and g: "run_state (router s ?rq) w1 = (r1, w')"
    show ?thesis
    proof (cases "path_segments (rq_path rq)")
      case None
      with g p ch w1 show ?thesis by (auto simp: router_def run_ret)
    next
      case (Some segs)
      then have "path_segments (rq_path ?rq) = Some segs" by simp
      then show ?thesis
      proof (rule router_route [OF _ g])
        assume "w' = w1" with p ch w1 show ?thesis by simp
      next
        fix m pat h ps prm
        assume a: "(m, pat, h) \<in> set (routes s)" "match_segments pat segs = Some ps"
          "m = rq_method ?rq" and h: "run_state (h (?rq\<lparr>rq_param := prm\<rparr>)) w1 = (r1, w')"
        have "(m, pat) \<in> set money_routes"
          using other_route_keeps_points [OF a(1) _ h] p ch w1 by auto
        moreover have "db w' \<noteq> db w1" using p ch w1 by auto
        ultimately have "may_move_points s (?rq\<lparr>rq_param := prm\<rparr>) w1 segs"
          using money_route_guard [OF a(1) _ a(2) _ h] a(3) by simp
        then have "may_move_points s rq w segs"
          using admitted_cong [OF w1(2,1), of "?rq\<lparr>rq_param := prm\<rparr>" rq]
          by (simp add: may_move_points_def)
        with Some show ?thesis by blast
      qed
    qed
  qed
qed

text \<open>C4: A balance changes in no other way than by a commit of an admitted member of staff, a refund
  of one whose role may refund, or an adjustment of an administrator; every other request, of
  whatever method, path, headers and body, leaves the balance of every card alone.\<close>

theorem points_move_only_by_staff:
  "ac_points (accounts (db w)) \<subseteq>\<^sub>m ac_points (accounts (db (snd (run_state (Handler s rq) w))))
   \<or> (\<exists>segs. path_segments (rq_path rq) = Some segs \<and> may_move_points s rq w segs)"
proof -
  obtain r w' where go: "run_state (Handler s rq) w = (r, w')" by fastforce
  show ?thesis
    using points_moved_by [OF go] by (auto simp: go map_le_def) metis
qed

section \<open>A change of role\<close>

lemma env_recordActivity: "env (snd (run_state (recordActivity a s k t d) w)) = env w"
  by (simp add: recordActivity_def InsertActivity_def run Let_def case_prod_beta split: option.splits fate.splits)

lemma env_staffJSON: "env (snd (run_state (staffJSON st) w)) = env w"
  by (simp add: staffJSON_def GetStore_def run case_prod_beta)

lemma keeps_staff_tables:
  "keeps (\<lambda>d. staff d = ss \<and> sessions d = se) (recordActivity a s k t d)"
proof -
  have "stmt_keeps (\<lambda>d. staff d = ss \<and> sessions d = se) (insert_activity x)" for x
    by (rule stmt_keepsI) (auto simp: insert_activity_def split: if_splits)
  then show ?thesis unfolding recordActivity_def InsertActivity_def by (intro keep)
qed

lemma UpdateStaff_Inr:
  assumes "run_state (UpdateStaff st) w = (Inr u, w1)"
  shows "env w1 = env w" "sessions (db w1) = sessions (db w)"
    "staff (db w1) = update_by staff_id (staff_id st)
       (set_staff_row (st\<lparr>staff_login := normalize_login (lower_tab (env w)) (staff_login st)\<rparr>)) (staff (db w))"
  using assms
  by (auto simp: UpdateStaff_def update_staff_def run Let_def split: if_splits fate.splits option.splits)

definition role_body :: "string \<Rightarrow> json" where
  "role_body role = JObj [(''role'', JStr role)]"

lemma staffReq_zero_sel:
  "sq_login staffReq_zero = ''''" "sq_name staffReq_zero = ''''" "sq_password staffReq_zero = ''''"
  "sq_pin staffReq_zero = ''''" "sq_store staffReq_zero = ''''" "sq_active staffReq_zero = None"
  by (simp_all add: staffReq_zero_def)

lemma decode_role:
  assumes "rq_body rq = Some (role_body role)"
  shows "decodeJSON rq staffReq_slots staffReq_zero = ok (staffReq_zero\<lparr>sq_role := role\<rparr>)"
  using assms by (simp add: decodeJSON_def role_body_def find_slot_def staffReq_slots_def)

text \<open>A patch of the role alone that is answered with 200 changes nothing but the role (and writes
  the login in its normal form).\<close>

lemma patchStaff_role:
  assumes go: "run_state (patchStaff rq) w = (r, w1)" and r: "rs_status r = 200"
    and b: "rq_body rq = Some (role_body role)" "role \<noteq> ''''"
    and st: "row_by staff_id (rq_param rq ''id'') (staff (db w)) = Some st"
  shows "env w1 = env w" "sessions (db w1) = sessions (db w)"
    "row_by staff_id (rq_param rq ''id'') (staff (db w1))
       = Some (st\<lparr>staff_role := role, staff_login := normalize_login (lower_tab (env w)) (staff_login st)\<rparr>)"
proof -
  let ?sid = "rq_param rq ''id''" and ?st = "st\<lparr>staff_role := role\<rparr>"
  let ?tail = "do { _ \<leftarrow> recordActivity (staffFrom rq) (staff_store ?st) ''staff_updated'' a_staff_upd (staff_label ?st);
    j \<leftarrow> staffJSON ?st; ret (writeJSON 200 j) }"
  have ok: "rs_status r < 400" using r by simp
  have sid: "staff_id st = ?sid" using st by (rule row_by_Some_key)
  have e: "rs_status (writeErr e) \<noteq> 200" for e using writeErr_status [of e] by auto
  have u: "run_state (or_write (UpdateStaff ?st) (\<lambda>_. ?tail)) (next_tick w) = (r, w1)"
    using go r st b
    by (auto simp: e patchStaff_def run_or_missing run_GetStaffByID decode_role [OF b(1)] run_or_write [of "ok _"]
        run_ok run_ret run_the_env Let_def staffReq_zero_sel patch_names_def patch_store_def patch_secrets_def
        patch_active_def split: fate.splits if_splits)
  then obtain x w2 where x: "run_state (UpdateStaff ?st) (next_tick w) = (Inr x, w2)"
    and t: "run_state ?tail w2 = (r, w1)" by (rule or_write_success [OF _ ok])
  note up = UpdateStaff_Inr [OF x]
  have "keeps (\<lambda>d. staff d = staff (db w2) \<and> sessions d = sessions (db w2)) ?tail"
    by (intro keep keeps_staff_tables)
  from keepsD [OF this, of w2] t have k: "staff (db w1) = staff (db w2)" "sessions (db w1) = sessions (db w2)"
    by simp_all
  have "env w1 = env w2"
    using arg_cong [OF t, of "\<lambda>p. env (snd p)"] env_recordActivity env_staffJSON by (simp add: case_prod_beta)
  with up(1) show "env w1 = env w" by simp
  show "sessions (db w1) = sessions (db w)" using k(2) up(2) by simp
  show "row_by staff_id ?sid (staff (db w1))
      = Some (st\<lparr>staff_role := role, staff_login := normalize_login (lower_tab (env w)) (staff_login st)\<rparr>)"
    using st sid k(1) up(3) by (cases st) (simp add: row_by_update_by set_staff_row_def)
qed


definition demotion :: request where
  "demotion = boss_request\<lparr>rq_param := \<lambda>_. ''s2'', rq_body := Some (role_body ''cashier'')\<rparr>"

lemma boss_admitted:
  "admitted KindAdmin ''admin-key'' boss_request boss_world boss_claims (sample_staff ''s2'' ''boss'' ''admin'')"
proof -
  have "\<exists>n. from_unix (1700000000 + int n) < ses_expires (sample_session ''j2'' ''s2'' ''admin'')"
    by (intro exI [of _ 0]) (simp add: sample_session_def from_unix_def second_def)
  then show ?thesis
    unfolding admitted_def by (auto simp: sample_staff_def sample_session_def)
qed

lemma boss_login: "normalize_login id ''boss'' = ''boss''"
  by (simp add: normalize_login_def trim_space_ascii to_lower_def is_ascii_def byte_def is_space_def
      rune_lower_def char_of_def bit_0)

lemma sample_shop:
  "has_row shop_id ''m1'' (stores sample_db)"
  "\<not> list_ex (\<lambda>s. staff_id s \<noteq> ''s2'' \<and> staff_login s = ''boss'') (staff sample_db)"
  "has_row staff_id ''s2'' (staff sample_db)"
  by (simp_all add: sample_db_def sample_staff_def)

lemma sample_staff_sel:
  "staff_id (sample_staff i l r) = i" "staff_login (sample_staff i l r) = l"
  "staff_store (sample_staff i l r) = ''m1''" "staff_deleted (sample_staff i l r) = None"
  by (simp_all add: sample_staff_def)


end
