(* ===== verification/LoginProps.thy ===== *)
theory LoginProps
  imports Access
begin

text \<open>
  Login: who is given a token, and that the token opens the area it was given for.
\<close>

lemma staff_row_of_member:
  "\<lbrakk>wf_db d; st \<in> set (staff d)\<rbrakk> \<Longrightarrow> row_by staff_id (staff_id st) (staff d) = Some st"
  by (simp add: wf_db_def keys_ok_def row_by_distinct)

lemma NumericDate_le: "NumericDate t \<le> t"
  by (simp add: NumericDate_def from_unix_le)

section \<open>The guard lets a fresh token through\<close>

text \<open>The guard hands the request on, with this staff member and these claims, and has changed
  nothing.\<close>

definition lets_through :: "string \<Rightarrow> string \<Rightarrow> request \<Rightarrow> world \<Rightarrow> Claims \<Rightarrow> Staff \<Rightarrow> bool" where
  "lets_through kind secret rq v c st \<longleftrightarrow>
     (\<forall>next. \<exists>v2. db v2 = db v \<and> env v2 = env v
        \<and> run_state (requireStaff kind secret next rq) v
          = run_state (next (rq\<lparr>ctx_staff := Some st, ctx_claims := Some c\<rparr>)) v2)"

lemma token_lets_through:
  assumes "bearer_token (rq_auth rq) = tok" "tok \<noteq> ''''" "jwt_sign (env v) secret c = Some tok"
    and "jwt_reads_back (env v)" "fate_at (env v) = (\<lambda>_. Okay)"
    and "now_at (env v) (tick v) < clm_expires c" "clm_kind c = kind"
    and se: "row_by ses_jti (clm_id c) (sessions (db v)) = Some se" "\<not> ses_revoked se"
      "now_at (env v) (Suc (Suc (tick v))) < ses_expires se"
    and st: "row_by staff_id (clm_subject c) (staff (db v)) = Some st" "staff_active st" "staff_deleted st = None"
  shows "lets_through kind secret rq v c st"
proof -
  have "jwt_parse (env v) (now_at (env v) (tick v)) (key_func secret) tok = Some c"
    using assms(3,4,6) by (simp add: jwt_reads_back_def key_func_def)
  then show ?thesis
    unfolding lets_through_def using assms
    by (intro allI exI [of _ "next_tick (next_tick (next_tick (next_tick v)))"])
      (auto simp: requireStaff_def authenticateStaff_def Let_def run_or_write run)
qed

section \<open>What a granted login has done\<close>

lemma login_granted_success:
  assumes "run_state (login_granted s kind secret st) w = (r, w')" "rs_status r = 200"
  obtains tok c expiry body where
    "jwt_sign (env w) secret c = Some tok" "clm_subject c = staff_id st" "clm_kind c = kind"
    "clm_expires c = NumericDate expiry" "\<not> has_row ses_jti (clm_id c) (sessions (db w))"
    "db w' = (db w)\<lparr>sessions := sessions (db w) @ [\<lparr>ses_jti = clm_id c, ses_staff = staff_id st,
        ses_kind = kind, ses_expires = expiry, ses_revoked = False\<rparr>]\<rparr>"
    "env w' = env w" "rs_body r = Json (JObj ((''token'', JStr tok) # body))"
proof -
  have e: "rs_status (writeErr e) \<noteq> 200" for e using writeErr_status [of e] by auto
  define jti where "jti = hex_encode (map (\<lambda>i. rand_at (env w) (tick w) i mod 256) [0..<16])"
  define expiry where "expiry = add_time (now_at (env w) (Suc (tick w)))
    (if kind = KindAdmin then AdminJWTTTL (Cfg s) else CashierJWTTTL (Cfg s))"
  define c where "c = \<lparr>clm_subject = staff_id st, clm_id = jti,
    clm_issued = NumericDate (now_at (env w) (Suc (Suc (tick w)))), clm_expires = NumericDate expiry,
    clm_role = staff_role st, clm_store = staff_store st, clm_kind = kind, clm_login = staff_login st\<rparr>"
  let ?se = "\<lparr>ses_jti = jti, ses_staff = staff_id st, ses_kind = kind, ses_expires = expiry, ses_revoked = False\<rparr>"
  have j: "rand_ok_at (env w) (tick w)" and "secret \<noteq> ''''"
    using assms by (auto simp: login_granted_def run_or_write run_NewJTI run_Sign e split: if_splits)
  with assms obtain tok where tok: "jwt_sign (env w) secret c = Some tok"
    by (auto simp: login_granted_def run_or_write run_NewJTI run_Sign e Let_def c_def jti_def expiry_def
        split: option.splits)
  note run_all = login_granted_def run_or_write run_NewJTI run_Sign run_GetStore run_or_return run_exec
    run_ret run_ok CreateSession_def insert_session_def jti_def [symmetric] expiry_def [symmetric] Let_def
    c_def [symmetric]
  have "\<not> has_row ses_jti jti (sessions (db w)) \<and> db w' = (db w)\<lparr>sessions := sessions (db w) @ [?se]\<rparr>
      \<and> env w' = env w \<and> (\<exists>body. rs_body r = Json (JObj ((''token'', JStr tok) # body)))"
    using assms j \<open>secret \<noteq> ''''\<close> tok
    by (auto simp: run_all e writeJSON_def split: if_splits fate.splits option.splits)
  then show thesis
    using that [OF tok, of expiry] by (auto simp: c_def)
qed

section \<open>Login\<close>

abbreviation loginReq_zero :: loginReq where
  "loginReq_zero \<equiv> \<lparr>lg_login = '''', lg_password = '''', lg_pin = ''''\<rparr>"

text \<open>What a login shows: an active staff member of that name (an administrator, for the admin
  area) whose password or PIN was given.\<close>

definition proves_identity :: "bool \<Rightarrow> loginReq \<Rightarrow> env \<Rightarrow> database \<Rightarrow> Staff \<Rightarrow> bool" where
  "proves_identity adminOnly req e d st \<longleftrightarrow>
     row_by staff_login (normalize_login (lower_tab e) (lg_login req)) (staff d) = Some st
     \<and> staff_active st \<and> staff_deleted st = None \<and> (adminOnly \<longrightarrow> staff_role st = RoleAdmin)
     \<and> (CheckSecret e (staff_password_hash st) (lg_password req)
        \<or> CheckSecret e (staff_pin_hash st) (lg_pin req))"

lemma login_success:
  assumes "run_state (login s kind secret adminOnly rq) w = (r, w')" "rs_status r = 200"
  obtains req st w1 where "run_state (decodeJSON rq loginReq_slots loginReq_zero) w = (Inr req, w)"
    "proves_identity adminOnly req (env w) (db w) st" "env w1 = env w" "db w1 = db w"
    "run_state (login_granted s kind secret st) w1 = (r, w')"
proof -
  have ok: "rs_status r < 400" using assms(2) by simp
  have e: "rs_status (writeErr e) \<noteq> 200" for e using writeErr_status [of e] by auto
  from assms(1) obtain req v where d: "run_state (decodeJSON rq loginReq_slots loginReq_zero) w = (Inr req, v)"
    and k: "run_state (or_missing (GetStaffByLogin (lg_login req)) (writeError 401 CodeUnauthorized h_bad_login) (\<lambda>st.
       if staff_deleted st \<noteq> None then ret (writeError 401 CodeUnauthorized h_staff_deleted)
       else if \<not> staff_active st then ret (writeError 401 CodeUnauthorized h_inactive)
       else if adminOnly \<and> staff_role st \<noteq> RoleAdmin
       then ret (writeError 403 CodeStaffForbidden h_forbidden)
       else do {
         e \<leftarrow> the_env;
         let good = CheckSecret e (staff_password_hash st) (lg_password req);
         let good = (if \<not> good \<and> lg_pin req \<noteq> '''' then CheckSecret e (staff_pin_hash st) (lg_pin req)
                     else good);
         if \<not> good then ret (writeError 401 CodeUnauthorized h_bad_login)
         else login_granted s kind secret st })) v = (r, w')"
    unfolding login_def by (rule or_write_success [OF _ ok])
  have v: "v = w" using d by (auto simp: decodeJSON_def run split: option.splits)
  from k [unfolded v] obtain st w1 where g: "run_state (GetStaffByLogin (lg_login req)) w = (Inr st, w1)"
    and "run_state (if staff_deleted st \<noteq> None then ret (writeError 401 CodeUnauthorized h_staff_deleted)
       else if \<not> staff_active st then ret (writeError 401 CodeUnauthorized h_inactive)
       else if adminOnly \<and> staff_role st \<noteq> RoleAdmin
       then ret (writeError 403 CodeStaffForbidden h_forbidden)
       else do {
         e \<leftarrow> the_env;
         let good = CheckSecret e (staff_password_hash st) (lg_password req);
         let good = (if \<not> good \<and> lg_pin req \<noteq> '''' then CheckSecret e (staff_pin_hash st) (lg_pin req)
                     else good);
         if \<not> good then ret (writeError 401 CodeUnauthorized h_bad_login)
         else login_granted s kind secret st }) w1 = (r, w')"
    by (rule or_missing_success [OF _ ok]) (simp add: rs_status_simps)
  moreover have "env w1 = env w" "db w1 = db w"
    "row_by staff_login (normalize_login (lower_tab (env w)) (lg_login req)) (staff (db w)) = Some st"
    using g by (auto simp: GetStaffByLogin_def run split: fate.splits option.splits)
  ultimately show thesis
    using d v assms(2) that [of req st w1]
    by (auto simp: proves_identity_def run_ret run_the_env Let_def CheckSecret_def split: if_splits)
qed

text \<open>C16: A login answered with 200 has proved who asks: it names an active staff member, for the
  admin area an administrator, and holds the password or the PIN.  It changes nothing but for one
  new session of that person, and the token in the answer passes the guard of that area as that
  person until it expires.\<close>

theorem login_admits_checked_staff:
  assumes wf: "wf_db (db w)" and go: "run_state (login s kind secret adminOnly rq) w = (r, w')" "rs_status r = 200"
  shows "\<exists>req st tok c body se. run_state (decodeJSON rq loginReq_slots loginReq_zero) w = (Inr req, w)
    \<and> proves_identity adminOnly req (env w) (db w) st
    \<and> db w' = (db w)\<lparr>sessions := sessions (db w) @ [se]\<rparr> \<and> ses_staff se = staff_id st
    \<and> rs_body r = Json (JObj ((''token'', JStr tok) # body))
    \<and> jwt_sign (env w) secret c = Some tok \<and> clm_subject c = staff_id st
    \<and> (\<forall>rq2 v. tok \<noteq> '''' \<longrightarrow> bearer_token (rq_auth rq2) = tok \<longrightarrow> db v = db w' \<longrightarrow> env v = env w
         \<longrightarrow> jwt_reads_back (env w) \<longrightarrow> fate_at (env w) = (\<lambda>_. Okay)
         \<longrightarrow> (\<forall>n\<in>{tick v, Suc (Suc (tick v))}. now_at (env v) n < clm_expires c)
         \<longrightarrow> lets_through kind secret rq2 v c st)"
proof (rule login_success [OF go])
  fix req st w1
  assume req: "run_state (decodeJSON rq loginReq_slots loginReq_zero) w = (Inr req, w)"
    and id: "proves_identity adminOnly req (env w) (db w) st"
    and w1: "env w1 = env w" "db w1 = db w" and g: "run_state (login_granted s kind secret st) w1 = (r, w')"
  have st: "row_by staff_id (staff_id st) (staff (db w)) = Some st" "staff_active st" "staff_deleted st = None"
    using id staff_row_of_member [OF wf row_by_Some_in] by (auto simp: proves_identity_def)
  show ?thesis
  proof (rule login_granted_success [OF g go(2)])
    fix tok and c :: Claims and expiry body
    let ?se = "\<lparr>ses_jti = clm_id c, ses_staff = staff_id st, ses_kind = kind, ses_expires = expiry, ses_revoked = False\<rparr>"
    assume c: "jwt_sign (env w1) secret c = Some tok" "clm_subject c = staff_id st" "clm_kind c = kind"
        "\<not> has_row ses_jti (clm_id c) (sessions (db w1))" "clm_expires c = NumericDate expiry"
      and w': "db w' = (db w1)\<lparr>sessions := sessions (db w1) @ [?se]\<rparr>"
      and body: "rs_body r = Json (JObj ((''token'', JStr tok) # body))"
    have se: "row_by ses_jti (clm_id c) (sessions (db w')) = Some ?se"
      using c(4) w' by (simp flip: row_by_None)
    have before: "t < expiry" if "t < clm_expires c" for t
      using that NumericDate_le [of expiry] c(5) by (simp add: less_le_trans)
    have "lets_through kind secret rq2 v c st"
      if "tok \<noteq> ''''" "bearer_token (rq_auth rq2) = tok" "db v = db w'" "env v = env w"
        "jwt_reads_back (env w)" "fate_at (env w) = (\<lambda>_. Okay)"
        "\<forall>n\<in>{tick v, Suc (Suc (tick v))}. now_at (env v) n < clm_expires c"
      for rq2 v
      by (rule token_lets_through [of _ tok, where se = ?se]) (use that c w1 se st w' before in auto)
    with req id w' w1 body c(1,2) show ?thesis
      by (intro exI [of _ req] exI [of _ st] exI [of _ tok] exI [of _ c] exI [of _ body] exI [of _ ?se]) simp
  qed
qed


definition login_claims :: Claims where
  "login_claims = \<lparr>clm_subject = ''s2'', clm_id = hex_encode (map (\<lambda>i. (1 + i) mod 256) [0..<16]),
     clm_issued = from_unix 1700000003, clm_expires = from_unix 1702592002, clm_role = RoleAdmin,
     clm_store = ''m1'', clm_kind = KindAdmin, clm_login = ''boss''\<rparr>"

definition login_world :: world where
  "login_world = (world_of sample_db)\<lparr>env := calm_env\<lparr>
     jwt_sign := (\<lambda>s c. if s = ''admin-key'' \<and> c = login_claims then Some ''tok'' else None),
     jwt_parse := (\<lambda>t kf tok. if tok = ''tok'' \<and> kf ''HS256'' = Some ''admin-key''
        \<and> t < clm_expires login_claims then Some login_claims else None)\<rparr>\<rparr>"

definition login_request :: request where
  "login_request = empty_request\<lparr>rq_body := Some (JObj [(''login'', JStr ''boss''), (''password'', JStr ''pw'')])\<rparr>"

lemma login_world_sel [simp]:
  "db login_world = sample_db" "tick login_world = 0" "driver_of (env login_world) = DriverSQLite"
  "fate_at (env login_world) n = Okay" "now_at (env login_world) n = from_unix (1700000000 + int n)"
  "rand_ok_at (env login_world) n" "rand_at (env login_world) n i = n + i" "lower_tab (env login_world) = id"
  "bcrypt_match (env login_world) h s \<longleftrightarrow> h = CHR ''$'' # s"
  "jwt_sign (env login_world) ''admin-key'' c = (if c = login_claims then Some ''tok'' else None)"
  by (simp_all add: login_world_def) (simp add: calm_env_def)

lemma login_reads_back: "jwt_reads_back (env login_world)"
  by (auto simp: jwt_reads_back_def login_world_def split: if_splits)

lemma login_expiry:
  "add_time (from_unix 1700000002) (2592000 * second) = from_unix 1702592002"
  "NumericDate (from_unix n) = from_unix n"
  by (simp_all add: add_time_def from_unix_def NumericDate_def unix_def second_def)

lemma login_runs:
  "rs_status (fst (run_state (login sample_server KindAdmin ''admin-key'' True login_request) login_world)) = 200"
proof -
  have d: "decodeJSON login_request loginReq_slots loginReq_zero
      = ok \<lparr>lg_login = ''boss'', lg_password = ''pw'', lg_pin = ''''\<rparr>"
    by (simp add: login_request_def decodeJSON_def find_slot_def loginReq_slots_def)
  have st: "row_by staff_login ''boss'' (staff sample_db) = Some (sample_staff ''s2'' ''boss'' ''admin'')"
    by (simp add: sample_db_def sample_staff_def)
  have ttl: "AdminJWTTTL (Cfg sample_server) = 720 * 3600 * second"
    by (simp add: sample_server_def sample_config_def default_config_def)
  have j: "\<not> has_row ses_jti (clm_id login_claims) (sessions sample_db)"
    using length_hex_encode [of "map (\<lambda>i. (1 + i) mod 256) [0..<16]"]
    by (auto simp: login_claims_def sample_db_def sample_session_def dest!: arg_cong [of _ _ length])
  have s: "staff_password_hash (sample_staff i l r) = ''$pw''" "staff_role (sample_staff i l r) = r"
    "staff_active (sample_staff i l r)" for i l r by (simp_all add: sample_staff_def)
  note c = j [unfolded login_claims_def Claims.simps]
  show ?thesis
    using c
    by (simp add: login_def d run_or_write run_or_missing run_ok GetStaffByLogin_def run boss_login st s
        sample_staff_sel Let_def CheckSecret_def login_granted_def ttl login_claims_def login_expiry
        CreateSession_def insert_session_def sample_shop)
qed


theorem login_admits_checked_staff_witness:
  "rs_status (fst (run_state (login sample_server KindAdmin ''admin-key'' True login_request) login_world)) = 200
   \<and> (\<exists>st. staff_login st = ''boss'' \<and> lets_through KindAdmin ''admin-key'' boss_request
        ((snd (run_state (login sample_server KindAdmin ''admin-key'' True login_request) login_world))
          \<lparr>env := env login_world, tick := 10\<rparr>) login_claims st)"
proof -
  let ?go = "run_state (login sample_server KindAdmin ''admin-key'' True login_request) login_world"
  let ?v = "(snd ?go)\<lparr>env := env login_world, tick := 10\<rparr>"
  have wf: "wf_db (db login_world)" by (simp add: sample_wf)
  have d: "decodeJSON login_request loginReq_slots loginReq_zero
      = ok \<lparr>lg_login = ''boss'', lg_password = ''pw'', lg_pin = ''''\<rparr>"
    by (simp add: login_request_def decodeJSON_def find_slot_def loginReq_slots_def)
  obtain req st tok c where req: "run_state (decodeJSON login_request loginReq_slots loginReq_zero) login_world
        = (Inr req, login_world)"
    and id: "proves_identity True req (env login_world) sample_db st"
    and c: "jwt_sign (env login_world) ''admin-key'' c = Some tok"
    and adm: "\<forall>rq2 v. tok \<noteq> '''' \<longrightarrow> bearer_token (rq_auth rq2) = tok \<longrightarrow> db v = db (snd ?go)
         \<longrightarrow> env v = env login_world \<longrightarrow> jwt_reads_back (env login_world)
         \<longrightarrow> fate_at (env login_world) = (\<lambda>_. Okay)
         \<longrightarrow> (\<forall>n\<in>{tick v, Suc (Suc (tick v))}. now_at (env v) n < clm_expires c)
         \<longrightarrow> lets_through KindAdmin ''admin-key'' rq2 v c st"
    using login_admits_checked_staff [OF wf prod.collapse [symmetric] login_runs] by auto
  have cl: "c = login_claims" "tok = ''tok''" using c by (simp_all split: if_splits)
  have "\<forall>n\<in>{tick ?v, Suc (Suc (tick ?v))}. now_at (env ?v) n < clm_expires c"
    by (simp add: cl login_claims_def from_unix_def second_def)
  then have "lets_through KindAdmin ''admin-key'' boss_request ?v login_claims st"
    by (intro adm [rule_format, of boss_request ?v, unfolded cl])
      (use cl login_reads_back in \<open>auto simp: fun_eq_iff\<close>)
  moreover have "staff_login st = ''boss''"
    using id req by (auto simp: d run_ok proves_identity_def boss_login dest: row_by_Some_key)
  ultimately show ?thesis using login_runs by blast
qed

end
