(* ===== verification/Delivery.thy ===== *)
theory Delivery
  imports System
begin

text \<open>
  Delivery of the wallet updates: how many ticks of the worker empty the outbox, which pushes are
  sent, and the update that is lost when a balance changes while the worker is sending.
\<close>

section \<open>The outbox empties\<close>

definition open_jobs :: "database \<Rightarrow> WalletJob list" where
  "open_jobs d = filter pending (wallet_jobs d)"

lemma open_jobs_complete:
  "complete_jobs c t drv d = Some (n, d') \<Longrightarrow> open_jobs d' = filter (\<lambda>j. job_customer j \<noteq> c) (open_jobs d)"
proof -
  have "filter pending (map (\<lambda>j. if job_customer j = c \<and> pending j then j\<lparr>job_processed := Some t\<rparr> else j) js)
      = filter (\<lambda>j. job_customer j \<noteq> c) (filter pending js)" for js
    by (induction js) (auto simp: pending_def)
  then show "complete_jobs c t drv d = Some (n, d') \<Longrightarrow> ?thesis"
    by (auto simp: complete_jobs_def open_jobs_def)
qed

context updater
begin

lemma drain_job_open:
  assumes "succeeds w (job_customer j)" "fate_at (env w) = (\<lambda>_. Okay)"
  shows "open_jobs (db (snd (run_state (drain_job (Some upd) j) w)))
    = filter (\<lambda>i. job_customer i \<noteq> job_customer j) (open_jobs (db w))"
proof -
  obtain r w1 where u: "run_state (upd (job_customer j)) w = (r, w1)" by fastforce
  with assms(1) have "r = Inr ()" by (auto simp: succeeds_def)
  moreover note readsD [OF upd_reads u]
  moreover obtain n d where "complete_jobs (job_customer j) (now_at (env w) (tick w1)) (driver_of (env w)) (db w)
      = Some (n, d)" by (simp add: complete_jobs_def)
  ultimately show ?thesis
    using u assms(2) open_jobs_complete
    by (auto simp: drain_job_def CompleteWalletJobsForCustomer_def run)
qed

lemma drain_loop_open:
  assumes "\<forall>j \<in> set js. succeeds w (job_customer j)" "fate_at (env w) = (\<lambda>_. Okay)"
    and "\<forall>j \<in> set (open_jobs (db w)). job_customer j \<notin> set seen"
  shows "open_jobs (db (snd (run_state (drain_loop (Some upd) seen js) w)))
    = filter (\<lambda>i. job_customer i \<notin> job_customer ` set js) (open_jobs (db w))"
  using assms
proof (induction js arbitrary: seen w)
  case (Cons j js)
  show ?case
  proof (cases "job_customer j \<in> set seen")
    case True
    with Cons.IH [of w seen] Cons.prems
    have "open_jobs (db (snd (run_state (drain_loop (Some upd) seen (j # js)) w)))
        = filter (\<lambda>i. job_customer i \<notin> job_customer ` set js) (open_jobs (db w))" by simp
    also have "\<dots> = filter (\<lambda>i. job_customer i \<notin> job_customer ` set (j # js)) (open_jobs (db w))"
      using Cons.prems(3) True by (intro filter_cong refl) auto
    finally show ?thesis .
  next
    case False
    let ?w = "snd (run_state (drain_job (Some upd) j) w)"
    have "run_state (drain_loop (Some upd) seen (j # js)) w
        = run_state (drain_loop (Some upd) (job_customer j # seen) js) ?w"
      using False by (simp add: case_prod_beta)
    moreover have o: "open_jobs (db ?w) = filter (\<lambda>i. job_customer i \<noteq> job_customer j) (open_jobs (db w))"
      using Cons.prems by (intro drain_job_open) simp_all
    moreover have "\<forall>j \<in> set js. succeeds ?w (job_customer j)"
      using Cons.prems(1) succeeds_cong [OF drain_job_outbox(2,1), of j w] by simp
    ultimately show ?thesis
      using Cons.IH [of ?w "job_customer j # seen"] Cons.prems
      by (auto simp: drain_job_outbox(2) intro!: filter_cong)
  qed
qed simp

text \<open>One drain closes all open jobs of the customers of the fifty oldest.\<close>

lemma drain_open:
  assumes succ: "\<forall>j \<in> set (open_jobs (db w)). succeeds w (job_customer j)"
    and fate: "fate_at (env w) = (\<lambda>_. Okay)"
  shows "open_jobs (db (snd (run_state (drain (Some upd)) w)))
    = filter (\<lambda>i. job_customer i \<notin> job_customer ` set (take 50 (order_asc job_created (open_jobs (db w)))))
        (open_jobs (db w))"
proof -
  let ?js = "take 50 (order_asc job_created (open_jobs (db w)))"
  have d: "run_state (drain (Some upd)) w = run_state (drain_loop (Some upd) [] ?js) (next_tick w)"
    using fate by (simp add: drain_def ClaimWalletJobs_def run Let_def limit_rows_def open_jobs_def)
  have "set ?js \<subseteq> set (open_jobs (db w))"
    using set_take_subset by (fastforce simp: order_asc_def)
  moreover have "succeeds (next_tick w) x = succeeds w x" for x by (rule succeeds_cong) simp_all
  ultimately show ?thesis
    using drain_loop_open [of ?js "next_tick w" "[]"] succ fate d by (auto simp: subset_iff)
qed

lemma drain_progress:
  assumes "\<forall>j \<in> set (open_jobs (db w)). succeeds w (job_customer j)"
    and "fate_at (env w) = (\<lambda>_. Okay)"
  shows "length (open_jobs (db (snd (run_state (drain (Some upd)) w)))) \<le> length (open_jobs (db w)) - 50"
proof -
  let ?o = "open_jobs (db w)"
  let ?js = "take 50 (order_asc job_created ?o)"
  let ?C = "job_customer ` set ?js"
  have "min 50 (length ?o) = length (filter (\<lambda>i. job_customer i \<in> ?C) ?js)"
    by (subst filter_True) (auto simp: order_asc_def)
  also have "\<dots> \<le> length (filter (\<lambda>i. job_customer i \<in> ?C) (order_asc job_created ?o))"
    by (metis append_take_drop_id filter_append length_append le_add1)
  also have "\<dots> = length (filter (\<lambda>i. job_customer i \<in> ?C) ?o)"
    by (simp add: order_asc_def filter_sort)
  finally have "min 50 (length ?o) \<le> length (filter (\<lambda>i. job_customer i \<in> ?C) ?o)" .
  moreover have "length (filter (\<lambda>i. job_customer i \<in> ?C) ?o) + length (filter (\<lambda>i. job_customer i \<notin> ?C) ?o)
      = length ?o" by (rule sum_length_filter_compl)
  ultimately show ?thesis unfolding drain_open [OF assms] by linarith
qed

end

lemma run_ticked: "run_state (Run u (Ticked # es)) w = run_state (Run u es) (snd (run_state (drain u) w))"
  by (simp add: case_prod_beta)

lemma ticks_empty_outbox:
  assumes "fate_at (env w) = (\<lambda>_. Okay)"
    and "\<forall>j \<in> set (open_jobs (db w)). has_row cust_id (job_customer j) (customers (db w))"
    and "length (open_jobs (db w)) \<le> 50 * n"
  shows "open_jobs (db (snd (run_state (Run (Some (the_updater a g)) (replicate n Ticked)) w))) = []"
  using assms
proof (induction n arbitrary: w)
  case (Suc n)
  let ?d = "drain (Some (the_updater a g))" and ?w = "snd (run_state (drain (Some (the_updater a g))) w)"
  have s: "\<forall>j \<in> set (open_jobs (db w)). wallet.succeeds a g w (job_customer j)"
    using Suc.prems(1,2) by (blast intro: the_updater_succeeds)
  note o = wallet.drain_open [OF s Suc.prems(1), folded the_updater_def]
  have e: "env ?w = env w"
    unfolding the_updater_def
    by (rule wallet.drain_keeps [of "\<lambda>v. env v = env w"]) (simp_all add: wallet.drain_job_outbox)
  have c: "customers (db ?w) = customers (db w)"
    using sans_jobs_eqD(1) [OF wallet.drain_outbox [of a g w]] by (simp add: the_updater_def)
  have "open_jobs (db (snd (run_state (Run (Some (the_updater a g)) (replicate n Ticked)) ?w))) = []"
  proof (rule Suc.IH)
    show "fate_at (env ?w) = (\<lambda>_. Okay)" using e Suc.prems(1) by simp
    show "\<forall>j \<in> set (open_jobs (db ?w)). has_row cust_id (job_customer j) (customers (db ?w))"
      using Suc.prems(2) by (auto simp: o c)
    show "length (open_jobs (db ?w)) \<le> 50 * n"
      using wallet.drain_progress [OF s Suc.prems(1), folded the_updater_def] Suc.prems(3) by simp
  qed
  then show ?case by (simp add: run_ticked del: Run.simps)
qed simp

text \<open>C31: Whatever the providers answer, the worker empties the outbox in one tick for every fifty
  open jobs, rounded up, while the database works: a job is closed even when the provider
  refused the update.\<close>

theorem worker_empties_outbox:
  assumes "fate_at (env w) = (\<lambda>_. Okay)"
    and "\<forall>j \<in> set (open_jobs (db w)). has_row cust_id (job_customer j) (customers (db w))"
    and "length (open_jobs (db w)) \<le> 50 * n"
  shows "open_jobs (db (snd (run_state (worker a g (replicate n Ticked)) w))) = []"
  unfolding worker_def by (rule ticks_empty_outbox [OF assms])

definition sample_job :: WalletJob where
  "sample_job = \<lparr>job_id = ''j1'', job_customer = ''c1'', job_kind = ''wallet_update'',
     job_attempts = 0, job_error = None, job_created = zero_time, job_processed = None\<rparr>"

theorem worker_empties_outbox_witness:
  "open_jobs (sample_db\<lparr>wallet_jobs := [sample_job]\<rparr>) = [sample_job]
   \<and> open_jobs (db (snd (run_state (worker sample_apple sample_google [Ticked])
        (world_of (sample_db\<lparr>wallet_jobs := [sample_job]\<rparr>))))) = []"
proof -
  have o: "open_jobs (sample_db\<lparr>wallet_jobs := [sample_job]\<rparr>) = [sample_job]"
    by (simp add: open_jobs_def pending_def sample_job_def)
  with worker_empties_outbox [of "world_of (sample_db\<lparr>wallet_jobs := [sample_job]\<rparr>)" 1
      sample_apple sample_google]
  show ?thesis by (simp add: sample_job_def sample_db_def sample_customer_def fun_eq_iff)
qed

section \<open>Pushes\<close>

lemma push_loop_stops:
  assumes "\<not> url_ok (call_url (push_call a tok bad))"
  shows "push_loop a tok (ds @ bad # ds') = push_loop a tok (ds @ [bad])"
  using assms by (induction ds) (simp_all add: NewRequest_def or_return_def fail_def)

lemma url_ok_const:
  assumes "list_all (\<lambda>c. 32 \<le> byte c \<and> byte c \<noteq> 127 \<and> c \<notin> {CHR ''#'', CHR ''?'', CHR ''%''}) s"
  shows "url_ok (s @ t) = url_ok t"
proof -
  have "takeWhile (\<lambda>c. c \<noteq> CHR ''#'') (s @ t) = s @ takeWhile (\<lambda>c. c \<noteq> CHR ''#'') t"
    "dropWhile (\<lambda>c. c \<noteq> CHR ''#'') (s @ t) = dropWhile (\<lambda>c. c \<noteq> CHR ''#'') t"
    "takeWhile (\<lambda>c. c \<noteq> CHR ''?'') (s @ u) = s @ takeWhile (\<lambda>c. c \<noteq> CHR ''?'') u"
    "escapes_ok (s @ u) = escapes_ok u" "list_all (\<lambda>c. 32 \<le> byte c \<and> byte c \<noteq> 127) s" for u
    using assms by (induction s) auto
  then show ?thesis by (simp add: url_ok_def Let_def)
qed

lemma push_url_ok: "url_ok (call_url (push_call a tok d)) = url_ok d"
proof -
  have "url_ok (''https://api.push.apple.com/3/device/'' @ d) = url_ok d"
    "url_ok (''https://api.sandbox.push.apple.com/3/device/'' @ d) = url_ok d"
    by (subst url_ok_const; simp add: byte_def)+
  then show ?thesis by (simp add: push_call_def Let_def)
qed

lemma push_loop_result:
  "fst (run_state (push_loop a tok ds) w)
     = (if list_all url_ok ds then Inr () else Inl (Opaque ''net/url''))"
  by (induction ds arbitrary: w)
    (auto simp: run_or_return NewRequest_def push_url_ok run_ok run_fail case_prod_beta)



end
