(* ===== verification/Interleaving.thy ===== *)
theory Interleaving
  imports Balances Delivery
begin

text \<open>
  Overlapping transactions.  \<^verbatim>\<open>BeginTx\<close> asks for READ COMMITTED: a statement sees what other
  transactions have committed before it.  A transaction is therefore cut after a read, another
  request runs to its end in the gap, and the rest of the transaction runs on what it left.  The
  worker holds no transaction: its round is cut between the update of a wallet and the closing of
  the jobs.
\<close>

section \<open>A refund cut after its read\<close>

definition refund_after_read :: "string \<Rightarrow> go_error + Receipt \<Rightarrow> RefundResult go" where
  "refund_after_read actorID x = (case x of
     Inl e \<Rightarrow> if e = ErrNoRows then fail (Loyalty (Err CodeInvalidRequest msg_receipt_not_found))
             else fail e
   | Inr r \<Rightarrow>
       if rec_status r = ReceiptRefunded then
         (let pts = (case rec_points_after_refund r of Some p \<Rightarrow> p | None \<Rightarrow> rec_points_after r)
          in ok \<lparr>rr_receipt = rec_id r, rr_customer = rec_customer r, rr_points = pts,
                 rr_replay = True\<rparr>)
       else refund_receipt r actorID)"

lemma refund_tx_cut: "refund_tx rid actor = State_Monad.bind (GetReceipt rid) (refund_after_read actor)"
  by (simp add: refund_tx_def refund_after_read_def [abs_def])

text \<open>The second half of a refund whose read saw the receipt as committed.\<close>

lemma refund_tail:
  assumes "rec_status rc \<noteq> ReceiptRefunded" "wf_db (db v)"
    and "run_state (InTx (refund_after_read actor (Inr rc))) v = (Inr res, w)"
  obtains cu t a b where "row_by cust_id (rec_customer rc) (customers (db v)) = Some cu"
    "db w = refund_db rc cu actor t a b (db v)" "res = refund_result rc cu"
proof -
  obtain w1 where b: "run_state (refund_receipt rc actor) (next_tick v) = (Inr res, w1)" and w: "db w = db w1"
    using assms(1) by (auto simp: refund_after_read_def intro: InTx_Inr [OF assms(3)])
  have wf: "wf_db (db (next_tick v))" using assms(2) by simp
  show thesis
    by (rule refund_receipt_Inr [OF b wf]) (use that w in simp)
qed

text \<open>C13: Refunds of one receipt are not serialized.  The status is read before the card is locked and
  never again, so when one refund runs between this read and the lock of another, both succeed,
  both answer as new refunds, and the balance is refunded twice.  (PostgreSQL; the single
  connection of SQLite keeps transactions apart.)\<close>

theorem overlapping_refunds_apply_twice:
  assumes pg: "driver_of (env w) = DriverPostgres" and wf: "wf_db (db w)"
    and cu: "row_by rec_id rid (receipts (db w)) = Some rc"
      "row_by cust_id (rec_customer rc) (customers (db w)) = Some cu"
    and read: "run_state (GetReceipt rid) w = (Inr rc, w0)" "rec_status rc \<noteq> ReceiptRefunded"
    and other: "run_state (Refund (the_service i) rid actor2) w0 = (Inr res2, w1)"
    and rest: "db v = db w1" "run_state (InTx (refund_after_read actor1 (Inr rc))) v = (Inr res1, w2)"
  shows "\<not> rr_replay res1 \<and> \<not> rr_replay res2
    \<and> map_option cust_points (row_by cust_id (rec_customer rc) (customers (db w2)))
        = Some (refund_points rc (refund_points rc (cust_points cu)))"
proof -
  have w0: "db w0 = db w" using read(1) by (auto simp: run_GetReceipt split: fate.splits)
  have cid: "cust_id cu = rec_customer rc" using cu(2) by (rule row_by_Some_key)
  have wf0: "wf_db (db w0)" using wf w0 by simp
  show ?thesis
  proof (rule outbox.Refund_success [OF Jobs_the_service wf0 other])
    fix r assume "row_by rec_id rid (receipts (db w0)) = Some r" "rec_status r = ReceiptRefunded"
    with cu(1) read(2) w0 show ?thesis by simp
  next
    fix r cu' t a b
    assume r: "row_by rec_id rid (receipts (db w0)) = Some r"
        "row_by cust_id (rec_customer r) (customers (db w0)) = Some cu'"
        "sans_jobs (db w1) = sans_jobs (refund_db r cu' actor2 t a b (db w0))"
        "res2 = refund_result r cu'" "wf_db (db w1)"
    then have [simp]: "r = rc" "cu' = cu" using cu w0 by auto
    have c1: "row_by cust_id (rec_customer rc) (customers (db w1))
        = Some (cu\<lparr>cust_points := refund_points rc (cust_points cu), cust_updated := t\<rparr>)"
      using refund_db_customer [of cu "db w0" cu rc actor2 t a b] cu(2) w0 cid
      by (simp add: sans_jobs_eqD(1) [OF r(3)])
    have wfv: "wf_db (db v)" using r(5) rest(1) by simp
    show ?thesis
    proof (rule refund_tail [OF read(2) wfv rest(2)])
      fix cv t' a' b'
      assume k: "row_by cust_id (rec_customer rc) (customers (db v)) = Some cv"
        "db w2 = refund_db rc cv actor1 t' a' b' (db v)" "res1 = refund_result rc cv"
      have cv: "cust_id cv = rec_customer rc" using k(1) by (rule row_by_Some_key)
      have "cv = cu\<lparr>cust_points := refund_points rc (cust_points cu), cust_updated := t\<rparr>"
        using k(1) c1 rest(1) by simp
      then have p: "cust_points cv = refund_points rc (cust_points cu)" by simp
      from refund_db_customer [of cv "db v" cv rc actor1 t' a' b'] k(1,2) cv p r(4) k(3)
      show ?thesis by (simp add: refund_result_def)
    qed
  qed
qed

lemma refund_tail_forward:
  assumes "quiet v" "fresh_ids v" "wf_db (db v)" "rec_status rc \<noteq> ReceiptRefunded"
    and "has_row rec_id (rec_id rc) (receipts (db v))"
    and "row_by cust_id (rec_customer rc) (customers (db v)) = Some cu" "refund_storable rc v cu"
  shows "\<exists>w. run_state (InTx (refund_after_read actor (Inr rc))) v = (Inr (refund_result rc cu), w)"
proof -
  have q: "\<And>n. fate_at (env v) n = Okay" using assms(1) by (simp add: quiet_def)
  have "fst (run_state (refund_receipt rc actor) (next_tick v)) = Inr (refund_result rc cu)"
    by (rule refund_receipt_forward)
      (use assms in \<open>auto simp: quiet_def fresh_ids_def refund_storable_def\<close>)
  then obtain w1 where b: "run_state (refund_receipt rc actor) (next_tick v) = (Inr (refund_result rc cu), w1)"
    by (metis prod.collapse)
  have wf: "wf_db (db (next_tick v))" using assms(3) by simp
  have "env w1 = env v" by (rule refund_receipt_Inr [OF b wf]) simp
  with b q assms(4) show ?thesis by (simp add: run_InTx refund_after_read_def)
qed

text \<open>In the sample a card with 140 points, whose purchase earned 40 and redeemed 200, ends with 460
  points instead of 300.\<close>

theorem overlapping_refunds_apply_twice_witness:
  "\<exists>u v rc w0 w1 res1 res2 w2. driver_of (env (with_ids u sample_w1)) = DriverPostgres
    \<and> run_state (GetReceipt ''r1'') (with_ids u sample_w1) = (Inr rc, w0)
    \<and> run_state (Refund (the_service ''x'') ''r1'' ''s1'') w0 = (Inr res2, w1)
    \<and> run_state (InTx (refund_after_read ''s2'' (Inr rc))) (with_ids v w1) = (Inr res1, w2)
    \<and> map_option cust_points (row_by cust_id ''c1'' (customers (db w2))) = Some 460"
proof -
  obtain rc cu where r: "row_by rec_id ''r1'' (receipts (db sample_w1)) = Some rc"
    "row_by cust_id ''c1'' (customers (db sample_w1)) = Some cu" "cust_points cu = 140"
    "rec_customer rc = ''c1''" "rec_status rc \<noteq> ReceiptRefunded" "rec_earn rc = 40"
    "rec_redeem rc = 200" "rec_id rc = ''r1''" by (rule sample_w1_rows)
  obtain u where u: "fresh_ids (with_ids u sample_w1)" using fresh_world by blast
  let ?w = "with_ids u sample_w1"
  let ?read = "snd (run_state (GetReceipt ''r1'') ?w)"
  have read: "run_state (GetReceipt ''r1'') ?w = (Inr rc, ?read)"
  proof -
    have "fst (run_state (GetReceipt ''r1'') ?w) = Inr rc"
      using r(1) by (simp add: run_GetReceipt with_ids_def)
    then show ?thesis by (simp add: prod_eq_iff)
  qed
  have w0: "db ?read = db sample_w1" "env ?read = env ?w" by (simp_all add: run_GetReceipt)
  have "fst (run_state (Refund (the_service ''x'') ''r1'' ''s1'') ?read) = Inr (refund_result rc cu)"
    by (rule Refund_forward)
      (use u r sample_w1_shape(2) w0 sample_refund_storable [of rc cu u sample_w1]
       in \<open>auto simp: quiet_def fresh_ids_def refund_storable_def with_ids_def\<close>)
  then obtain w1 where other: "run_state (Refund (the_service ''x'') ''r1'' ''s1'') ?read
      = (Inr (refund_result rc cu), w1)" by (metis prod.collapse)
  obtain t a b where s: "sans_jobs (db w1) = sans_jobs (refund_db rc cu ''s1'' t a b (db sample_w1))"
    and wf1: "wf_db (db w1)"
  proof (rule outbox.Refund_success [OF Jobs_the_service _ other])
    show "wf_db (db ?read)" using sample_w1_shape(2) w0 by simp
  qed (use r w0 in \<open>auto intro: that\<close>)
  have cid: "cust_id cu = ''c1''" using r(2) by (rule row_by_Some_key)
  let ?cv = "cu\<lparr>cust_points := 300, cust_updated := t\<rparr>"
  have cv: "row_by cust_id ''c1'' (customers (db w1)) = Some ?cv"
    using refund_db_customer [of cu "db sample_w1" cu rc "''s1''" t a b] r cid
    by (simp add: sans_jobs_eqD(1) [OF s] sample_refund_points)
  have hr: "has_row rec_id (rec_id rc) (receipts (db w1))"
    using refund_db_row [OF r(1), of cu "''s1''" t a b] r(8)
    by (auto simp: sans_jobs_eqD(2) [OF s] dest: row_by_Some_has)
  obtain v where v: "fresh_ids (with_ids v w1)" using fresh_world by blast
  obtain w2 where rest: "run_state (InTx (refund_after_read ''s2'' (Inr rc))) (with_ids v w1)
      = (Inr (refund_result rc ?cv), w2)"
    using refund_tail_forward [of "with_ids v w1" rc ?cv "''s2''"] v wf1 r(4-8) hr cv
      sample_refund_storable [of rc ?cv v w1] by auto
  have "map_option cust_points (row_by cust_id ''c1'' (customers (db w2))) = Some 460"
    using overlapping_refunds_apply_twice [OF _ _ _ _ read r(5) other _ rest, of cu] r sample_w1_shape(2)
    by (simp add: sample_refund_points)
  with read other rest with_ids_sel(4) show ?thesis by blast
qed


section \<open>A commit cut after its read\<close>

definition commit_after_read ::
  "CommitInput \<Rightarrow> Customer \<Rightarrow> Settings \<Rightarrow> go_error + Receipt \<Rightarrow> CommitResult go" where
  "commit_after_read inp c st r = (case r of
     Inr existing \<Rightarrow> commit_replay inp c existing
   | Inl e \<Rightarrow>
       if e \<noteq> ErrNoRows then fail e
       else or_return (LockCustomer (cust_id c)) (\<lambda>locked.
         check (customerUsable locked)
           (check (CheckRedeem (cust_points locked) (ci_amount inp) (ci_redeem inp) st)
             (commit_new inp st locked))))"

lemma commit_tx_cut:
  "commit_tx inp c st = State_Monad.bind (GetReceipt (ci_receipt inp)) (commit_after_read inp c st)"
  by (simp add: commit_tx_def commit_after_read_def [abs_def])

lemma commit_tail_refused:
  assumes wf: "wf_db (db v)" and has: "has_row rec_id (ci_receipt inp) (receipts (db v))"
  shows "\<exists>e. fst (run_state (commit_after_read inp c st (Inl ErrNoRows)) v) = Inl e"
proof (rule ccontr)
  assume "\<not> ?thesis"
  then obtain res v1 where "run_state (commit_after_read inp c st (Inl ErrNoRows)) v = (Inr res, v1)"
    by (cases "run_state (commit_after_read inp c st (Inl ErrNoRows)) v") (metis fst_conv sum.exhaust)
  then obtain l v2 where l: "run_state (LockCustomer (cust_id c)) v = (Inr l, v2)"
    and n: "run_state (commit_new inp st l) v2 = (Inr res, v1)"
    by (auto simp: commit_after_read_def or_return_Inr run_check_Inr)
  have row: "row_by cust_id (cust_id c) (customers (db v)) = Some l" and v2: "db v2 = db v"
    using l by (auto simp: LockCustomer_Inr)
  have "row_by cust_id (cust_id l) (customers (db v2)) = Some l"
    using row v2 by (simp add: row_by_Some_key [OF row])
  from commit_new_Inr [OF n _ this] wf has v2 show False by auto
qed

text \<open>C14: Commits of one receipt that overlap book it once: when another commit of the same receipt
  goes through between the read of this one and its lock, this one ends with an error and leaves
  the database as the other left it, with one receipt of that id.\<close>

theorem overlapping_commits_book_once:
  assumes pg: "driver_of (env w) = DriverPostgres" and wf: "wf_db (db w)"
    and read: "run_state (GetReceipt (ci_receipt inp)) w = (Inl ErrNoRows, w0)"
    and other: "run_state (Commit (the_service i) inp2) w0 = (Inr res2, w1)" "ci_receipt inp2 = ci_receipt inp"
    and rest: "db v = db w1" "run_state (InTx (commit_after_read inp c st (Inl ErrNoRows))) v = (res1, w2)"
  shows "(\<exists>e. res1 = Inl e) \<and> \<not> cr_replay res2 \<and> db w2 = db w1
    \<and> length (filter (\<lambda>r. rec_id r = ci_receipt inp) (receipts (db w2))) = 1"
proof -
  have w0: "db w0 = db w" and none: "\<not> has_row rec_id (ci_receipt inp) (receipts (db w))"
    using read by (auto simp: run_GetReceipt row_by_None db_error_def split: fate.splits option.splits)
  have wf0: "wf_db (db w0)" using wf w0 by simp
  have k: "wf_db (db w1) \<and> has_row rec_id (ci_receipt inp) (receipts (db w1)) \<and> \<not> cr_replay res2"
  proof (rule outbox.Commit_success [OF Jobs_the_service wf0 other(1)])
    fix r assume "row_by rec_id (ci_receipt inp2) (receipts (db w0)) = Some r"
    with none w0 other(2) show ?thesis by (auto dest: row_by_Some_has)
  next
    fix cu t a b
    assume ready: "commit_ready inp2 w0 cu"
      and s: "sans_jobs (db w1) = sans_jobs (commit_writes inp2 w0 cu t a b)" and w1: "wf_db (db w1)"
      and res: "res2 = commit_result inp2 (db_settings w0) cu"
    have "row_by rec_id (ci_receipt inp) (receipts (db w1))
        = Some (commit_receipt inp2 (db_settings w0) cu t)"
      using ready commit_db_row [of inp2 "db w0"] other(2)
      by (simp add: sans_jobs_eqD(2) [OF s] commit_writes_def commit_ready_def)
    with w1 res show ?thesis by (auto dest: row_by_Some_has simp: commit_result_def)
  qed
  obtain e where "fst (run_state (commit_after_read inp c st (Inl ErrNoRows)) (next_tick v)) = Inl e"
    using commit_tail_refused [of "next_tick v" inp c st] k rest(1) by auto
  then have "(\<exists>e. res1 = Inl e) \<and> db w2 = db v"
    using rest(2) by (auto simp: run_InTx split: fate.splits prod.splits)
  moreover have "distinct (map rec_id (receipts (db w1)))" using k by (simp add: wf_db_def keys_ok_def)
  ultimately show ?thesis using k rest(1) one_row by auto
qed

text \<open>In the sample, both tills send the receipt of a purchase of 1000 roubles.\<close>

theorem overlapping_commits_book_once_witness:
  "\<exists>u w0 w1 res1 w2. driver_of (env (with_ids u (world_of sample_db))) = DriverPostgres
    \<and> run_state (GetReceipt ''r1'') (with_ids u (world_of sample_db)) = (Inl ErrNoRows, w0)
    \<and> run_state (Commit (the_service ''x'') sample_commit) w0 = (Inr sample_result, w1)
    \<and> run_state (InTx (commit_after_read sample_commit sample_c1 DefaultSettings (Inl ErrNoRows))) w1 = (res1, w2)
    \<and> (\<exists>e. res1 = Inl e) \<and> length (filter (\<lambda>r. rec_id r = ''r1'') (receipts (db w2))) = 1"
proof -
  obtain u where u: "fresh_ids (with_ids u (world_of sample_db))" using fresh_world by blast
  let ?w = "with_ids u (world_of sample_db)"
  let ?begun = "next_tick ?w"
  have read: "run_state (GetReceipt (ci_receipt sample_commit)) ?w = (Inl ErrNoRows, ?begun)"
    using with_ids_sel(2) by (simp add: run_GetReceipt quiet_def)
  have r: "resolved (env ?begun) (ci_barcode sample_commit) (customers (db ?begun)) = Some sample_c1"
  proof -
    have e: "upper_tab (env ?begun) = upper_tab calm_env" "uuid_ok (env ?begun) = uuid_ok calm_env"
      by (simp_all add: with_ids_def)
    have "resolved (env ?begun) b cs = resolved calm_env b cs" for b cs
      by (simp only: resolved_def LooksLikeCustomerID_def e)
    then show ?thesis using sample_resolves by (simp add: sample_commit_facts sample_c1_def)
  qed
  have st: "receipt_storable sample_commit ?begun sample_c1"
    using sample_commit_storable
    by (simp add: receipt_storable_def sample_commit_facts sample_commit_points
      sample_commit_result int_fits_def neg64_def wrap64_small)
  have "fst (run_state (Commit (the_service ''x'') sample_commit) ?begun) = Inr sample_result"
    using Commit_forward [OF _ _ _ _ _ _ r _ _ _ _ st, of "''x''"] u with_ids_sel(2)
    by (simp add: commit_result_def sample_facts quiet_def fresh_ids_def)
  then obtain w1 where other: "run_state (Commit (the_service ''x'') sample_commit) ?begun = (Inr sample_result, w1)"
    by (metis prod.collapse)
  obtain res1 w2 where rest: "run_state (InTx (commit_after_read sample_commit sample_c1 DefaultSettings
      (Inl ErrNoRows))) w1 = (res1, w2)" by fastforce
  have "(\<exists>e. res1 = Inl e) \<and> length (filter (\<lambda>r. rec_id r = ''r1'') (receipts (db w2))) = 1"
    using overlapping_commits_book_once [OF _ _ read other refl refl rest] by (auto simp: sample_facts)
  with read other rest with_ids_sel(4) show ?thesis unfolding sample_commit_facts by blast
qed

section \<open>A round of the worker cut after its update\<close>

definition drain_after_update :: "WalletJob \<Rightarrow> go_error + unit \<Rightarrow> unit act" where
  "drain_after_update j r = (case r of
     Inl err \<Rightarrow> do { _ \<leftarrow> FailWalletJob (job_id j) (ErrorText err); ret () }
   | Inr _ \<Rightarrow> do { _ \<leftarrow> CompleteWalletJobsForCustomer (job_customer j); ret () })"

lemma drain_job_cut:
  "drain_job (Some upd) j = State_Monad.bind (upd (job_customer j)) (drain_after_update j)"
  by (simp add: drain_job_def drain_after_update_def [abs_def])

lemma drain_closes:
  assumes "quiet v"
  shows "pending_for (job_customer j) (wallet_jobs (db (snd (run_state (drain_after_update j (Inr ())) v)))) = []"
    "sans_jobs (db (snd (run_state (drain_after_update j (Inr ())) v))) = sans_jobs (db v)"
  using assms
  by (simp_all add: quiet_def drain_after_update_def CompleteWalletJobsForCustomer_def run
      complete_jobs_def pending_for_after_complete sans_jobs_def case_prod_beta split: sum.split)

text \<open>C15: A purchase booked while the worker updates the card of the same customer is not sent to
  the wallets: when the worker closes the customer's jobs afterwards, the balance on record is the
  one of the purchase and no job is left to send it.\<close>

theorem commit_during_update_not_sent:
  assumes wf: "wf_db (db w)" and j: "j \<in> set (wallet_jobs (db w))" "pending j"
    and sent: "run_state (the_updater a g (job_customer j)) w = (Inr (), w1)"
    and commit: "db v = db w1" "run_state (Commit (the_service i) inp) v = (Inr res, v1)"
      "\<not> cr_replay res" "cr_customer res = job_customer j"
    and rest: "db u = db v1" "quiet u"
  shows "pending_for (job_customer j) (wallet_jobs (db (snd (run_state (drain_after_update j (Inr ())) u)))) = []
    \<and> map_option cust_points (row_by cust_id (job_customer j)
        (customers (db (snd (run_state (drain_after_update j (Inr ())) u))))) = Some (cr_points res)"
proof -
  have "db w1 = db w"
    using readsD [OF wallet.reads_UpdateWallet] sent by (fastforce simp: the_updater_def)
  then have wfv: "wf_db (db v)" using wf commit(1) by simp
  show ?thesis
  proof (rule outbox.Commit_success [OF Jobs_the_service wfv commit(2)])
    fix c r assume "res = replay_result c r"
    with commit(3) show ?thesis by (simp add: replay_result_def)
  next
    fix c t a b
    assume ready: "commit_ready inp v c"
      and s: "sans_jobs (db v1) = sans_jobs (commit_writes inp v c t a b)"
      and res: "res = commit_result inp (ParseSettings (settings (db v))) c"
    have id: "cust_id c = job_customer j" using res commit(4) by (simp add: commit_result_def)
    have "c \<in> set (customers (db v))" using ready by (simp add: commit_ready_def)
    then have row: "row_by cust_id (cust_id c) (customers (db v)) = Some c" by (rule row_of_member [OF wfv])
    have "map_option cust_points (row_by cust_id (job_customer j) (customers (db v1))) = Some (cr_points res)"
      using commit_db_customer [OF row] res
      by (simp add: sans_jobs_eqD(1) [OF s] commit_writes_def commit_result_def flip: id)
    with drain_closes [OF rest(2), of j] rest(1) show ?thesis
      by (simp add: sans_jobs_eqD(1) [OF drain_closes(2) [OF rest(2)]])
  qed
qed


lemma busy_sample:
  assumes "d = sample_db\<lparr>wallet_jobs := [sample_job]\<rparr>"
  shows "wf_db d" "fst (run_state (Commit (the_service ''x'') sample_commit) (world_of d)) = Inr sample_result"
proof -
  have s: "sans_jobs d = sans_jobs sample_db" using assms by (simp add: sans_jobs_def)
  show wf: "wf_db d" using sample_wf wf_sans_jobs s by metis
  have f: "fresh_ids (world_of d)" using sample_fresh assms by (simp add: fresh_ids_def)
  have r: "resolved (env (world_of d)) (ci_barcode sample_commit) (customers (db (world_of d))) = Some sample_c1"
    using sample_resolved assms by simp
  have st: "receipt_storable sample_commit (world_of d) sample_c1"
    using sample_commit_storable assms by (simp add: receipt_storable_def)
  have "db_settings (world_of d) = DefaultSettings" "receipts d = []" using assms by simp_all
  with Commit_forward [OF _ f _ _ _ _ r _ _ _ _ st, of "''x''"] wf
  show "fst (run_state (Commit (the_service ''x'') sample_commit) (world_of d)) = Inr sample_result"
    by (simp add: commit_result_def sample_facts)
qed

theorem commit_during_update_not_sent_witness:
  "\<exists>d v1. d = sample_db\<lparr>wallet_jobs := [sample_job]\<rparr>
    \<and> fst (run_state (the_updater sample_apple sample_google ''c1'') (world_of d)) = Inr ()
    \<and> run_state (Commit (the_service ''x'') sample_commit) (world_of d) = (Inr sample_result, v1)
    \<and> pending_for ''c1'' (wallet_jobs (db (snd (run_state (drain_after_update sample_job (Inr ()))
        (world_of (db v1)))))) = []
    \<and> map_option cust_points (row_by cust_id ''c1'' (customers (db (snd (run_state
        (drain_after_update sample_job (Inr ())) (world_of (db v1))))))) = Some 140"
proof -
  define d where "d = sample_db\<lparr>wallet_jobs := [sample_job]\<rparr>"
  note b = busy_sample [OF d_def]
  let ?w = "world_of d"
  have "has_row cust_id ''c1'' (customers (db ?w))"
    by (simp add: d_def sample_db_def sample_customer_def)
  then have "wallet.succeeds sample_apple sample_google ?w ''c1''"
    using the_updater_succeeds [of ?w] by (simp add: fun_eq_iff)
  then have up: "fst (run_state (the_updater sample_apple sample_google ''c1'') ?w) = Inr ()"
    by (simp add: wallet.succeeds_def the_updater_def)
  have j: "job_customer sample_job = ''c1''" "pending sample_job" "sample_job \<in> set (wallet_jobs (db ?w))"
    by (simp_all add: sample_job_def pending_def d_def)
  have same: "db ?w = db (snd (run_state (the_updater sample_apple sample_google ''c1'') ?w))"
    using readsD [OF wallet.reads_UpdateWallet] by (metis the_updater_def prod.collapse)
  note c = run_pair [OF b(2)]
  from commit_during_update_not_sent [OF _ j(3,2) _ same c, of sample_apple sample_google
      "world_of (db (snd (run_state (Commit (the_service ''x'') sample_commit) ?w)))"] b(1) up j(1)
  have "pending_for ''c1'' (wallet_jobs (db (snd (run_state (drain_after_update sample_job (Inr ()))
        (world_of (db (snd (run_state (Commit (the_service ''x'') sample_commit) ?w)))))))) = []
    \<and> map_option cust_points (row_by cust_id ''c1'' (customers (db (snd (run_state
        (drain_after_update sample_job (Inr ())) (world_of (db (snd (run_state (Commit (the_service ''x'') sample_commit) ?w))))))))) = Some 140"
    by (simp add: prod_eq_iff)
  with up c d_def show ?thesis by blast
qed

end
