(* ===== verification/PassProps.thy ===== *)
theory PassProps
  imports System
begin

text \<open>
  How a wallet learns of a change: the conditional download of a pass, and the list of updated
  passes of the PassKit web service.
\<close>

section \<open>Conditional download\<close>

lemma RFC1123_not_empty [simp]: "RFC1123 t \<noteq> ''''"
  by (simp add: RFC1123_def split: prod.splits)

lemma not_modified_iff:
  assumes "zero_time \<le> t" "fst (civil (day_of t)) \<le> 9999"
  shows "not_modified (RFC1123 t) c \<longleftrightarrow> ns (cust_updated c) \<le> (unix t + 1) * second"
  using RFC1123_round_trip [OF assms]
  by (cases "cust_updated c")
    (simp add: not_modified_def add_time_def from_unix_def not_less distrib_right)

text \<open>C34: A wallet that sends back the \<^verbatim>\<open>Last-Modified\<close> of a pass gets 304 exactly when the card has
  not changed later than one second after that time cut to whole seconds; so the unchanged card
  is never sent again, a change two seconds later always is, and one within the next second is
  not.\<close>

theorem pass_revalidation:
  assumes "AppleC s = Some a" "zero_time \<le> t" "fst (civil (day_of t)) \<le> 9999"
  shows "rs_status (fst (run_state (writePKPass s (rq\<lparr>rq_ims := RFC1123 t\<rparr>) c) w)) = 304
    \<longleftrightarrow> ns (cust_updated c) \<le> (unix t + 1) * second"
proof (cases "not_modified (RFC1123 t) c")
  case True
  with not_modified_iff [OF assms(2,3), of c] assms(1) show ?thesis
    by (simp add: writePKPass_def run_ret)
next
  case False
  have "rs_status (writeErr e) \<noteq> 304" for e using writeErr_status [of e] by auto
  with False not_modified_iff [OF assms(2,3), of c] assms(1) show ?thesis
    by (auto simp: writePKPass_def run_or_write run_ret case_prod_beta split: sum.splits)
qed

theorem pass_revalidation_witness:
  "rs_status (fst (run_state (writePKPass sample_server
     (empty_request\<lparr>rq_ims := RFC1123 (Ns 1700000000123456789)\<rparr>)
     (sample_c1\<lparr>cust_updated := Ns 1700000000987654321\<rparr>)) (world_of sample_db))) = 304"
proof -
  have "AppleC sample_server = Some sample_apple" by (simp add: sample_server_def)
  moreover have "fst (civil (day_of (Ns 1700000000123456789))) \<le> 9999" by code_simp
  moreover have "zero_time \<le> Ns 1700000000123456789" by (simp add: zero_time_def second_def)
  ultimately show ?thesis
    using pass_revalidation [of sample_server sample_apple "Ns 1700000000123456789" empty_request
      "sample_c1\<lparr>cust_updated := Ns 1700000000987654321\<rparr>" "world_of sample_db"]
    by (simp add: unix_def second_def)
qed

section \<open>The list of updated passes\<close>

definition latest :: "Customer list \<Rightarrow> gtime" where
  "latest rows = fold (\<lambda>c last. if last < cust_updated c then cust_updated c else last) rows zero_time"

lemma fold_latest:
  "fold (\<lambda>c last. if last < cust_updated c then cust_updated c else last) rows t
     \<in> insert t (cust_updated ` set rows)"
  by (induction rows arbitrary: t) auto

lemma latest_cases: "latest rows = zero_time \<or> (\<exists>c\<in>set rows. latest rows = cust_updated c)"
  using fold_latest [of rows zero_time] by (auto simp: latest_def)

lemma from_unix_zero: "from_unix (unix zero_time) = zero_time"
  by (simp add: from_unix_def unix_def zero_time_def second_def)

lemma zero_in_i64: "in_i64 (unix zero_time)"
  by (simp add: in_i64_def unix_def zero_time_def second_def)

lemma updated_rows_sub: "set (updated_rows lib since d) \<subseteq> set (customers d)"
  by (auto simp: updated_rows_def order_asc_def List.map_filter_def dest: row_by_Some_in
      split: option.splits if_splits)

lemma updated_rows_has:
  assumes "dv \<in> set (apple_devices d)" "dev_library dv = lib"
    and "row_by cust_id (dev_customer dv) (customers d) = Some c" "since = zero_time \<or> since < cust_updated c"
  shows "c \<in> set (updated_rows lib since d)"
  using assms by (force simp: updated_rows_def order_asc_def List.map_filter_def)

lemma appleUpdated_answer:
  assumes "run_state (appleUpdated s rq) w = (r, w1)"
  defines "rows \<equiv> updated_rows (rq_param rq ''deviceLibraryId'') (updated_since (rq_query rq ''passesUpdatedSince'')) (db w)"
  obtains "rs_status r = 204" "rq_param rq ''passType'' \<noteq> ApplePassTypeID (Cfg s)" "rs_body r = NoBody"
  | "400 \<le> rs_status r" "\<forall>u ss. rs_body r \<noteq> Json (JObj [(''lastUpdated'', JStr u), (''serialNumbers'', JArr ss)])"
  | "rows = []" "rs_body r = NoBody" "rs_status r = 204"
  | "rows \<noteq> []" "rq_param rq ''passType'' = ApplePassTypeID (Cfg s)"
    "rs_body r = Json (JObj [(''lastUpdated'', JStr (itoa (unix (latest rows)))),
       (''serialNumbers'', JArr (map (\<lambda>c. JStr (cust_id c)) rows))])"
proof -
  have e: "rs_body (writeErr e) \<noteq> Json (JObj [(''lastUpdated'', JStr u), (''serialNumbers'', JArr ss)])" for e u ss
    by (auto simp: writeErr_def writeError_def writeJSON_def errorBody_def split: go_error.splits)
  show thesis
    using assms(1) that writeErr_status e
    by (auto simp: appleUpdated_def ListUpdatedSerials_def run_or_write run_query run_ret Let_def
        empty_response_def writeJSON_def latest_def [symmetric] rows_def [symmetric] comp_def
        split: if_splits fate.splits)
qed

text \<open>C35: No update is lost between two polls: a device that polls with the \<^verbatim>\<open>lastUpdated\<close> of an
  answer is told of every one of its cards that has changed after everything the answer could
  have seen, as long as the database answers.\<close>

theorem appleUpdated_misses_nothing:
  assumes first: "run_state (appleUpdated s rq) w = (r, w1)"
      "rs_body r = Json (JObj [(''lastUpdated'', JStr u), (''serialNumbers'', JArr ss)])"
    and later: "list_all (\<lambda>cu. in_i64 (unix (cust_updated cu)) \<and> cust_updated cu < cust_updated c) (customers (db w))"
    and poll: "run_state (appleUpdated s (rq\<lparr>rq_query := \<lambda>_. u\<rparr>)) v = (r2, v1)" "rs_status r2 < 400"
    and card: "dv \<in> set (apple_devices (db v))" "dev_library dv = rq_param rq ''deviceLibraryId''"
      "row_by cust_id (dev_customer dv) (customers (db v)) = Some c"
  shows "\<exists>u2 ss2. rs_body r2 = Json (JObj [(''lastUpdated'', JStr u2), (''serialNumbers'', JArr ss2)])
    \<and> JStr (cust_id c) \<in> set ss2"
proof -
  let ?lib = "rq_param rq ''deviceLibraryId''"
  let ?rows = "updated_rows ?lib (updated_since (rq_query rq ''passesUpdatedSince'')) (db w)"
  have u: "u = itoa (unix (latest ?rows))" and pt: "rq_param rq ''passType'' = ApplePassTypeID (Cfg s)"
    using first(2) by (cases rule: appleUpdated_answer [OF first(1)]; simp)+
  have l: "latest ?rows = zero_time \<or> in_i64 (unix (latest ?rows)) \<and> latest ?rows < cust_updated c"
    using latest_cases [of ?rows] later updated_rows_sub [of ?lib _ "db w"]
    by (fastforce simp: list_all_iff)
  have "atoi_go u = Some (unix (latest ?rows))" using l u by (auto simp: atoi_itoa zero_in_i64)
  then have "updated_since u = from_unix (unix (latest ?rows))" using u by (simp add: updated_since_def)
  then have "updated_since u = zero_time \<or> updated_since u < cust_updated c"
    using l le_less_trans [OF from_unix_le [of "latest ?rows"], of "cust_updated c"]
    by (auto simp: from_unix_zero)
  then have c: "c \<in> set (updated_rows ?lib (updated_since u) (db v))"
    using updated_rows_has [OF card] by blast
  then have ne: "updated_rows ?lib (updated_since u) (db v) \<noteq> []" by auto
  show ?thesis
    by (cases rule: appleUpdated_answer [OF poll(1)]) (use poll(2) pt ne c in auto)
qed

definition phone_device :: AppleDevice where
  "phone_device = \<lparr>dev_id = ''d1'', dev_customer = ''c1'', dev_library = ''lib'', dev_token = ''aa'',
     dev_created = zero_time\<rparr>"

definition phone_db :: "gtime \<Rightarrow> database" where
  "phone_db t = sample_db\<lparr>apple_devices := [phone_device], customers := [sample_c1\<lparr>cust_updated := t\<rparr>]\<rparr>"

definition poll_request :: request where
  "poll_request = empty_request\<lparr>rq_param := \<lambda>k. if k = ''passType'' then ApplePassTypeID sample_config else ''lib''\<rparr>"

lemma phone_rows:
  "since = zero_time \<or> since < t
     \<Longrightarrow> updated_rows ''lib'' since (phone_db t) = [sample_c1\<lparr>cust_updated := t\<rparr>]"
  by (auto simp: updated_rows_def phone_db_def phone_device_def sample_c1_sel order_asc_def)

lemma phone_answer:
  assumes "updated_since q = zero_time \<or> updated_since q < t"
  shows "rs_body (fst (run_state (appleUpdated sample_server (poll_request\<lparr>rq_query := \<lambda>_. q\<rparr>)) (world_of (phone_db t))))
    = Json (JObj [(''lastUpdated'', JStr (itoa (unix (latest [sample_c1\<lparr>cust_updated := t\<rparr>])))),
       (''serialNumbers'', JArr [JStr ''c1''])])"
    "rs_status (fst (run_state (appleUpdated sample_server (poll_request\<lparr>rq_query := \<lambda>_. q\<rparr>)) (world_of (phone_db t)))) = 200"
  using phone_rows [OF assms]
  by (simp_all add: appleUpdated_def poll_request_def sample_server_def ListUpdatedSerials_def
      run_or_write run_query run_ret writeJSON_def sample_c1_sel latest_def)

theorem appleUpdated_misses_nothing_witness:
  "\<exists>u2 ss2. rs_body (fst (run_state (appleUpdated sample_server
       (poll_request\<lparr>rq_query := \<lambda>_. itoa 1600000000\<rparr>)) (world_of (phone_db (from_unix 1600000100)))))
     = Json (JObj [(''lastUpdated'', JStr u2), (''serialNumbers'', JArr ss2)]) \<and> JStr ''c1'' \<in> set ss2"
proof -
  let ?t = "from_unix 1600000000" and ?t2 = "from_unix 1600000100"
  obtain r w1 where go: "run_state (appleUpdated sample_server (poll_request\<lparr>rq_query := \<lambda>_. ''''\<rparr>))
      (world_of (phone_db ?t)) = (r, w1)" by fastforce
  obtain r2 v1 where poll: "run_state (appleUpdated sample_server (poll_request\<lparr>rq_query := \<lambda>_. itoa 1600000000\<rparr>))
      (world_of (phone_db ?t2)) = (r2, v1)" by fastforce
  have q: "updated_since (itoa 1600000000) = ?t"
    using atoi_itoa [of 1600000000] by (simp add: updated_since_def in_i64_def)
  have t: "zero_time < ?t" "?t < ?t2" by (simp_all add: zero_time_def from_unix_def second_def)
  have "unix ?t = 1600000000" by (simp add: unix_def from_unix_def second_def)
  with t(1) have b: "rs_body r = Json (JObj [(''lastUpdated'', JStr (itoa 1600000000)), (''serialNumbers'', JArr [JStr ''c1''])])"
    using phone_answer(1) [of "''''" ?t] go by (simp add: updated_since_def latest_def)
  have s: "rs_status r2 < 400" using phone_answer(2) [of "itoa 1600000000" ?t2] poll q t(2) by simp
  have "\<exists>u2 ss2. rs_body r2 = Json (JObj [(''lastUpdated'', JStr u2), (''serialNumbers'', JArr ss2)])
      \<and> JStr (cust_id (sample_c1\<lparr>cust_updated := ?t2\<rparr>)) \<in> set ss2"
  proof (rule appleUpdated_misses_nothing [OF go b, where dv = phone_device])
    show "list_all (\<lambda>cu. in_i64 (unix (cust_updated cu)) \<and> cust_updated cu < cust_updated (sample_c1\<lparr>cust_updated := ?t2\<rparr>))
        (customers (db (world_of (phone_db ?t))))"
      using t(2) by (simp add: phone_db_def in_i64_def unix_def from_unix_def second_def)
    show "run_state (appleUpdated sample_server (poll_request\<lparr>rq_query := \<lambda>_. '''', rq_query := \<lambda>_. itoa 1600000000\<rparr>))
        (world_of (phone_db ?t2)) = (r2, v1)" using poll by simp
  qed (use s in \<open>simp_all add: phone_db_def phone_device_def poll_request_def sample_c1_sel\<close>)
  with poll show ?thesis by (simp add: sample_c1_sel)
qed

end
