(* ===== verification/EnrollProps.thy ===== *)
theory EnrollProps
  imports System
begin

text \<open>
  Enrolment: one card for each phone number.
\<close>

lemma reads_new_symbols: "reads (new_symbols n)"
  by (induction n) (auto intro!: reads_intros)

lemma reads_New: "reads New"
  unfolding New_def by (intro reads_intros reads_new_symbols)

lemma reads_RandomToken: "reads (RandomToken n)"
  unfolding RandomToken_def Let_def by (intro reads_intros)

lemma insert_customer_Some:
  assumes "insert_customer c drv d = Some (n, d')" "cust_points c = 0" "\<not> cust_blocked c" "cust_deleted c = None"
  shows "d' = d\<lparr>customers := customers d @ [c]\<rparr>"
    "cust_phone c \<noteq> '''' \<Longrightarrow> \<not> has_row cust_phone (cust_phone c) (customers d)"
  using assms by (cases c; auto simp: insert_customer_def split: if_splits)+

lemma CreateCustomer_Inr:
  "run_state (CreateCustomer c) w = (Inr u, w') \<Longrightarrow>
     \<exists>n d. insert_customer c (driver_of (env w)) (db w) = Some (n, d) \<and> db w' = d"
  by (auto simp: CreateCustomer_def run split: option.splits fate.splits)

lemma enroll_create_Inr:
  assumes "run_state (enroll_create s name phone oid) w = (Inr res, w')" "phone \<noteq> ''''"
  shows "db w' = (db w)\<lparr>customers := customers (db w) @ [enr_customer res]\<rparr>" (is ?a)
    and "enr_created res \<and> cust_phone (enr_customer res) = phone \<and> cust_points (enr_customer res) = 0
      \<and> \<not> cust_blocked (enr_customer res) \<and> cust_deleted (enr_customer res) = None
      \<and> \<not> has_row cust_phone phone (customers (db w))" (is ?b)
proof -
  obtain cid w1 where i: "run_state NewID w = (cid, w1)" by fastforce
  obtain code w2 token w3 where
    n: "run_state New w1 = (Inr code, w2)" "run_state (RandomToken 24) w2 = (Inr token, w3)"
    using assms(1) i by (auto simp: enroll_create_def or_return_Inr Let_def)
  obtain c where c: "run_state (CreateCustomer c) (next_tick w3) = (Inr (), w')" "res = \<lparr>enr_customer = c, enr_created = True\<rparr>"
      "cust_phone c = phone" "cust_points c = 0" "\<not> cust_blocked c" "cust_deleted c = None"
    using assms(1) i n by (auto simp: enroll_create_def or_return_Inr Let_def run_now run_ok)
  have e: "db (next_tick w3) = db w"
    using readsD [OF reads_NewID i] readsD [OF reads_New n(1)] readsD [OF reads_RandomToken n(2)] by simp
  obtain k d where k: "insert_customer c (driver_of (env (next_tick w3))) (db w) = Some (k, d)" "db w' = d"
    using CreateCustomer_Inr [OF c(1)] e by auto
  note ins = insert_customer_Some [OF k(1) c(4-6)]
  show ?a using ins(1) k(2) c(2) by simp
  show ?b using ins(2) c assms(2) by simp
qed

lemma phone_rows_unique:
  assumes "wf_db d" "row_by cust_phone p (customers d) = Some c" "p \<noteq> ''''"
  shows "filter (\<lambda>x. cust_phone x = p) (customers d) = [c]"
proof -
  have "filter (\<lambda>x. cust_phone x = p) cs = [c]"
    if "distinct (filter (\<lambda>q. q \<noteq> '''') (map cust_phone cs))" "row_by cust_phone p cs = Some c" for cs
    using that
  proof (induction cs)
    case (Cons x xs)
    show ?case
    proof (cases "cust_phone x = p")
      case True
      then have "p \<notin> cust_phone ` set xs" using Cons.prems(1) assms(3) by auto
      then have "filter (\<lambda>x. cust_phone x = p) xs = []" by (auto simp: filter_empty_conv)
      with True Cons.prems(2) show ?thesis by simp
    next
      case False
      with Cons show ?thesis by (auto split: if_splits)
    qed
  qed simp
  then show ?thesis using assms(1,2) by (simp add: wf_defs)
qed

text \<open>C29: Without a cookie, an enrolment that succeeds leaves exactly one card with the normalised
  phone, the one it answers: the card on record, with nothing changed, or a new card with no
  points for a phone that had none.\<close>

theorem Enroll_one_card_per_phone:
  assumes "wf_db (db w)" "enr_cookie inp = ''''"
    and go: "run_state (Enroll sv inp) w = (Inr res, w')"
  shows "IsValidPhone (NormalizePhone (enr_phone inp))
    \<and> filter (\<lambda>x. cust_phone x = NormalizePhone (enr_phone inp)) (customers (db w')) = [enr_customer res]
    \<and> (if enr_created res
       then db w' = (db w)\<lparr>customers := customers (db w) @ [enr_customer res]\<rparr> \<and> cust_points (enr_customer res) = 0
       else db w' = db w)"
proof -
  let ?p = "NormalizePhone (enr_phone inp)"
  have new: "run_state (enroll_new sv inp) w = (Inr res, w')" using go assms(2) by (simp add: Enroll_def)
  then have v: "IsValidPhone ?p" by (auto simp: enroll_new_def Let_def run_fail split: if_splits)
  then have p: "?p \<noteq> ''''" by (auto simp: IsValidPhone_def)
  obtain r w1 where q: "run_state (GetCustomerByPhone ?p) w = (r, w1)" by fastforce
  then have w1: "db w1 = db w" and r: "\<And>c. r = Inr c \<Longrightarrow> row_by cust_phone ?p (customers (db w)) = Some c"
    using p by (auto simp: GetCustomerByPhone_def run split: fate.splits option.splits)
  show ?thesis
  proof (cases r)
    case (Inr c)
    then have "res = \<lparr>enr_customer = c, enr_created = False\<rparr>" "w' = w1"
      using new q p by (auto simp: enroll_new_def enroll_found_def Let_def run_fail run_ok split: if_splits)
    with phone_rows_unique [OF assms(1) r [OF Inr] p] v w1 show ?thesis by simp
  next
    case (Inl e)
    then have c: "run_state (enroll_create sv (trim_space (enr_name inp)) ?p (enr_google inp)) w1 = (Inr res, w')"
      using new q p by (auto simp: enroll_new_def Let_def run_fail split: if_splits)
    note f = enroll_create_Inr [OF c p]
    have "filter (\<lambda>x. cust_phone x = ?p) (customers (db w)) = []"
      using f(2) w1 by (auto simp: has_row_iff filter_empty_conv) (metis imageI)
    with f v w1 show ?thesis by simp
  qed
qed

definition sample_enroll :: EnrollInput where
  "sample_enroll = \<lparr>enr_name = ''Ann'', enr_phone = ''+7 (999) 111-22-33'', enr_cookie = '''',
     enr_google = ''''\<rparr>"

lemma sample_phone:
  "NormalizePhone ''+7 (999) 111-22-33'' = ''+79991112233''" "IsValidPhone ''+79991112233''"
  by (simp_all add: NormalizePhone_def IsValidPhone_def is_digit_def utf8_def encode_rune_ascii
      byte_def has_prefix_def runes_ascii is_ascii_def char_of_def bit_0 Let_def del: runes.simps(2))

lemma sample_name: "trim_space ''Ann'' = ''Ann''"
  by (simp add: trim_space_ascii byte_def is_space_def)

lemma sample_enroll_runs:
  "run_state (Enroll (the_service ''x'') sample_enroll) (world_of sample_db)
     = (Inr \<lparr>enr_customer = sample_c1, enr_created = False\<rparr>, next_tick (world_of sample_db))"
proof -
  have "row_by cust_phone ''+79991112233'' (customers sample_db) = Some sample_c1"
    by (simp add: sample_db_def sample_c1_def sample_customer_def)
  then show ?thesis
    by (simp add: Enroll_def enroll_new_def sample_enroll_def sample_phone sample_name
        GetCustomerByPhone_def enroll_found_def run_query_row run_ok Let_def sample_c1_sel)
qed

theorem Enroll_one_card_per_phone_witness:
  "filter (\<lambda>x. cust_phone x = ''+79991112233'') (customers (db (snd
     (run_state (Enroll (the_service ''x'') sample_enroll) (world_of sample_db))))) = [sample_c1]"
  using Enroll_one_card_per_phone [OF _ _ sample_enroll_runs] sample_enroll_runs
  by (simp add: sample_wf sample_enroll_def sample_phone)

end
