(* ===== verification/Credentials.thy ===== *)
theory Credentials
  imports Wallet Sample
begin

text \<open>
  Loading the certificates and keys of the wallet providers, and signing a pass with them:
  \<^verbatim>\<open>LoadPKCS12Signer\<close> and \<^verbatim>\<open>PKCS12Signer.Sign\<close> of wallet/apple/pass.go, \<^verbatim>\<open>NewAPNs\<close>
  and \<^verbatim>\<open>parseP8\<close> of apns.go, \<^verbatim>\<open>New\<close> of wallet/google/google.go.  The functions of the
  libraries are the fields of a record, their types of certificates, keys and signed data its
  type parameters; files are read by \<open>lib_file\<close>.
\<close>

section \<open>The libraries\<close>

datatype 'e pkcs8_key = ECDSA 'e | OtherKey

record ('c, 'k, 'e, 's, 't) crypto =
  lib_file :: "string \<Rightarrow> go_error + string"
  lib_pem :: "string \<Rightarrow> string option"
  lib_pkcs12 :: "string \<Rightarrow> string \<Rightarrow> go_error + 'k option \<times> 'c"
  lib_certificates :: "string \<Rightarrow> go_error + 'c list"
  lib_certificate :: "string \<Rightarrow> go_error + 'c"
  lib_pkcs8 :: "string \<Rightarrow> go_error + 'e pkcs8_key"
  lib_new_signed :: "string \<Rightarrow> go_error + 's"
  lib_add_signer :: "'s \<Rightarrow> 'c \<Rightarrow> 'k \<Rightarrow> go_error + 's"
  lib_add_certificate :: "'s \<Rightarrow> 'c \<Rightarrow> 's"
  lib_detach :: "'s \<Rightarrow> 's"
  lib_finish :: "'s \<Rightarrow> go_error + string"
  lib_es256 :: "'e \<Rightarrow> string \<Rightarrow> int \<Rightarrow> string \<Rightarrow> string option"
  lib_google :: "string \<Rightarrow> go_error + 't"
  lib_account :: "string \<Rightarrow> (string \<times> string) option"

text \<open>\<^verbatim>\<open>x, err := m; if err != nil { return nil, err }\<close> without a state.\<close>

definition sum_return :: "go_error + 'a \<Rightarrow> ('a \<Rightarrow> go_error + 'b) \<Rightarrow> go_error + 'b" where
  "sum_return x f = (case x of Inl e \<Rightarrow> Inl e | Inr y \<Rightarrow> f y)"

lemma sum_return_simps [simp]:
  "sum_return (Inl e) f = Inl e" "sum_return (Inr x) f = f x"
  by (simp_all add: sum_return_def)

lemma sum_return_Inr:
  "sum_return m f = Inr x \<longleftrightarrow> (\<exists>y. m = Inr y \<and> f y = Inr x)"
  by (cases m) simp_all

section \<open>The signer of passes\<close>

record ('c, 'k) p12_signer =
  sg_cert :: "'c option"
  sg_key :: "'k option"
  sg_wwdr :: "'c option"

definition load_wwdr :: "('c, 'k, 'e, 's, 't) crypto \<Rightarrow> string \<Rightarrow> go_error + 'c" where
  "load_wwdr L wwdrPath = sum_return (lib_file L wwdrPath) (\<lambda>wb.
     case lib_pem L wb of
       None \<Rightarrow> (case lib_certificates L wb of
                  Inr (c # cs) \<Rightarrow> Inr c | _ \<Rightarrow> Inl (Opaque ''parse WWDR''))
     | Some block \<Rightarrow> lib_certificate L block)"

definition LoadPKCS12Signer ::
  "('c, 'k, 'e, 's, 't) crypto \<Rightarrow> string \<Rightarrow> string \<Rightarrow> string \<Rightarrow> go_error + ('c, 'k) p12_signer" where
  "LoadPKCS12Signer L p12Path password wwdrPath =
     sum_return (lib_file L p12Path) (\<lambda>raw.
     sum_return (lib_pkcs12 L raw password) (\<lambda>(key, cert).
       case key of
         None \<Rightarrow> Inl (Opaque ''p12: private key type <nil>'')
       | Some priv \<Rightarrow>
           (let s = \<lparr>sg_cert = Some cert, sg_key = Some priv, sg_wwdr = None\<rparr> in
            if wwdrPath \<noteq> ''''
            then sum_return (load_wwdr L wwdrPath) (\<lambda>c. Inr (s\<lparr>sg_wwdr := Some c\<rparr>))
            else Inr s)))"

definition StubSigner_Sign :: "(string \<Rightarrow> nat list) \<Rightarrow> string \<Rightarrow> go_error + string" where
  "StubSigner_Sign sha1 manifestJSON = Inr (''STUB-SIGNATURE-'' @ hex_encode (sha1 manifestJSON))"

definition PKCS12Signer_Sign ::
  "('c, 'k, 'e, 's, 't) crypto \<Rightarrow> (string \<Rightarrow> nat list) \<Rightarrow> ('c, 'k) p12_signer option \<Rightarrow> string
     \<Rightarrow> go_error + string" where
  "PKCS12Signer_Sign L sha1 signer manifestJSON =
     (case signer of
        None \<Rightarrow> StubSigner_Sign sha1 manifestJSON
      | Some s \<Rightarrow> (case (sg_cert s, sg_key s) of
          (Some cert, Some key) \<Rightarrow>
            sum_return (lib_new_signed L manifestJSON) (\<lambda>toBeSigned.
            sum_return (lib_add_signer L toBeSigned cert key) (\<lambda>toBeSigned.
              (let toBeSigned = (case sg_wwdr s of None \<Rightarrow> toBeSigned
                                 | Some c \<Rightarrow> lib_add_certificate L toBeSigned c)
               in lib_finish L (lib_detach L toBeSigned))))
        | _ \<Rightarrow> StubSigner_Sign sha1 manifestJSON))"

section \<open>The key of the push service\<close>

definition parseP8 :: "('c, 'k, 'e, 's, 't) crypto \<Rightarrow> string \<Rightarrow> go_error + 'e" where
  "parseP8 L pemBytes =
     (case lib_pem L pemBytes of
        None \<Rightarrow> Inl (Opaque ''no pem block'')
      | Some block \<Rightarrow> sum_return (lib_pkcs8 L block) (\<lambda>key.
          case key of ECDSA ec \<Rightarrow> Inr ec | OtherKey \<Rightarrow> Inl (Opaque ''not ecdsa'')))"

text \<open>The key \<^verbatim>\<open>NewAPNs\<close> ends up with: none when the file cannot be read or parsed.\<close>

definition NewAPNs :: "('c, 'k, 'e, 's, 't) crypto \<Rightarrow> Config \<Rightarrow> 'e option" where
  "NewAPNs L cfg =
     (case lib_file L (AppleAPNsP8 cfg) of
        Inl err \<Rightarrow> None
      | Inr raw \<Rightarrow> (case parseP8 L raw of Inl err \<Rightarrow> None | Inr k \<Rightarrow> Some k))"

text \<open>\<^verbatim>\<open>MaskToken\<close>.\<close>

definition MaskToken :: "string \<Rightarrow> string" where
  "MaskToken s = (if length s \<le> 8 then ''***'' else take 4 s @ replicate 8 (CHR ''*''))"

section \<open>The clients\<close>

text \<open>The clients of \<^const>\<open>apple_New\<close> and \<^const>\<open>google_New\<close> with what the files hold.\<close>

definition load_signer ::
  "('c, 'k, 'e, 's, 't) crypto \<Rightarrow> (string \<Rightarrow> nat list) \<Rightarrow> Config \<Rightarrow> (string \<Rightarrow> string option) option" where
  "load_signer L sha1 cfg =
     (case LoadPKCS12Signer L (ApplePassCertP12 cfg) (ApplePassCertPassword cfg) (AppleWWDRCert cfg) of
        Inl err \<Rightarrow> None
      | Inr s \<Rightarrow> Some (\<lambda>m. case PKCS12Signer_Sign L sha1 (Some s) m of
                             Inl err \<Rightarrow> None | Inr sig \<Rightarrow> Some sig))"

definition load_apple :: "('c, 'k, 'e, 's, 't) crypto \<Rightarrow> apple_libs \<Rightarrow> Config \<Rightarrow> apple_client" where
  "load_apple L al cfg =
    (let key = NewAPNs L cfg
     in apple_New cfg (load_signer L (ap_sha1 al) cfg) (key \<noteq> None)
          (al\<lparr>ap_sign := (\<lambda>iss t kid. case key of None \<Rightarrow> None | Some k \<Rightarrow> lib_es256 L k iss t kid)\<rparr>))"

definition load_google ::
  "('c, 'k, 'e, 's, 't) crypto \<Rightarrow> ('t \<Rightarrow> nat \<Rightarrow> string option)
     \<Rightarrow> (string \<times> string \<Rightarrow> int \<Rightarrow> json \<Rightarrow> json \<Rightarrow> string option) \<Rightarrow> Config \<Rightarrow> google_client" where
  "load_google L tokens signer cfg =
     (case sum_return (lib_file L (GoogleSAJSON cfg)) (lib_google L) of
        Inl err \<Rightarrow> google_New cfg False None (\<lambda>_. None) signer
      | Inr creds \<Rightarrow>
          google_New cfg True
            (case lib_file L (GoogleSAJSON cfg) of Inl _ \<Rightarrow> None | Inr raw \<Rightarrow> lib_account L raw)
            (tokens creds) signer)"

text \<open>\<^verbatim>\<open>TokenSource\<close> of google.go.\<close>

definition TokenSource :: "('c, 'k, 'e, 's, 't) crypto \<Rightarrow> string \<Rightarrow> go_error + 't" where
  "TokenSource L jsonPath = sum_return (lib_file L jsonPath) (lib_google L)"

section \<open>What a pass holds\<close>

lemma read_images_names: "read_images fs nms = Inr fl \<Longrightarrow> map fst fl = nms"
  by (induction nms arbitrary: fl) (auto split: option.splits sum.splits)

lemma pass_files_Inr:
  assumes "pass_files a cust earnPercent back = Inr fl"
  obtains doc man sig where "fl = doc @ [(''manifest.json'', man), (''signature'', sig)]"
    "map fst doc = ''pass.json'' # pass_images"
    "man = ap_marshal (ap_libs a) (JObj (manifest (ap_sha1 (ap_libs a)) doc))"
    "signer_Sign (ap_sha1 (ap_libs a)) (ap_signer a) man = Some sig"
  using assms by (auto simp: pass_files_def Let_def dest!: read_images_names split: sum.splits option.splits)

text \<open>The signer in use: the certificate's when one is configured and loads, else the stub.\<close>

definition uses_certificate ::
  "('c, 'k, 'e, 's, 't) crypto \<Rightarrow> Config \<Rightarrow> ('c, 'k) p12_signer option" where
  "uses_certificate L cfg =
     (if ApplePassCertP12 cfg = '''' then None
      else (case LoadPKCS12Signer L (ApplePassCertP12 cfg) (ApplePassCertPassword cfg)
                   (AppleWWDRCert cfg) of Inl e \<Rightarrow> None | Inr s \<Rightarrow> Some s))"

lemma load_apple_sel [simp]:
  "ap_sha1 (ap_libs (load_apple L al cfg)) = ap_sha1 al"
  "ap_marshal (ap_libs (load_apple L al cfg)) = ap_marshal al"
  "ap_zip (ap_libs (load_apple L al cfg)) = ap_zip al"
  by (simp_all add: load_apple_def apple_New_def Let_def split: prod.splits)

lemma load_apple_sign:
  "signer_Sign sha1 (ap_signer (load_apple L al cfg)) m = Some sig
     \<longleftrightarrow> (case uses_certificate L cfg of
            None \<Rightarrow> StubSigner_Sign sha1 m = Inr sig
          | Some s \<Rightarrow> PKCS12Signer_Sign L (ap_sha1 al) (Some s) m = Inr sig)"
  by (auto simp: load_apple_def apple_New_def Let_def uses_certificate_def load_signer_def
      StubSigner_Sign_def split: option.splits sum.splits)

text \<open>C33: Every pass that is built is a complete archive: the card, the nine images, a manifest
  with the hash of each of these and nothing else, and a signature of the bytes of that
  manifest.  The signature is the certificate's when one is configured and loads, else the
  placeholder.\<close>

theorem pass_archive_complete:
  assumes "run_state (BuildPKPass (load_apple L al cfg) cust earnPercent back) w = (Inr b, w')"
  shows "\<exists>doc man sig.
      ap_zip al (tick w) (doc @ [(''manifest.json'', man), (''signature'', sig)]) = Some b
    \<and> map fst doc = ''pass.json'' # pass_images
    \<and> distinct (map fst doc @ [''manifest.json'', ''signature''])
    \<and> man = ap_marshal al (JObj (map (\<lambda>(name, data). (name, JStr (hex_encode (ap_sha1 al data)))) doc))
    \<and> (case uses_certificate L cfg of
         None \<Rightarrow> sig = ''STUB-SIGNATURE-'' @ hex_encode (ap_sha1 al man)
       | Some s \<Rightarrow> PKCS12Signer_Sign L (ap_sha1 al) (Some s) man = Inr sig)"
proof -
  from assms obtain fl where fl: "pass_files (load_apple L al cfg) cust earnPercent back = Inr fl"
      "ap_zip al (tick w) fl = Some b"
    by (auto simp: BuildPKPass_def split: sum.splits option.splits)
  from fl(1) obtain doc man sig where p: "fl = doc @ [(''manifest.json'', man), (''signature'', sig)]"
      "map fst doc = ''pass.json'' # pass_images"
      "man = ap_marshal al (JObj (manifest (ap_sha1 al) doc))"
      "signer_Sign (ap_sha1 al) (ap_signer (load_apple L al cfg)) man = Some sig"
    by (auto elim!: pass_files_Inr)
  then show ?thesis using fl(2)
    by (intro exI [of _ doc] exI [of _ man] exI [of _ sig])
      (auto simp: load_apple_sign StubSigner_Sign_def pass_images_def manifest_def split: option.splits)
qed

text \<open>A toy instance: files are their paths, a certificate is its text, signing concatenates.\<close>

definition sample_crypto :: "(string, string, string, string, string) crypto" where
  "sample_crypto = \<lparr>lib_file = (\<lambda>p. if p = '''' then Inl (Opaque ''open'') else Inr p),
     lib_pem = (\<lambda>s. Some s), lib_pkcs12 = (\<lambda>raw pw. Inr (Some ''key'', raw)),
     lib_certificates = (\<lambda>s. Inr [s]), lib_certificate = (\<lambda>s. Inr s),
     lib_pkcs8 = (\<lambda>s. Inr (ECDSA s)), lib_new_signed = (\<lambda>m. Inr m),
     lib_add_signer = (\<lambda>s c k. Inr (s @ c @ k)), lib_add_certificate = (\<lambda>s c. s @ c),
     lib_detach = (\<lambda>s. s), lib_finish = (\<lambda>s. Inr s), lib_es256 = (\<lambda>k iss t kid. Some k),
     lib_google = (\<lambda>s. Inr s), lib_account = (\<lambda>s. Some (s, s))\<rparr>"

definition sample_libs :: apple_libs where
  "sample_libs = \<lparr>ap_sign = (\<lambda>_ _ _. None), ap_image = (\<lambda>n. Some n), ap_sha1 = (\<lambda>_. []),
     ap_marshal = (\<lambda>j. ''{}''), ap_zip = (\<lambda>t fl. Some (concat (map snd fl)))\<rparr>"


definition certified_config :: Config where
  "certified_config = default_config\<lparr>ApplePassCertP12 := ''pass.p12''\<rparr>"

lemma sample_certificate:
  "uses_certificate sample_crypto certified_config
     = Some \<lparr>sg_cert = Some ''pass.p12'', sg_key = Some ''key'', sg_wwdr = None\<rparr>"
  by (simp add: uses_certificate_def LoadPKCS12Signer_def sample_crypto_def certified_config_def
      default_config_def)

lemma sample_signature:
  "PKCS12Signer_Sign sample_crypto sha1 (uses_certificate sample_crypto certified_config) m
     = Inr (m @ ''pass.p12key'')"
  by (simp add: sample_certificate PKCS12Signer_Sign_def) (simp add: sample_crypto_def)

lemma sample_pass_built:
  "\<exists>b. fst (run_state (BuildPKPass (load_apple sample_crypto sample_libs certified_config)
     (sample_customer ''c1'' ''MCH-00000001'' ''+79991112233'' 300 False) 5 '''') (world_of sample_db)) = Inr b"
proof -
  have imgs: "read_images (\<lambda>n. Some n) nms = Inr (map (\<lambda>n. (n, ''assets/'' @ n)) nms)" for nms
    by (induction nms) simp_all
  have "ap_image (ap_libs (load_apple sample_crypto sample_libs certified_config)) = (\<lambda>n. Some n)"
    by (simp add: load_apple_def apple_New_def Let_def sample_libs_def split: prod.splits)
  moreover have "signer_Sign sha1 (ap_signer (load_apple sample_crypto sample_libs certified_config)) m
      = Some (m @ ''pass.p12key'')" for sha1 m
    using load_apple_sign [of sha1 sample_crypto sample_libs certified_config m "m @ ''pass.p12key''"]
      sample_signature [of "ap_sha1 sample_libs" m]
    by (simp add: sample_certificate)
  ultimately show ?thesis
    by (simp add: BuildPKPass_def pass_files_def Let_def imgs) (simp add: sample_libs_def)
qed

theorem pass_archive_complete_witness:
  "\<exists>b doc man sig.
      fst (run_state (BuildPKPass (load_apple sample_crypto sample_libs certified_config)
        (sample_customer ''c1'' ''MCH-00000001'' ''+79991112233'' 300 False) 5 '''') (world_of sample_db)) = Inr b
    \<and> b = concat (map snd doc) @ man @ sig
    \<and> map fst doc = ''pass.json'' # pass_images
    \<and> sig = man @ ''pass.p12key''"
proof -
  obtain b where b: "fst (run_state (BuildPKPass (load_apple sample_crypto sample_libs certified_config)
      (sample_customer ''c1'' ''MCH-00000001'' ''+79991112233'' 300 False) 5 '''') (world_of sample_db)) = Inr b"
    using sample_pass_built by blast
  from pass_archive_complete [OF run_pair [OF b]] obtain doc man sig where
    r: "ap_zip sample_libs (tick (world_of sample_db)) (doc @ [(''manifest.json'', man), (''signature'', sig)]) = Some b"
      "map fst doc = ''pass.json'' # pass_images"
      "PKCS12Signer_Sign sample_crypto (ap_sha1 sample_libs) (uses_certificate sample_crypto certified_config) man
         = Inr sig"
    by (elim exE conjE) (rule that; simp only: sample_certificate option.case)
  have "b = concat (map snd doc) @ man @ sig" using r(1) unfolding sample_libs_def by simp
  moreover have "sig = man @ ''pass.p12key''" using r(3) unfolding sample_signature by simp
  ultimately show ?thesis using b r(2) by (intro exI conjI)
qed

end
