(* ===== verification/Startup.thy ===== *)
theory Startup
  imports System Credentials StoreConn
begin

text \<open>
  The life of the process: \<^verbatim>\<open>Open\<close>, \<^verbatim>\<open>Migrate\<close> and \<^verbatim>\<open>Close\<close> of internal/store/store.go,
  \<^verbatim>\<open>New\<close> of internal/httpapi/server.go and \<^verbatim>\<open>main\<close> of cmd/api/main.go.  What the process asks of
  the file system, of \<^verbatim>\<open>database/sql\<close> and of goose is a trace of calls, each answered by an
  error or nil; what it does with the open database is the state \<^typ>\<open>world\<close>.
\<close>

section \<open>Paths\<close>

text \<open>\<^verbatim>\<open>filepath.Clean\<close> and \<^verbatim>\<open>filepath.Dir\<close> on slash-separated paths; the elements kept so far are
  in reverse.\<close>

definition clean_step :: "bool \<Rightarrow> string list \<Rightarrow> string \<Rightarrow> string list" where
  "clean_step rooted kept e =
     (if e = '''' \<or> e = ''.'' then kept
      else if e = ''..'' then
        (case kept of
           [] \<Rightarrow> if rooted then [] else [''..'']
         | p # ps \<Rightarrow> if p = ''..'' then ''..'' # kept else ps)
      else e # kept)"

definition path_clean :: "string \<Rightarrow> string" where
  "path_clean p =
    (let rooted = has_prefix p ''/'';
         out = (if rooted then ''/'' else '''')
                 @ join ''/'' (rev (foldl (clean_step rooted) [] (split_on (CHR ''/'') p)))
     in if out = '''' then ''.'' else out)"

definition path_dir :: "string \<Rightarrow> string" where
  "path_dir p = path_clean (rev (dropWhile (\<lambda>c. c \<noteq> CHR ''/'') (rev p)))"

lemma path_dir_examples:
  "path_dir ''data/merch.db'' = ''data''" "path_dir ''merch.db'' = ''.''"
  "path_dir ''/var//lib/./x/../merch.db'' = ''/var/lib''" "path_dir ''/merch.db'' = ''/''"
  "path_dir ''../../a/..//merch.db'' = ''../..''"
  by (simp_all add: path_dir_def path_clean_def clean_step_def has_prefix_def)

section \<open>Calls of the process\<close>

datatype host_call =
    MkdirAll string nat
  | SqlOpen string string
  | SetMaxOpenConns nat
  | SetConnMaxLifetime int
  | ExecContext string
  | PingContext
  | SetDialect string
  | GooseUp
  | CloseDB

record host =
  answer :: "nat \<Rightarrow> host_call \<Rightarrow> go_error option"
  trace :: "host_call list"

type_synonym 'a hosted = "(host, 'a) state"

definition host_do :: "host_call \<Rightarrow> go_error option hosted" where
  "host_do c = State (\<lambda>h. (answer h (length (trace h)) c, h\<lparr>trace := trace h @ [c]\<rparr>))"

lemma run_host_do [run]:
  "run_state (host_do c) h = (answer h (length (trace h)) c, h\<lparr>trace := trace h @ [c]\<rparr>)"
  by (simp add: host_do_def)

text \<open>\<^verbatim>\<open>fmt.Errorf("what: %w", err)\<close>.\<close>

definition wrapped :: "string \<Rightarrow> go_error \<Rightarrow> go_error" where
  "wrapped what e = Opaque (what @ '': '' @ ErrorText e)"

section \<open>Opening the store\<close>

record Store =
  Driver :: driver

definition Migrate :: "Store \<Rightarrow> go_error option hosted" where
  "Migrate s = do {
     r \<leftarrow> host_do (SetDialect (if Driver s = DriverPostgres then ''postgres'' else ''sqlite3''));
     (case r of Some e \<Rightarrow> State_Monad.return (Some e) | None \<Rightarrow> host_do GooseUp) }"

definition Close :: "Store option \<Rightarrow> go_error option hosted" where
  "Close s = (case s of None \<Rightarrow> State_Monad.return None | Some _ \<Rightarrow> host_do CloseDB)"

text \<open>The directory a SQLite file needs, if any.\<close>

definition db_dir :: "driver \<Rightarrow> string \<Rightarrow> string option" where
  "db_dir d dsn =
    (if d = DriverSQLite then
       (let p = dsnPath dsn in
        if \<not> contains_str dsn ''mode=memory'' \<and> p \<noteq> '':memory:'' \<and> p \<noteq> '''' then
          (let dir = path_dir p in if dir \<noteq> ''.'' \<and> dir \<noteq> '''' then Some dir else None)
        else None)
     else None)"

definition make_dir :: "string option \<Rightarrow> go_error option hosted" where
  "make_dir d = (case d of None \<Rightarrow> State_Monad.return None | Some dir \<Rightarrow> host_do (MkdirAll dir 493))"

definition pragmas :: string where
  "pragmas = ''PRAGMA foreign_keys = ON; PRAGMA busy_timeout = 5000;''"

definition tune :: "driver \<Rightarrow> go_error option hosted" where
  "tune d = (if d = DriverSQLite
     then do { _ \<leftarrow> host_do (SetMaxOpenConns 1); host_do (ExecContext pragmas) }
     else do { _ \<leftarrow> host_do (SetMaxOpenConns 20);
               _ \<leftarrow> host_do (SetConnMaxLifetime (1800 * second)); State_Monad.return None })"

definition close_on_error :: "go_error \<Rightarrow> (go_error + Store) hosted" where
  "close_on_error e = do { _ \<leftarrow> host_do CloseDB; State_Monad.return (Inl e) }"

definition Open :: "string \<Rightarrow> (go_error + Store) hosted" where
  "Open databaseURL =
    (case parseURL databaseURL of
       Inl e \<Rightarrow> State_Monad.return (Inl e)
     | Inr (driver, dsn) \<Rightarrow> do {
         m \<leftarrow> make_dir (db_dir driver dsn);
         (case m of Some e \<Rightarrow> State_Monad.return (Inl (wrapped ''mkdir db'' e)) | None \<Rightarrow> do {
         opened \<leftarrow> host_do (SqlOpen (if driver = DriverPostgres then ''pgx'' else ''sqlite'') dsn);
         (case opened of Some e \<Rightarrow> State_Monad.return (Inl (wrapped ''open db'' e)) | None \<Rightarrow> do {
         t \<leftarrow> tune driver;
         (case t of Some e \<Rightarrow> close_on_error e | None \<Rightarrow> do {
         p \<leftarrow> host_do PingContext;
         (case p of Some e \<Rightarrow> close_on_error (wrapped ''ping db'' e) | None \<Rightarrow> do {
         g \<leftarrow> Migrate \<lparr>Driver = driver\<rparr>;
         (case g of Some e \<Rightarrow> close_on_error e
          | None \<Rightarrow> State_Monad.return (Inr \<lparr>Driver = driver\<rparr>)) }) }) }) }) })"

definition OpenMemory :: "(go_error + Store) hosted" where
  "OpenMemory = Open ''sqlite:file:merch_test?mode=memory&cache=shared''"

section \<open>What Open leaves behind\<close>

text \<open>The calls of an opening that meets no error.\<close>

definition open_plan :: "driver \<Rightarrow> string \<Rightarrow> host_call list" where
  "open_plan d dsn =
     (case db_dir d dsn of None \<Rightarrow> [] | Some dir \<Rightarrow> [MkdirAll dir 493])
     @ (case d of
          DriverSQLite \<Rightarrow> [SqlOpen ''sqlite'' dsn, SetMaxOpenConns 1, ExecContext pragmas, PingContext,
            SetDialect ''sqlite3'', GooseUp]
        | DriverPostgres \<Rightarrow> [SqlOpen ''pgx'' dsn, SetMaxOpenConns 20, SetConnMaxLifetime (1800 * second),
            PingContext, SetDialect ''postgres'', GooseUp])"

text \<open>Handles of the database that are open after a trace: \<open>refused i c\<close> says that call \<open>c\<close> at
  place \<open>i\<close> was answered with an error.\<close>

fun opens :: "host_call \<Rightarrow> bool" where
  "opens (SqlOpen d n) \<longleftrightarrow> True"
| "opens _ \<longleftrightarrow> False"

definition handles :: "host \<Rightarrow> int" where
  "handles h =
     int (length (filter (\<lambda>(i, c). opens c \<and> answer h i c = None) (enumerate 0 (trace h))))
     - int (length (filter (\<lambda>c. c = CloseDB) (trace h)))"

lemma run_make_dir:
  "run_state (make_dir d) h = (case d of None \<Rightarrow> (None, h)
     | Some dir \<Rightarrow> (answer h (length (trace h)) (MkdirAll dir 493), h\<lparr>trace := trace h @ [MkdirAll dir 493]\<rparr>))"
  by (simp add: make_dir_def run split: option.splits)

lemma run_close_on_error:
  "run_state (close_on_error e) h = (Inl e, h\<lparr>trace := trace h @ [CloseDB]\<rparr>)"
  by (simp add: close_on_error_def run)

text \<open>C37: Opening the store is all or nothing.  On success one handle is open and every call of the
  plan was made, in its order: for SQLite the directory of the file, a single connection,
  foreign keys switched on, and only then the migrations.  On any error no handle is left
  open.\<close>

theorem Open_all_or_nothing:
  assumes "run_state (Open url) h = (r, h')" "trace h = []"
  shows "answer h' = answer h
    \<and> (case r of
         Inl e \<Rightarrow> handles h' = 0
       | Inr st \<Rightarrow> (\<exists>dsn. parseURL url = Inr (Driver st, dsn) \<and> trace h' = open_plan (Driver st) dsn)
           \<and> handles h' = 1)"
proof (cases "parseURL url")
  case (Inl e)
  with assms show ?thesis by (auto simp: Open_def handles_def)
next
  case (Inr p)
  obtain d dsn where p: "p = (d, dsn)" by fastforce
  show ?thesis
    using assms Inr p
    by (cases d; cases "db_dir d dsn")
      (auto simp: Open_def run run_make_dir run_close_on_error tune_def Migrate_def handles_def
        open_plan_def enumerate_append_eq split: option.splits)
qed


theorem Open_all_or_nothing_witness:
  "handles (snd (run_state (Open ''sqlite:data/a.db'')
       \<lparr>answer = (\<lambda>i c. if c = GooseUp then Some (Opaque ''locked'') else None), trace = []\<rparr>)) = 0
   \<and> trace (snd (run_state (Open ''sqlite:data/a.db'') \<lparr>answer = (\<lambda>i c. None), trace = []\<rparr>))
     = [MkdirAll ''data'' 493, SqlOpen ''sqlite'' ''data/a.db'', SetMaxOpenConns 1, ExecContext pragmas,
        PingContext, SetDialect ''sqlite3'', GooseUp]"
proof -
  let ?u = "''sqlite:data/a.db''"
  let ?h = "\<lambda>f. \<lparr>answer = f, trace = []\<rparr> :: host"
  let ?bad = "\<lambda>(i::nat) c. if c = GooseUp then Some (Opaque ''locked'') else None"
  have url: "parseURL ?u = Inr (DriverSQLite, ''data/a.db'')"
    by (simp add: parseURL_def trim_space_ascii byte_def is_space_def is_ascii_def Let_def
        has_prefix_def trim_prefix_def)
  have dir: "db_dir DriverSQLite ''data/a.db'' = Some ''data''"
    using path_dir_examples(1)
    by (simp add: db_dir_def dsnPath_def has_prefix_def trim_prefix_def path_dir_def path_clean_def
        clean_step_def)
  have "fst (run_state (Open ?u) (?h ?bad)) = Inl (Opaque ''locked'')"
    "fst (run_state (Open ?u) (?h (\<lambda>i c. None))) = Inr \<lparr>Driver = DriverSQLite\<rparr>"
    by (simp_all add: Open_def url dir run run_make_dir run_close_on_error tune_def Migrate_def)
  from Open_all_or_nothing [OF run_pair [OF this(1)]] Open_all_or_nothing [OF run_pair [OF this(2)]]
  show ?thesis by (auto simp: url dir open_plan_def)
qed

section \<open>The server and the process\<close>

text \<open>\<^verbatim>\<open>httpapi.New\<close>: reading and parsing the templates may fail.\<close>

definition http_New :: "go_error option \<Rightarrow> server \<Rightarrow> go_error + server" where
  "http_New templates s = (case templates of Some e \<Rightarrow> Inl e | None \<Rightarrow> Inr s)"

text \<open>What the process is started with: the flag, the environment as the configuration library
  reads it, and the libraries of the clients and pages.\<close>

record ('c, 'k, 'e, 's, 't) start =
  migrate_only :: bool
  parsed_env :: "go_error + Config"
  start_crypto :: "('c, 'k, 'e, 's, 't) crypto"
  start_apple :: apple_libs
  start_tokens :: "'t \<Rightarrow> nat \<Rightarrow> string option"
  start_links :: "string \<times> string \<Rightarrow> int \<Rightarrow> json \<Rightarrow> json \<Rightarrow> string option"
  start_templates :: "go_error option"
  start_images :: "string \<Rightarrow> string option"
  start_logo :: string

record process =
  p_host :: host
  p_world :: world

datatype outcome = Exit nat | Serving server

definition main_server :: "('c, 'k, 'e, 's, 't) start \<Rightarrow> Config \<Rightarrow> server" where
  "main_server st cfg = new_server cfg
     (load_apple (start_crypto st) (start_apple st) cfg)
     (load_google (start_crypto st) (start_tokens st) (start_links st) cfg)
     (start_images st) (start_logo st)"

text \<open>The part of \<^verbatim>\<open>main\<close> after the bootstrap.\<close>

definition set_up :: "('c, 'k, 'e, 's, 't) start \<Rightarrow> Config \<Rightarrow> Store \<Rightarrow> process \<Rightarrow> outcome \<times> process" where
  "set_up st cfg store p =
    (if migrate_only st
     then (Exit 0, p\<lparr>p_host := snd (run_state (Close (Some store)) (p_host p))\<rparr>)
     else (case http_New (start_templates st) (main_server st cfg) of
             Inl err \<Rightarrow> (Exit 1, p)
           | Inr srv \<Rightarrow> (Serving srv, p)))"

text \<open>\<^verbatim>\<open>main\<close> up to the listener.  \<^verbatim>\<open>os.Exit\<close> runs no deferred call; the return after
  \<open>migrate_only\<close> closes the store.\<close>

definition boot_up :: "('c, 'k, 'e, 's, 't) start \<Rightarrow> process \<Rightarrow> outcome \<times> process" where
  "boot_up st p =
    (case Load (parsed_env st) of
       Inl err \<Rightarrow> (Exit 1, p)
     | Inr cfg \<Rightarrow>
        (case run_state (Open (DatabaseURL cfg)) (p_host p) of
           (Inl err, h) \<Rightarrow> (Exit 1, p\<lparr>p_host := h\<rparr>)
         | (Inr store, h) \<Rightarrow>
            (let p = p\<lparr>p_host := h, p_world := (p_world p)\<lparr>env := (env (p_world p))\<lparr>driver_of := Driver store\<rparr>\<rparr>\<rparr>
             in case run_state (bootstrap cfg) (p_world p) of
               (Inl err, w) \<Rightarrow> (Exit 1, p\<lparr>p_world := w\<rparr>)
             | (Inr _, w) \<Rightarrow> set_up st cfg store (p\<lparr>p_world := w\<rparr>))))"

text \<open>While it serves: requests and steps of the worker (a tick, or a receive from \<open>wake\<close>), until a
  signal or the end of the listener.  Requests in flight are waited for by \<^verbatim>\<open>Shutdown\<close>, the deferred \<^verbatim>\<open>Close\<close> comes
  last.\<close>

datatype serve_event = Request request | Work bool | ListenFails | Signal

fun serve :: "server \<Rightarrow> serve_event list \<Rightarrow> world \<Rightarrow> world" where
  "serve s [] w = w"
| "serve s (Request rq # es) w = serve s es (snd (run_state (Handler s rq) w))"
| "serve s (Work ticked # es) w = serve s es
     (case AppleC s of None \<Rightarrow> w
      | Some a \<Rightarrow> (case GoogleC s of None \<Rightarrow> w
         | Some g \<Rightarrow> snd (run_state (worker a g [if ticked then Ticked else Woken]) w)))"
| "serve s (ListenFails # es) w = w"
| "serve s (Signal # es) w = w"

definition main :: "('c, 'k, 'e, 's, 't) start \<Rightarrow> serve_event list \<Rightarrow> process \<Rightarrow> nat \<times> process" where
  "main st es p =
    (case boot_up st p of
       (Exit n, p') \<Rightarrow> (n, p')
     | (Serving srv, p') \<Rightarrow>
         (0, p'\<lparr>p_world := serve srv es (p_world p'),
               p_host := (p_host p')\<lparr>trace := trace (p_host p') @ [CloseDB]\<rparr>\<rparr>))"

text \<open>The process is a run of the transition system.\<close>

lemma serve_steps: "(step s)\<^sup>*\<^sup>* w (serve s es w)"
proof (induction s es w rule: serve.induct)
  case (2 s rq es w)
  show ?case unfolding serve.simps by (rule converse_rtranclp_into_rtranclp [OF step.request 2])
next
  case (3 s ticked es w)
  let ?e = "if ticked then Ticked else Woken"
  have "(step s)\<^sup>*\<^sup>* w (case AppleC s of None \<Rightarrow> w | Some a \<Rightarrow>
      (case GoogleC s of None \<Rightarrow> w | Some g \<Rightarrow> snd (run_state (worker a g [?e]) w)))"
    using step.work [of s _ _ w "[?e]"]
    by (cases "AppleC s"; cases "GoogleC s") (simp_all del: Run.simps add: r_into_rtranclp)
  from rtranclp_trans [OF this 3] show ?case unfolding serve.simps .
qed simp_all

lemma set_up_parts:
  "p_world (snd (set_up st cfg store q)) = p_world q"
  "fst (set_up st cfg store q) = Serving srv \<Longrightarrow> srv = main_server st cfg"
  by (auto simp: set_up_def http_New_def split: if_splits option.splits)

lemma boot_world:
  assumes "boot_up st p = (r, p')" "Load (parsed_env st) = Inr cfg"
  obtains (failed) n where "r = Exit n" "p_world p' = p_world p"
  | (booted) drv where "p_world p' = snd (run_state (bootstrap cfg)
      ((p_world p)\<lparr>env := (env (p_world p))\<lparr>driver_of := drv\<rparr>\<rparr>))"
      "\<And>srv. r = Serving srv \<Longrightarrow> srv = main_server st cfg"
proof (cases "run_state (Open (DatabaseURL cfg)) (p_host p)")
  case (Pair o_r h)
  show thesis
  proof (cases o_r)
    case (Inl e)
    with Pair assms failed show thesis by (auto simp: boot_up_def)
  next
    case (Inr store)
    let ?w = "(p_world p)\<lparr>env := (env (p_world p))\<lparr>driver_of := Driver store\<rparr>\<rparr>"
    obtain x w where b: "run_state (bootstrap cfg) ?w = (x, w)" by fastforce
    have "p_world (snd (boot_up st p)) = w \<and>
        (\<forall>srv. fst (boot_up st p) = Serving srv \<longrightarrow> srv = main_server st cfg)"
      by (cases x) (simp_all add: boot_up_def Let_def assms(2) Pair Inr b set_up_parts)
    with b booted [of "Driver store"] show thesis by (simp add: assms(1))
  qed
qed

lemma boot_steps:
  assumes "boot_up st p = (r, p')" "Load (parsed_env st) = Inr cfg"
  shows "(step (main_server st cfg))\<^sup>*\<^sup>* (p_world p) (p_world p')"
proof (cases rule: boot_world [OF assms])
  case (2 drv)
  let ?w = "(p_world p)\<lparr>env := (env (p_world p))\<lparr>driver_of := drv\<rparr>\<rparr>"
  have "step (main_server st cfg) (p_world p) ?w" by (rule step.surroundings) simp
  moreover have "step (main_server st cfg) ?w (p_world p')"
    using step.boot [of "main_server st cfg" ?w] 2 by (simp add: main_server_def new_server_def)
  ultimately show ?thesis by (meson converse_rtranclp_into_rtranclp r_into_rtranclp)
qed simp


lemma main_steps:
  assumes "main st es p = (n, p')" "Load (parsed_env st) = Inr cfg"
  shows "(step (main_server st cfg))\<^sup>*\<^sup>* (p_world p) (p_world p')"
proof -
  obtain r q where b: "boot_up st p = (r, q)" by fastforce
  note up = boot_steps [OF b assms(2)]
  show ?thesis
  proof (cases r)
    case (Exit m)
    with assms(1) b up show ?thesis by (simp add: main_def)
  next
    case (Serving srv)
    then have "srv = main_server st cfg" by (cases rule: boot_world [OF b assms(2)]) auto
    moreover have "p_world p' = serve srv es (p_world q)"
      using assms(1) b Serving by (auto simp: main_def)
    ultimately show ?thesis using up serve_steps by (metis rtranclp_trans)
  qed
qed



definition sample_start :: "(string, string, string, string, string) start" where
  "sample_start = \<lparr>migrate_only = False, parsed_env = Inr certified_config,
     start_crypto = sample_crypto, start_apple = sample_libs, start_tokens = (\<lambda>t n. Some t),
     start_links = (\<lambda>_ _ _ _. None), start_templates = None, start_images = (\<lambda>_. None),
     start_logo = ''''\<rparr>"

definition sample_process :: process where
  "sample_process = \<lparr>p_host = \<lparr>answer = (\<lambda>_ _. None), trace = []\<rparr>, p_world = world_of sample_db\<rparr>"


end
