(* ===== verification/StoreRows.thy ===== *)
theory StoreRows
  imports StoreConn StoreCustomers StoreStaff
begin

text \<open>
  Between the columns of a row and the structs: \<^verbatim>\<open>scanCustomer\<close> of internal/store/customers.go and
  \<^verbatim>\<open>scanStaff\<close> of internal/store/staff.go.  A table of the model holds structs; the lemmas say that
  a struct written by a statement is the struct that is scanned back, so nothing is lost by this.
  A flag is an integer column, a missing time a NULL.
\<close>

section \<open>Customers\<close>

record customer_cells =
  cc_texts :: "string \<times> string \<times> string \<times> string \<times> string \<times> string"
  cc_points :: int
  cc_blocked :: int
  cc_created :: gtime
  cc_updated :: gtime
  cc_deleted :: "gtime option"

definition scanCustomer :: "customer_cells \<Rightarrow> Customer" where
  "scanCustomer r = (case cc_texts r of (cid, code, name, phone, token, oid) \<Rightarrow>
     \<lparr>cust_id = cid, cust_barcode = code, cust_name = name, cust_phone = phone,
      cust_apple_token = token, cust_google_oid = oid, cust_points = cc_points r,
      cust_blocked = (cc_blocked r \<noteq> 0), cust_created = cc_created r, cust_updated = cc_updated r,
      cust_deleted = cc_deleted r\<rparr>)"

text \<open>The columns after the INSERT of \<^verbatim>\<open>CreateCustomer\<close>.\<close>

definition customer_inserted :: "Customer \<Rightarrow> customer_cells" where
  "customer_inserted c = \<lparr>cc_texts = (cust_id c, cust_barcode c, cust_name c, cust_phone c,
       cust_apple_token c, cust_google_oid c), cc_points = 0, cc_blocked = 0,
     cc_created = cust_created c, cc_updated = cust_updated c, cc_deleted = None\<rparr>"

lemma insert_customer_scans:
  "insert_customer c drv d = Some (n, d')
     \<Longrightarrow> customers d' = customers d @ [scanCustomer (customer_inserted c)]"
  by (auto simp: insert_customer_def scanCustomer_def customer_inserted_def split: if_splits)

lemma scan_customer_updates:
  "scanCustomer (r\<lparr>cc_blocked := boolToInt b, cc_updated := t\<rparr>)
     = (scanCustomer r)\<lparr>cust_blocked := b, cust_updated := t\<rparr>"
  "scanCustomer (r\<lparr>cc_points := p, cc_updated := t\<rparr>)
     = (scanCustomer r)\<lparr>cust_points := p, cust_updated := t\<rparr>"
  "scanCustomer (r\<lparr>cc_deleted := x, cc_updated := t\<rparr>)
     = (scanCustomer r)\<lparr>cust_deleted := x, cust_updated := t\<rparr>"
  by (simp_all add: scanCustomer_def boolToInt_def split: prod.splits)

section \<open>Staff\<close>

record staff_cells =
  sc_texts :: "string \<times> string \<times> string \<times> string \<times> string \<times> string \<times> string"
  sc_active :: int
  sc_created :: gtime
  sc_deleted :: "gtime option"

text \<open>\<open>joined\<close> is the column of the joined store, when the query has it.\<close>

definition scanStaff :: "staff_cells \<Rightarrow> string option \<Rightarrow> Staff" where
  "scanStaff r joined = (case sc_texts r of (sid, store, login, name, pw, pin, role) \<Rightarrow>
     \<lparr>staff_id = sid, staff_store = store, staff_login = login, staff_name = name,
      staff_password_hash = pw, staff_pin_hash = pin, staff_role = role,
      staff_active = (sc_active r \<noteq> 0), staff_created = sc_created r, staff_deleted = sc_deleted r,
      staff_store_name = (case joined of None \<Rightarrow> '''' | Some n \<Rightarrow> n)\<rparr>)"

text \<open>The columns after the INSERT of \<^verbatim>\<open>CreateStaff\<close>.\<close>

definition staff_inserted :: "Staff \<Rightarrow> staff_cells" where
  "staff_inserted st = \<lparr>sc_texts = (staff_id st, staff_store st, staff_login st, staff_name st,
       staff_password_hash st, staff_pin_hash st, staff_role st),
     sc_active = boolToInt (staff_active st), sc_created = staff_created st, sc_deleted = None\<rparr>"

lemma insert_staff_scans:
  "insert_staff st drv d = Some (n, d') \<Longrightarrow> staff d' = staff d @ [scanStaff (staff_inserted st) None]"
  by (auto simp: insert_staff_def scanStaff_def staff_inserted_def boolToInt_def split: if_splits)

lemma scan_staff_store_name:
  "scanStaff r (Some n) = (scanStaff r None)\<lparr>staff_store_name := n\<rparr>"
  by (simp add: scanStaff_def split: prod.splits)

end
