(* ===== verification/Spec2Isabelle.thy ===== *)
theory Spec2Isabelle
  imports Access LoginProps Delivery Interleaving PassProps EnrollProps Startup StoreRows
begin

text \<open>
  A model of the loyalty backend of the shop MERCH: a Go server with a SQL database that keeps
  loyalty cards, books purchases and refunds in points, runs the areas of the tills and of the
  administrators, serves the cards to Apple Wallet and Google Wallet and tells them of changes.

  \<^bold>\<open>Parts of the program.\<close>  \<^verbatim>\<open>cmd/api/main.go\<close> reads the configuration (\<^verbatim>\<open>internal/config\<close>), opens the
  store (\<^verbatim>\<open>internal/store\<close>), loads the wallet clients (\<^verbatim>\<open>internal/wallet\<close>), starts the worker
  (\<^verbatim>\<open>internal/jobs\<close>) and the HTTP server (\<^verbatim>\<open>internal/httpapi\<close>).  Handlers call the loyalty service
  (\<^verbatim>\<open>internal/loyalty\<close>), which computes with the rules, works in transactions of the store and
  enqueues wallet jobs; the worker drains them through the wallet clients.

  \<^bold>\<open>Conventions.\<close>
  \<^item> A Go \<^verbatim>\<open>int\<close> is a HOL \<^typ>\<open>int\<close>; every operation that can leave 64 bits wraps
    (\<open>add64\<close>, \<open>mul64\<close>, \<open>quo64\<close> of Prelude).  Strings are lists of bytes.
  \<^item> Code with effects is a state monad over \<^typ>\<open>world\<close>: the database, the clock and id
    sources, the answers of remote servers, the wake-up channel, the rate limiters.  Errors are
    values of \<open>go_error + 'a\<close>; \<open>or_return\<close> is \<^verbatim>\<open>if err != nil { return err }\<close>, \<open>or_write\<close>
    the same in a handler.
  \<^item> Each statement of SQL asks the environment for its fate: it works, it fails, or it takes
    effect while its answer is lost.  So properties without a hypothesis on \<open>fate_at\<close> hold under
    any failures of the database, a lost COMMIT included.
  \<^item> Libraries that are not part of the repository are fields of records: bcrypt, JWT, uuid and
    the rate limiter in the environment, the certificate functions in \<open>crypto\<close>, image files, SHA-1
    and zip in \<open>apple_libs\<close>.  No law is assumed of them except where a property names it.

  \<^bold>\<open>Theories.\<close>
  \<^item> Prelude, GoStrings, Messages, Json, Clock: machine integers, tables as lists of rows, the
    functions of \<^verbatim>\<open>strings\<close>, \<^verbatim>\<open>strconv\<close>, \<^verbatim>\<open>unicode/utf8\<close> and \<^verbatim>\<open>time\<close> in use, the texts of the
    source as UTF-8 bytes, JSON values.
  \<^item> Rules (loyalty/rules.go): settings, earning, the checks of a redemption, quotes.
    Copy (loyalty/copy.go): the text on the card.
  \<^item> Models (store/models.go, the tables of the migrations), World (the state, the monad, tx.go's
    \<open>InTx\<close>), StoreCustomers, StoreStaff, StoreReceipts, StoreJobs (the statements of the files of
    internal/store), StoreConn (store.go: placeholders and URL),
    StoreRows (the scans: a struct written is the struct read).
  \<^item> Invariants: well-formed databases \<open>wf_db\<close> (unique keys, references, every balance the sum of
    its ledger) and the calculus \<open>keeps\<close>: which statements and combinators preserve an invariant.
  \<^item> Barcode, Auth, Config: the packages of these names.  Service (loyalty/service.go): enrolment,
    lookup, quote, commit, refund, adjustment.  ServiceLaws states what the service needs of its
    queue (the locale \<open>enqueuer\<close>) and of actions that only read; Money computes what each money
    operation writes.
  \<^item> Queue (jobs/queue.go) provides the interpretation of \<open>enqueuer\<close> and asks the locale \<open>updater\<close>
    of the wallet; Wallet (wallet.go, apple/, google/) interprets it through \<open>wallet_providers\<close>.
    Credentials: loading certificates and keys, signing a pass.
  \<^item> HttpBase, HttpAuth, HttpCashier, HttpAdmin, HttpPublic, Server (internal/httpapi): responses,
    middleware, every handler, the route table.  Startup: opening the store and \<^verbatim>\<open>main\<close>.
  \<^item> System: the server, its worker and its restarts as the step relation \<open>step\<close>; the locales
    \<open>statement_invariant\<close> and \<open>server_invariant\<close> carry an invariant of statements through every
    handler and run, and are interpreted for the tables, the outbox, the sessions, the accounts.
  \<^item> Accounts: the abstract machine of cards and sales, and the simulation of the server by it.

  \<^bold>\<open>What is shown.\<close>
  \<^item> The books: the server refines the account machine; tables stay well-formed in every reachable
    state; receipts are permanent; only admitted staff of the right role moves points (System,
    Accounts, Access, Startup for the whole process).
  \<^item> The money operations: what a commit, refund or adjustment writes, all-or-nothing, repetition,
    that valid operations go through, balances that stay non-negative (MoneyProps, Balances); the
    arithmetic of the rules against their documentation and its limits at 64 bits (Rules).
  \<^item> Access: who is given a token and what it opens, the guards of the two areas, logout, removal
    of staff, and what a change of role does not do (LoginProps, AuthProps, Access).
  \<^item> The wallets: the outbox is emptied, has one job per card, where a push stops; the archive of a
    pass; conditional downloads and lists of changes (Delivery, Credentials, PassProps).
  \<^item> Overlap: a refund cut by another, a commit cut by another of the same receipt, a round of the
    worker cut by a purchase (Interleaving).
  \<^item> Round trips and types: tokens, barcodes, settings (Auth, Barcode, Rules); enrolment (EnrollProps); opening the store (Startup).

  \<^bold>\<open>Loops.\<close>  Every loop of the source is structural recursion on the list it walks; no fuel is used.
  The worker's \<^verbatim>\<open>select\<close> and the serving process run on a list of events.  Fifty jobs per tick is
  the constant of the source.

  \<^bold>\<open>Not modelled, and why.\<close>
  \<^item> Requests run one after the other, except in Interleaving: the transactions of the service
    lock the card, and SQLite has one connection.
  \<^item> Log lines, the request id, request contexts and time limits: no result depends on them but a
    failure, which \<open>fate_at\<close> covers.  A panic and its recovery: the model has no partial operation
    that the source could panic on.
  \<^item> Reading environment variables, flags, the text of JSON, HTML templates, embedded files, the
    migrations' SQL, goose, the matching of routes inside chi, TLS: libraries and data.  \<open>router\<close>
    follows chi's documentation, the tables start as the migrations leave them.
  \<^item> The Unicode case tables and the collation of SQL beyond what \<open>LIKE\<close> needs: parameters.  Ties of
    ORDER BY keep the order of insertion.  \<^verbatim>\<open>time.Parse\<close> takes the local zone to be UTC.
  \<^item> \<^verbatim>\<open>ErrNotFound\<close>, \<^verbatim>\<open>IsNotFound\<close> and \<^verbatim>\<open>NowRFC1123\<close>, which nothing calls.
\<close>

end
